(* ===== verification/Prelude.thy ===== *)
theory Prelude
  imports Main "HOL-Library.Char_ord" "HOL-Library.List_Lexorder" "HOL-Library.Sublist"
begin

text \<open>
  Shared vocabulary of the development.

  \<^item> Byte strings. A Rust \<open>Vec<u8>\<close>, \<open>&[u8]\<close> or \<open>String\<close> is a list of 8-bit
    characters; \<open>as_bytes\<close> is therefore the identity, and the order of keys in the storage
    engine is the lexicographic order of the library theory \<open>List_Lexorder\<close>.
  \<^item> Results. \<open>Result<T, E>\<close> is the sum type \<open>'e + 'a\<close>, and the \<open>?\<close> operator is \<open>bindE\<close>.
  \<^item> Ordered maps. \<open>BTreeMap\<close> and the contents of one keyspace are association lists with
    strictly increasing keys, updated by \<open>om_put\<close> and \<open>om_del\<close>.
  \<^item> Fixed-width integers as byte keys: big-endian and little-endian encodings, and decimal
    printing as done by \<open>format!\<close>.
\<close>

type_synonym bytes = string

named_theorems result_simps \<open>rewriting of computations in the error sum\<close>
named_theorems map_simps \<open>lookup after update on ordered maps\<close>


section \<open>Results\<close>

definition bindE :: "'e + 'a \<Rightarrow> ('a \<Rightarrow> 'e + 'b) \<Rightarrow> 'e + 'b" where
  "bindE m f = (case m of Inl e \<Rightarrow> Inl e | Inr x \<Rightarrow> f x)"

definition ok_or :: "'e \<Rightarrow> 'a option \<Rightarrow> 'e + 'a" where
  "ok_or e x = (case x of None \<Rightarrow> Inl e | Some y \<Rightarrow> Inr y)"

definition map_err :: "('e \<Rightarrow> 'f) \<Rightarrow> 'e + 'a \<Rightarrow> 'f + 'a" where
  "map_err f m = (case m of Inl e \<Rightarrow> Inl (f e) | Inr x \<Rightarrow> Inr x)"

fun is_ok :: "'e + 'a \<Rightarrow> bool" where
  "is_ok (Inl _) = False"
| "is_ok (Inr _) = True"

text \<open>A \<open>for\<close> loop whose body may leave with \<open>?\<close>.\<close>

fun mapE :: "('a \<Rightarrow> 'e + 'b) \<Rightarrow> 'a list \<Rightarrow> 'e + 'b list" where
  "mapE f [] = Inr []"
| "mapE f (x # xs) = bindE (f x) (\<lambda>y. bindE (mapE f xs) (\<lambda>ys. Inr (y # ys)))"

fun foldE :: "('s \<Rightarrow> 'a \<Rightarrow> 'e + 's) \<Rightarrow> 's \<Rightarrow> 'a list \<Rightarrow> 'e + 's" where
  "foldE f s [] = Inr s"
| "foldE f s (x # xs) = bindE (f s x) (\<lambda>s'. foldE f s' xs)"

lemma bindE_simps [simp]:
  "bindE (Inl e) f = Inl e"
  "bindE (Inr x) f = f x"
  by (simp_all add: bindE_def)

lemma bindE_Inr_iff [result_simps]:
  "bindE m f = Inr y \<longleftrightarrow> (\<exists>x. m = Inr x \<and> f x = Inr y)"
  by (cases m) auto

lemma bindE_Inr_iff' [result_simps]:
  "Inr y = bindE m f \<longleftrightarrow> (\<exists>x. m = Inr x \<and> f x = Inr y)"
  by (cases m) auto

lemma bindE_Inl_iff:
  "bindE m f = Inl e \<longleftrightarrow> m = Inl e \<or> (\<exists>x. m = Inr x \<and> f x = Inl e)"
  by (cases m) auto

lemma bindE_assoc: "bindE (bindE m f) g = bindE m (\<lambda>x. bindE (f x) g)"
  by (cases m) auto

lemma ok_or_simps [simp]:
  "ok_or e None = Inl e"
  "ok_or e (Some x) = Inr x"
  "ok_or e o' = Inr y \<longleftrightarrow> o' = Some y"
  by (auto simp: ok_or_def split: option.splits)

lemma map_err_simps [simp]:
  "map_err f (Inl e) = Inl (f e)"
  "map_err f (Inr x) = Inr x"
  "map_err f m = Inr y \<longleftrightarrow> m = Inr y"
  by (auto simp: map_err_def split: sum.splits)

lemma is_ok_iff: "is_ok m \<longleftrightarrow> (\<exists>x. m = Inr x)"
  by (cases m) auto

lemma mapE_Inr_iff:
  "mapE f xs = Inr ys \<longleftrightarrow> list_all2 (\<lambda>x y. f x = Inr y) xs ys"
proof (induction xs arbitrary: ys)
  case Nil
  show ?case by auto
next
  case (Cons x xs)
  show ?case by (cases ys) (auto simp: result_simps Cons.IH)
qed

lemma mapE_total:
  "(\<And>x. x \<in> set xs \<Longrightarrow> is_ok (f x)) \<Longrightarrow> is_ok (mapE f xs)"
  by (induction xs) (auto simp: is_ok_iff result_simps)

lemma mapE_Inr_map: "(\<And>x. x \<in> set xs \<Longrightarrow> f x = Inr (g x)) \<Longrightarrow> mapE f xs = Inr (map g xs)"
  by (induction xs) auto

lemma mapE_mem:
  "mapE f xs = Inr ys \<Longrightarrow> y \<in> set ys \<longleftrightarrow> (\<exists>x\<in>set xs. f x = Inr y)"
  by (induction xs arbitrary: ys) (auto simp: result_simps)

lemma foldE_append: "foldE f s (xs @ ys) = bindE (foldE f s xs) (\<lambda>s'. foldE f s' ys)"
  by (induction xs arbitrary: s) (auto simp: bindE_assoc)

lemma foldE_invariant:
  assumes step: "\<And>s x s'. I s \<Longrightarrow> x \<in> set xs \<Longrightarrow> f s x = Inr s' \<Longrightarrow> I s'"
    and run: "foldE f s xs = Inr t" and init: "I s"
  shows "I t"
proof -
  have "\<forall>s. foldE f s ys = Inr t \<longrightarrow> I s \<longrightarrow> I t" if "set ys \<subseteq> set xs" for ys
    using that
  proof (induction ys)
    case (Cons y ys)
    show ?case
    proof (intro allI impI)
      fix s assume "foldE f s (y # ys) = Inr t" "I s"
      moreover from this obtain s' where "f s y = Inr s'" "foldE f s' ys = Inr t"
        by (auto simp: bindE_Inr_iff)
      ultimately show "I t"
        using Cons step[of s y s'] by simp
    qed
  qed simp
  then show ?thesis using run init by blast
qed


section \<open>Ordered maps\<close>

fun om_get :: "('k \<times> 'v) list \<Rightarrow> 'k \<Rightarrow> 'v option" where
  "om_get [] k = None"
| "om_get ((a, b) # m) k = (if k = a then Some b else om_get m k)"

fun om_put :: "'k::linorder \<Rightarrow> 'v \<Rightarrow> ('k \<times> 'v) list \<Rightarrow> ('k \<times> 'v) list" where
  "om_put k v [] = [(k, v)]"
| "om_put k v ((a, b) # m) =
     (if k < a then (k, v) # (a, b) # m else if k = a then (k, v) # m else (a, b) # om_put k v m)"

fun om_del :: "'k \<Rightarrow> ('k \<times> 'v) list \<Rightarrow> ('k \<times> 'v) list" where
  "om_del k [] = []"
| "om_del k ((a, b) # m) = (if k = a then m else (a, b) # om_del k m)"

definition om_wf :: "('k::linorder \<times> 'v) list \<Rightarrow> bool" where
  "om_wf m \<longleftrightarrow> sorted_wrt (<) (map fst m)"

lemma om_wf_Nil [simp]: "om_wf []"
  by (simp add: om_wf_def)

lemma om_wf_Cons: "om_wf ((a, b) # m) \<longleftrightarrow> (\<forall>x\<in>fst ` set m. a < x) \<and> om_wf m"
  by (auto simp: om_wf_def)

lemma om_get_put [simp]: "om_get (om_put k v m) k' = (if k' = k then Some v else om_get m k')"
  by (induction k v m rule: om_put.induct) auto

lemma om_get_None_iff: "om_get m k = None \<longleftrightarrow> k \<notin> fst ` set m"
  by (induction m) force+

lemma om_get_Some_mem: "om_get m k = Some v \<Longrightarrow> (k, v) \<in> set m"
  by (induction m) (auto split: if_splits)

lemma om_get_del [map_simps]:
  "om_wf m \<Longrightarrow> om_get (om_del k m) k' = (if k' = k then None else om_get m k')"
proof (induction m)
  case (Cons p m)
  obtain a b where p: "p = (a, b)" by force
  from Cons.prems have "om_wf m" "a \<notin> fst ` set m"
    by (auto simp: p om_wf_Cons)
  moreover from this have "om_get m a = None" by (simp add: om_get_None_iff)
  ultimately show ?case using Cons.IH by (auto simp: p)
qed simp

lemma om_put_keys: "fst ` set (om_put k v m) = insert k (fst ` set m)"
  by (induction k v m rule: om_put.induct) auto

lemma om_del_keys: "om_wf m \<Longrightarrow> fst ` set (om_del k m) = fst ` set m - {k}"
proof (induction m)
  case (Cons p m)
  obtain a b where p: "p = (a, b)" by force
  from Cons.prems have "om_wf m" "a \<notin> fst ` set m"
    by (auto simp: p om_wf_Cons)
  then show ?case using Cons.IH by (auto simp: p)
qed simp

lemma om_del_subset: "set (om_del k m) \<subseteq> set m"
  by (induction m) (auto split: if_splits)

lemma om_wf_put [simp, intro]: "om_wf m \<Longrightarrow> om_wf (om_put k v m)"
  by (induction k v m rule: om_put.induct) (auto simp: om_wf_Cons om_put_keys)

lemma om_wf_del [simp, intro]: "om_wf m \<Longrightarrow> om_wf (om_del k m)"
proof (induction m)
  case (Cons p m)
  obtain a b where p: "p = (a, b)" by force
  from Cons show ?case
    using om_del_subset[of k m] by (auto simp: p om_wf_Cons)
qed simp

lemma om_mem_get: "om_wf m \<Longrightarrow> (k, v) \<in> set m \<longleftrightarrow> om_get m k = Some v"
proof (induction m)
  case (Cons p m)
  obtain a b where p: "p = (a, b)" by force
  from Cons.prems have "om_wf m" "a \<notin> fst ` set m"
    by (auto simp: p om_wf_Cons)
  then show ?case using Cons.IH by (auto simp: p rev_image_eqI)
qed simp

lemma om_wf_distinct: "om_wf m \<Longrightarrow> distinct (map fst m)"
  by (simp add: om_wf_def strict_sorted_iff)

lemma om_del_absent: "k \<notin> fst ` set m \<Longrightarrow> om_del k m = m"
  by (induction m) auto

text \<open>
  The contract the components rely on: what a lookup returns after an update, that every
  operation keeps the representation invariant, and that iteration yields exactly the bound
  pairs in key order. The facts below are proved once from the contract.
\<close>

locale ordered_store =
  fixes get :: "'m \<Rightarrow> 'k::linorder \<Rightarrow> 'v option"
    and put :: "'k \<Rightarrow> 'v \<Rightarrow> 'm \<Rightarrow> 'm"
    and del :: "'k \<Rightarrow> 'm \<Rightarrow> 'm"
    and entries :: "'m \<Rightarrow> ('k \<times> 'v) list"
    and wf :: "'m \<Rightarrow> bool"
  assumes get_put: "get (put k v m) k' = (if k' = k then Some v else get m k')"
    and get_del: "wf m \<Longrightarrow> get (del k m) k' = (if k' = k then None else get m k')"
    and wf_put: "wf m \<Longrightarrow> wf (put k v m)"
    and wf_del: "wf m \<Longrightarrow> wf (del k m)"
    and entries_mem: "wf m \<Longrightarrow> (k, v) \<in> set (entries m) \<longleftrightarrow> get m k = Some v"
    and entries_sorted: "wf m \<Longrightarrow> sorted_wrt (<) (map fst (entries m))"
begin

lemma entries_determined:
  assumes "wf m" "wf n" "\<And>k. get m k = get n k"
  shows "entries m = entries n"
proof -
  have "set (entries m) = set (entries n)"
    using assms by (auto simp: entries_mem)
  moreover have "sorted (map fst (entries m))" "distinct (map fst (entries m))"
    "sorted (map fst (entries n))" "distinct (map fst (entries n))"
    using entries_sorted assms by (auto simp: strict_sorted_iff)
  ultimately show ?thesis
    by (intro map_sorted_distinct_set_unique[of fst]) (simp_all add: distinct_map)
qed

lemma put_put_same: "wf m \<Longrightarrow> entries (put k v (put k w m)) = entries (put k v m)"
  by (rule entries_determined) (simp_all add: get_put wf_put)

lemma put_del_same: "wf m \<Longrightarrow> entries (put k v (del k m)) = entries (put k v m)"
  by (rule entries_determined) (simp_all add: get_put get_del wf_put wf_del)

lemma put_commute:
  "wf m \<Longrightarrow> k \<noteq> l \<Longrightarrow> entries (put k v (put l w m)) = entries (put l w (put k v m))"
  by (rule entries_determined) (simp_all add: get_put wf_put)

lemma put_present: "wf m \<Longrightarrow> get m k = Some v \<Longrightarrow> entries (put k v m) = entries m"
  by (rule entries_determined) (simp_all add: get_put wf_put)

lemma del_absent: "wf m \<Longrightarrow> get m k = None \<Longrightarrow> entries (del k m) = entries m"
  by (rule entries_determined) (simp_all add: get_del wf_del)

end

interpretation om: ordered_store om_get om_put om_del "\<lambda>m. m" om_wf
  by unfold_locales (simp_all add: om_get_del om_mem_get om_wf_def [symmetric])


section \<open>Fixed-width integers as bytes\<close>

text \<open>\<open>u64::to_be_bytes\<close> is \<open>be_bytes 8\<close>; \<open>to_le_bytes\<close> is its reverse.\<close>

fun be_bytes :: "nat \<Rightarrow> nat \<Rightarrow> bytes" where
  "be_bytes 0 n = []"
| "be_bytes (Suc w) n = char_of (n div 256 ^ w) # be_bytes w n"

definition le_bytes :: "nat \<Rightarrow> nat \<Rightarrow> bytes" where
  "le_bytes w n = rev (be_bytes w n)"

definition be_value :: "bytes \<Rightarrow> nat" where
  "be_value = foldl (\<lambda>acc c. acc * 256 + of_char c) 0"

definition le_value :: "bytes \<Rightarrow> nat" where
  "le_value b = be_value (rev b)"

lemma length_be_bytes [simp]: "length (be_bytes w n) = w"
  by (induction w) auto

lemma length_le_bytes [simp]: "length (le_bytes w n) = w"
  by (simp add: le_bytes_def)

lemma be_value_foldl:
  "foldl (\<lambda>acc c. acc * 256 + of_char c) a (be_bytes w n) = a * 256 ^ w + n mod 256 ^ w"
proof (induction w arbitrary: a)
  case (Suc w)
  have "n mod 256 ^ Suc w = n div 256 ^ w mod 256 * 256 ^ w + n mod 256 ^ w"
    by (metis mod_mult2_eq mult.commute power_Suc add.commute)
  then show ?case by (simp only: be_bytes.simps foldl_Cons of_char_of Suc.IH) (simp add: algebra_simps)
qed simp

lemma be_value_bytes: "be_value (be_bytes w n) = n mod 256 ^ w"
  by (simp add: be_value_def be_value_foldl)

lemma le_value_bytes: "le_value (le_bytes w n) = n mod 256 ^ w"
  by (simp add: le_value_def le_bytes_def be_value_bytes)

lemma be_bytes_inj: "be_bytes w m = be_bytes w n \<Longrightarrow> m < 256 ^ w \<Longrightarrow> n < 256 ^ w \<Longrightarrow> m = n"
  by (metis be_value_bytes mod_less)

text \<open>Big-endian keys sort like the numbers they encode.\<close>

lemma char_of_less_iff: "a < 256 \<Longrightarrow> b < 256 \<Longrightarrow> char_of a < (char_of b :: char) \<longleftrightarrow> a < (b :: nat)"
  by (simp add: less_char_def)

lemma char_of_eq_iff': "a < 256 \<Longrightarrow> b < 256 \<Longrightarrow> char_of a = (char_of b :: char) \<longleftrightarrow> a = (b :: nat)"
  by (auto dest!: arg_cong[of _ _ "of_char :: char \<Rightarrow> nat"])

lemma be_bytes_mod: "v \<le> w \<Longrightarrow> be_bytes v (x mod 256 ^ w) = be_bytes v x"
proof (induction v)
  case (Suc v)
  obtain d where d: "w = Suc v + d"
    using Suc.prems le_Suc_ex by blast
  have "(256::nat) ^ w = 256 ^ v * (256 * 256 ^ d)"
    by (simp add: d power_add)
  then have "x mod 256 ^ w div 256 ^ v = x div 256 ^ v mod (256 * 256 ^ d)"
    by (simp add: mod_mult2_eq)
  then have "x mod 256 ^ w div 256 ^ v mod 256 = x div 256 ^ v mod 256"
    by (simp add: mod_mult2_eq)
  then have "char_of (x mod 256 ^ w div 256 ^ v) = (char_of (x div 256 ^ v) :: char)"
    by (metis char_of_mod_256)
  with Suc show ?case by simp
qed simp

lemma less_div_mod_iff:
  fixes m n d :: nat
  assumes "0 < d"
  shows "m < n \<longleftrightarrow> m div d < n div d \<or> m div d = n div d \<and> m mod d < n mod d"
proof -
  have "m = m div d * d + m mod d" "n = n div d * d + n mod d" by auto
  moreover have "m mod d < d" "n mod d < d" using assms by auto
  moreover have "m div d < n div d \<Longrightarrow> m < n" "n div d < m div d \<Longrightarrow> n < m"
    by (meson div_le_mono not_le)+
  ultimately show ?thesis
    by (metis add_less_cancel_left less_asym linorder_neqE_nat)
qed

lemma be_bytes_less:
  "m < 256 ^ w \<Longrightarrow> n < 256 ^ w \<Longrightarrow> be_bytes w m < be_bytes w n \<longleftrightarrow> m < n"
proof (induction w arbitrary: m n)
  case (Suc w)
  have h: "m div 256 ^ w < 256" "n div 256 ^ w < 256"
    using Suc.prems by (auto simp: less_mult_imp_div_less)
  have "be_bytes w m < be_bytes w n \<longleftrightarrow> m mod 256 ^ w < n mod 256 ^ w"
    using Suc.IH[of "m mod 256 ^ w" "n mod 256 ^ w"] by (simp add: be_bytes_mod)
  then show ?case
    using h by (simp add: char_of_less_iff char_of_eq_iff' less_div_mod_iff[of "256 ^ w" m n])
qed simp

lemma width_8: "(256 :: nat) ^ 8 = 2 ^ 64"
  by simp

lemmas be_bytes_8_less = be_bytes_less[where w = 8, unfolded width_8]
  and be_bytes_8_inj = be_bytes_inj[where w = 8, unfolded width_8]


section \<open>Decimal printing\<close>

fun show_nat :: "nat \<Rightarrow> string" where
  "show_nat n =
     (if n < 10 then [char_of (48 + n)] else show_nat (n div 10) @ [char_of (48 + n mod 10)])"

declare show_nat.simps [simp del]

definition show_int :: "int \<Rightarrow> string" where
  "show_int i = (if i < 0 then ''-'' @ show_nat (nat (- i)) else show_nat (nat i))"

definition is_digit :: "char \<Rightarrow> bool" where
  "is_digit c \<longleftrightarrow> 48 \<le> (of_char c :: nat) \<and> (of_char c :: nat) \<le> 57"

definition digits_value :: "string \<Rightarrow> nat" where
  "digits_value = foldl (\<lambda>acc c. acc * 10 + (of_char c - 48)) 0"

lemma show_nat_digits: "list_all is_digit (show_nat n)"
proof (induction n rule: show_nat.induct)
  case (1 n)
  have "n mod 10 \<le> 9" using mod_less_divisor[of 10 n] by linarith
  then show ?case
    using 1 by (subst show_nat.simps) (simp add: is_digit_def[of "char_of (48 + _)"])
qed

lemma show_nat_nonempty [simp]: "show_nat n \<noteq> []"
  by (subst show_nat.simps) auto

lemma digits_value_snoc: "digits_value (s @ [c]) = digits_value s * 10 + (of_char c - 48)"
  by (simp add: digits_value_def)

lemma digits_value_show: "digits_value (show_nat n) = n"
proof (induction n rule: show_nat.induct)
  case (1 n)
  show ?case
  proof (cases "n < 10")
    case True
    then show ?thesis by (subst show_nat.simps) (simp add: digits_value_def)
  next
    case False
    have "n mod 10 < 10" by simp
    then show ?thesis
      using 1 False by (subst show_nat.simps) (simp add: digits_value_snoc)
  qed
qed

lemma show_nat_inj [simp]: "show_nat m = show_nat n \<longleftrightarrow> m = n"
  by (metis digits_value_show)

lemma not_digit_not_in_show: "\<not> is_digit c \<Longrightarrow> c \<notin> set (show_nat n)"
  using show_nat_digits[of n] by (auto simp: list_all_iff)

lemma colon_not_in_show [simp]: "CHR '':'' \<notin> set (show_nat n)"
  by (rule not_digit_not_in_show) (simp add: is_digit_def)

end
