(* ===== verification/Kv.thy ===== *)
theory Kv
  imports Prelude
begin

text \<open>
  The storage substrate: the keyspaces of \<open>storage/mod.rs\<close> and the part of the embedded
  key-value engine the control plane uses.

  A keyspace handle is a constructor of \<open>ks\<close> (the fields of \<open>Keyspaces\<close>), and the database maps
  each handle to an ordered map from byte keys to byte values. A write batch is the list of
  operations queued on it, in order; committing it performs them in that order, all or none.
  Reads may fail (\<open>db_read_fault\<close>) and a commit may fail (\<open>db_commit_fault\<close>), so that every
  \<open>map_err(read_err)?\<close> and \<open>map_err(commit_err)?\<close> of the code is a branch of the model. Reads
  never see the operations of a batch that is not committed.
\<close>


section \<open>Keyspaces\<close>

datatype (plugins only: code) ks =
    Kversion | Kraft_log | Kraft_log_meta | Kraft_state | Kraft_snapshot | Knodes | Ksvids
  | Ksag_rules | Kjoin_tokens | Krevoked_delegations | Kactive_delegations | Kordinals
  | Kplacements | Ktenants | Kworkloads | Ksecrets | Kdummy_ips | Kpcr_policies
  | Krouter_assignments | Knode_pools | Knode_taints | Ktrust_bundles | Knonces
  | Knonce_claims | Ksvid_grants | Krevoked_svids | Kaudit_log | Kcron_checkpoints
  | Koperator_grants | Kworkload_status | Ktenant_quotas | Kcontrol_addresses | Knode_eks
  | Kpending_activations | Kvpa_recommendations

fun table_name :: "ks \<Rightarrow> string" where
  "table_name Kversion = ''app_version''"
| "table_name Kraft_log = ''raft_log''"
| "table_name Kraft_log_meta = ''raft_log_meta''"
| "table_name Kraft_state = ''raft_state''"
| "table_name Kraft_snapshot = ''raft_snapshot''"
| "table_name Knodes = ''app_nodes''"
| "table_name Ksvids = ''app_svids''"
| "table_name Ksag_rules = ''app_sag_rules''"
| "table_name Kjoin_tokens = ''app_join_tokens''"
| "table_name Krevoked_delegations = ''app_revoked_delegations''"
| "table_name Kactive_delegations = ''app_active_delegations''"
| "table_name Kordinals = ''app_ordinals''"
| "table_name Kplacements = ''app_placements''"
| "table_name Ktenants = ''app_tenants''"
| "table_name Kworkloads = ''app_workloads''"
| "table_name Ksecrets = ''app_secrets''"
| "table_name Kdummy_ips = ''app_dummy_ips''"
| "table_name Kpcr_policies = ''app_pcr_policies''"
| "table_name Krouter_assignments = ''app_router_assignments''"
| "table_name Knode_pools = ''node_pools''"
| "table_name Knode_taints = ''app_node_taints''"
| "table_name Ktrust_bundles = ''app_trust_bundles''"
| "table_name Knonces = ''app_nonces''"
| "table_name Knonce_claims = ''app_nonce_claims''"
| "table_name Ksvid_grants = ''app_svid_grants''"
| "table_name Krevoked_svids = ''app_revoked_svids''"
| "table_name Kaudit_log = ''app_audit_log''"
| "table_name Kcron_checkpoints = ''app_cron_checkpoints''"
| "table_name Koperator_grants = ''app_operator_grants''"
| "table_name Kworkload_status = ''app_workload_status''"
| "table_name Ktenant_quotas = ''app_tenant_quotas''"
| "table_name Kcontrol_addresses = ''app_control_addresses''"
| "table_name Knode_eks = ''app_node_eks''"
| "table_name Kpending_activations = ''app_pending_activations''"
| "table_name Kvpa_recommendations = ''app_vpa_recommendations''"

text \<open>\<open>Keyspaces::snapshot_keyspaces\<close>: the keyspaces a Raft snapshot carries, in order.\<close>

definition snapshot_handles :: "ks list" where
  "snapshot_handles =
     [Kversion, Knodes, Ksvids, Ksag_rules, Kjoin_tokens, Krevoked_delegations,
      Kactive_delegations, Kordinals, Kplacements, Ktenants, Kworkloads, Ksecrets, Kdummy_ips,
      Kpcr_policies, Krouter_assignments, Knode_pools, Knode_taints, Kraft_state,
      Ktrust_bundles, Krevoked_svids, Kaudit_log, Koperator_grants, Kworkload_status,
      Ktenant_quotas, Kcron_checkpoints, Kcontrol_addresses, Knode_eks, Kvpa_recommendations]"

definition snapshot_keyspaces :: "(string \<times> ks) list" where
  "snapshot_keyspaces = map (\<lambda>k. (table_name k, k)) snapshot_handles"


section \<open>The database\<close>

datatype fjall_error = Fjall_read | Fjall_commit

record database =
  db_data :: "ks \<Rightarrow> (bytes \<times> bytes) list"
  db_read_fault :: "ks \<Rightarrow> bool"
  db_commit_fault :: bool

datatype batch_op = Put ks bytes bytes | Del ks bytes

type_synonym batch = "batch_op list"

definition kv_get :: "database \<Rightarrow> ks \<Rightarrow> bytes \<Rightarrow> fjall_error + bytes option" where
  "kv_get db k key = (if db_read_fault db k then Inl Fjall_read else Inr (om_get (db_data db k) key))"

text \<open>\<open>ks.prefix(p)\<close>, all items read, in key order.\<close>

definition kv_prefix :: "database \<Rightarrow> ks \<Rightarrow> bytes \<Rightarrow> fjall_error + (bytes \<times> bytes) list" where
  "kv_prefix db k p =
     (if db_read_fault db k then Inl Fjall_read
      else Inr (filter (\<lambda>(key, _). prefix p key) (db_data db k)))"

fun apply_op :: "(ks \<Rightarrow> (bytes \<times> bytes) list) \<Rightarrow> batch_op \<Rightarrow> ks \<Rightarrow> (bytes \<times> bytes) list" where
  "apply_op d (Put k key v) = d(k := om_put key v (d k))"
| "apply_op d (Del k key) = d(k := om_del key (d k))"

definition run_batch :: "batch \<Rightarrow> (ks \<Rightarrow> (bytes \<times> bytes) list) \<Rightarrow> ks \<Rightarrow> (bytes \<times> bytes) list" where
  "run_batch b d = foldl apply_op d b"

definition kv_commit :: "database \<Rightarrow> batch \<Rightarrow> fjall_error + database" where
  "kv_commit db b =
     (if db_commit_fault db then Inl Fjall_commit else Inr (db\<lparr>db_data := run_batch b (db_data db)\<rparr>))"

definition db_wf :: "database \<Rightarrow> bool" where
  "db_wf db \<longleftrightarrow> (\<forall>k. om_wf (db_data db k))"

definition db_healthy :: "database \<Rightarrow> bool" where
  "db_healthy db \<longleftrightarrow> (\<forall>k. \<not> db_read_fault db k) \<and> \<not> db_commit_fault db"

abbreviation lookup :: "database \<Rightarrow> ks \<Rightarrow> bytes \<Rightarrow> bytes option" where
  "lookup db k key \<equiv> om_get (db_data db k) key"

definition empty_db :: database where
  "empty_db = \<lparr>db_data = (\<lambda>_. []), db_read_fault = (\<lambda>_. False), db_commit_fault = False\<rparr>"


section \<open>What a committed batch leaves behind\<close>

text \<open>
  The last operation of the batch on a key decides its value; a key the batch does not name
  keeps its value. \<open>batch_get\<close> computes the outcome from the operations alone.
\<close>

fun batch_get :: "batch \<Rightarrow> ks \<Rightarrow> bytes \<Rightarrow> bytes option \<Rightarrow> bytes option" where
  "batch_get [] k key old = old"
| "batch_get (Put l x v # b) k key old = batch_get b k key (if l = k \<and> x = key then Some v else old)"
| "batch_get (Del l x # b) k key old = batch_get b k key (if l = k \<and> x = key then None else old)"

fun op_target :: "batch_op \<Rightarrow> ks \<times> bytes" where
  "op_target (Put k key v) = (k, key)"
| "op_target (Del k key) = (k, key)"

lemma run_batch_simps [simp]:
  "run_batch [] d = d"
  "run_batch (x # b) d = run_batch b (apply_op d x)"
  "run_batch (b @ c) d = run_batch c (run_batch b d)"
  by (simp_all add: run_batch_def)

lemma apply_op_wf: "(\<And>k. om_wf (d k)) \<Longrightarrow> om_wf (apply_op d x k)"
  by (cases x) auto

lemma run_batch_wf: "(\<And>k. om_wf (d k)) \<Longrightarrow> om_wf (run_batch b d k)"
proof (induction b arbitrary: d)
  case (Cons x b)
  show ?case by (simp, rule Cons.IH) (rule apply_op_wf[OF Cons.prems])
qed simp

lemma get_run_batch:
  "(\<And>k. om_wf (d k)) \<Longrightarrow> om_get (run_batch b d k) key = batch_get b k key (om_get (d k) key)"
proof (induction b arbitrary: d)
  case (Cons x b)
  have "om_get (run_batch (x # b) d k) key = batch_get b k key (om_get (apply_op d x k) key)"
    using Cons.IH[of "apply_op d x"] apply_op_wf[OF Cons.prems] by simp
  then show ?case
    using Cons.prems by (cases x) (auto simp: om_get_del)
qed simp

lemma batch_get_append: "batch_get (b @ c) k key old = batch_get c k key (batch_get b k key old)"
proof (induction b arbitrary: old)
  case (Cons x b)
  then show ?case by (cases x) auto
qed simp

lemma batch_get_untouched: "(k, key) \<notin> op_target ` set b \<Longrightarrow> batch_get b k key old = old"
proof (induction b arbitrary: old)
  case (Cons x b)
  then show ?case by (cases x) auto
qed simp

lemma run_batch_untouched:
  "k \<notin> fst ` op_target ` set b \<Longrightarrow> run_batch b d k = d k"
proof (induction b arbitrary: d)
  case (Cons x b)
  then show ?case by (cases x) auto
qed simp

lemma batch_get_dels:
  "batch_get (map (\<lambda>x. Del l (f x)) xs) k key old =
     (if k = l \<and> key \<in> f ` set xs then None else old)"
  by (induction xs arbitrary: old) auto

lemma kv_commit_Inr:
  "kv_commit db b = Inr db' \<longleftrightarrow> \<not> db_commit_fault db \<and> db' = db\<lparr>db_data := run_batch b (db_data db)\<rparr>"
  by (auto simp: kv_commit_def)

lemma kv_get_Inr:
  "kv_get db k key = Inr v \<longleftrightarrow> \<not> db_read_fault db k \<and> v = lookup db k key"
  by (auto simp: kv_get_def)

lemma kv_prefix_Inr:
  "kv_prefix db k p = Inr v \<longleftrightarrow>
     \<not> db_read_fault db k \<and> v = filter (\<lambda>(key, _). prefix p key) (db_data db k)"
  by (auto simp: kv_prefix_def)

lemmas kv_Inr = kv_commit_Inr kv_get_Inr kv_prefix_Inr

lemma kv_commit_wf: "kv_commit db b = Inr db' \<Longrightarrow> db_wf db \<Longrightarrow> db_wf db'"
  by (auto simp: kv_commit_Inr db_wf_def run_batch_wf)

lemma kv_commit_lookup:
  "kv_commit db b = Inr db' \<Longrightarrow> db_wf db \<Longrightarrow>
     lookup db' k key = batch_get b k key (lookup db k key)"
  by (auto simp: kv_commit_Inr db_wf_def get_run_batch)

lemma kv_commit_healthy: "kv_commit db b = Inr db' \<Longrightarrow> db_healthy db' = db_healthy db"
  by (auto simp: kv_commit_Inr db_healthy_def)

lemma kv_prefix_mem:
  "kv_prefix db k p = Inr kvs \<Longrightarrow> db_wf db \<Longrightarrow>
     (key, v) \<in> set kvs \<longleftrightarrow> prefix p key \<and> lookup db k key = Some v"
  by (auto simp: kv_prefix_Inr db_wf_def om_mem_get)

lemma db_wf_empty [simp]: "db_wf empty_db"
  by (simp add: db_wf_def empty_db_def)

lemma db_healthy_empty [simp]: "db_healthy empty_db"
  by (simp add: db_healthy_def empty_db_def)

lemma healthy_reads:
  "db_healthy db \<Longrightarrow> kv_get db k key = Inr (lookup db k key)"
  "db_healthy db \<Longrightarrow> kv_prefix db k p = Inr (filter (\<lambda>(key, _). prefix p key) (db_data db k))"
  "db_healthy db \<Longrightarrow> kv_commit db b = Inr (db\<lparr>db_data := run_batch b (db_data db)\<rparr>)"
  by (simp_all add: db_healthy_def kv_get_def kv_prefix_def kv_commit_def)

lemma distinct_snapshot_names: "distinct (map table_name snapshot_handles)"
  by code_simp

end
