(* ===== verification/Records.thy ===== *)
theory Records
  imports Kv
begin

text \<open>
  The data of the program: the replicated records of \<open>raft/records.rs\<close> and of the components
  that own them, the command alphabet of \<open>raft/mod.rs\<close>, the log entries, and the wire codecs.

  Field names carry a short prefix of their struct, because record fields are global names.
  Unsigned integers are natural numbers and signed ones are integers; the definitions that do
  arithmetic on them write out the wrap-around. A \<open>SpiffeId\<close> is represented by its canonical
  string: its \<open>Display\<close> is injective and it serialises as a flat string, so \<open>to_string\<close> is the
  identity and equality of identities is equality of strings; parsing is a parameter.
  Protocol-buffer messages hold the fields the control plane reads or writes; \<open>ps_rest\<close> and
  \<open>ws_rest\<close> stand for the remaining fields, which are carried through unread.

  Serialisation is not code of this repository. The record \<open>env\<close> collects, for every stored
  type, an encoder and a decoder, the parser of SPIFFE identities and the kind it reads off them,
  the validity of tenant and role names, and the host-name scheme of dummy addresses; every
  definition that touches bytes takes it as an argument. \<open>env_ok\<close> states the documented behaviour the program
  relies on: decoding what was encoded gives the value back, and a parsed identity is canonical.
\<close>

type_synonym spiffe_id = string

datatype id_kind = IkNode | IkSa | IkControl | IkCtrl | IkOperator | IkRouter | IkGateway


section \<open>Replicated records\<close>

datatype node_status = Active | Cordoned | Evicted

record node_record =
  nr_node_id :: string
  nr_node_kind :: nat
  nr_status :: node_status
  nr_schedulable :: bool
  nr_last_heartbeat :: int
  nr_registered_at :: int
  nr_capacity_cpu :: nat
  nr_capacity_memory :: nat
  nr_failure_domain :: string

record tenant_record =
  tr_tenant_id :: string
  tr_created_at :: int
  tr_last_applied :: bytes

record workload_spec_record =
  wr_tenant_id :: string
  wr_workload_id :: string
  wr_spec_bytes :: bytes
  wr_last_applied :: bytes

record cron_workload_record =
  cw_tenant_id :: string
  cw_cron_workload_id :: string
  cw_schedule :: string
  cw_spec_bytes :: bytes

record sag_rule_record =
  sr_rule_id :: string
  sr_rule_bytes :: bytes
  sr_last_applied :: bytes

record secret_record =
  se_key :: string
  se_envelope :: bytes
  se_acl :: bytes
  se_last_applied :: bytes

record revoked_svid_record =
  rv_spiffe_id :: string
  rv_expires_at :: int

record audit_context =
  ac_request_id :: string
  ac_actor :: string
  ac_target :: string
  ac_timestamp :: nat

record audit_record =
  au_version :: nat
  au_request_id :: string
  au_actor :: string
  au_action :: string
  au_target :: string
  au_timestamp :: nat

record cron_checkpoint_record =
  cp_tenant_id :: string
  cp_cron_workload_id :: string
  cp_last_triggered :: int

record operator_grant_record =
  og_grant_id :: string
  og_operator_id :: string
  og_granted_by :: string
  og_granted_at :: nat
  og_expires_at :: nat
  og_cluster_admin :: bool
  og_read_only :: bool
  og_tenants :: "string list"

record workload_status_record =
  st_pod_id :: string
  st_workload_id :: string
  st_tenant_id :: string
  st_ready :: bool
  st_live :: bool
  st_started :: bool
  st_policy_enforced :: bool
  st_restart_count :: nat
  st_observed_at :: int
  st_router_connected :: bool
  st_gate_violation_since :: int

record tenant_quota_record =
  tq_tenant_id :: string
  tq_max_cpu :: nat
  tq_max_memory :: nat
  tq_max_workloads :: nat

record control_address_record =
  ca_node_id :: nat
  ca_dc_addr :: string
  ca_raft_addr :: string

datatype ek_state = EkPending | EkJoined | EkRevoked

record node_ek_record =
  ek_fingerprint :: string
  ek_pub :: bytes
  ek_cert_der :: bytes
  ek_node_id :: string
  ek_registered_at :: int
  ek_expires_at :: "int option"
  ek_state :: ek_state

record node_taint =
  ta_key :: string
  ta_value :: string
  ta_effect :: string
  ta_time_added :: int

record vpa_recommendation_record =
  vp_tenant_id :: string
  vp_workload_id :: string
  vp_recommended_vcpus :: nat
  vp_recommended_memory_mb :: nat
  vp_current_vcpus :: nat
  vp_current_memory_mb :: nat
  vp_computed_at :: int
  vp_mode :: string

text \<open>Records owned by other modules.\<close>

datatype node_kind = KAgent | KRouter | KGateway | KControl | KFleetctlProxy

record join_token_record =
  jt_token :: bytes
  jt_node_kind :: node_kind
  jt_created_at :: int
  jt_expires_at :: "int option"
  jt_consumed :: bool

record pcr_value =
  pv_index :: nat
  pv_hash_algorithm :: nat
  pv_digest :: bytes

record pcr_policy =
  pp_node_id :: string
  pp_expected_pcrs :: "pcr_value list"
  pp_updated_at :: int
  pp_active :: bool

record svid_record =
  sv_spiffe_id :: string
  sv_version :: nat
  sv_issued_at :: int
  sv_x25519_pubkey :: bytes

record delegation_record =
  dl_delegation_id :: string
  dl_node_id :: spiffe_id
  dl_target_svid_id :: spiffe_id
  dl_target_ordinal :: "nat option"
  dl_issued_at :: int
  dl_expires_at :: int
  dl_refresh_at :: int

record tenant_block =
  tb_tenant_id :: string
  tb_base :: nat
  tb_prefix :: nat
  tb_next_offset :: nat

record service_address =
  sa_tenant_id :: string
  sa_service :: string
  sa_role :: string
  sa_address :: nat

record node_pool_record =
  np_pool_id :: string
  np_node_kind :: node_kind
  np_desired_count :: nat
  np_vcpus :: nat
  np_memory_mb :: nat
  np_disk_gb :: nat
  np_region_hint :: string
  np_last_applied :: bytes

record resource_spec =
  cpu_millicores :: nat
  memory_bytes :: nat

record placement =
  pl_pod_id :: string
  pl_tenant_id :: string
  pl_service :: string
  pl_role :: string
  pl_ordinal :: nat
  pl_node_id :: spiffe_id
  pl_resources :: resource_spec

record ordinal_assignment =
  oa_tenant_id :: string
  oa_service :: string
  oa_role :: string
  oa_ordinal :: nat
  oa_pod_id :: "string option"
  oa_node_id :: "string option"

text \<open>\<open>SecretAcl\<close>: a \<open>BTreeMap\<close> from secret key to a \<open>BTreeSet\<close> of identities.\<close>

type_synonym secret_acl = "(string \<times> (string \<times> unit) list) list"


section \<open>Workload messages\<close>

record proto_resources =
  rs_vcpus :: nat
  rs_memory_mb :: nat

record toleration =
  tol_key :: string
  tol_operator :: string
  tol_value :: string
  tol_effect :: string
  tol_seconds :: int

record init_container =
  ic_name :: string
  ic_image :: string
  ic_rest :: bytes

record pod_spec =
  ps_tenant_id :: string
  ps_workload_id :: string
  ps_role :: string
  ps_image :: string
  ps_runtime :: string
  ps_ordinal :: "nat option"
  ps_pod_id :: "string option"
  ps_resources :: "proto_resources option"
  ps_priority :: int
  ps_tolerations :: "toleration list"
  ps_env :: "(string \<times> string) list"
  ps_labels :: "(string \<times> string) list"
  ps_init_containers :: "init_container list"
  ps_rest :: bytes

datatype budget_value = BCount nat | BPercent nat

datatype budget_policy = MinAvailable "budget_value option" | MaxUnavailable "budget_value option"

record disruption_budget =
  bud_policy :: "budget_policy option"

record autoscaling_policy =
  hp_enabled :: bool
  hp_min_replicas :: nat
  hp_max_replicas :: nat
  hp_target_cpu :: nat
  hp_target_memory :: nat
  hp_target_net_rx :: nat
  hp_target_net_tx :: nat
  hp_stabilization_window :: nat

record vertical_policy =
  va_enabled :: bool
  va_mode :: int
  va_target_cpu_percent :: nat
  va_target_memory_percent :: nat
  va_min_vcpus :: nat
  va_max_vcpus :: nat
  va_min_memory :: nat
  va_max_memory :: nat
  va_deadband_percent :: nat
  va_stabilization_window :: nat

record workload_spec =
  ws_tenant_id :: string
  ws_workload_id :: string
  ws_image :: string
  ws_replicas :: "(string \<times> nat) list"
  ws_pod_spec :: "pod_spec option"
  ws_budgets :: "(string \<times> disruption_budget) list"
  ws_placement :: int
  ws_autoscaling :: "autoscaling_policy option"
  ws_vertical :: "vertical_policy option"
  ws_rest :: bytes

record cron_schedule =
  cs_expression :: string
  cs_suspend :: bool
  cs_rest :: bytes

record cron_workload =
  cr_tenant_id :: string
  cr_cron_workload_id :: string
  cr_schedule :: "cron_schedule option"
  cr_template :: "workload_spec option"
  cr_rest :: bytes

text \<open>The manifest of a workload in the declarative interface: every field is optional.\<close>

record manifest_workload =
  mw_image :: "string option"
  mw_replicas :: "(string \<times> nat) list"
  mw_pod_spec :: "pod_spec option"
  mw_placement :: "int option"
  mw_autoscaling :: "autoscaling_policy option"


section \<open>Policy and watch messages\<close>

record service_ref =
  sf_tenant :: string
  sf_service_name :: string
  sf_role :: string
  sf_port :: "nat option"

text \<open>The \<open>SagRule\<close> message: \<open>sag_rest\<close> stands for the fields carried unread.\<close>

record sag_rule =
  sag_from :: "service_ref option"
  sag_to :: "service_ref option"
  sag_action :: int
  sag_rest :: bytes

record workload_assignment_record =
  wa_workload_id :: string
  wa_runtime :: string
  wa_image :: string
  wa_role :: string
  wa_hostname :: string
  wa_pod_spec_bytes :: bytes

record route_entry_record =
  re_destination_svid :: string
  re_destination_role :: string
  re_target_agent_svid :: string
  re_dummy_ip :: nat
  re_source_spiffe_ids :: "string list"


section \<open>Commands and log entries\<close>

record manifest_update =
  mu_target_keyspace :: string
  mu_target_key :: bytes
  mu_new_record :: bytes

datatype (plugins only: code) fleetos_command =
    CreateTenant tenant_record tenant_block
  | DeleteTenant string
  | SubmitWorkloadSpec workload_spec_record
  | DeleteWorkload string string
  | ScaleWorkload workload_spec_record
  | ResizeWorkload workload_spec_record
  | UpsertVpaRecommendation vpa_recommendation_record
  | SetTenantQuota tenant_quota_record
  | SubmitCronWorkload cron_workload_record cron_checkpoint_record
  | TriggerCronWorkload workload_spec_record cron_checkpoint_record
  | UpsertWorkloadStatus workload_status_record
  | MintJoinToken join_token_record
  | ConsumeJoinToken bytes
  | SetPcrPolicy pcr_policy
  | RegisterNode node_record
  | EvictNode string int
  | PruneExpiredRevokedSvids int
  | SetNodeSchedulable string bool
  | NodeHeartbeat string int
  | IssueDelegation delegation_record
  | RevokeDelegation string string
  | UpsertSagRule sag_rule_record
  | DeleteSagRule string
  | AllocateTenantBlock tenant_block
  | AllocateServiceAddress tenant_block service_address
  | StoreSecret secret_record string
  | GrantSecretAccess string string string
  | RevokeSecretAccess string string string
  | RecordOrdinalAssignment ordinal_assignment
  | CommitPlacement placement
  | RemovePlacement string
  | ReassignPodId string string string nat string
  | StoreNodePool node_pool_record
  | DeleteNodePool string
  | RegisterControlAddress control_address_record
  | UpsertSvidVersion svid_record
  | GrantOperatorAccess operator_grant_record
  | RevokeOperatorAccess string
  | RegisterNodeEk node_ek_record
  | ActivateNodeEk string string
  | RevokeNodeEk string
  | SetNodeTaints string "node_taint list"
  | RemoveNodeTaint string string string
  | ApplyManifests "manifest_update list"

record audited_command =
  cmd :: fleetos_command
  audit :: "audit_context option"

definition system_command :: "fleetos_command \<Rightarrow> audited_command" where
  "system_command c = \<lparr>cmd = c, audit = None\<rparr>"

record fleetos_response =
  resp_version :: nat

text \<open>Types of the consensus library, as the source uses them. A membership is opaque.\<close>

record log_id =
  lg_term :: nat
  lg_leader :: nat
  lg_index :: nat

type_synonym membership = bytes

record stored_membership =
  smb_log_id :: "log_id option"
  smb_membership :: membership

definition default_membership :: stored_membership where
  "default_membership = \<lparr>smb_log_id = None, smb_membership = []\<rparr>"

datatype entry_payload = Blank | Normal audited_command | Membership membership

record log_entry =
  en_log_id :: log_id
  en_payload :: entry_payload

record vote =
  vo_term :: nat
  vo_node :: nat
  vo_committed :: bool

record snapshot_meta =
  sn_last_log_id :: "log_id option"
  sn_last_membership :: stored_membership
  sn_snapshot_id :: string

record application_snapshot =
  as_keyspaces :: "(string \<times> (bytes \<times> bytes) list) list"


section \<open>Wire codecs\<close>

record 'a codec =
  enc :: "'a \<Rightarrow> bytes option"
  dec :: "bytes \<Rightarrow> 'a option"

definition codec_ok :: "'a codec \<Rightarrow> bool" where
  "codec_ok c \<longleftrightarrow> (\<forall>x. \<exists>b. enc c x = Some b \<and> dec c b = Some x)"

datatype (plugins only: code) env = Env
  (c_tenant: "tenant_record codec")
  (c_block: "tenant_block codec")
  (c_address: "service_address codec")
  (c_workload: "workload_spec_record codec")
  (c_cron: "cron_workload_record codec")
  (c_checkpoint: "cron_checkpoint_record codec")
  (c_vpa: "vpa_recommendation_record codec")
  (c_quota: "tenant_quota_record codec")
  (c_control_address: "control_address_record codec")
  (c_svid: "svid_record codec")
  (c_ek: "node_ek_record codec")
  (c_taints: "node_taint list codec")
  (c_status: "workload_status_record codec")
  (c_token: "join_token_record codec")
  (c_pcr: "pcr_policy codec")
  (c_node: "node_record codec")
  (c_delegation: "delegation_record codec")
  (c_revoked: "revoked_svid_record codec")
  (c_acl: "secret_acl codec")
  (c_ordinal: "ordinal_assignment codec")
  (c_placement: "placement codec")
  (c_pool: "node_pool_record codec")
  (c_grant: "operator_grant_record codec")
  (c_audit: "audit_record codec")
  (c_log_id: "log_id codec")
  (c_membership: "stored_membership codec")
  (c_meta: "snapshot_meta codec")
  (c_app_snapshot: "application_snapshot codec")
  (c_vote: "vote codec")
  (c_spec: "workload_spec codec")
  (c_pod_spec: "pod_spec codec")
  (c_sag_rule: "sag_rule codec")
  (c_assignments: "workload_assignment_record list codec")
  (c_routes: "route_entry_record list codec")
  (c_cron_spec: "cron_workload codec")
  (c_manifest: "manifest_workload codec")
  (sp_parse: "string \<Rightarrow> spiffe_id option")
  (sp_kind: "spiffe_id \<Rightarrow> id_kind")
  (tenant_ok: "string \<Rightarrow> bool")
  (role_ok: "string \<Rightarrow> bool")
  (dummy_ip_hostname: "string \<Rightarrow> string \<Rightarrow> string \<Rightarrow> string \<Rightarrow> string option")

definition records_ok :: "env \<Rightarrow> bool" where
  "records_ok E \<longleftrightarrow>
     codec_ok (c_tenant E) \<and> codec_ok (c_block E) \<and> codec_ok (c_address E) \<and>
     codec_ok (c_workload E) \<and> codec_ok (c_cron E) \<and> codec_ok (c_checkpoint E) \<and>
     codec_ok (c_vpa E) \<and> codec_ok (c_quota E) \<and> codec_ok (c_control_address E) \<and>
     codec_ok (c_svid E) \<and> codec_ok (c_ek E) \<and> codec_ok (c_taints E) \<and> codec_ok (c_status E) \<and>
     codec_ok (c_token E) \<and> codec_ok (c_pcr E) \<and> codec_ok (c_node E) \<and>
     codec_ok (c_delegation E) \<and> codec_ok (c_revoked E) \<and> codec_ok (c_acl E) \<and>
     codec_ok (c_ordinal E) \<and> codec_ok (c_placement E) \<and> codec_ok (c_pool E) \<and>
     codec_ok (c_grant E) \<and> codec_ok (c_audit E)"

definition raft_ok :: "env \<Rightarrow> bool" where
  "raft_ok E \<longleftrightarrow>
     codec_ok (c_log_id E) \<and> codec_ok (c_membership E) \<and> codec_ok (c_meta E) \<and>
     codec_ok (c_app_snapshot E) \<and> codec_ok (c_vote E)"

definition proto_ok :: "env \<Rightarrow> bool" where
  "proto_ok E \<longleftrightarrow>
     codec_ok (c_spec E) \<and> codec_ok (c_pod_spec E) \<and> codec_ok (c_sag_rule E) \<and>
     codec_ok (c_assignments E) \<and> codec_ok (c_routes E) \<and>
     codec_ok (c_cron_spec E) \<and> codec_ok (c_manifest E)"

definition spiffe_ok :: "env \<Rightarrow> bool" where
  "spiffe_ok E \<longleftrightarrow> (\<forall>s i. sp_parse E s = Some i \<longrightarrow> sp_parse E i = Some i)"

definition env_ok :: "env \<Rightarrow> bool" where
  "env_ok E \<longleftrightarrow> records_ok E \<and> raft_ok E \<and> proto_ok E \<and> spiffe_ok E"

named_theorems codec_ok_facts \<open>the codecs of a lawful environment\<close>

lemma env_okD:
  assumes "env_ok E"
  shows env_ok_records [codec_ok_facts]: "records_ok E"
    and env_ok_raft [codec_ok_facts]: "raft_ok E"
    and env_ok_proto [codec_ok_facts]: "proto_ok E"
    and env_ok_spiffe: "spiffe_ok E"
  using assms by (auto simp: env_ok_def)

lemma codec_ok_dec: "codec_ok c \<Longrightarrow> enc c x = Some b \<Longrightarrow> dec c b = Some x"
  by (metis codec_ok_def option.inject)

lemma codec_ok_enc: "codec_ok c \<Longrightarrow> \<exists>b. enc c x = Some b \<and> dec c b = Some x"
  by (simp add: codec_ok_def)

lemma codec_ok_inj: "codec_ok c \<Longrightarrow> enc c x = enc c y \<Longrightarrow> x = y"
  by (metis codec_ok_def option.inject)

end
