(* ===== verification/Storage.thy ===== *)
theory Storage
  imports Records
begin

text \<open>
  The read side of storage: composite delegation keys (\<open>storage/schema.rs\<close>), the monotonic
  version counter (\<open>storage/version.rs\<close>), the getters and listers of \<open>StorageEngine\<close>
  (\<open>storage/engine.rs\<close>) and the revocation check of the listeners (\<open>revocation.rs\<close>).
\<close>

datatype storage_error = Storage_error fjall_error | Serialization_error | Not_found string


section \<open>Key formats\<close>

definition composite_delegation_key :: "spiffe_id \<Rightarrow> string \<Rightarrow> bytes" where
  "composite_delegation_key node did = le_bytes 2 (length node mod 65536) @ node @ did"

definition node_delegation_prefix :: "spiffe_id \<Rightarrow> bytes" where
  "node_delegation_prefix node = le_bytes 2 (length node mod 65536) @ node"

definition node_prefix_len :: "bytes \<Rightarrow> nat option" where
  "node_prefix_len key = (if length key < 2 then None else Some (2 + le_value (take 2 key)))"

definition workload_key :: "string \<Rightarrow> string \<Rightarrow> bytes" where
  "workload_key t w = t @ '':'' @ w"

definition cron_key :: "string \<Rightarrow> string \<Rightarrow> bytes" where
  "cron_key t w = ''cron:'' @ t @ '':'' @ w"

definition ordinal_key :: "string \<Rightarrow> string \<Rightarrow> string \<Rightarrow> nat \<Rightarrow> bytes" where
  "ordinal_key t s r n = t @ '':'' @ s @ '':'' @ r @ '':'' @ show_nat n"

definition tenant_block_key :: "string \<Rightarrow> bytes" where
  "tenant_block_key t = ''tenant:'' @ t"

definition service_address_key :: "string \<Rightarrow> string \<Rightarrow> string \<Rightarrow> bytes" where
  "service_address_key t s r = ''service:'' @ t @ '':'' @ s @ '':'' @ r"

definition secret_key :: "string \<Rightarrow> bytes" where
  "secret_key k = ''secret:'' @ k"

definition acl_key :: "string \<Rightarrow> bytes" where
  "acl_key k = ''acl:'' @ k"


section \<open>Monotonic version\<close>

datatype change_kind =
    SagUpdate | TrustBundleRotation | ClusterMembership | SecretRotation string
  | RevokedDelegations | SchedulingUpdate | DummyIpUpdate | Eviction | SvidRotation string nat

record version_update =
  vu_version :: nat
  vu_change_kind :: change_kind

text \<open>\<open>fetch_add(1) + 1\<close> on a 64-bit counter: the new counter value is also the version handed out.\<close>

definition allocate_version :: "nat \<Rightarrow> nat" where
  "allocate_version v = (v + 1) mod 2 ^ 64"

definition persist_version :: "nat \<Rightarrow> batch" where
  "persist_version v = [Put Kversion ''current'' (le_bytes 8 v)]"

definition load_persisted_version :: "database \<Rightarrow> storage_error + nat" where
  "load_persisted_version db =
     bindE (map_err Storage_error (kv_get db Kversion ''current'')) (\<lambda>v.
       case v of
         Some b \<Rightarrow> if length b = 8 then Inr (le_value b) else Inl (Not_found ''corrupted version field'')
       | None \<Rightarrow> Inr 0)"

definition initial_version :: "database \<Rightarrow> nat" where
  "initial_version db = (case load_persisted_version db of Inl _ \<Rightarrow> 0 | Inr v \<Rightarrow> v)"


section \<open>Storage engine\<close>

definition get_record :: "'a codec \<Rightarrow> database \<Rightarrow> ks \<Rightarrow> bytes \<Rightarrow> storage_error + 'a option" where
  "get_record c db k key =
     bindE (map_err Storage_error (kv_get db k key)) (\<lambda>v.
       case v of
         Some b \<Rightarrow> bindE (ok_or Serialization_error (dec c b)) (\<lambda>r. Inr (Some r))
       | None \<Rightarrow> Inr None)"

text \<open>\<open>if let Ok(record) = postcard::from_bytes(..) { push }\<close> over the items of a scan.\<close>

definition decode_all :: "'a codec \<Rightarrow> (bytes \<times> bytes) list \<Rightarrow> 'a list" where
  "decode_all c kvs = List.map_filter (\<lambda>(_, v). dec c v) kvs"

definition list_records :: "'a codec \<Rightarrow> database \<Rightarrow> ks \<Rightarrow> bytes \<Rightarrow> storage_error + 'a list" where
  "list_records c db k p =
     bindE (map_err Storage_error (kv_prefix db k p)) (\<lambda>kvs. Inr (decode_all c kvs))"

definition get_tenant :: "env \<Rightarrow> database \<Rightarrow> string \<Rightarrow> storage_error + tenant_record option" where
  "get_tenant E db tenant_id = get_record (c_tenant E) db Ktenants tenant_id"

definition list_tenants :: "env \<Rightarrow> database \<Rightarrow> storage_error + tenant_record list" where
  "list_tenants E db = list_records (c_tenant E) db Ktenants []"

definition get_workload_spec :: "database \<Rightarrow> string \<Rightarrow> string \<Rightarrow> storage_error + bytes option" where
  "get_workload_spec db t w = map_err Storage_error (kv_get db Kworkloads (workload_key t w))"

definition list_workloads :: "env \<Rightarrow> database \<Rightarrow> storage_error + workload_spec_record list" where
  "list_workloads E db = list_records (c_workload E) db Kworkloads []"

definition list_cron_workloads :: "env \<Rightarrow> database \<Rightarrow> storage_error + cron_workload_record list" where
  "list_cron_workloads E db = list_records (c_cron E) db Kworkloads ''cron:''"

definition list_node_records :: "env \<Rightarrow> database \<Rightarrow> storage_error + node_record list" where
  "list_node_records E db = list_records (c_node E) db Knodes []"

definition get_placement :: "env \<Rightarrow> database \<Rightarrow> string \<Rightarrow> storage_error + placement option" where
  "get_placement E db pod_id = get_record (c_placement E) db Kplacements pod_id"

definition list_placements :: "env \<Rightarrow> database \<Rightarrow> storage_error + placement list" where
  "list_placements E db = list_records (c_placement E) db Kplacements []"

definition get_placements_for_node :: "env \<Rightarrow> database \<Rightarrow> spiffe_id \<Rightarrow> storage_error + placement list" where
  "get_placements_for_node E db n =
     bindE (list_placements E db) (\<lambda>ps. Inr (filter (\<lambda>p. pl_node_id p = n) ps))"

definition get_node_pool :: "env \<Rightarrow> database \<Rightarrow> string \<Rightarrow> storage_error + node_pool_record option" where
  "get_node_pool E db pool_id = get_record (c_pool E) db Knode_pools pool_id"

definition list_node_pools :: "env \<Rightarrow> database \<Rightarrow> storage_error + node_pool_record list" where
  "list_node_pools E db = list_records (c_pool E) db Knode_pools []"

definition get_workload_status :: "env \<Rightarrow> database \<Rightarrow> string \<Rightarrow> storage_error + workload_status_record option" where
  "get_workload_status E db pod_id = get_record (c_status E) db Kworkload_status pod_id"

definition get_tenant_quota :: "env \<Rightarrow> database \<Rightarrow> string \<Rightarrow> storage_error + tenant_quota_record option" where
  "get_tenant_quota E db t = get_record (c_quota E) db Ktenant_quotas t"

definition get_vpa_recommendation ::
  "env \<Rightarrow> database \<Rightarrow> string \<Rightarrow> string \<Rightarrow> storage_error + vpa_recommendation_record option" where
  "get_vpa_recommendation E db t w = get_record (c_vpa E) db Kvpa_recommendations (workload_key t w)"

text \<open>
  \<open>compute_tenant_usage\<close>: (CPU millicores, memory bytes, number of workloads). The products and
  sums are on 64-bit counters and the count on a 32-bit one.
\<close>

definition spec_cpu_per_pod :: "workload_spec \<Rightarrow> nat" where
  "spec_cpu_per_pod spec =
     (case Option.bind (ws_pod_spec spec) ps_resources of Some r \<Rightarrow> rs_vcpus r * 1000 | None \<Rightarrow> 0)"

definition spec_mem_per_pod :: "workload_spec \<Rightarrow> nat" where
  "spec_mem_per_pod spec =
     (case Option.bind (ws_pod_spec spec) ps_resources of Some r \<Rightarrow> rs_memory_mb r * 1024 * 1024 | None \<Rightarrow> 0)"

definition spec_total_replicas :: "workload_spec \<Rightarrow> nat" where
  "spec_total_replicas spec = sum_list (map snd (ws_replicas spec)) mod 2 ^ 64"

fun add_usage :: "env \<Rightarrow> string \<Rightarrow> nat \<times> nat \<times> nat \<Rightarrow> workload_spec_record \<Rightarrow> nat \<times> nat \<times> nat" where
  "add_usage E tenant (cpu, mem, n) r =
     (if wr_tenant_id r \<noteq> tenant then (cpu, mem, n)
      else
        (case dec (c_spec E) (wr_spec_bytes r) of
           None \<Rightarrow> (cpu, mem, (n + 1) mod 2 ^ 32)
         | Some spec \<Rightarrow>
             ((cpu + spec_cpu_per_pod spec * spec_total_replicas spec mod 2 ^ 64) mod 2 ^ 64,
              (mem + spec_mem_per_pod spec * spec_total_replicas spec mod 2 ^ 64) mod 2 ^ 64,
              (n + 1) mod 2 ^ 32)))"

definition compute_tenant_usage :: "env \<Rightarrow> database \<Rightarrow> string \<Rightarrow> storage_error + nat \<times> nat \<times> nat" where
  "compute_tenant_usage E db tenant =
     bindE (list_workloads E db) (\<lambda>rs. Inr (foldl (add_usage E tenant) (0, 0, 0) rs))"

definition is_svid_revoked :: "database \<Rightarrow> string \<Rightarrow> bool" where
  "is_svid_revoked db spiffe_id =
     (case kv_get db Krevoked_svids spiffe_id of Inr v \<Rightarrow> v \<noteq> None | Inl _ \<Rightarrow> True)"


section \<open>Facts about reads\<close>

lemma decode_all_Nil [simp]: "decode_all c [] = []"
  by (simp add: decode_all_def List.map_filter_simps)

lemma decode_all_Cons [simp]:
  "decode_all c (kv # kvs) =
     (case dec c (snd kv) of None \<Rightarrow> decode_all c kvs | Some r \<Rightarrow> r # decode_all c kvs)"
  by (cases kv) (simp add: decode_all_def List.map_filter_simps split: option.splits)

lemma in_decode_all: "r \<in> set (decode_all c kvs) \<longleftrightarrow> (\<exists>k v. (k, v) \<in> set kvs \<and> dec c v = Some r)"
proof (induction kvs)
  case (Cons kv kvs)
  obtain a b where "kv = (a, b)" by force
  then show ?case by (cases "dec c b") (auto simp: Cons.IH)
qed simp

lemma list_records_Inr:
  "list_records c db k p = Inr rs \<longleftrightarrow>
     \<not> db_read_fault db k \<and> rs = decode_all c (filter (\<lambda>(key, _). prefix p key) (db_data db k))"
  by (auto simp: list_records_def result_simps kv_prefix_Inr)

lemma in_list_records:
  assumes "list_records c db k p = Inr rs" "db_wf db"
  shows "r \<in> set rs \<longleftrightarrow> (\<exists>key v. prefix p key \<and> lookup db k key = Some v \<and> dec c v = Some r)"
  using assms by (auto simp: list_records_Inr in_decode_all db_wf_def om_mem_get)

lemma get_record_Inr:
  "get_record c db k key = Inr r \<longleftrightarrow>
     \<not> db_read_fault db k \<and>
     (case lookup db k key of None \<Rightarrow> r = None | Some b \<Rightarrow> \<exists>x. dec c b = Some x \<and> r = Some x)"
  by (auto simp: get_record_def result_simps kv_get_Inr split: option.splits)

lemma list_records_healthy:
  "db_healthy db \<Longrightarrow>
     list_records c db k p = Inr (decode_all c (filter (\<lambda>(key, _). prefix p key) (db_data db k)))"
  by (simp add: list_records_Inr db_healthy_def)


section \<open>Facts about keys\<close>

lemma composite_prefix [simp]: "prefix (node_delegation_prefix n) (composite_delegation_key n d)"
  by (simp add: node_delegation_prefix_def composite_delegation_key_def prefix_def)

text \<open>Splitting at the first separator.\<close>

lemma append_sep_eq:
  assumes "sep \<notin> set a" "sep \<notin> set b"
  shows "a @ sep # x = b @ sep # y \<longleftrightarrow> a = b \<and> x = y"
  using assms
proof (induction a arbitrary: b)
  case Nil
  then show ?case by (cases b) auto
next
  case (Cons c a)
  then show ?case by (cases b) auto
qed

lemma le_bytes_inj: "le_bytes w m = le_bytes w n \<Longrightarrow> m < 256 ^ w \<Longrightarrow> n < 256 ^ w \<Longrightarrow> m = n"
  by (metis le_value_bytes mod_less)

lemma append_same_length: "length a = length b \<Longrightarrow> a @ x = b @ y \<longleftrightarrow> a = b \<and> x = y"
  by simp

lemma node_prefix_of_key:
  assumes "length m < 65536" "length n < 65536"
  shows "prefix (node_delegation_prefix n) (composite_delegation_key m d) \<longleftrightarrow> n = m"
proof
  assume "prefix (node_delegation_prefix n) (composite_delegation_key m d)"
  then obtain r where "le_bytes 2 (length m) @ m @ d = le_bytes 2 (length n) @ n @ r"
    using assms by (auto simp: prefix_def node_delegation_prefix_def composite_delegation_key_def)
  then have "le_bytes 2 (length m) = le_bytes 2 (length n)" and rest: "m @ d = n @ r"
    by (subst (asm) append_same_length, simp, simp)+
  then have "length m = length n"
    using le_bytes_inj[of 2 "length m" "length n"] assms by simp
  with rest show "n = m" by simp
qed simp

lemma composite_key_inj:
  assumes "length m < 65536" "length n < 65536"
  shows "composite_delegation_key m d = composite_delegation_key n e \<longleftrightarrow> m = n \<and> d = e"
proof
  assume eq: "composite_delegation_key m d = composite_delegation_key n e"
  then have "n = m" using node_prefix_of_key[OF assms, of d] by simp
  with eq show "m = n \<and> d = e" by (simp add: composite_delegation_key_def)
qed simp

lemma node_prefix_len_composite:
  "length n < 65536 \<Longrightarrow> node_prefix_len (composite_delegation_key n d) = Some (length (node_delegation_prefix n))"
  by (simp add: node_prefix_len_def composite_delegation_key_def node_delegation_prefix_def le_value_bytes)

lemma workload_key_inj:
  "CHR '':'' \<notin> set t \<Longrightarrow> CHR '':'' \<notin> set t' \<Longrightarrow>
     workload_key t w = workload_key t' w' \<longleftrightarrow> t = t' \<and> w = w'"
  by (simp add: workload_key_def append_sep_eq)

lemma ordinal_key_inj:
  assumes "CHR '':'' \<notin> set t" "CHR '':'' \<notin> set t'" "CHR '':'' \<notin> set s" "CHR '':'' \<notin> set s'"
    "CHR '':'' \<notin> set r" "CHR '':'' \<notin> set r'"
  shows "ordinal_key t s r n = ordinal_key t' s' r' n' \<longleftrightarrow> t = t' \<and> s = s' \<and> r = r' \<and> n = n'"
  using assms by (simp add: ordinal_key_def append_sep_eq)

lemma cron_key_not_workload_key:
  assumes "CHR '':'' \<notin> set t" "CHR '':'' \<notin> set w" "CHR '':'' \<notin> set t'"
  shows "cron_key t' w' \<noteq> workload_key t w"
proof
  assume "cron_key t' w' = workload_key t w"
  then have "''cron'' @ CHR '':'' # t' @ '':'' @ w' = t @ CHR '':'' # w"
    by (simp add: cron_key_def workload_key_def)
  then have "t' @ '':'' @ w' = w"
    using append_sep_eq[of "CHR '':''" "''cron''" t] assms(1) by simp
  with assms(2) show False by auto
qed

lemma tenant_service_keys_distinct: "tenant_block_key t \<noteq> service_address_key t' s r"
  by (simp add: tenant_block_key_def service_address_key_def)

lemma secret_acl_keys_distinct: "secret_key k \<noteq> acl_key k'"
  by (simp add: secret_key_def acl_key_def)


section \<open>Facts about versions\<close>

lemma allocate_version_next: "v < 2 ^ 64 - 1 \<Longrightarrow> allocate_version v = v + 1"
  by (simp add: allocate_version_def)

lemma persisted_version_roundtrip:
  assumes "kv_commit db (b @ persist_version v @ c) = Inr db'" "db_wf db" "v < 2 ^ 64"
    and "(Kversion, ''current'') \<notin> op_target ` set c" "\<not> db_read_fault db Kversion"
  shows "load_persisted_version db' = Inr v"
proof -
  have "lookup db' Kversion ''current'' = Some (le_bytes 8 v)"
    using kv_commit_lookup[OF assms(1,2), of Kversion "''current''"] assms(4)
    by (simp add: batch_get_append persist_version_def batch_get_untouched)
  moreover have "\<not> db_read_fault db' Kversion"
    using assms(1,5) by (auto simp: kv_commit_Inr)
  moreover have "v mod 256 ^ 8 = v"
    using assms(3) by simp
  ultimately show ?thesis
    by (simp add: load_persisted_version_def kv_get_def le_value_bytes)
qed

end
