(* ===== verification/Snapshots.thy ===== *)
theory Snapshots
  imports Storage
begin

text \<open>
  Watch snapshots (\<open>watch/snapshot.rs\<close>), the reader of the framed rule buffer
  (\<open>watch/policy_service.rs\<close>) and the expansion of pod templates (\<open>scheduler/expansion.rs\<close>).
  The builders read committed state and never fail: a keyspace that cannot be read contributes
  nothing.
\<close>


section \<open>Pod expansion\<close>

definition default_pod_spec :: pod_spec where
  "default_pod_spec =
     \<lparr>ps_tenant_id = [], ps_workload_id = [], ps_role = [], ps_image = [], ps_runtime = [],
      ps_ordinal = None, ps_pod_id = None, ps_resources = None, ps_priority = 0,
      ps_tolerations = [], ps_env = [], ps_labels = [], ps_init_containers = [], ps_rest = []\<rparr>"

definition pod_template :: "workload_spec \<Rightarrow> pod_spec" where
  "pod_template spec = (case ws_pod_spec spec of Some p \<Rightarrow> p | None \<Rightarrow> default_pod_spec)"

definition expand_pod_spec ::
  "workload_spec \<Rightarrow> string \<Rightarrow> string \<Rightarrow> string \<Rightarrow> string \<Rightarrow> nat \<Rightarrow> pod_spec" where
  "expand_pod_spec spec pod_id tenant_id workload_id role ordinal =
     (pod_template spec)
       \<lparr>ps_tenant_id := tenant_id, ps_workload_id := workload_id, ps_role := role,
        ps_image := ws_image spec, ps_ordinal := Some ordinal, ps_pod_id := Some pod_id\<rparr>"


section \<open>Reading everything that can be read\<close>

definition readable_items :: "database \<Rightarrow> ks \<Rightarrow> (bytes \<times> bytes) list" where
  "readable_items db k = (case kv_prefix db k [] of Inl _ \<Rightarrow> [] | Inr kvs \<Rightarrow> kvs)"

lemma readable_items_healthy: "db_healthy db \<Longrightarrow> readable_items db k = db_data db k"
  by (simp add: readable_items_def healthy_reads)


section \<open>Policy snapshot\<close>

record sag_snapshot =
  ss_rules_bytes :: bytes
  ss_revoked_delegation_ids :: "bytes list"
  ss_revoked_spiffe_ids :: "string list"

definition frame_rule :: "bytes \<Rightarrow> bytes" where
  "frame_rule rule = le_bytes 4 (length rule mod 2 ^ 32) @ rule"

definition build_sag_snapshot :: "env \<Rightarrow> database \<Rightarrow> sag_snapshot" where
  "build_sag_snapshot E db =
     \<lparr>ss_rules_bytes = concat (map (\<lambda>(_, v). frame_rule v) (readable_items db Ksag_rules)),
      ss_revoked_delegation_ids =
        map dl_delegation_id (decode_all (c_delegation E) (readable_items db Krevoked_delegations)),
      ss_revoked_spiffe_ids =
        map rv_spiffe_id (decode_all (c_revoked E) (readable_items db Krevoked_svids))\<rparr>"

datatype decode_rules_error = Truncated | Proto_error

function decode_rules :: "env \<Rightarrow> bytes \<Rightarrow> decode_rules_error + sag_rule list" where
  "decode_rules E b =
     (if b = [] then Inr []
      else if length b < 4 then Inl Truncated
      else
        (let len = le_value (take 4 b); rest = drop 4 b in
         if length rest < len then Inl Truncated
         else bindE (ok_or Proto_error (dec (c_sag_rule E) (take len rest))) (\<lambda>rule.
                bindE (decode_rules E (drop len rest)) (\<lambda>rules. Inr (rule # rules)))))"
  by pat_completeness auto
termination
  by (relation "measure (\<lambda>(E, b). length b)") auto

declare decode_rules.simps [simp del]

definition spiffe_sa :: "string \<Rightarrow> string \<Rightarrow> string \<Rightarrow> string" where
  "spiffe_sa td tenant service = ''spiffe://'' @ td @ ''/ns/'' @ tenant @ ''/sa/'' @ service"

type_synonym source_index = "((string \<times> string) \<times> (string \<times> unit) list) list"

text \<open>
  The index is a \<open>BTreeMap\<close> keyed by (tenant, service); a pair of keys is looked up, never
  ordered, by the code that uses it, so it is kept as an association list.
\<close>

fun index_insert :: "string \<times> string \<Rightarrow> string \<Rightarrow> source_index \<Rightarrow> source_index" where
  "index_insert k s [] = [(k, [(s, ())])]"
| "index_insert k s ((a, srcs) # m) =
     (if a = k then (a, om_put s () srcs) # m else (a, srcs) # index_insert k s m)"

definition add_source :: "env \<Rightarrow> string \<Rightarrow> source_index \<Rightarrow> bytes \<times> bytes \<Rightarrow> source_index" where
  "add_source E td m kv =
     (case dec (c_sag_rule E) (snd kv) of
        None \<Rightarrow> m
      | Some rule \<Rightarrow>
          (case (sag_from rule, sag_to rule) of
             (Some from, Some to) \<Rightarrow>
               index_insert (sf_tenant to, sf_service_name to)
                 (spiffe_sa td (sf_tenant from) (sf_service_name from)) m
           | _ \<Rightarrow> m))"

definition compute_source_index :: "env \<Rightarrow> database \<Rightarrow> string \<Rightarrow> source_index" where
  "compute_source_index E db td = foldl (add_source E td) [] (readable_items db Ksag_rules)"


section \<open>Schedule and route snapshots\<close>

definition lookup_workload_spec :: "env \<Rightarrow> database \<Rightarrow> string \<Rightarrow> string \<Rightarrow> workload_spec option" where
  "lookup_workload_spec E db tenant_id workload_id =
     (case kv_get db Kworkloads (workload_key tenant_id workload_id) of
        Inr (Some value) \<Rightarrow>
          Option.bind (dec (c_workload E) value) (\<lambda>record. dec (c_spec E) (wr_spec_bytes record))
      | _ \<Rightarrow> None)"

definition or_empty :: "bytes option \<Rightarrow> bytes" where
  "or_empty x = (case x of Some b \<Rightarrow> b | None \<Rightarrow> [])"

definition assignment_of :: "env \<Rightarrow> database \<Rightarrow> string \<Rightarrow> placement \<Rightarrow> workload_assignment_record" where
  "assignment_of E db td p =
     (let hostname = or_empty (dummy_ip_hostname E (pl_service p) (pl_role p) (pl_tenant_id p) td);
          (runtime, image, pod_spec_bytes) =
            (case lookup_workload_spec E db (pl_tenant_id p) (pl_service p) of
               Some spec \<Rightarrow>
                 ((case ws_pod_spec spec of Some t \<Rightarrow> ps_runtime t | None \<Rightarrow> []),
                  ws_image spec,
                  or_empty (enc (c_pod_spec E)
                    (expand_pod_spec spec (pl_pod_id p) (pl_tenant_id p) (pl_service p) (pl_role p) (pl_ordinal p))))
             | None \<Rightarrow> ([], [], []))
      in \<lparr>wa_workload_id = pl_service p, wa_runtime = runtime, wa_image = image,
          wa_role = pl_role p, wa_hostname = hostname, wa_pod_spec_bytes = pod_spec_bytes\<rparr>)"

definition build_schedule_snapshot :: "env \<Rightarrow> database \<Rightarrow> string \<Rightarrow> bytes" where
  "build_schedule_snapshot E db td =
     or_empty (enc (c_assignments E)
       (map (assignment_of E db td) (decode_all (c_placement E) (readable_items db Kplacements))))"

definition route_of :: "env \<Rightarrow> database \<Rightarrow> string \<Rightarrow> source_index \<Rightarrow> placement \<Rightarrow> route_entry_record" where
  "route_of E db td index p =
     \<lparr>re_destination_svid = spiffe_sa td (pl_tenant_id p) (pl_service p),
      re_destination_role = pl_role p,
      re_target_agent_svid = pl_node_id p,
      re_dummy_ip =
        (case kv_get db Kdummy_ips (service_address_key (pl_tenant_id p) (pl_service p) (pl_role p)) of
           Inr (Some b) \<Rightarrow> (case dec (c_address E) b of Some sa \<Rightarrow> sa_address sa | None \<Rightarrow> 0)
         | _ \<Rightarrow> 0),
      re_source_spiffe_ids =
        (case map_of index (pl_tenant_id p, pl_service p) of Some srcs \<Rightarrow> map fst srcs | None \<Rightarrow> [])\<rparr>"

definition build_routes_snapshot :: "env \<Rightarrow> database \<Rightarrow> string \<Rightarrow> bytes" where
  "build_routes_snapshot E db td =
     (let index = compute_source_index E db td in
      or_empty (enc (c_routes E)
        (map (route_of E db td index) (decode_all (c_placement E) (readable_items db Kplacements)))))"


section \<open>The framed buffer reads back\<close>

lemma decode_rules_Nil [simp]: "decode_rules E [] = Inr []"
  by (simp add: decode_rules.simps)

lemma decode_rules_frame:
  assumes "length rule < 2 ^ 32"
  shows "decode_rules E (frame_rule rule @ b) =
           bindE (ok_or Proto_error (dec (c_sag_rule E) rule)) (\<lambda>r.
             bindE (decode_rules E b) (\<lambda>rs. Inr (r # rs)))"
proof -
  let ?h = "le_bytes 4 (length rule)"
  have h: "length ?h = 4" by simp
  have "le_value ?h = length rule"
    using assms by (simp add: le_value_bytes)
  moreover have "frame_rule rule @ b = ?h @ rule @ b"
    using assms by (simp add: frame_rule_def)
  moreover have "?h \<noteq> []"
    using h by (metis list.size(3) zero_neq_numeral)
  ultimately show ?thesis
    by (subst decode_rules.simps) (simp add: Let_def)
qed

lemma decode_rules_concat:
  assumes "\<And>v. v \<in> set vs \<Longrightarrow> length v < 2 ^ 32"
    and "\<And>v. v \<in> set vs \<Longrightarrow> dec (c_sag_rule E) v = Some (f v)"
  shows "decode_rules E (concat (map frame_rule vs)) = Inr (map f vs)"
  using assms by (induction vs) (simp_all add: decode_rules_frame)

lemma decode_rules_undecodable:
  assumes "\<And>u. u \<in> set us \<Longrightarrow> length u < 2 ^ 32 \<and> dec (c_sag_rule E) u \<noteq> None"
    and "length v < 2 ^ 32" "dec (c_sag_rule E) v = None"
  shows "decode_rules E (concat (map frame_rule us) @ frame_rule v @ b) = Inl Proto_error"
  using assms by (induction us) (auto simp: decode_rules_frame ok_or_def bindE_def split: option.splits)

text \<open>Membership in the source index.\<close>

lemma index_insert_get:
  "map_of (index_insert k s m) k' =
     (if k' = k then Some (om_put s () (case map_of m k of Some srcs \<Rightarrow> srcs | None \<Rightarrow> []))
      else map_of m k')"
  by (induction m) (auto split: if_splits)

lemma om_put_unit_keys: "fst ` set (om_put s () m) = insert s (fst ` set m)"
  by (rule om_put_keys)

definition index_sources :: "source_index \<Rightarrow> string \<times> string \<Rightarrow> string set" where
  "index_sources m k = (case map_of m k of Some srcs \<Rightarrow> fst ` set srcs | None \<Rightarrow> {})"

lemma index_sources_insert:
  "index_sources (index_insert k s m) k' = index_sources m k' \<union> (if k' = k then {s} else {})"
  by (auto simp: index_sources_def index_insert_get om_put_unit_keys split: option.splits)

definition rule_edge :: "env \<Rightarrow> string \<Rightarrow> bytes \<Rightarrow> ((string \<times> string) \<times> string) option" where
  "rule_edge E td v =
     Option.bind (dec (c_sag_rule E) v) (\<lambda>rule.
       Option.bind (sag_from rule) (\<lambda>from. Option.bind (sag_to rule) (\<lambda>to.
         Some ((sf_tenant to, sf_service_name to), spiffe_sa td (sf_tenant from) (sf_service_name from)))))"

lemma add_source_sources:
  "index_sources (add_source E td m kv) k =
     index_sources m k \<union> {s. rule_edge E td (snd kv) = Some (k, s)}"
  by (auto simp: add_source_def rule_edge_def index_sources_insert Option.bind_eq_Some_conv
      split: option.splits)

lemma foldl_sources:
  "index_sources (foldl (add_source E td) m kvs) k =
     index_sources m k \<union> {s. \<exists>kv\<in>set kvs. rule_edge E td (snd kv) = Some (k, s)}"
  by (induction kvs arbitrary: m) (auto simp: add_source_sources)

lemma compute_source_index_sources:
  "index_sources (compute_source_index E db td) k =
     {s. \<exists>kv\<in>set (readable_items db Ksag_rules). rule_edge E td (snd kv) = Some (k, s)}"
  unfolding compute_source_index_def foldl_sources by (simp add: index_sources_def)

end
