(* ===== verification/StateMachine.thy ===== *)
theory StateMachine
  imports Snapshots
begin

text \<open>
  The replicated state machine (\<open>raft/state_machine.rs\<close>). One definition per arm of
  \<open>apply_command\<close>: it reads committed state and returns the write batch of the entry with the
  kind of change, or the storage error the arm leaves with. \<open>apply_entry\<close> is one turn of the
  loop in \<open>apply\<close>: the arm, the \<open>last_applied\<close> marker, the version and the audit record go
  into one batch, and only after the commit are watchers told.
\<close>


section \<open>Errors and serialisation helpers\<close>

datatype sm_error = Write_state_machine | Read_state_machine | Invalid_spiffe string

definition to_allocvec :: "'a codec \<Rightarrow> 'a \<Rightarrow> sm_error + bytes" where
  "to_allocvec c x = ok_or Write_state_machine (enc c x)"

definition from_bytes :: "'a codec \<Rightarrow> bytes \<Rightarrow> sm_error + 'a" where
  "from_bytes c b = ok_or Write_state_machine (dec c b)"

definition sm_get :: "database \<Rightarrow> ks \<Rightarrow> bytes \<Rightarrow> sm_error + bytes option" where
  "sm_get db k key = map_err (\<lambda>_. Read_state_machine) (kv_get db k key)"

definition sm_prefix :: "database \<Rightarrow> ks \<Rightarrow> bytes \<Rightarrow> sm_error + (bytes \<times> bytes) list" where
  "sm_prefix db k p = map_err (\<lambda>_. Read_state_machine) (kv_prefix db k p)"

definition parse_spiffe :: "env \<Rightarrow> string \<Rightarrow> sm_error + spiffe_id" where
  "parse_spiffe E s = ok_or (Invalid_spiffe s) (sp_parse E s)"

type_synonym outcome = "sm_error + batch \<times> change_kind"

text \<open>The commonest arm: serialise one record and insert it.\<close>

definition insert_record :: "'a codec \<Rightarrow> ks \<Rightarrow> bytes \<Rightarrow> 'a \<Rightarrow> change_kind \<Rightarrow> outcome" where
  "insert_record c k key x kind = bindE (to_allocvec c x) (\<lambda>v. Inr ([Put k key v], kind))"


section \<open>Tenants and workloads\<close>

definition apply_create_tenant :: "env \<Rightarrow> tenant_record \<Rightarrow> tenant_block \<Rightarrow> outcome" where
  "apply_create_tenant E r block =
     bindE (to_allocvec (c_tenant E) r) (\<lambda>value.
     bindE (to_allocvec (c_block E) block) (\<lambda>block_value.
       Inr ([Put Ktenants (tr_tenant_id r) value,
             Put Kdummy_ips (tenant_block_key (tr_tenant_id r)) block_value], SchedulingUpdate)))"

definition apply_delete_tenant :: "string \<Rightarrow> outcome" where
  "apply_delete_tenant tenant_id = Inr ([Del Ktenants tenant_id], SchedulingUpdate)"

definition apply_submit_workload :: "env \<Rightarrow> workload_spec_record \<Rightarrow> outcome" where
  "apply_submit_workload E r =
     insert_record (c_workload E) Kworkloads (workload_key (wr_tenant_id r) (wr_workload_id r)) r SchedulingUpdate"

definition freed_slot :: "string \<Rightarrow> string \<Rightarrow> string \<Rightarrow> nat \<Rightarrow> ordinal_assignment" where
  "freed_slot t s r n =
     \<lparr>oa_tenant_id = t, oa_service = s, oa_role = r, oa_ordinal = n, oa_pod_id = None, oa_node_id = None\<rparr>"

text \<open>Remove one placement of a workload and free its ordinal slot.\<close>

definition release_placement :: "env \<Rightarrow> string \<Rightarrow> string \<Rightarrow> placement \<Rightarrow> sm_error + batch" where
  "release_placement E t w p =
     bindE (to_allocvec (c_ordinal E) (freed_slot t w (pl_role p) (pl_ordinal p))) (\<lambda>v.
       Inr [Del Kplacements (pl_pod_id p), Put Kordinals (ordinal_key t w (pl_role p) (pl_ordinal p)) v])"

definition apply_delete_workload :: "env \<Rightarrow> database \<Rightarrow> string \<Rightarrow> string \<Rightarrow> outcome" where
  "apply_delete_workload E db t w =
     bindE (sm_prefix db Kplacements []) (\<lambda>kvs.
     let to_remove = filter (\<lambda>p. pl_tenant_id p = t \<and> pl_service p = w) (decode_all (c_placement E) kvs) in
     bindE (mapE (release_placement E t w) to_remove) (\<lambda>ops.
       Inr (Del Kworkloads (workload_key t w) # concat ops, SchedulingUpdate)))"

definition decoded_replicas :: "env \<Rightarrow> bytes \<Rightarrow> (string \<times> nat) list" where
  "decoded_replicas E spec_bytes =
     (case dec (c_spec E) spec_bytes of Some spec \<Rightarrow> ws_replicas spec | None \<Rightarrow> [])"

definition scaled_away :: "(string \<times> nat) list \<Rightarrow> placement \<Rightarrow> bool" where
  "scaled_away replicas p =
     (case om_get replicas (pl_role p) of Some count \<Rightarrow> pl_ordinal p \<ge> count | None \<Rightarrow> True)"

definition apply_scale_workload :: "env \<Rightarrow> database \<Rightarrow> workload_spec_record \<Rightarrow> outcome" where
  "apply_scale_workload E db r =
     bindE (to_allocvec (c_workload E) r) (\<lambda>value.
     let t = wr_tenant_id r; w = wr_workload_id r;
         replicas = decoded_replicas E (wr_spec_bytes r) in
     bindE (sm_prefix db Kplacements []) (\<lambda>kvs.
     let to_remove = filter (\<lambda>p. pl_tenant_id p = t \<and> pl_service p = w \<and> scaled_away replicas p)
                       (decode_all (c_placement E) kvs) in
     bindE (mapE (release_placement E t w) to_remove) (\<lambda>ops.
       Inr (Put Kworkloads (workload_key t w) value # concat ops, SchedulingUpdate))))"

definition apply_resize_workload :: "env \<Rightarrow> workload_spec_record \<Rightarrow> outcome" where
  "apply_resize_workload E r =
     insert_record (c_workload E) Kworkloads (workload_key (wr_tenant_id r) (wr_workload_id r)) r SchedulingUpdate"

definition apply_upsert_vpa :: "env \<Rightarrow> vpa_recommendation_record \<Rightarrow> outcome" where
  "apply_upsert_vpa E r =
     insert_record (c_vpa E) Kvpa_recommendations (workload_key (vp_tenant_id r) (vp_workload_id r)) r SchedulingUpdate"

definition apply_set_quota :: "env \<Rightarrow> tenant_quota_record \<Rightarrow> outcome" where
  "apply_set_quota E r = insert_record (c_quota E) Ktenant_quotas (tq_tenant_id r) r SchedulingUpdate"

definition apply_submit_cron :: "env \<Rightarrow> cron_workload_record \<Rightarrow> cron_checkpoint_record \<Rightarrow> outcome" where
  "apply_submit_cron E r cp =
     bindE (to_allocvec (c_cron E) r) (\<lambda>value.
     bindE (to_allocvec (c_checkpoint E) cp) (\<lambda>cp_value.
       Inr ([Put Kworkloads (cron_key (cw_tenant_id r) (cw_cron_workload_id r)) value,
             Put Kcron_checkpoints (workload_key (cp_tenant_id cp) (cp_cron_workload_id cp)) cp_value],
            SchedulingUpdate)))"

definition apply_trigger_cron :: "env \<Rightarrow> workload_spec_record \<Rightarrow> cron_checkpoint_record \<Rightarrow> outcome" where
  "apply_trigger_cron E r cp =
     bindE (to_allocvec (c_workload E) r) (\<lambda>value.
     bindE (to_allocvec (c_checkpoint E) cp) (\<lambda>cp_value.
       Inr ([Put Kworkloads (workload_key (wr_tenant_id r) (wr_workload_id r)) value,
             Put Kcron_checkpoints (workload_key (cp_tenant_id cp) (cp_cron_workload_id cp)) cp_value],
            SchedulingUpdate)))"

definition in_violation :: "workload_status_record \<Rightarrow> bool" where
  "in_violation r \<longleftrightarrow> st_started r \<and> (\<not> st_policy_enforced r \<or> \<not> st_router_connected r)"

definition gate_violation_since :: "workload_status_record option \<Rightarrow> workload_status_record \<Rightarrow> int" where
  "gate_violation_since prev r =
     (if in_violation r then
        (case prev of
           Some p \<Rightarrow> if st_gate_violation_since p > 0 then st_gate_violation_since p else st_observed_at r
         | None \<Rightarrow> st_observed_at r)
      else 0)"

definition apply_upsert_status :: "env \<Rightarrow> database \<Rightarrow> workload_status_record \<Rightarrow> outcome" where
  "apply_upsert_status E db r =
     bindE (sm_get db Kworkload_status (st_pod_id r)) (\<lambda>bytes.
     let prev = Option.bind bytes (dec (c_status E));
         r' = r\<lparr>st_gate_violation_since := gate_violation_since prev r\<rparr> in
     insert_record (c_status E) Kworkload_status (st_pod_id r) r' SchedulingUpdate)"


section \<open>Control nodes, identities and endorsement keys\<close>

definition apply_register_control_address :: "env \<Rightarrow> control_address_record \<Rightarrow> outcome" where
  "apply_register_control_address E r =
     insert_record (c_control_address E) Kcontrol_addresses (be_bytes 8 (ca_node_id r)) r ClusterMembership"

definition apply_upsert_svid :: "env \<Rightarrow> svid_record \<Rightarrow> outcome" where
  "apply_upsert_svid E r =
     insert_record (c_svid E) Ksvids (sv_spiffe_id r) r (SvidRotation (sv_spiffe_id r) (sv_version r))"

definition apply_register_ek :: "env \<Rightarrow> node_ek_record \<Rightarrow> outcome" where
  "apply_register_ek E r = insert_record (c_ek E) Knode_eks (ek_fingerprint r) r ClusterMembership"

text \<open>Read-modify-write of an endorsement-key record; absent means no operation.\<close>

definition update_ek :: "env \<Rightarrow> database \<Rightarrow> string \<Rightarrow> (node_ek_record \<Rightarrow> node_ek_record) \<Rightarrow> outcome" where
  "update_ek E db fp f =
     bindE (sm_get db Knode_eks fp) (\<lambda>bytes.
       case bytes of
         None \<Rightarrow> Inr ([], ClusterMembership)
       | Some b \<Rightarrow> bindE (from_bytes (c_ek E) b) (\<lambda>r. insert_record (c_ek E) Knode_eks fp (f r) ClusterMembership))"

definition apply_activate_ek :: "env \<Rightarrow> database \<Rightarrow> string \<Rightarrow> string \<Rightarrow> outcome" where
  "apply_activate_ek E db fp node_id = update_ek E db fp (\<lambda>r. r\<lparr>ek_state := EkJoined, ek_node_id := node_id\<rparr>)"

definition apply_revoke_ek :: "env \<Rightarrow> database \<Rightarrow> string \<Rightarrow> outcome" where
  "apply_revoke_ek E db fp = update_ek E db fp (\<lambda>r. r\<lparr>ek_state := EkRevoked\<rparr>)"


section \<open>Taints and manifests\<close>

definition apply_set_taints :: "env \<Rightarrow> string \<Rightarrow> node_taint list \<Rightarrow> outcome" where
  "apply_set_taints E node_id taints =
     (if taints = [] then Inr ([Del Knode_taints node_id], SchedulingUpdate)
      else insert_record (c_taints E) Knode_taints node_id taints SchedulingUpdate)"

definition apply_remove_taint :: "env \<Rightarrow> database \<Rightarrow> string \<Rightarrow> string \<Rightarrow> string \<Rightarrow> outcome" where
  "apply_remove_taint E db node_id key effect =
     bindE (sm_get db Knode_taints node_id) (\<lambda>bytes.
       case bytes of
         None \<Rightarrow> Inr ([], SchedulingUpdate)
       | Some b \<Rightarrow>
           bindE (from_bytes (c_taints E) b) (\<lambda>taints.
           let kept = filter (\<lambda>t. \<not> (ta_key t = key \<and> ta_effect t = effect)) taints in
           if length kept \<noteq> length taints then
             (if kept = [] then Inr ([Del Knode_taints node_id], SchedulingUpdate)
              else insert_record (c_taints E) Knode_taints node_id kept SchedulingUpdate)
           else Inr ([], SchedulingUpdate)))"

definition manifest_keyspace :: "string \<Rightarrow> ks option" where
  "manifest_keyspace name =
     (if name = ''workloads'' then Some Kworkloads
      else if name = ''tenants'' then Some Ktenants
      else if name = ''sag_rules'' then Some Ksag_rules
      else if name = ''secrets'' then Some Ksecrets
      else if name = ''node_pools'' then Some Knode_pools
      else if name = ''dummy_ips'' then Some Kdummy_ips
      else if name = ''ordinals'' then Some Kordinals
      else if name = ''placements'' then Some Kplacements
      else None)"

definition apply_manifests :: "manifest_update list \<Rightarrow> outcome" where
  "apply_manifests updates =
     Inr (List.map_filter (\<lambda>u. map_option (\<lambda>k. Put k (mu_target_key u) (mu_new_record u))
            (manifest_keyspace (mu_target_keyspace u))) updates, SchedulingUpdate)"


section \<open>Attestation\<close>

definition apply_mint_token :: "env \<Rightarrow> join_token_record \<Rightarrow> outcome" where
  "apply_mint_token E r = insert_record (c_token E) Kjoin_tokens (jt_token r) r SagUpdate"

definition apply_consume_token :: "bytes \<Rightarrow> outcome" where
  "apply_consume_token token = Inr ([Del Kjoin_tokens token], SagUpdate)"

definition apply_set_pcr :: "env \<Rightarrow> pcr_policy \<Rightarrow> outcome" where
  "apply_set_pcr E r = insert_record (c_pcr E) Kpcr_policies (pp_node_id r) r SagUpdate"


section \<open>Nodes\<close>

definition blank_node :: "string \<Rightarrow> node_status \<Rightarrow> bool \<Rightarrow> node_record" where
  "blank_node node_id status schedulable =
     \<lparr>nr_node_id = node_id, nr_node_kind = 0, nr_status = status, nr_schedulable = schedulable,
      nr_last_heartbeat = 0, nr_registered_at = 0, nr_capacity_cpu = 0, nr_capacity_memory = 0,
      nr_failure_domain = []\<rparr>"

definition apply_register_node :: "env \<Rightarrow> node_record \<Rightarrow> outcome" where
  "apply_register_node E r = insert_record (c_node E) Knodes (nr_node_id r) r SchedulingUpdate"

definition read_node :: "env \<Rightarrow> database \<Rightarrow> string \<Rightarrow> sm_error + node_record option" where
  "read_node E db node_id =
     bindE (sm_get db Knodes node_id) (\<lambda>bytes.
       case bytes of None \<Rightarrow> Inr None | Some b \<Rightarrow> bindE (from_bytes (c_node E) b) (\<lambda>r. Inr (Some r)))"

definition set_schedulable :: "bool \<Rightarrow> node_record \<Rightarrow> node_record" where
  "set_schedulable s r =
     r\<lparr>nr_schedulable := s,
       nr_status := (if s \<and> nr_status r = Cordoned then Active else nr_status r)\<rparr>"

definition apply_set_schedulable :: "env \<Rightarrow> database \<Rightarrow> string \<Rightarrow> bool \<Rightarrow> outcome" where
  "apply_set_schedulable E db node_id s =
     bindE (read_node E db node_id) (\<lambda>old.
     let r = (case old of
                Some r \<Rightarrow> set_schedulable s r
              | None \<Rightarrow> blank_node node_id (if s then Active else Cordoned) s) in
     insert_record (c_node E) Knodes node_id r SchedulingUpdate)"

definition apply_heartbeat :: "env \<Rightarrow> database \<Rightarrow> string \<Rightarrow> int \<Rightarrow> outcome" where
  "apply_heartbeat E db node_id hb =
     bindE (read_node E db node_id) (\<lambda>old.
       case old of
         None \<Rightarrow> Inr ([], ClusterMembership)
       | Some r \<Rightarrow> insert_record (c_node E) Knodes node_id (r\<lparr>nr_last_heartbeat := hb\<rparr>) ClusterMembership)"

definition evicted_node :: "string \<Rightarrow> node_record option \<Rightarrow> node_record" where
  "evicted_node node_id old =
     (case old of
        Some r \<Rightarrow> r\<lparr>nr_status := Evicted, nr_schedulable := False\<rparr>
      | None \<Rightarrow> blank_node node_id Evicted False)"

text \<open>Move one active delegation to the revoked set; an undecodable one is left alone.\<close>

definition revoke_ops :: "env \<Rightarrow> bytes \<times> bytes \<Rightarrow> batch" where
  "revoke_ops E kv =
     (case dec (c_delegation E) (snd kv) of
        None \<Rightarrow> []
      | Some d \<Rightarrow>
          (let key = composite_delegation_key (dl_node_id d) (dl_delegation_id d) in
           [Del Kactive_delegations key, Put Krevoked_delegations key (snd kv)]))"

definition apply_evict_node :: "env \<Rightarrow> database \<Rightarrow> string \<Rightarrow> int \<Rightarrow> outcome" where
  "apply_evict_node E db node_id svid_expires =
     bindE (parse_spiffe E node_id) (\<lambda>node_spiffe.
     bindE (read_node E db node_id) (\<lambda>old.
     bindE (to_allocvec (c_node E) (evicted_node node_id old)) (\<lambda>value.
     bindE (sm_prefix db Kactive_delegations (node_delegation_prefix node_spiffe)) (\<lambda>dels.
     bindE (sm_prefix db Kplacements []) (\<lambda>kvs.
     let hosted = filter (\<lambda>p. pl_node_id p = node_spiffe) (decode_all (c_placement E) kvs) in
     bindE (to_allocvec (c_revoked E) \<lparr>rv_spiffe_id = node_id, rv_expires_at = svid_expires\<rparr>) (\<lambda>revoked.
       Inr (Put Knodes node_id value # concat (map (revoke_ops E) dels) @
            map (\<lambda>p. Del Kplacements (pl_pod_id p)) hosted @
            [Put Krevoked_svids node_id revoked], Eviction)))))))"

definition apply_prune_revoked :: "env \<Rightarrow> database \<Rightarrow> int \<Rightarrow> outcome" where
  "apply_prune_revoked E db cutoff =
     (let expired = filter (\<lambda>r. rv_expires_at r < cutoff)
                      (decode_all (c_revoked E) (readable_items db Krevoked_svids)) in
      Inr (map (\<lambda>r. Del Krevoked_svids (rv_spiffe_id r)) expired, SagUpdate))"


section \<open>Delegations, policy, addresses\<close>

definition apply_issue_delegation :: "env \<Rightarrow> delegation_record \<Rightarrow> outcome" where
  "apply_issue_delegation E r =
     insert_record (c_delegation E) Kactive_delegations
       (composite_delegation_key (dl_node_id r) (dl_delegation_id r)) r SchedulingUpdate"

definition apply_revoke_delegation :: "env \<Rightarrow> database \<Rightarrow> string \<Rightarrow> string \<Rightarrow> outcome" where
  "apply_revoke_delegation E db node_id delegation_id =
     bindE (parse_spiffe E node_id) (\<lambda>node_spiffe.
     let key = composite_delegation_key node_spiffe delegation_id in
     bindE (sm_get db Kactive_delegations key) (\<lambda>bytes.
       case bytes of
         None \<Rightarrow> Inr ([], RevokedDelegations)
       | Some b \<Rightarrow> Inr ([Del Kactive_delegations key, Put Krevoked_delegations key b], RevokedDelegations)))"

definition apply_upsert_sag :: "sag_rule_record \<Rightarrow> outcome" where
  "apply_upsert_sag r = Inr ([Put Ksag_rules (sr_rule_id r) (sr_rule_bytes r)], SagUpdate)"

definition apply_delete_sag :: "string \<Rightarrow> outcome" where
  "apply_delete_sag rule_id = Inr ([Del Ksag_rules rule_id], SagUpdate)"

definition apply_allocate_block :: "env \<Rightarrow> tenant_block \<Rightarrow> outcome" where
  "apply_allocate_block E r =
     insert_record (c_block E) Kdummy_ips (tenant_block_key (tb_tenant_id r)) r DummyIpUpdate"

definition apply_allocate_address :: "env \<Rightarrow> tenant_block \<Rightarrow> service_address \<Rightarrow> outcome" where
  "apply_allocate_address E block addr =
     bindE (to_allocvec (c_block E) block) (\<lambda>block_value.
     bindE (to_allocvec (c_address E) addr) (\<lambda>addr_value.
       Inr ([Put Kdummy_ips (tenant_block_key (tb_tenant_id block)) block_value,
             Put Kdummy_ips (service_address_key (sa_tenant_id addr) (sa_service addr) (sa_role addr)) addr_value],
            DummyIpUpdate)))"


section \<open>Secrets\<close>

text \<open>\<open>secrets/acl.rs\<close>: granting and revoking in the authorisation matrix.\<close>

definition acl_grant :: "secret_acl \<Rightarrow> string \<Rightarrow> spiffe_id \<Rightarrow> secret_acl" where
  "acl_grant acl key who =
     om_put key (om_put who () (case om_get acl key of Some s \<Rightarrow> s | None \<Rightarrow> [])) acl"

definition acl_revoke :: "secret_acl \<Rightarrow> string \<Rightarrow> spiffe_id \<Rightarrow> secret_acl" where
  "acl_revoke acl key who =
     (case om_get acl key of
        None \<Rightarrow> acl
      | Some s \<Rightarrow> (let s' = om_del who s in if s' = [] then om_del key acl else om_put key s' acl))"

definition apply_store_secret :: "secret_record \<Rightarrow> string \<Rightarrow> outcome" where
  "apply_store_secret r target =
     Inr ([Put Ksecrets (secret_key (se_key r)) (se_envelope r),
           Put Ksecrets (acl_key (se_key r)) (se_acl r)], SecretRotation target)"

definition update_acl ::
  "env \<Rightarrow> database \<Rightarrow> string \<Rightarrow> string \<Rightarrow> (secret_acl \<Rightarrow> spiffe_id \<Rightarrow> secret_acl) \<Rightarrow> outcome" where
  "update_acl E db key who f =
     bindE (sm_get db Ksecrets (acl_key key)) (\<lambda>bytes.
     bindE (case bytes of Some b \<Rightarrow> from_bytes (c_acl E) b | None \<Rightarrow> Inr []) (\<lambda>acl.
     bindE (parse_spiffe E who) (\<lambda>spiffe.
       insert_record (c_acl E) Ksecrets (acl_key key) (f acl spiffe) (SecretRotation who))))"

definition apply_grant_secret :: "env \<Rightarrow> database \<Rightarrow> string \<Rightarrow> string \<Rightarrow> outcome" where
  "apply_grant_secret E db key who = update_acl E db key who (\<lambda>acl s. acl_grant acl key s)"

definition apply_revoke_secret :: "env \<Rightarrow> database \<Rightarrow> string \<Rightarrow> string \<Rightarrow> outcome" where
  "apply_revoke_secret E db key who = update_acl E db key who (\<lambda>acl s. acl_revoke acl key s)"


section \<open>Placements\<close>

definition apply_record_ordinal :: "env \<Rightarrow> ordinal_assignment \<Rightarrow> outcome" where
  "apply_record_ordinal E r =
     insert_record (c_ordinal E) Kordinals
       (ordinal_key (oa_tenant_id r) (oa_service r) (oa_role r) (oa_ordinal r)) r SchedulingUpdate"

definition apply_commit_placement :: "env \<Rightarrow> placement \<Rightarrow> outcome" where
  "apply_commit_placement E r = insert_record (c_placement E) Kplacements (pl_pod_id r) r SchedulingUpdate"

definition apply_remove_placement :: "string \<Rightarrow> outcome" where
  "apply_remove_placement pod_id = Inr ([Del Kplacements pod_id], SchedulingUpdate)"

definition in_slot :: "string \<Rightarrow> string \<Rightarrow> string \<Rightarrow> nat \<Rightarrow> placement \<Rightarrow> bool" where
  "in_slot t s r n p \<longleftrightarrow> pl_tenant_id p = t \<and> pl_service p = s \<and> pl_role p = r \<and> pl_ordinal p = n"

definition apply_reassign_pod :: "env \<Rightarrow> database \<Rightarrow> string \<Rightarrow> string \<Rightarrow> string \<Rightarrow> nat \<Rightarrow> string \<Rightarrow> outcome" where
  "apply_reassign_pod E db t s r n new_pod_id =
     bindE (sm_prefix db Kplacements []) (\<lambda>kvs.
       case find (in_slot t s r n) (decode_all (c_placement E) kvs) of
         None \<Rightarrow> Inr ([], SchedulingUpdate)
       | Some p \<Rightarrow>
           bindE (to_allocvec (c_placement E) (p\<lparr>pl_pod_id := new_pod_id\<rparr>)) (\<lambda>serialized.
           bindE (to_allocvec (c_ordinal E)
                    \<lparr>oa_tenant_id = t, oa_service = s, oa_role = r, oa_ordinal = n,
                     oa_pod_id = Some new_pod_id, oa_node_id = Some (pl_node_id p)\<rparr>) (\<lambda>assignment.
             Inr ([Del Kplacements (pl_pod_id p), Put Kplacements new_pod_id serialized,
                   Put Kordinals (ordinal_key t s r n) assignment], SchedulingUpdate))))"


section \<open>Pools and operators\<close>

definition apply_store_pool :: "env \<Rightarrow> node_pool_record \<Rightarrow> outcome" where
  "apply_store_pool E r = insert_record (c_pool E) Knode_pools (np_pool_id r) r SchedulingUpdate"

definition apply_delete_pool :: "string \<Rightarrow> outcome" where
  "apply_delete_pool pool_id = Inr ([Del Knode_pools pool_id], SchedulingUpdate)"

definition apply_grant_operator :: "env \<Rightarrow> operator_grant_record \<Rightarrow> outcome" where
  "apply_grant_operator E r = insert_record (c_grant E) Koperator_grants (og_grant_id r) r SagUpdate"

definition apply_revoke_operator :: "string \<Rightarrow> outcome" where
  "apply_revoke_operator grant_id = Inr ([Del Koperator_grants grant_id], SagUpdate)"


section \<open>Dispatch\<close>

definition apply_command :: "env \<Rightarrow> database \<Rightarrow> fleetos_command \<Rightarrow> outcome" where
  "apply_command E db c =
     (case c of
        CreateTenant r b \<Rightarrow> apply_create_tenant E r b
      | DeleteTenant t \<Rightarrow> apply_delete_tenant t
      | SubmitWorkloadSpec r \<Rightarrow> apply_submit_workload E r
      | DeleteWorkload t w \<Rightarrow> apply_delete_workload E db t w
      | ScaleWorkload r \<Rightarrow> apply_scale_workload E db r
      | ResizeWorkload r \<Rightarrow> apply_resize_workload E r
      | UpsertVpaRecommendation r \<Rightarrow> apply_upsert_vpa E r
      | SetTenantQuota r \<Rightarrow> apply_set_quota E r
      | SubmitCronWorkload r cp \<Rightarrow> apply_submit_cron E r cp
      | TriggerCronWorkload r cp \<Rightarrow> apply_trigger_cron E r cp
      | UpsertWorkloadStatus r \<Rightarrow> apply_upsert_status E db r
      | MintJoinToken r \<Rightarrow> apply_mint_token E r
      | ConsumeJoinToken t \<Rightarrow> apply_consume_token t
      | SetPcrPolicy r \<Rightarrow> apply_set_pcr E r
      | RegisterNode r \<Rightarrow> apply_register_node E r
      | EvictNode n e \<Rightarrow> apply_evict_node E db n e
      | PruneExpiredRevokedSvids cutoff \<Rightarrow> apply_prune_revoked E db cutoff
      | SetNodeSchedulable n s \<Rightarrow> apply_set_schedulable E db n s
      | NodeHeartbeat n hb \<Rightarrow> apply_heartbeat E db n hb
      | IssueDelegation r \<Rightarrow> apply_issue_delegation E r
      | RevokeDelegation n d \<Rightarrow> apply_revoke_delegation E db n d
      | UpsertSagRule r \<Rightarrow> apply_upsert_sag r
      | DeleteSagRule i \<Rightarrow> apply_delete_sag i
      | AllocateTenantBlock r \<Rightarrow> apply_allocate_block E r
      | AllocateServiceAddress b a \<Rightarrow> apply_allocate_address E b a
      | StoreSecret r t \<Rightarrow> apply_store_secret r t
      | GrantSecretAccess _ k s \<Rightarrow> apply_grant_secret E db k s
      | RevokeSecretAccess _ k s \<Rightarrow> apply_revoke_secret E db k s
      | RecordOrdinalAssignment r \<Rightarrow> apply_record_ordinal E r
      | CommitPlacement r \<Rightarrow> apply_commit_placement E r
      | RemovePlacement p \<Rightarrow> apply_remove_placement p
      | ReassignPodId t s r n p \<Rightarrow> apply_reassign_pod E db t s r n p
      | StoreNodePool r \<Rightarrow> apply_store_pool E r
      | DeleteNodePool i \<Rightarrow> apply_delete_pool i
      | RegisterControlAddress r \<Rightarrow> apply_register_control_address E r
      | UpsertSvidVersion r \<Rightarrow> apply_upsert_svid E r
      | GrantOperatorAccess r \<Rightarrow> apply_grant_operator E r
      | RevokeOperatorAccess i \<Rightarrow> apply_revoke_operator i
      | RegisterNodeEk r \<Rightarrow> apply_register_ek E r
      | ActivateNodeEk fp n \<Rightarrow> apply_activate_ek E db fp n
      | RevokeNodeEk fp \<Rightarrow> apply_revoke_ek E db fp
      | SetNodeTaints n ts \<Rightarrow> apply_set_taints E n ts
      | RemoveNodeTaint n k e \<Rightarrow> apply_remove_taint E db n k e
      | ApplyManifests us \<Rightarrow> apply_manifests us)"

fun command_action :: "fleetos_command \<Rightarrow> string" where
  "command_action (CreateTenant _ _) = ''CreateTenant''"
| "command_action (DeleteTenant _) = ''DeleteTenant''"
| "command_action (SubmitWorkloadSpec _) = ''SubmitWorkloadSpec''"
| "command_action (SubmitCronWorkload _ _) = ''SubmitCronWorkload''"
| "command_action (MintJoinToken _) = ''MintJoinToken''"
| "command_action (ConsumeJoinToken _) = ''ConsumeJoinToken''"
| "command_action (SetPcrPolicy _) = ''SetPcrPolicy''"
| "command_action (RegisterNode _) = ''RegisterNode''"
| "command_action (EvictNode _ _) = ''EvictNode''"
| "command_action (PruneExpiredRevokedSvids _) = ''PruneExpiredRevokedSvids''"
| "command_action (SetNodeSchedulable _ _) = ''SetNodeSchedulable''"
| "command_action (NodeHeartbeat _ _) = ''NodeHeartbeat''"
| "command_action (IssueDelegation _) = ''IssueDelegation''"
| "command_action (RevokeDelegation _ _) = ''RevokeDelegation''"
| "command_action (UpsertSagRule _) = ''UpsertSagRule''"
| "command_action (DeleteSagRule _) = ''DeleteSagRule''"
| "command_action (AllocateTenantBlock _) = ''AllocateTenantBlock''"
| "command_action (AllocateServiceAddress _ _) = ''AllocateServiceAddress''"
| "command_action (StoreSecret _ _) = ''StoreSecret''"
| "command_action (GrantSecretAccess _ _ _) = ''GrantSecretAccess''"
| "command_action (RevokeSecretAccess _ _ _) = ''RevokeSecretAccess''"
| "command_action (RecordOrdinalAssignment _) = ''RecordOrdinalAssignment''"
| "command_action (CommitPlacement _) = ''CommitPlacement''"
| "command_action (RemovePlacement _) = ''RemovePlacement''"
| "command_action (ReassignPodId _ _ _ _ _) = ''ReassignPodId''"
| "command_action (StoreNodePool _) = ''StoreNodePool''"
| "command_action (DeleteNodePool _) = ''DeleteNodePool''"
| "command_action (TriggerCronWorkload _ _) = ''TriggerCronWorkload''"
| "command_action (UpsertWorkloadStatus _) = ''UpsertWorkloadStatus''"
| "command_action (GrantOperatorAccess _) = ''GrantOperatorAccess''"
| "command_action (RevokeOperatorAccess _) = ''RevokeOperatorAccess''"
| "command_action (DeleteWorkload _ _) = ''DeleteWorkload''"
| "command_action (ScaleWorkload _) = ''ScaleWorkload''"
| "command_action (ResizeWorkload _) = ''ResizeWorkload''"
| "command_action (UpsertVpaRecommendation _) = ''UpsertVpaRecommendation''"
| "command_action (SetTenantQuota _) = ''SetTenantQuota''"
| "command_action (RegisterControlAddress _) = ''RegisterControlAddress''"
| "command_action (UpsertSvidVersion _) = ''UpsertSvidVersion''"
| "command_action (RegisterNodeEk _) = ''RegisterNodeEk''"
| "command_action (ActivateNodeEk _ _) = ''ActivateNodeEk''"
| "command_action (SetNodeTaints _ _) = ''SetNodeTaints''"
| "command_action (RemoveNodeTaint _ _ _) = ''RemoveNodeTaint''"
| "command_action (ApplyManifests _) = ''ApplyManifests''"
| "command_action (RevokeNodeEk _) = ''RevokeNodeEk''"


section \<open>Publication\<close>

datatype hub_event =
    Hub_sag nat sag_snapshot
  | Hub_schedule nat bytes
  | Hub_route nat bytes
  | Hub_secret_rotation string nat
  | Hub_svid_rotation string nat

definition publish_sag_update :: "env \<Rightarrow> database \<Rightarrow> nat \<Rightarrow> hub_event" where
  "publish_sag_update E db version = Hub_sag version (build_sag_snapshot E db)"

definition publish_schedule_update :: "env \<Rightarrow> string \<Rightarrow> database \<Rightarrow> nat \<Rightarrow> hub_event" where
  "publish_schedule_update E td db version = Hub_schedule version (build_schedule_snapshot E db td)"

definition publish_route_update :: "env \<Rightarrow> string \<Rightarrow> database \<Rightarrow> nat \<Rightarrow> hub_event" where
  "publish_route_update E td db version = Hub_route version (build_routes_snapshot E db td)"

fun publish_event :: "env \<Rightarrow> string \<Rightarrow> database \<Rightarrow> nat \<Rightarrow> change_kind \<Rightarrow> hub_event list" where
  "publish_event E td db v Eviction =
     [publish_sag_update E db v, publish_schedule_update E td db v, publish_route_update E td db v]"
| "publish_event E td db v SagUpdate = [publish_sag_update E db v, publish_route_update E td db v]"
| "publish_event E td db v RevokedDelegations = [publish_sag_update E db v, publish_route_update E td db v]"
| "publish_event E td db v (SecretRotation target) = [Hub_secret_rotation target v]"
| "publish_event E td db v (SvidRotation s n) = [Hub_svid_rotation s n]"
| "publish_event E td db v SchedulingUpdate =
     [publish_schedule_update E td db v, publish_route_update E td db v]"
| "publish_event E td db v TrustBundleRotation = []"
| "publish_event E td db v ClusterMembership = []"
| "publish_event E td db v DummyIpUpdate = []"


section \<open>Applying log entries\<close>

text \<open>
  The state of one replica: the database, the in-memory version counter, and what has been sent
  to the broadcast hub and to version subscribers so far.
\<close>

record replica =
  rp_db :: database
  rp_version :: nat
  rp_hub :: "hub_event list"
  rp_notified :: "version_update list"

definition system_context :: audit_context where
  "system_context = \<lparr>ac_request_id = [], ac_actor = ''system'', ac_target = [], ac_timestamp = 0\<rparr>"

definition audit_of :: "nat \<Rightarrow> audited_command \<Rightarrow> audit_record" where
  "audit_of version a =
     (let ctx = (case audit a of Some c \<Rightarrow> c | None \<Rightarrow> system_context) in
      \<lparr>au_version = version, au_request_id = ac_request_id ctx, au_actor = ac_actor ctx,
       au_action = command_action (cmd a), au_target = ac_target ctx,
       au_timestamp = ac_timestamp ctx\<rparr>)"

definition apply_payload :: "env \<Rightarrow> database \<Rightarrow> log_id \<Rightarrow> entry_payload \<Rightarrow> outcome" where
  "apply_payload E db lid payload =
     (case payload of
        Blank \<Rightarrow> Inr ([], SagUpdate)
      | Normal a \<Rightarrow> apply_command E db (cmd a)
      | Membership m \<Rightarrow>
          insert_record (c_membership E) Kraft_state ''last_membership''
            \<lparr>smb_log_id = Some lid, smb_membership = m\<rparr> ClusterMembership)"

definition audit_ops :: "env \<Rightarrow> nat \<Rightarrow> entry_payload \<Rightarrow> sm_error + batch" where
  "audit_ops E version payload =
     (case payload of
        Normal a \<Rightarrow>
          bindE (to_allocvec (c_audit E) (audit_of version a)) (\<lambda>b. Inr [Put Kaudit_log (be_bytes 8 version) b])
      | _ \<Rightarrow> Inr [])"

text \<open>
  One turn of the loop, with the replica it leaves behind on every path. An arm that fails leaves
  the replica as it was; a failure after the version was allocated leaves the in-memory counter
  advanced and the database unchanged.
\<close>

definition apply_entry ::
  "env \<Rightarrow> string \<Rightarrow> replica \<Rightarrow> log_entry \<Rightarrow> replica \<times> (sm_error + fleetos_response)" where
  "apply_entry E td s e =
     (case apply_payload E (rp_db s) (en_log_id e) (en_payload e) of
        Inl err \<Rightarrow> (s, Inl err)
      | Inr (ops, kind) \<Rightarrow>
     (case to_allocvec (c_log_id E) (en_log_id e) of
        Inl err \<Rightarrow> (s, Inl err)
      | Inr lid \<Rightarrow>
     (let version = allocate_version (rp_version s); s1 = s\<lparr>rp_version := version\<rparr> in
      case audit_ops E version (en_payload e) of
        Inl err \<Rightarrow> (s1, Inl err)
      | Inr aud \<Rightarrow>
     (case kv_commit (rp_db s)
             (ops @ [Put Kraft_state ''last_applied'' lid] @ persist_version version @ aud) of
        Inl _ \<Rightarrow> (s1, Inl Write_state_machine)
      | Inr db' \<Rightarrow>
          (s1\<lparr>rp_db := db',
              rp_hub := rp_hub s @ publish_event E td db' version kind,
              rp_notified := rp_notified s @ [\<lparr>vu_version = version, vu_change_kind = kind\<rparr>]\<rparr>,
           Inr \<lparr>resp_version = version\<rparr>)))))"

fun apply_entries ::
  "env \<Rightarrow> string \<Rightarrow> replica \<Rightarrow> log_entry list \<Rightarrow> replica \<times> (sm_error + fleetos_response list)" where
  "apply_entries E td s [] = (s, Inr [])"
| "apply_entries E td s (e # es) =
     (case apply_entry E td s e of
        (s', Inl err) \<Rightarrow> (s', Inl err)
      | (s', Inr r) \<Rightarrow> map_prod id (\<lambda>res. bindE res (\<lambda>rs. Inr (r # rs))) (apply_entries E td s' es))"

definition applied_state :: "env \<Rightarrow> database \<Rightarrow> sm_error + log_id option \<times> stored_membership" where
  "applied_state E db =
     bindE (sm_get db Kraft_state ''last_applied'') (\<lambda>a.
     bindE (case a of Some b \<Rightarrow> bindE (from_bytes (c_log_id E) b) (\<lambda>l. Inr (Some l)) | None \<Rightarrow> Inr None) (\<lambda>last_applied.
     bindE (sm_get db Kraft_state ''last_membership'') (\<lambda>m.
     bindE (case m of Some b \<Rightarrow> from_bytes (c_membership E) b | None \<Rightarrow> Inr default_membership) (\<lambda>mem.
       Inr (last_applied, mem)))))"

definition start_replica :: "database \<Rightarrow> replica" where
  "start_replica db = \<lparr>rp_db = db, rp_version = initial_version db, rp_hub = [], rp_notified = []\<rparr>"

end
