(* ===== verification/StateFacts.thy ===== *)
theory StateFacts
  imports StateMachine
begin

text \<open>
  Facts about single commands that the theorems on replicas and components share: inversion of a
  successful arm, the keyspaces a command may write, the storage discipline every command keeps
  (a record lives under the key made from its own fields), and when a command can fail.
\<close>

named_theorems sm_Inr \<open>inversion of a successful step of an arm\<close>
named_theorems arm_defs \<open>the arms of the dispatch\<close>

lemma to_allocvec_Inr [sm_Inr]: "to_allocvec c x = Inr b \<longleftrightarrow> enc c x = Some b"
  by (simp add: to_allocvec_def)

lemma from_bytes_Inr [sm_Inr]: "from_bytes c b = Inr x \<longleftrightarrow> dec c b = Some x"
  by (simp add: from_bytes_def)

lemma sm_get_Inr [sm_Inr]:
  "sm_get db k key = Inr v \<longleftrightarrow> \<not> db_read_fault db k \<and> v = lookup db k key"
  by (simp add: sm_get_def kv_get_Inr)

lemma sm_prefix_Inr [sm_Inr]:
  "sm_prefix db k p = Inr kvs \<longleftrightarrow>
     \<not> db_read_fault db k \<and> kvs = filter (\<lambda>(key, _). prefix p key) (db_data db k)"
  by (simp add: sm_prefix_def kv_prefix_Inr)

lemma parse_spiffe_Inr [sm_Inr]: "parse_spiffe E s = Inr i \<longleftrightarrow> sp_parse E s = Some i"
  by (simp add: parse_spiffe_def)

lemma insert_record_Inr [sm_Inr]:
  "insert_record c k key x kind = Inr out \<longleftrightarrow> (\<exists>v. enc c x = Some v \<and> out = ([Put k key v], kind))"
  by (auto simp: insert_record_def result_simps sm_Inr)

lemma release_placement_Inr [sm_Inr]:
  "release_placement E t w p = Inr ops \<longleftrightarrow>
     (\<exists>v. enc (c_ordinal E) (freed_slot t w (pl_role p) (pl_ordinal p)) = Some v \<and>
        ops = [Del Kplacements (pl_pod_id p), Put Kordinals (ordinal_key t w (pl_role p) (pl_ordinal p)) v])"
  by (auto simp: release_placement_def result_simps sm_Inr)

lemma read_node_Inr [sm_Inr]:
  "read_node E db n = Inr r \<longleftrightarrow>
     \<not> db_read_fault db Knodes \<and>
     (case lookup db Knodes n of None \<Rightarrow> r = None | Some b \<Rightarrow> \<exists>x. dec (c_node E) b = Some x \<and> r = Some x)"
  by (auto simp: read_node_def result_simps sm_Inr split: option.splits)

lemma update_ek_Inr [sm_Inr]:
  "update_ek E db fp f = Inr out \<longleftrightarrow>
     \<not> db_read_fault db Knode_eks \<and>
     (case lookup db Knode_eks fp of
        None \<Rightarrow> out = ([], ClusterMembership)
      | Some b \<Rightarrow> \<exists>r v. dec (c_ek E) b = Some r \<and> enc (c_ek E) (f r) = Some v \<and>
          out = ([Put Knode_eks fp v], ClusterMembership))"
  by (auto simp: update_ek_def result_simps sm_Inr split: option.splits)

lemma update_acl_Inr [sm_Inr]:
  "update_acl E db key who f = Inr out \<longleftrightarrow>
     \<not> db_read_fault db Ksecrets \<and>
     (\<exists>acl i v. (case lookup db Ksecrets (acl_key key) of
                  None \<Rightarrow> acl = [] | Some b \<Rightarrow> dec (c_acl E) b = Some acl) \<and>
        sp_parse E who = Some i \<and> enc (c_acl E) (f acl i) = Some v \<and>
        out = ([Put Ksecrets (acl_key key) v], SecretRotation who))"
  by (auto simp: update_acl_def result_simps sm_Inr split: option.splits)

lemmas arm_definitions [arm_defs] =
  apply_create_tenant_def apply_delete_tenant_def apply_submit_workload_def
  apply_delete_workload_def apply_scale_workload_def apply_resize_workload_def
  apply_upsert_vpa_def apply_set_quota_def apply_submit_cron_def apply_trigger_cron_def
  apply_upsert_status_def apply_register_control_address_def apply_upsert_svid_def
  apply_register_ek_def apply_activate_ek_def apply_revoke_ek_def apply_set_taints_def
  apply_remove_taint_def apply_manifests_def apply_mint_token_def apply_consume_token_def
  apply_set_pcr_def apply_register_node_def apply_set_schedulable_def apply_heartbeat_def
  apply_evict_node_def apply_prune_revoked_def apply_issue_delegation_def
  apply_revoke_delegation_def apply_upsert_sag_def apply_delete_sag_def apply_allocate_block_def
  apply_allocate_address_def apply_store_secret_def apply_grant_secret_def
  apply_revoke_secret_def apply_record_ordinal_def apply_commit_placement_def
  apply_remove_placement_def apply_reassign_pod_def apply_store_pool_def apply_delete_pool_def
  apply_grant_operator_def apply_revoke_operator_def


section \<open>What a command may write\<close>

text \<open>The keyspaces of the consensus layer, the audit log and node-local state.\<close>

definition system_keyspaces :: "ks set" where
  "system_keyspaces =
     {Kversion, Kraft_log, Kraft_log_meta, Kraft_state, Kraft_snapshot, Kaudit_log, Knonces,
      Knonce_claims, Ksvid_grants, Kpending_activations, Ktrust_bundles, Krouter_assignments}"

lemma in_map_filter: "y \<in> set (List.map_filter f xs) \<longleftrightarrow> (\<exists>x\<in>set xs. f x = Some y)"
  by (induction xs) (auto simp: List.map_filter_simps split: option.splits)

lemma user_keyspaces [simp]:
  "Knodes \<notin> system_keyspaces" "Ksvids \<notin> system_keyspaces" "Ksag_rules \<notin> system_keyspaces"
  "Kjoin_tokens \<notin> system_keyspaces" "Krevoked_delegations \<notin> system_keyspaces"
  "Kactive_delegations \<notin> system_keyspaces" "Kordinals \<notin> system_keyspaces"
  "Kplacements \<notin> system_keyspaces" "Ktenants \<notin> system_keyspaces"
  "Kworkloads \<notin> system_keyspaces" "Ksecrets \<notin> system_keyspaces"
  "Kdummy_ips \<notin> system_keyspaces" "Kpcr_policies \<notin> system_keyspaces"
  "Knode_pools \<notin> system_keyspaces" "Knode_taints \<notin> system_keyspaces"
  "Krevoked_svids \<notin> system_keyspaces" "Kcron_checkpoints \<notin> system_keyspaces"
  "Koperator_grants \<notin> system_keyspaces" "Kworkload_status \<notin> system_keyspaces"
  "Ktenant_quotas \<notin> system_keyspaces" "Kcontrol_addresses \<notin> system_keyspaces"
  "Knode_eks \<notin> system_keyspaces" "Kvpa_recommendations \<notin> system_keyspaces"
  by (simp_all add: system_keyspaces_def)

lemma manifest_keyspace_user: "manifest_keyspace n = Some k \<Longrightarrow> k \<notin> system_keyspaces"
  by (auto simp: manifest_keyspace_def split: if_splits)

lemma revoke_ops_targets:
  "x \<in> set (revoke_ops E kv) \<Longrightarrow> fst (op_target x) \<notin> system_keyspaces"
  by (auto simp: revoke_ops_def Let_def split: option.splits)

lemma released_ops_targets:
  assumes "mapE (release_placement E t w) ps = Inr ops" "xs \<in> set ops" "x \<in> set xs"
  shows "fst (op_target x) \<notin> system_keyspaces"
  using assms(2,3) by (auto simp: mapE_mem[OF assms(1)] sm_Inr)

lemma apply_command_targets:
  assumes "apply_command E db c = Inr (b, kind)" "x \<in> set b"
  shows "fst (op_target x) \<notin> system_keyspaces"
proof (cases c)
  case (DeleteWorkload t w)
  with assms show ?thesis
    by (auto simp: apply_command_def arm_defs result_simps Let_def dest: released_ops_targets)
next
  case (ScaleWorkload r)
  with assms show ?thesis
    by (auto simp: apply_command_def arm_defs result_simps Let_def dest: released_ops_targets)
next
  case (EvictNode n e)
  with assms show ?thesis
    by (auto simp: apply_command_def arm_defs result_simps Let_def dest: revoke_ops_targets)
next
  case (ApplyManifests us)
  with assms show ?thesis
    using manifest_keyspace_user by (fastforce simp: apply_command_def arm_defs in_map_filter)
qed (use assms in \<open>auto simp: apply_command_def arm_defs result_simps sm_Inr Let_def
  split: option.splits if_splits\<close>)


section \<open>The storage discipline\<close>

text \<open>
  \<open>keyed\<close>: a record that decodes sits under the key made from its own fields. The scans of the
  state machine delete by a key recomputed from the record, so this is what makes them complete.
\<close>

definition keyed :: "'a codec \<Rightarrow> ('a \<Rightarrow> bytes) \<Rightarrow> ks \<Rightarrow> database \<Rightarrow> bool" where
  "keyed c f k db \<longleftrightarrow> (\<forall>key v r. lookup db k key = Some v \<longrightarrow> dec c v = Some r \<longrightarrow> f r = key)"

abbreviation delegation_key :: "delegation_record \<Rightarrow> bytes" where
  "delegation_key d \<equiv> composite_delegation_key (dl_node_id d) (dl_delegation_id d)"

abbreviation slot_key :: "ordinal_assignment \<Rightarrow> bytes" where
  "slot_key a \<equiv> ordinal_key (oa_tenant_id a) (oa_service a) (oa_role a) (oa_ordinal a)"

definition storage_inv :: "env \<Rightarrow> database \<Rightarrow> bool" where
  "storage_inv E db \<longleftrightarrow>
     keyed (c_placement E) pl_pod_id Kplacements db \<and>
     keyed (c_ordinal E) slot_key Kordinals db \<and>
     keyed (c_delegation E) delegation_key Kactive_delegations db \<and>
     keyed (c_delegation E) delegation_key Krevoked_delegations db \<and>
     keyed (c_node E) nr_node_id Knodes db \<and>
     keyed (c_revoked E) rv_spiffe_id Krevoked_svids db \<and>
     keyed (c_ek E) ek_fingerprint Knode_eks db \<and>
     keyed (c_token E) jt_token Kjoin_tokens db \<and>
     keyed (c_status E) st_pod_id Kworkload_status db"

text \<open>The same discipline for one queued write.\<close>

definition op_keyed :: "env \<Rightarrow> batch_op \<Rightarrow> bool" where
  "op_keyed E x =
     (case x of
        Del _ _ \<Rightarrow> True
      | Put k key v \<Rightarrow>
          (k = Kplacements \<longrightarrow> pred_option (\<lambda>r. pl_pod_id r = key) (dec (c_placement E) v)) \<and>
          (k = Kordinals \<longrightarrow> pred_option (\<lambda>r. slot_key r = key) (dec (c_ordinal E) v)) \<and>
          (k \<in> {Kactive_delegations, Krevoked_delegations} \<longrightarrow>
             pred_option (\<lambda>r. delegation_key r = key) (dec (c_delegation E) v)) \<and>
          (k = Knodes \<longrightarrow> pred_option (\<lambda>r. nr_node_id r = key) (dec (c_node E) v)) \<and>
          (k = Krevoked_svids \<longrightarrow> pred_option (\<lambda>r. rv_spiffe_id r = key) (dec (c_revoked E) v)) \<and>
          (k = Knode_eks \<longrightarrow> pred_option (\<lambda>r. ek_fingerprint r = key) (dec (c_ek E) v)) \<and>
          (k = Kjoin_tokens \<longrightarrow> pred_option (\<lambda>r. jt_token r = key) (dec (c_token E) v)) \<and>
          (k = Kworkload_status \<longrightarrow> pred_option (\<lambda>r. st_pod_id r = key) (dec (c_status E) v)))"

lemma op_keyed_simps [simp]:
  "op_keyed E (Del k key)"
  "op_keyed E (Put Kplacements key v) = pred_option (\<lambda>r. pl_pod_id r = key) (dec (c_placement E) v)"
  "op_keyed E (Put Kordinals key v) = pred_option (\<lambda>r. slot_key r = key) (dec (c_ordinal E) v)"
  "op_keyed E (Put Kactive_delegations key v) = pred_option (\<lambda>r. delegation_key r = key) (dec (c_delegation E) v)"
  "op_keyed E (Put Krevoked_delegations key v) = pred_option (\<lambda>r. delegation_key r = key) (dec (c_delegation E) v)"
  "op_keyed E (Put Knodes key v) = pred_option (\<lambda>r. nr_node_id r = key) (dec (c_node E) v)"
  "op_keyed E (Put Krevoked_svids key v) = pred_option (\<lambda>r. rv_spiffe_id r = key) (dec (c_revoked E) v)"
  "op_keyed E (Put Knode_eks key v) = pred_option (\<lambda>r. ek_fingerprint r = key) (dec (c_ek E) v)"
  "op_keyed E (Put Kjoin_tokens key v) = pred_option (\<lambda>r. jt_token r = key) (dec (c_token E) v)"
  "op_keyed E (Put Kworkload_status key v) = pred_option (\<lambda>r. st_pod_id r = key) (dec (c_status E) v)"
  by (simp_all add: op_keyed_def)

lemma op_keyed_free [simp]:
  "k \<notin> {Kplacements, Kordinals, Kactive_delegations, Krevoked_delegations, Knodes, Krevoked_svids,
         Knode_eks, Kjoin_tokens, Kworkload_status} \<Longrightarrow> op_keyed E (Put k key v)"
  by (simp add: op_keyed_def)

lemma batch_get_cases:
  "batch_get b k key old = Some v \<Longrightarrow> old = Some v \<or> Put k key v \<in> set b"
proof (induction b arbitrary: old)
  case (Cons x b)
  then show ?case by (cases x) (fastforce split: if_splits)+
qed simp

lemma keyed_commit:
  assumes "kv_commit db b = Inr db'" "db_wf db" "keyed c f k db"
    and "\<And>key v. Put k key v \<in> set b \<Longrightarrow> pred_option (\<lambda>r. f r = key) (dec c v)"
  shows "keyed c f k db'"
  unfolding keyed_def
proof (intro allI impI)
  fix key v r
  assume "lookup db' k key = Some v" and d: "dec c v = Some r"
  then have "batch_get b k key (lookup db k key) = Some v"
    using kv_commit_lookup[OF assms(1,2)] by simp
  then consider "lookup db k key = Some v" | "Put k key v \<in> set b"
    using batch_get_cases by blast
  then show "f r = key"
    using assms(3) d assms(4)[of key v] by cases (auto simp: keyed_def)
qed

lemma keyed_commit_op:
  assumes "kv_commit db b = Inr db'" "db_wf db" "\<And>x. x \<in> set b \<Longrightarrow> op_keyed E x"
    and "keyed c f k db"
    and "\<And>key v. op_keyed E (Put k key v) \<Longrightarrow> pred_option (\<lambda>r. f r = key) (dec c v)"
  shows "keyed c f k db'"
  using keyed_commit[OF assms(1,2,4)] assms(3,5) by blast

lemma storage_inv_commit:
  assumes "kv_commit db b = Inr db'" "db_wf db" "storage_inv E db" "\<And>x. x \<in> set b \<Longrightarrow> op_keyed E x"
  shows "storage_inv E db'"
  unfolding storage_inv_def
  by (intro conjI; rule keyed_commit_op[OF assms(1,2,4)])
    (use assms(3) in \<open>simp_all add: storage_inv_def\<close>)

lemma storage_invD:
  assumes "storage_inv E db"
  shows "lookup db Kplacements key = Some v \<Longrightarrow> dec (c_placement E) v = Some p \<Longrightarrow> pl_pod_id p = key"
    and "lookup db Kordinals key = Some v \<Longrightarrow> dec (c_ordinal E) v = Some a \<Longrightarrow> slot_key a = key"
    and "lookup db Kactive_delegations key = Some v \<Longrightarrow> dec (c_delegation E) v = Some d \<Longrightarrow> delegation_key d = key"
    and "lookup db Knodes key = Some v \<Longrightarrow> dec (c_node E) v = Some r \<Longrightarrow> nr_node_id r = key"
    and "lookup db Krevoked_svids key = Some v \<Longrightarrow> dec (c_revoked E) v = Some s \<Longrightarrow> rv_spiffe_id s = key"
    and "lookup db Knode_eks key = Some v \<Longrightarrow> dec (c_ek E) v = Some e \<Longrightarrow> ek_fingerprint e = key"
    and "lookup db Kjoin_tokens key = Some v \<Longrightarrow> dec (c_token E) v = Some j \<Longrightarrow> jt_token j = key"
  using assms by (auto simp: storage_inv_def keyed_def)

text \<open>Writes of freshly encoded records respect the discipline.\<close>

lemma encoded_keyed:
  "codec_ok c \<Longrightarrow> enc c x = Some v \<Longrightarrow> pred_option P (dec c v) \<longleftrightarrow> P x"
  by (simp add: codec_ok_dec)

lemma records_codecs:
  assumes "env_ok E"
  shows "codec_ok (c_tenant E)" "codec_ok (c_block E)" "codec_ok (c_address E)"
    "codec_ok (c_workload E)" "codec_ok (c_cron E)" "codec_ok (c_checkpoint E)" "codec_ok (c_vpa E)"
    "codec_ok (c_quota E)" "codec_ok (c_control_address E)" "codec_ok (c_svid E)" "codec_ok (c_ek E)"
    "codec_ok (c_taints E)" "codec_ok (c_status E)" "codec_ok (c_token E)" "codec_ok (c_pcr E)"
    "codec_ok (c_node E)" "codec_ok (c_delegation E)" "codec_ok (c_revoked E)" "codec_ok (c_acl E)"
    "codec_ok (c_ordinal E)" "codec_ok (c_placement E)" "codec_ok (c_pool E)" "codec_ok (c_grant E)"
    "codec_ok (c_audit E)"
  using env_ok_records[OF assms] by (simp_all add: records_ok_def)

lemma raft_codecs:
  assumes "env_ok E"
  shows "codec_ok (c_log_id E)" "codec_ok (c_membership E)" "codec_ok (c_meta E)"
    "codec_ok (c_app_snapshot E)" "codec_ok (c_vote E)"
  using env_ok_raft[OF assms] by (simp_all add: raft_ok_def)

lemma proto_codecs:
  assumes "env_ok E"
  shows "codec_ok (c_spec E)" "codec_ok (c_pod_spec E)" "codec_ok (c_sag_rule E)"
    "codec_ok (c_assignments E)" "codec_ok (c_routes E)" "codec_ok (c_cron_spec E)"
    "codec_ok (c_manifest E)"
  using env_ok_proto[OF assms] by (simp_all add: proto_ok_def)

lemma revoke_ops_keyed: "x \<in> set (revoke_ops E kv) \<Longrightarrow> op_keyed E x"
  by (cases "dec (c_delegation E) (snd kv)") (auto simp: revoke_ops_def Let_def)

lemma released_ops_keyed:
  assumes "env_ok E" "mapE (release_placement E t w) ps = Inr ops" "xs \<in> set ops" "x \<in> set xs"
  shows "op_keyed E x"
  using assms(3,4) records_codecs[OF assms(1)]
  by (auto simp: mapE_mem[OF assms(2)] sm_Inr encoded_keyed freed_slot_def)

text \<open>Manifest updates write raw bytes; those aimed at scheduler state are not covered.\<close>

definition raw_scheduler_write :: "fleetos_command \<Rightarrow> bool" where
  "raw_scheduler_write c =
     (case c of
        ApplyManifests us \<Rightarrow> \<exists>u\<in>set us. mu_target_keyspace u \<in> {''placements'', ''ordinals''}
      | _ \<Rightarrow> False)"

lemma manifests_keyed:
  assumes "apply_manifests us = Inr (b, kind)" "x \<in> set b"
    and "\<not> raw_scheduler_write (ApplyManifests us)"
  shows "op_keyed E x"
  using assms
  by (auto simp: apply_manifests_def in_map_filter raw_scheduler_write_def manifest_keyspace_def
      split: if_splits)

lemma apply_command_keyed:
  assumes ok: "env_ok E" and inv: "storage_inv E db"
    and run: "apply_command E db c = Inr (b, kind)" and x: "x \<in> set b"
    and raw: "\<not> raw_scheduler_write c"
  shows "op_keyed E x"
proof -
  note cs = records_codecs[OF ok]
  show ?thesis
  proof (cases c)
    case (DeleteWorkload t w)
    with run x show ?thesis
      by (auto simp: apply_command_def arm_defs result_simps Let_def
          dest: released_ops_keyed[OF ok])
  next
    case (ScaleWorkload r)
    with run x show ?thesis
      by (auto simp: apply_command_def arm_defs result_simps Let_def
          dest: released_ops_keyed[OF ok])
  next
    case (EvictNode n e)
    with run x show ?thesis
      by (auto simp: apply_command_def arm_defs result_simps sm_Inr Let_def
          encoded_keyed[OF cs(16)] encoded_keyed[OF cs(18)] evicted_node_def blank_node_def
          split: option.splits) (use storage_invD(4)[OF inv] revoke_ops_keyed in blast)+
  next
    case (ApplyManifests us)
    with run x raw show ?thesis
      by (auto simp: apply_command_def intro: manifests_keyed)
  next
    case (RevokeDelegation n d)
    with run x show ?thesis
      using storage_invD(3)[OF inv]
      by (auto simp: apply_command_def arm_defs result_simps sm_Inr Let_def pred_option_def
          split: option.splits)
  qed (use run x cs storage_invD(4,6)[OF inv] in \<open>auto simp: apply_command_def arm_defs result_simps
    sm_Inr Let_def encoded_keyed set_schedulable_def blank_node_def split: option.splits if_splits\<close>)
qed

lemma apply_command_storage_inv:
  assumes "env_ok E" "db_wf db" "storage_inv E db" "apply_command E db c = Inr (b, kind)"
    and "\<not> raw_scheduler_write c" "kv_commit db b = Inr db'"
  shows "storage_inv E db'"
  using storage_inv_commit[OF assms(6,2,3)] apply_command_keyed[OF assms(1,3,4)] assms(5) by blast

end
