(* ===== verification/Totality.thy ===== *)
theory Totality
  imports StateFacts
begin

text \<open>
  When a command can fail, and what its outcome depends on. A storage error returned from the
  state machine stops the node, so a command that fails on healthy storage would stop every
  replica. The records that read-modify-write arms read back always decode, so on healthy storage
  the only commands that fail are those that name an identity which does not parse, or touch an
  access list whose stored bytes do not decode. An outcome does not depend on which reads would
  fail: replicas with the same contents compute the same batch.
\<close>


section \<open>Records that are read back decode\<close>

definition decodable :: "'a codec \<Rightarrow> ks \<Rightarrow> database \<Rightarrow> bool" where
  "decodable c k db \<longleftrightarrow> (\<forall>key v. lookup db k key = Some v \<longrightarrow> dec c v \<noteq> None)"

definition decodable_inv :: "env \<Rightarrow> database \<Rightarrow> bool" where
  "decodable_inv E db \<longleftrightarrow>
     decodable (c_node E) Knodes db \<and> decodable (c_ek E) Knode_eks db \<and>
     decodable (c_taints E) Knode_taints db"

definition op_decodes :: "env \<Rightarrow> batch_op \<Rightarrow> bool" where
  "op_decodes E x =
     (case x of
        Del _ _ \<Rightarrow> True
      | Put k key v \<Rightarrow>
          (k = Knodes \<longrightarrow> dec (c_node E) v \<noteq> None) \<and>
          (k = Knode_eks \<longrightarrow> dec (c_ek E) v \<noteq> None) \<and>
          (k = Knode_taints \<longrightarrow> dec (c_taints E) v \<noteq> None))"

lemma op_decodes_simps [simp]:
  "op_decodes E (Del k key)"
  "op_decodes E (Put Knodes key v) \<longleftrightarrow> dec (c_node E) v \<noteq> None"
  "op_decodes E (Put Knode_eks key v) \<longleftrightarrow> dec (c_ek E) v \<noteq> None"
  "op_decodes E (Put Knode_taints key v) \<longleftrightarrow> dec (c_taints E) v \<noteq> None"
  "k \<notin> {Knodes, Knode_eks, Knode_taints} \<Longrightarrow> op_decodes E (Put k key v)"
  by (simp_all add: op_decodes_def)

lemma decodable_commit:
  assumes "kv_commit db b = Inr db'" "db_wf db" "decodable c k db"
    and "\<And>key v. Put k key v \<in> set b \<Longrightarrow> dec c v \<noteq> None"
  shows "decodable c k db'"
  unfolding decodable_def
proof (intro allI impI)
  fix key v
  assume "lookup db' k key = Some v"
  then have "batch_get b k key (lookup db k key) = Some v"
    using kv_commit_lookup[OF assms(1,2)] by simp
  then show "dec c v \<noteq> None"
    using batch_get_cases assms(3,4) by (fastforce simp: decodable_def)
qed

lemma decodable_inv_commit:
  assumes "kv_commit db b = Inr db'" "db_wf db" "decodable_inv E db" "\<And>x. x \<in> set b \<Longrightarrow> op_decodes E x"
  shows "decodable_inv E db'"
  unfolding decodable_inv_def
  by (intro conjI; rule decodable_commit[OF assms(1,2)])
    (use assms(3) in \<open>auto simp: decodable_inv_def dest!: assms(4)\<close>)

lemma released_ops_decode:
  assumes "mapE (release_placement E t w) ps = Inr ops" "xs \<in> set ops" "x \<in> set xs"
  shows "op_decodes E x"
  using assms(2,3) by (auto simp: mapE_mem[OF assms(1)] sm_Inr)

lemma revoke_ops_decode: "x \<in> set (revoke_ops E kv) \<Longrightarrow> op_decodes E x"
  by (cases "dec (c_delegation E) (snd kv)") (auto simp: revoke_ops_def Let_def)

lemma apply_command_decodes:
  assumes ok: "env_ok E" and run: "apply_command E db c = Inr (b, kind)" and x: "x \<in> set b"
  shows "op_decodes E x"
proof -
  note cs = codec_ok_dec[OF records_codecs(16)[OF ok]] codec_ok_dec[OF records_codecs(11)[OF ok]]
    codec_ok_dec[OF records_codecs(12)[OF ok]]
  show ?thesis
  proof (cases c)
    case (DeleteWorkload t w)
    with run x show ?thesis
      by (auto simp: apply_command_def arm_defs result_simps Let_def dest: released_ops_decode)
  next
    case (ScaleWorkload r)
    with run x show ?thesis
      by (auto simp: apply_command_def arm_defs result_simps Let_def dest: released_ops_decode)
  next
    case (EvictNode n e)
    with run x show ?thesis
      by (auto simp: apply_command_def arm_defs result_simps sm_Inr Let_def)
        (use cs revoke_ops_decode in blast)+
  next
    case (ApplyManifests us)
    with run x show ?thesis
      by (auto simp: apply_command_def arm_defs in_map_filter manifest_keyspace_def split: if_splits)
  next
    case (SetNodeSchedulable n s)
    with run x show ?thesis
      by (auto simp: apply_command_def arm_defs result_simps sm_Inr Let_def cs)
  next
    case (NodeHeartbeat n h)
    with run x show ?thesis
      by (auto simp: apply_command_def arm_defs result_simps sm_Inr cs split: option.splits)
  qed (use run x in \<open>auto simp: apply_command_def arm_defs result_simps sm_Inr Let_def cs
    split: option.splits if_splits\<close>)
qed


section \<open>When an arm fails\<close>

definition codec_total :: "'a codec \<Rightarrow> bool" where
  "codec_total c \<longleftrightarrow> (\<forall>x. enc c x \<noteq> None)"

lemma codec_ok_total: "codec_ok c \<Longrightarrow> codec_total c"
  by (auto simp: codec_ok_def codec_total_def)

definition acl_readable :: "env \<Rightarrow> database \<Rightarrow> string \<Rightarrow> bool" where
  "acl_readable E db key =
     (case lookup db Ksecrets (acl_key key) of None \<Rightarrow> True | Some b \<Rightarrow> dec (c_acl E) b \<noteq> None)"

text \<open>The commands whose outcome depends on an identity string or on stored raw bytes.\<close>

definition well_addressed :: "env \<Rightarrow> database \<Rightarrow> fleetos_command \<Rightarrow> bool" where
  "well_addressed E db c =
     (case c of
        EvictNode n _ \<Rightarrow> sp_parse E n \<noteq> None
      | RevokeDelegation n _ \<Rightarrow> sp_parse E n \<noteq> None
      | GrantSecretAccess _ key who \<Rightarrow> sp_parse E who \<noteq> None \<and> acl_readable E db key
      | RevokeSecretAccess _ key who \<Rightarrow> sp_parse E who \<noteq> None \<and> acl_readable E db key
      | _ \<Rightarrow> True)"

lemma healthy_no_fault [simp]: "db_healthy db \<Longrightarrow> \<not> db_read_fault db k"
  by (simp add: db_healthy_def)

lemma codec_total_ok: "codec_total c \<Longrightarrow> is_ok (to_allocvec c x)"
  by (auto simp: codec_total_def to_allocvec_def is_ok_iff)

lemma is_ok_bindE: "is_ok (bindE m f) \<longleftrightarrow> is_ok m \<and> (\<forall>x. m = Inr x \<longrightarrow> is_ok (f x))"
  by (cases m) auto

lemma is_ok_reads:
  "db_healthy db \<Longrightarrow> is_ok (sm_get db k key)"
  "db_healthy db \<Longrightarrow> is_ok (sm_prefix db k p)"
  by (simp_all add: sm_get_def sm_prefix_def healthy_reads)

lemma is_ok_from_bytes: "is_ok (from_bytes c b) \<longleftrightarrow> dec c b \<noteq> None"
  by (auto simp: from_bytes_def is_ok_iff)

lemma is_ok_parse: "is_ok (parse_spiffe E s) \<longleftrightarrow> sp_parse E s \<noteq> None"
  by (auto simp: parse_spiffe_def is_ok_iff)

lemma is_ok_insert: "codec_total c \<Longrightarrow> is_ok (insert_record c k key x kind)"
  by (simp add: insert_record_def is_ok_bindE codec_total_ok)

lemma is_ok_release: "codec_total (c_ordinal E) \<Longrightarrow> is_ok (mapE (release_placement E t w) ps)"
  by (rule mapE_total) (simp add: release_placement_def is_ok_bindE codec_total_ok)

lemma is_ok_read_node:
  assumes "db_healthy db" "decodable (c_node E) Knodes db"
  shows "is_ok (read_node E db n)"
  using assms by (auto simp: read_node_def is_ok_bindE is_ok_reads is_ok_from_bytes decodable_def
      sm_Inr split: option.splits)

lemma is_ok_update_ek:
  assumes "db_healthy db" "decodable (c_ek E) Knode_eks db" "codec_total (c_ek E)"
  shows "is_ok (update_ek E db fp f)"
  using assms by (auto simp: update_ek_def is_ok_bindE is_ok_reads is_ok_from_bytes decodable_def
      is_ok_insert sm_Inr split: option.splits)

lemma is_ok_update_acl:
  assumes "db_healthy db" "codec_total (c_acl E)"
  shows "is_ok (update_acl E db key who f) \<longleftrightarrow> acl_readable E db key \<and> sp_parse E who \<noteq> None"
  using assms
  by (auto simp: update_acl_def is_ok_bindE is_ok_reads is_ok_from_bytes is_ok_parse acl_readable_def
      is_ok_insert sm_Inr split: option.splits)

lemmas is_ok_rules = is_ok_bindE is_ok_reads is_ok_from_bytes is_ok_parse is_ok_insert is_ok_release
  is_ok_read_node is_ok_update_ek is_ok_update_acl codec_total_ok

lemma is_ok_remove_taint:
  assumes "db_healthy db" "decodable (c_taints E) Knode_taints db" "codec_total (c_taints E)"
  shows "is_ok (apply_remove_taint E db n k e)"
  using assms by (auto simp: apply_remove_taint_def is_ok_rules decodable_def sm_Inr Let_def
      split: option.splits)

lemma is_ok_evict:
  assumes "db_healthy db" "decodable (c_node E) Knodes db" "codec_total (c_node E)" "codec_total (c_revoked E)"
  shows "is_ok (apply_evict_node E db n x) \<longleftrightarrow> sp_parse E n \<noteq> None"
  using assms by (auto simp: apply_evict_node_def is_ok_rules Let_def)

lemma apply_command_ok_iff:
  assumes "env_ok E" "db_healthy db" "decodable_inv E db"
  shows "is_ok (apply_command E db c) \<longleftrightarrow> well_addressed E db c"
proof -
  note t = records_codecs[OF assms(1), THEN codec_ok_total] and d = assms(3)[unfolded decodable_inv_def]
  show ?thesis
  proof (cases c)
    case (EvictNode n e)
    with t d assms(2) show ?thesis by (simp add: apply_command_def well_addressed_def is_ok_evict)
  next
    case (RemoveNodeTaint n k e)
    with t d assms(2) show ?thesis by (simp add: apply_command_def well_addressed_def is_ok_remove_taint)
  next
    case (ReassignPodId t s r n p)
    with t d assms(2) show ?thesis
      by (auto simp: apply_command_def well_addressed_def arm_defs is_ok_rules split: option.splits)
  next
    case (RevokeDelegation n k)
    with t d assms(2) show ?thesis
      by (auto simp: apply_command_def well_addressed_def arm_defs is_ok_rules Let_def split: option.splits)
  next
    case (NodeHeartbeat n k)
    with t d assms(2) show ?thesis
      by (auto simp: apply_command_def well_addressed_def arm_defs is_ok_rules split: option.splits)
  next
    case (GrantSecretAccess t k w)
    with t assms(2) show ?thesis
      by (auto simp: apply_command_def well_addressed_def arm_defs is_ok_rules)
  next
    case (RevokeSecretAccess t k w)
    with t assms(2) show ?thesis
      by (auto simp: apply_command_def well_addressed_def arm_defs is_ok_rules)
  qed (use t d assms(2) in \<open>simp_all add: apply_command_def well_addressed_def arm_defs is_ok_rules Let_def\<close>)
qed


section \<open>Outcomes do not depend on faults\<close>

definition heal :: "database \<Rightarrow> database" where
  "heal db = db\<lparr>db_read_fault := \<lambda>_. False, db_commit_fault := False\<rparr>"

lemma heal_simps [simp]:
  "db_data (heal db) = db_data db" "\<not> db_read_fault (heal db) k" "\<not> db_commit_fault (heal db)"
  by (simp_all add: heal_def)

lemma heal_eq: "db_data db = db_data db' \<Longrightarrow> heal db = heal db'"
  by (simp add: heal_def)

lemma heal_reads:
  "sm_get db k key = Inr v \<Longrightarrow> sm_get (heal db) k key = Inr v"
  "sm_prefix db k p = Inr kvs \<Longrightarrow> sm_prefix (heal db) k p = Inr kvs"
  by (simp_all add: sm_Inr)

lemma apply_command_heal:
  assumes "apply_command E db c = Inr out" "\<not> db_read_fault db Krevoked_svids"
  shows "apply_command E (heal db) c = Inr out"
proof (cases c)
  case (PruneExpiredRevokedSvids t)
  with assms show ?thesis
    by (simp add: apply_command_def arm_defs readable_items_def kv_prefix_def)
next
  case (EvictNode n e)
  with assms show ?thesis
    by (auto simp: apply_command_def arm_defs result_simps sm_Inr Let_def)
next
  case (ReassignPodId t s r n p)
  with assms show ?thesis
    by (auto simp: apply_command_def arm_defs result_simps sm_Inr split: option.splits)
qed (use assms in \<open>auto simp: apply_command_def arm_defs result_simps sm_Inr Let_def
  split: option.splits if_splits\<close>)

lemma apply_command_agrees:
  assumes "db_data db = db_data db'"
    and "apply_command E db c = Inr out" "\<not> db_read_fault db Krevoked_svids"
    and "apply_command E db' c = Inr out'" "\<not> db_read_fault db' Krevoked_svids"
  shows "out = out'"
  using apply_command_heal[OF assms(2,3)] apply_command_heal[OF assms(4,5)] heal_eq[OF assms(1)] by simp

end
