(* ===== verification/RaftSnapshot.thy ===== *)
theory RaftSnapshot
  imports StateFacts
begin

text \<open>
  Raft snapshots: building one from a consistent view (\<open>raft/snapshot.rs\<close>), installing one and
  reading back the current one (\<open>raft/state_machine.rs\<close>). The main facts: an installed snapshot
  reproduces every snapshotted keyspace of its source, whatever the target held before.
\<close>


section \<open>Operations\<close>

definition collect_keyspaces :: "database \<Rightarrow> sm_error + (string \<times> (bytes \<times> bytes) list) list" where
  "collect_keyspaces view =
     mapE (\<lambda>(name, k). bindE (sm_prefix view k []) (\<lambda>pairs. Inr (name, pairs))) snapshot_keyspaces"

definition snapshot_id :: "log_id option \<Rightarrow> string" where
  "snapshot_id last_applied =
     (case last_applied of
        Some l \<Rightarrow> ''snap-'' @ show_nat (lg_term l) @ ''-'' @ show_nat (lg_index l)
      | None \<Rightarrow> ''snap-initial'')"

text \<open>
  The application data is read through \<open>view\<close>, the point-in-time view taken first; the log
  position and the membership are read from the live database \<open>db\<close>.
\<close>

definition build_snapshot :: "env \<Rightarrow> database \<Rightarrow> database \<Rightarrow> sm_error + snapshot_meta \<times> bytes" where
  "build_snapshot E view db =
     bindE (collect_keyspaces view) (\<lambda>keyspace_data.
     bindE (to_allocvec (c_app_snapshot E) \<lparr>as_keyspaces = keyspace_data\<rparr>) (\<lambda>data.
     bindE (applied_state E db) (\<lambda>(last_applied, last_membership).
       Inr (\<lparr>sn_last_log_id = last_applied, sn_last_membership = last_membership,
             sn_snapshot_id = snapshot_id last_applied\<rparr>, data))))"

definition clear_ops :: "database \<Rightarrow> sm_error + batch" where
  "clear_ops db =
     bindE (mapE (\<lambda>(_, k). bindE (sm_prefix db k []) (\<lambda>kvs. Inr (map (\<lambda>kv. Del k (fst kv)) kvs)))
              snapshot_keyspaces) (\<lambda>ops. Inr (concat ops))"

definition restore_ops :: "application_snapshot \<Rightarrow> batch" where
  "restore_ops app =
     concat (map (\<lambda>(name, pairs).
       case find (\<lambda>(n, _). n = name) snapshot_keyspaces of
         None \<Rightarrow> []
       | Some (_, k) \<Rightarrow> map (\<lambda>(key, v). Put k key v) pairs) (as_keyspaces app))"

definition install_snapshot ::
  "env \<Rightarrow> database \<Rightarrow> snapshot_meta \<Rightarrow> bytes \<Rightarrow> sm_error + database" where
  "install_snapshot E db meta data =
     bindE (from_bytes (c_app_snapshot E) data) (\<lambda>app.
     bindE (clear_ops db) (\<lambda>clear.
     bindE (to_allocvec (c_meta E) meta) (\<lambda>serialized_meta.
       map_err (\<lambda>_. Write_state_machine)
         (kv_commit db (clear @ restore_ops app @
            [Put Kraft_snapshot (be_bytes 8 0) data,
             Put Kraft_state ''snapshot_meta'' serialized_meta])))))"

definition get_current_snapshot :: "env \<Rightarrow> database \<Rightarrow> sm_error + (snapshot_meta \<times> bytes) option" where
  "get_current_snapshot E db =
     bindE (sm_get db Kraft_state ''snapshot_meta'') (\<lambda>m.
       case m of
         None \<Rightarrow> Inr None
       | Some b \<Rightarrow>
           bindE (from_bytes (c_meta E) b) (\<lambda>meta.
           bindE (sm_get db Kraft_snapshot (be_bytes 8 0)) (\<lambda>d.
             case d of None \<Rightarrow> Inr None | Some data \<Rightarrow> Inr (Some (meta, data)))))"


section \<open>The batch of an installation\<close>

lemma distinct_handles: "distinct snapshot_handles"
  using distinct_snapshot_names by (simp add: distinct_map)

lemma find_by_name:
  "distinct (map f hs) \<Longrightarrow> k \<in> set hs \<Longrightarrow> find (\<lambda>(n, _). n = f k) (map (\<lambda>k. (f k, k)) hs) = Some (f k, k)"
  by (induction hs) (auto simp: rev_image_eqI)

lemma find_handle:
  "k \<in> set snapshot_handles \<Longrightarrow>
     find (\<lambda>(n, _). n = table_name k) snapshot_keyspaces = Some (table_name k, k)"
  unfolding snapshot_keyspaces_def by (rule find_by_name[OF distinct_snapshot_names])

lemma collect_keyspaces_Inr:
  "collect_keyspaces view = Inr ksd \<longleftrightarrow>
     (\<forall>k\<in>set snapshot_handles. \<not> db_read_fault view k) \<and>
     ksd = map (\<lambda>k. (table_name k, db_data view k)) snapshot_handles"
proof -
  have "mapE (\<lambda>(name, k). bindE (sm_prefix view k []) (\<lambda>pairs. Inr (name, pairs)))
          (map (\<lambda>k. (table_name k, k)) hs) = Inr ksd \<longleftrightarrow>
        (\<forall>k\<in>set hs. \<not> db_read_fault view k) \<and> ksd = map (\<lambda>k. (table_name k, db_data view k)) hs" for hs ksd
    by (induction hs arbitrary: ksd) (auto simp: result_simps sm_Inr)
  then show ?thesis by (simp add: collect_keyspaces_def snapshot_keyspaces_def)
qed

lemma clear_ops_Inr:
  "clear_ops db = Inr ops \<longleftrightarrow>
     (\<forall>k\<in>set snapshot_handles. \<not> db_read_fault db k) \<and>
     ops = concat (map (\<lambda>k. map (\<lambda>kv. Del k (fst kv)) (db_data db k)) snapshot_handles)"
proof -
  have "mapE (\<lambda>(_, k). bindE (sm_prefix db k []) (\<lambda>kvs. Inr (map (\<lambda>kv. Del k (fst kv)) kvs)))
          (map (\<lambda>k. (table_name k, k)) hs) = Inr xs \<longleftrightarrow>
        (\<forall>k\<in>set hs. \<not> db_read_fault db k) \<and> xs = map (\<lambda>k. map (\<lambda>kv. Del k (fst kv)) (db_data db k)) hs" for hs xs
    by (induction hs arbitrary: xs) (auto simp: result_simps sm_Inr)
  then show ?thesis by (auto simp: clear_ops_def snapshot_keyspaces_def result_simps)
qed

lemma restore_ops_handles:
  "restore_ops \<lparr>as_keyspaces = map (\<lambda>k. (table_name k, f k)) snapshot_handles\<rparr> =
     concat (map (\<lambda>k. map (\<lambda>(key, v). Put k key v) (f k)) snapshot_handles)"
  by (simp add: restore_ops_def comp_def find_handle cong: map_cong)

lemma batch_get_puts:
  "om_wf xs \<Longrightarrow> batch_get (map (\<lambda>(key, v). Put l key v) xs) k key old =
     (if k = l \<and> om_get xs key \<noteq> None then om_get xs key else old)"
proof (induction xs arbitrary: old)
  case (Cons x xs)
  obtain a b where x: "x = (a, b)" by force
  from Cons.prems have "om_wf xs" "om_get xs a = None"
    by (auto simp: x om_wf_Cons om_get_None_iff)
  with Cons.IH show ?case by (auto simp: x)
qed simp

lemma batch_get_clear:
  "distinct hs \<Longrightarrow> batch_get (concat (map (\<lambda>k. map (\<lambda>kv. Del k (fst kv)) (d k)) hs)) k key old =
     (if k \<in> set hs \<and> om_get (d k) key \<noteq> None then None else old)"
  by (induction hs arbitrary: old)
    (auto simp: batch_get_append batch_get_dels om_get_None_iff image_iff)

lemma batch_get_restore:
  "distinct hs \<Longrightarrow> (\<And>k. om_wf (d k)) \<Longrightarrow>
     batch_get (concat (map (\<lambda>k. map (\<lambda>(key, v). Put k key v) (d k)) hs)) k key old =
       (if k \<in> set hs \<and> om_get (d k) key \<noteq> None then om_get (d k) key else old)"
proof (induction hs arbitrary: old)
  case (Cons h hs)
  then show ?case
    by (simp add: batch_get_append batch_get_puts) auto
qed simp

lemma Kraft_snapshot_handle: "Kraft_snapshot \<notin> set snapshot_handles"
  by (simp add: snapshot_handles_def)

lemma Kraft_state_handle: "Kraft_state \<in> set snapshot_handles"
  by (simp add: snapshot_handles_def)

lemma install_snapshot_Inr:
  assumes "env_ok E" "collect_keyspaces view = Inr ksd"
    and "enc (c_app_snapshot E) \<lparr>as_keyspaces = ksd\<rparr> = Some data"
  shows "install_snapshot E db meta data = Inr db' \<longleftrightarrow>
     (\<forall>k\<in>set snapshot_handles. \<not> db_read_fault db k) \<and>
     (\<exists>m. enc (c_meta E) meta = Some m \<and>
       kv_commit db
         (concat (map (\<lambda>k. map (\<lambda>kv. Del k (fst kv)) (db_data db k)) snapshot_handles) @
          concat (map (\<lambda>k. map (\<lambda>(key, v). Put k key v) (db_data view k)) snapshot_handles) @
          [Put Kraft_snapshot (be_bytes 8 0) data, Put Kraft_state ''snapshot_meta'' m]) = Inr db')"
proof -
  have "dec (c_app_snapshot E) data = Some \<lparr>as_keyspaces = ksd\<rparr>"
    using codec_ok_dec[OF raft_codecs(4)[OF assms(1)] assms(3)] .
  then show ?thesis
    using assms(2)
    by (auto simp: install_snapshot_def result_simps sm_Inr collect_keyspaces_Inr clear_ops_Inr
        restore_ops_handles)
qed

text \<open>What every key holds after an installation.\<close>

lemma install_lookup:
  assumes "env_ok E" "collect_keyspaces view = Inr ksd"
    and "enc (c_app_snapshot E) \<lparr>as_keyspaces = ksd\<rparr> = Some data"
    and "install_snapshot E db meta data = Inr db'" "db_wf db" "db_wf view"
  shows "lookup db' k key =
     (if k = Kraft_snapshot \<and> key = be_bytes 8 0 then Some data
      else if k = Kraft_state \<and> key = ''snapshot_meta'' then enc (c_meta E) meta
      else if k \<in> set snapshot_handles then lookup view k key else lookup db k key)"
proof -
  obtain m where m: "enc (c_meta E) meta = Some m" and
    c: "kv_commit db
         (concat (map (\<lambda>k. map (\<lambda>kv. Del k (fst kv)) (db_data db k)) snapshot_handles) @
          concat (map (\<lambda>k. map (\<lambda>(key, v). Put k key v) (db_data view k)) snapshot_handles) @
          [Put Kraft_snapshot (be_bytes 8 0) data, Put Kraft_state ''snapshot_meta'' m]) = Inr db'"
    using assms(4) by (auto simp: install_snapshot_Inr[OF assms(1-3)])
  have wf: "om_wf (db_data view k)" for k
    using assms(6) by (simp add: db_wf_def)
  show ?thesis
    unfolding kv_commit_lookup[OF c assms(5)] batch_get_append batch_get_clear[OF distinct_handles]
      batch_get_restore[OF distinct_handles wf]
    using m Kraft_snapshot_handle Kraft_state_handle by auto
qed

lemma install_wf: "install_snapshot E db meta data = Inr db' \<Longrightarrow> db_wf db \<Longrightarrow> db_wf db'"
  by (auto simp: install_snapshot_def result_simps dest: kv_commit_wf)

lemma install_faults:
  "install_snapshot E db meta data = Inr db' \<Longrightarrow>
     db_read_fault db' = db_read_fault db \<and> db_commit_fault db' = db_commit_fault db"
  by (auto simp: install_snapshot_def result_simps kv_commit_Inr)

lemma build_snapshot_Inr:
  "build_snapshot E view db = Inr (meta, data) \<longleftrightarrow>
     (\<exists>ksd la mem. collect_keyspaces view = Inr ksd \<and>
        enc (c_app_snapshot E) \<lparr>as_keyspaces = ksd\<rparr> = Some data \<and>
        applied_state E db = Inr (la, mem) \<and>
        meta = \<lparr>sn_last_log_id = la, sn_last_membership = mem, sn_snapshot_id = snapshot_id la\<rparr>)"
  by (auto simp: build_snapshot_def result_simps sm_Inr split: prod.splits)

text \<open>Snapshotted keyspaces other than the one holding the metadata are copied as they are.\<close>

lemma install_copies:
  assumes "env_ok E" "build_snapshot E view live = Inr (meta, data)"
    and "install_snapshot E db meta data = Inr db'" "db_wf db" "db_wf view"
    and "k \<in> set snapshot_handles" "k \<noteq> Kraft_state"
  shows "db_data db' k = db_data view k"
proof (rule om.entries_determined)
  show "om_wf (db_data db' k)" "om_wf (db_data view k)"
    using install_wf[OF assms(3,4)] assms(5) by (simp_all add: db_wf_def)
  show "lookup db' k key = lookup view k key" for key
    using assms(2) install_lookup[OF assms(1) _ _ assms(3-5)] assms(6,7) Kraft_snapshot_handle
    by (auto simp: build_snapshot_Inr)
qed

lemma applied_state_cong:
  assumes "lookup db Kraft_state ''last_applied'' = lookup db' Kraft_state ''last_applied''"
    and "lookup db Kraft_state ''last_membership'' = lookup db' Kraft_state ''last_membership''"
    and "\<not> db_read_fault db Kraft_state" "\<not> db_read_fault db' Kraft_state"
  shows "applied_state E db = applied_state E db'"
  using assms by (simp add: applied_state_def sm_get_def kv_get_def)

end
