(* ===== verification/Replication.thy ===== *)
theory Replication
  imports Totality RaftSnapshot
begin

text \<open>
  Replicas as a transition system: the log applied entry by entry, restarts from the database,
  snapshots installed from other replicas. The theory shows what holds in every state a replica
  can reach, how versions and audit records are numbered, and when two replicas agree.
\<close>


section \<open>One entry\<close>

lemma audit_ops_Inr:
  "audit_ops E v p = Inr aud \<longleftrightarrow>
     (case p of
        Normal a \<Rightarrow> \<exists>b. enc (c_audit E) (audit_of v a) = Some b \<and> aud = [Put Kaudit_log (be_bytes 8 v) b]
      | _ \<Rightarrow> aud = [])"
  by (auto simp: audit_ops_def result_simps sm_Inr split: entry_payload.splits)

lemma apply_entry_Inr:
  "apply_entry E td s e = (s', Inr r) \<longleftrightarrow>
     (\<exists>ops kind lid aud db'.
        apply_payload E (rp_db s) (en_log_id e) (en_payload e) = Inr (ops, kind) \<and>
        enc (c_log_id E) (en_log_id e) = Some lid \<and>
        audit_ops E (allocate_version (rp_version s)) (en_payload e) = Inr aud \<and>
        kv_commit (rp_db s) (ops @ [Put Kraft_state ''last_applied'' lid] @
          persist_version (allocate_version (rp_version s)) @ aud) = Inr db' \<and>
        r = \<lparr>resp_version = allocate_version (rp_version s)\<rparr> \<and>
        s' = \<lparr>rp_db = db', rp_version = allocate_version (rp_version s),
              rp_hub = rp_hub s @ publish_event E td db' (allocate_version (rp_version s)) kind,
              rp_notified = rp_notified s @
                [\<lparr>vu_version = allocate_version (rp_version s), vu_change_kind = kind\<rparr>]\<rparr>)"
  by (cases s) (auto simp: apply_entry_def Let_def to_allocvec_def split: sum.splits)

text \<open>A failed entry leaves the database, the hub and the subscribers as they were.\<close>

lemma apply_entry_Inl:
  "apply_entry E td s e = (s', Inl err) \<Longrightarrow>
     rp_db s' = rp_db s \<and> rp_hub s' = rp_hub s \<and> rp_notified s' = rp_notified s"
  by (auto simp: apply_entry_def Let_def split: sum.splits)

lemma apply_payload_targets:
  "apply_payload E db lid p = Inr (b, kind) \<Longrightarrow> x \<in> set b \<Longrightarrow>
     fst (op_target x) \<notin> {Kversion, Kaudit_log} \<and> op_target x \<noteq> (Kraft_state, ''last_applied'')"
  using apply_command_targets[of E db _ b kind x]
  by (cases p) (auto simp: apply_payload_def sm_Inr system_keyspaces_def)

lemma apply_payload_keyed:
  assumes "env_ok E" "storage_inv E db" "apply_payload E db lid p = Inr (b, kind)" "x \<in> set b"
    and "\<And>a. p = Normal a \<Longrightarrow> \<not> raw_scheduler_write (cmd a)"
  shows "op_keyed E x"
proof (cases p)
  case (Normal a)
  with assms show ?thesis
    by (auto simp: apply_payload_def intro: apply_command_keyed)
qed (use assms in \<open>auto simp: apply_payload_def sm_Inr\<close>)

lemma apply_payload_decodes:
  assumes "env_ok E" "apply_payload E db lid p = Inr (b, kind)" "x \<in> set b"
  shows "op_decodes E x"
  using assms by (cases p) (auto simp: apply_payload_def sm_Inr intro: apply_command_decodes)

lemma system_ops:
  assumes "x \<in> set ([Put Kraft_state ''last_applied'' lid] @ persist_version v @ aud)"
    and "audit_ops E v' p = Inr aud"
  shows "op_keyed E x \<and> op_decodes E x"
  using assms by (auto simp: audit_ops_Inr persist_version_def split: entry_payload.splits)

text \<open>What the database holds after an entry, key by key, outside the keys the payload writes.\<close>

lemma entry_effect:
  assumes run: "apply_entry E td s e = (s', Inr r)" and wf: "db_wf (rp_db s)"
  shows "lookup (rp_db s') Kraft_state ''last_applied'' = enc (c_log_id E) (en_log_id e)"
    and "lookup (rp_db s') Kversion ''current'' = Some (le_bytes 8 (allocate_version (rp_version s)))"
    and "db_data (rp_db s') Kaudit_log =
      (case en_payload e of
         Normal a \<Rightarrow> om_put (be_bytes 8 (rp_version s'))
           (the (enc (c_audit E) (audit_of (rp_version s') a))) (db_data (rp_db s) Kaudit_log)
       | _ \<Rightarrow> db_data (rp_db s) Kaudit_log)"
    and "rp_version s' = allocate_version (rp_version s)"
    and "resp_version r = rp_version s'"
    and "db_wf (rp_db s')"
    and "db_read_fault (rp_db s') = db_read_fault (rp_db s)"
proof -
  obtain ops kind lid aud where
    ops: "apply_payload E (rp_db s) (en_log_id e) (en_payload e) = Inr (ops, kind)" and
    lid: "enc (c_log_id E) (en_log_id e) = Some lid" and
    aud: "audit_ops E (allocate_version (rp_version s)) (en_payload e) = Inr aud" and
    c: "kv_commit (rp_db s) (ops @ [Put Kraft_state ''last_applied'' lid] @
          persist_version (allocate_version (rp_version s)) @ aud) = Inr (rp_db s')" and
    v: "rp_version s' = allocate_version (rp_version s)" and
    r: "r = \<lparr>resp_version = allocate_version (rp_version s)\<rparr>"
    using run by (auto simp: apply_entry_Inr)
  note frame = apply_payload_targets[OF ops]
  show "rp_version s' = allocate_version (rp_version s)" "resp_version r = rp_version s'"
    using v r by simp_all
  show "db_wf (rp_db s')" using kv_commit_wf[OF c wf] .
  show "db_read_fault (rp_db s') = db_read_fault (rp_db s)"
    using c by (auto simp: kv_commit_Inr)
  show "lookup (rp_db s') Kraft_state ''last_applied'' = enc (c_log_id E) (en_log_id e)"
    "lookup (rp_db s') Kversion ''current'' = Some (le_bytes 8 (allocate_version (rp_version s)))"
    using aud lid by (auto simp: kv_commit_lookup[OF c wf] batch_get_append persist_version_def
        audit_ops_Inr split: entry_payload.splits)
  have "run_batch ops d Kaudit_log = d Kaudit_log" for d
    by (rule run_batch_untouched) (use frame in fastforce)
  then show "db_data (rp_db s') Kaudit_log =
      (case en_payload e of
         Normal a \<Rightarrow> om_put (be_bytes 8 (rp_version s'))
           (the (enc (c_audit E) (audit_of (rp_version s') a))) (db_data (rp_db s) Kaudit_log)
       | _ \<Rightarrow> db_data (rp_db s) Kaudit_log)"
    using c aud v by (auto simp: kv_commit_Inr persist_version_def audit_ops_Inr split: entry_payload.splits)
qed


section \<open>Reachable replicas\<close>

inductive reachable :: "env \<Rightarrow> string \<Rightarrow> replica \<Rightarrow> bool" for E td where
  fresh: "reachable E td (start_replica empty_db)"
| applied: "reachable E td s \<Longrightarrow> apply_entry E td s e = (s', res) \<Longrightarrow>
     (\<And>a. en_payload e = Normal a \<Longrightarrow> \<not> raw_scheduler_write (cmd a)) \<Longrightarrow> reachable E td s'"
| restarted: "reachable E td s \<Longrightarrow> reachable E td (start_replica (rp_db s))"
| installed: "reachable E td s \<Longrightarrow> reachable E td t \<Longrightarrow>
     build_snapshot E (rp_db t) live = Inr (meta, data) \<Longrightarrow>
     install_snapshot E (rp_db s) meta data = Inr db' \<Longrightarrow> reachable E td (s\<lparr>rp_db := db'\<rparr>)"

definition replica_inv :: "env \<Rightarrow> database \<Rightarrow> bool" where
  "replica_inv E db \<longleftrightarrow> db_wf db \<and> storage_inv E db \<and> decodable_inv E db"

lemma replica_inv_empty: "replica_inv E empty_db"
  by (simp add: replica_inv_def storage_inv_def keyed_def decodable_inv_def decodable_def)
    (simp add: empty_db_def)

lemma apply_entry_inv:
  assumes "env_ok E" "replica_inv E (rp_db s)" "apply_entry E td s e = (s', Inr r)"
    and raw: "\<And>a. en_payload e = Normal a \<Longrightarrow> \<not> raw_scheduler_write (cmd a)"
  shows "replica_inv E (rp_db s')"
proof -
  obtain ops kind lid aud where
    ops: "apply_payload E (rp_db s) (en_log_id e) (en_payload e) = Inr (ops, kind)" and
    aud: "audit_ops E (allocate_version (rp_version s)) (en_payload e) = Inr aud" and
    c: "kv_commit (rp_db s) (ops @ [Put Kraft_state ''last_applied'' lid] @
          persist_version (allocate_version (rp_version s)) @ aud) = Inr (rp_db s')"
    using assms(3) by (auto simp: apply_entry_Inr)
  have inv: "db_wf (rp_db s)" "storage_inv E (rp_db s)" "decodable_inv E (rp_db s)"
    using assms(2) by (simp_all add: replica_inv_def)
  have x: "op_keyed E x \<and> op_decodes E x"
    if "x \<in> set (ops @ [Put Kraft_state ''last_applied'' lid] @
          persist_version (allocate_version (rp_version s)) @ aud)" for x
  proof (cases "x \<in> set ops")
    case True
    then show ?thesis
      using apply_payload_keyed[OF assms(1) inv(2) ops _ raw] apply_payload_decodes[OF assms(1) ops] by blast
  next
    case False
    then show ?thesis using that system_ops[OF _ aud] by simp
  qed
  show ?thesis
    unfolding replica_inv_def
    using kv_commit_wf[OF c inv(1)] storage_inv_commit[OF c inv(1,2)]
      decodable_inv_commit[OF c inv(1,3)] x by blast
qed

lemma storage_handles:
  "k \<in> {Kplacements, Kordinals, Kactive_delegations, Krevoked_delegations, Knodes, Krevoked_svids,
        Knode_eks, Kjoin_tokens, Kworkload_status, Knode_taints} \<Longrightarrow>
     k \<in> set snapshot_handles \<and> k \<noteq> Kraft_state"
  by (auto simp: snapshot_handles_def)

lemma install_inv:
  assumes "env_ok E" "build_snapshot E view live = Inr (meta, data)"
    and "install_snapshot E db meta data = Inr db'" "db_wf db" "replica_inv E view"
  shows "replica_inv E db'"
proof -
  have wf: "db_wf view" using assms(5) by (simp add: replica_inv_def)
  have "db_data db' k = db_data view k"
    if "k \<in> {Kplacements, Kordinals, Kactive_delegations, Krevoked_delegations, Knodes, Krevoked_svids,
        Knode_eks, Kjoin_tokens, Kworkload_status, Knode_taints}" for k
    using install_copies[OF assms(1-4) wf] storage_handles[OF that] by blast
  then show ?thesis
    using assms(5) install_wf[OF assms(3,4)]
    by (simp add: replica_inv_def storage_inv_def keyed_def decodable_inv_def decodable_def)
qed

lemma reachable_inv:
  assumes "env_ok E" "reachable E td s"
  shows "replica_inv E (rp_db s)"
  using assms(2)
proof (induction rule: reachable.induct)
  case (applied s e s' res)
  show ?case
  proof (cases res)
    case (Inl err)
    with applied show ?thesis using apply_entry_Inl by metis
  next
    case (Inr r)
    with applied show ?thesis using apply_entry_inv[OF assms(1)] by blast
  qed
next
  case (installed s t live meta data db')
  then show ?case using install_inv[OF assms(1)] by (simp add: replica_inv_def)
qed (simp_all add: start_replica_def replica_inv_empty)


section \<open>Runs\<close>

lemma map_prod_id_eq: "map_prod id h p = (a, b) \<longleftrightarrow> (\<exists>c. p = (a, c) \<and> h c = b)"
  by (cases p) auto

lemma apply_entries_Cons:
  "apply_entries E td s (e # es) = (s'', Inr rs) \<longleftrightarrow>
     (\<exists>s' r rs'. apply_entry E td s e = (s', Inr r) \<and> apply_entries E td s' es = (s'', Inr rs') \<and> rs = r # rs')"
  by (auto simp: result_simps map_prod_id_eq split: prod.splits sum.splits)

lemma apply_entries_append:
  "apply_entries E td s (xs @ ys) = (s'', Inr rs) \<longleftrightarrow>
     (\<exists>s' rs1 rs2. apply_entries E td s xs = (s', Inr rs1) \<and>
        apply_entries E td s' ys = (s'', Inr rs2) \<and> rs = rs1 @ rs2)"
proof (induction xs arbitrary: s rs)
  case (Cons x xs)
  show ?case unfolding append_Cons apply_entries_Cons Cons.IH by fastforce
qed simp

lemma apply_entries_wf:
  "apply_entries E td s es = (s', Inr rs) \<Longrightarrow> db_wf (rp_db s) \<Longrightarrow>
     db_wf (rp_db s') \<and> db_read_fault (rp_db s') = db_read_fault (rp_db s)"
proof (induction es arbitrary: s rs)
  case (Cons e es)
  then show ?case unfolding apply_entries_Cons using entry_effect(6,7) by metis
qed simp

text \<open>
  A run that fails has applied a prefix of its entries: the database and the events are those of
  the entries before the one that failed.
\<close>

lemma apply_entries_Inl:
  "apply_entries E td s es = (s', Inl err) \<Longrightarrow>
     \<exists>n t rs u. n < length es \<and> apply_entries E td s (take n es) = (t, Inr rs) \<and>
       apply_entry E td t (es ! n) = (u, Inl err) \<and> s' = u"
proof (induction es arbitrary: s)
  case (Cons e es)
  obtain t res where t: "apply_entry E td s e = (t, res)" by force
  show ?case
  proof (cases res)
    case (Inl x)
    with Cons.prems t show ?thesis by (intro exI[of _ 0]) auto
  next
    case (Inr r)
    with Cons.prems t have "apply_entries E td t es = (s', Inl err)"
      by (auto simp: bindE_Inl_iff map_prod_id_eq)
    from Cons.IH[OF this] obtain n u rs w where
      n: "n < length es" "apply_entries E td t (take n es) = (u, Inr rs)"
      "apply_entry E td u (es ! n) = (w, Inl err)" "s' = w"
      by blast
    with t Inr show ?thesis by (intro exI[of _ "Suc n"]) auto
  qed
qed simp


section \<open>Versions and the audit log\<close>

lemma allocate_version_bound [simp]: "allocate_version v < 2 ^ 64"
  by (simp add: allocate_version_def)

lemma apply_entries_versions:
  "apply_entries E td s es = (s', Inr rs) \<Longrightarrow> db_wf (rp_db s) \<Longrightarrow>
     map resp_version rs = map (\<lambda>i. (rp_version s + Suc i) mod 2 ^ 64) [0..<length es] \<and>
     (es \<noteq> [] \<longrightarrow> rp_version s' = (rp_version s + length es) mod 2 ^ 64)"
proof (induction es arbitrary: s rs)
  case (Cons e es)
  from Cons.prems(1) obtain t r rs' where
    t: "apply_entry E td s e = (t, Inr r)" "apply_entries E td t es = (s', Inr rs')" "rs = r # rs'"
    unfolding apply_entries_Cons by blast
  note eff = entry_effect[OF t(1) Cons.prems(2)]
  have IH: "map resp_version rs' = map (\<lambda>i. (rp_version t + Suc i) mod 2 ^ 64) [0..<length es]"
    "es \<noteq> [] \<longrightarrow> rp_version s' = (rp_version t + length es) mod 2 ^ 64"
    using Cons.IH[OF t(2) eff(6)] by simp_all
  have up: "[0..<length (e # es)] = 0 # map Suc [0..<length es]"
    by (metis map_Suc_upt upt_conv_Cons zero_less_Suc length_Cons)
  have sh: "(rp_version t + k) mod 2 ^ 64 = (rp_version s + Suc k) mod 2 ^ 64" for k
    unfolding eff(4) allocate_version_def mod_add_left_eq by simp
  have "resp_version r = (rp_version s + Suc 0) mod 2 ^ 64"
    "es = [] \<Longrightarrow> rp_version s' = (rp_version s + Suc 0) mod 2 ^ 64"
    using eff(4,5) t(2) by (simp_all add: allocate_version_def)
  then show ?case
    using IH unfolding t(3) sh up list.map map_map comp_def by (cases "es = []") simp_all
qed simp

text \<open>The audit records a list of entries leaves, numbered from the version before them.\<close>

fun audit_trail :: "env \<Rightarrow> nat \<Rightarrow> log_entry list \<Rightarrow> (bytes \<times> bytes) list" where
  "audit_trail E v [] = []"
| "audit_trail E v (e # es) =
     (case en_payload e of
        Normal a \<Rightarrow> [(be_bytes 8 (v + 1), the (enc (c_audit E) (audit_of (v + 1) a)))]
      | _ \<Rightarrow> []) @ audit_trail E (v + 1) es"

text \<open>No audit record has a version above the counter.\<close>

definition audit_bounded :: "replica \<Rightarrow> bool" where
  "audit_bounded s \<longleftrightarrow>
     (\<forall>key\<in>fst ` set (db_data (rp_db s) Kaudit_log). \<exists>n \<le> rp_version s. key = be_bytes 8 n)"

lemma om_put_last: "\<forall>x\<in>fst ` set m. x < k \<Longrightarrow> om_put k v m = m @ [(k, v)]"
  by (induction m) auto

lemma audit_step:
  assumes run: "apply_entry E td s e = (s', Inr r)" and wf: "db_wf (rp_db s)"
    and b: "audit_bounded s" and v: "rp_version s + 1 < 2 ^ 64"
  shows "db_data (rp_db s') Kaudit_log = db_data (rp_db s) Kaudit_log @ audit_trail E (rp_version s) [e]"
    and "audit_bounded s'"
proof -
  note eff = entry_effect[OF run wf]
  have ver: "rp_version s' = rp_version s + 1"
    using eff(4) v by (simp add: allocate_version_def)
  have lt: "be_bytes 8 n < be_bytes 8 (rp_version s + 1)" if "n \<le> rp_version s" for n
    using be_bytes_8_less[of n "rp_version s + 1"] that v by simp
  note old = b[unfolded audit_bounded_def, THEN bspec]
  have "\<forall>x\<in>fst ` set (db_data (rp_db s) Kaudit_log). x < be_bytes 8 (rp_version s + 1)"
    using lt by (intro ballI) (drule old, elim exE conjE, simp only:)
  then have "om_put (be_bytes 8 (rp_version s + 1)) v (db_data (rp_db s) Kaudit_log) =
      db_data (rp_db s) Kaudit_log @ [(be_bytes 8 (rp_version s + 1), v)]" for v
    by (rule om_put_last)
  then show tr: "db_data (rp_db s') Kaudit_log = db_data (rp_db s) Kaudit_log @ audit_trail E (rp_version s) [e]"
    unfolding eff(3) ver by (simp split: entry_payload.splits)
  have new: "key = be_bytes 8 (rp_version s')" if "key \<in> fst ` set (audit_trail E (rp_version s) [e])" for key
    using that by (auto simp: ver split: entry_payload.splits)
  show "audit_bounded s'"
    unfolding audit_bounded_def tr set_append image_Un
  proof
    fix key
    assume "key \<in> fst ` set (db_data (rp_db s) Kaudit_log) \<union> fst ` set (audit_trail E (rp_version s) [e])"
    then show "\<exists>n\<le>rp_version s'. key = be_bytes 8 n"
    proof
      assume "key \<in> fst ` set (db_data (rp_db s) Kaudit_log)"
      from old[OF this] obtain n where "n \<le> rp_version s" "key = be_bytes 8 n" by (elim exE conjE)
      then show ?thesis by (intro exI[of _ n]) (simp add: ver)
    next
      assume "key \<in> fst ` set (audit_trail E (rp_version s) [e])"
      from new[OF this] show ?thesis by (intro exI conjI) simp_all
    qed
  qed
qed

lemma apply_entries_audit:
  "apply_entries E td s es = (s', Inr rs) \<Longrightarrow> db_wf (rp_db s) \<Longrightarrow> audit_bounded s \<Longrightarrow>
     rp_version s + length es < 2 ^ 64 \<Longrightarrow>
     db_data (rp_db s') Kaudit_log = db_data (rp_db s) Kaudit_log @ audit_trail E (rp_version s) es \<and>
     audit_bounded s'"
proof (induction es arbitrary: s rs)
  case (Cons e es)
  from Cons.prems(1) obtain t r rs' where
    t: "apply_entry E td s e = (t, Inr r)" "apply_entries E td t es = (s', Inr rs')"
    unfolding apply_entries_Cons by blast
  have "rp_version s + 1 < 2 ^ 64" using Cons.prems(4) by simp
  note st = audit_step[OF t(1) Cons.prems(2,3) this]
  have v: "rp_version t = rp_version s + 1"
    using entry_effect(4)[OF t(1) Cons.prems(2)] \<open>rp_version s + 1 < 2 ^ 64\<close> by (simp add: allocate_version_def)
  show ?case
    using Cons.IH[OF t(2) entry_effect(6)[OF t(1) Cons.prems(2)] st(2)] st(1) Cons.prems(4) by (simp add: v)
qed simp


section \<open>Restarts\<close>

text \<open>After a non-empty run the persisted counter is the one in memory.\<close>

lemma persisted_counter:
  assumes "apply_entry E td s e = (s', Inr r)" "db_wf (rp_db s)" "\<not> db_read_fault (rp_db s) Kversion"
  shows "initial_version (rp_db s') = rp_version s'"
proof -
  note eff = entry_effect[OF assms(1,2)]
  have "allocate_version (rp_version s) mod 256 ^ 8 = allocate_version (rp_version s)"
    using allocate_version_bound[of "rp_version s"] by simp
  then show ?thesis
    using eff(2,4,7) assms(3)
    by (simp add: initial_version_def load_persisted_version_def kv_get_def le_value_bytes)
qed

lemma apply_entries_persisted:
  "apply_entries E td s es = (s', Inr rs) \<Longrightarrow> db_wf (rp_db s) \<Longrightarrow> \<not> db_read_fault (rp_db s) Kversion \<Longrightarrow>
     es \<noteq> [] \<Longrightarrow> initial_version (rp_db s') = rp_version s'"
proof (induction es arbitrary: s rs)
  case (Cons e es)
  from Cons.prems(1) obtain t r rs' where
    t: "apply_entry E td s e = (t, Inr r)" "apply_entries E td t es = (s', Inr rs')"
    unfolding apply_entries_Cons by blast
  show ?case
  proof (cases "es = []")
    case True
    with t persisted_counter[OF t(1) Cons.prems(2,3)] show ?thesis by simp
  next
    case False
    then show ?thesis
      using Cons.IH[OF t(2)] entry_effect(6,7)[OF t(1) Cons.prems(2)] Cons.prems(3) by simp
  qed
qed simp


section \<open>Agreement of replicas\<close>

text \<open>Same contents and same counter, whatever reads or commits fail on either side.\<close>

definition same_state :: "replica \<Rightarrow> replica \<Rightarrow> bool" where
  "same_state s t \<longleftrightarrow> db_data (rp_db s) = db_data (rp_db t) \<and> rp_version s = rp_version t"

lemma apply_payload_agrees:
  assumes "db_data db = db_data db'"
    and "apply_payload E db lid p = Inr out" "\<not> db_read_fault db Krevoked_svids"
    and "apply_payload E db' lid p = Inr out'" "\<not> db_read_fault db' Krevoked_svids"
  shows "out = out'"
  using assms by (cases p) (auto simp: apply_payload_def dest: apply_command_agrees)

lemma apply_entry_agrees:
  assumes "same_state s t" "apply_entry E td s e = (s', Inr r)" "apply_entry E td t e = (t', Inr q)"
    and "\<not> db_read_fault (rp_db s) Krevoked_svids" "\<not> db_read_fault (rp_db t) Krevoked_svids"
  shows "same_state s' t' \<and> r = q"
proof -
  have d: "db_data (rp_db s) = db_data (rp_db t)" "rp_version s = rp_version t"
    using assms(1) by (simp_all add: same_state_def)
  obtain ops kind ops' kind' where
    o: "apply_payload E (rp_db s) (en_log_id e) (en_payload e) = Inr (ops, kind)"
       "apply_payload E (rp_db t) (en_log_id e) (en_payload e) = Inr (ops', kind')"
    using assms(2,3) by (auto simp: apply_entry_Inr)
  then have "ops = ops'"
    using apply_payload_agrees[OF d(1) o(1) assms(4) o(2) assms(5)] by simp
  with o d assms(2,3) show ?thesis
    by (auto simp: apply_entry_Inr same_state_def kv_commit_Inr)
qed

lemma apply_entries_agree:
  "same_state s t \<Longrightarrow> apply_entries E td s es = (s', Inr rs) \<Longrightarrow> apply_entries E td t es = (t', Inr qs) \<Longrightarrow>
     db_wf (rp_db s) \<Longrightarrow> db_wf (rp_db t) \<Longrightarrow>
     \<not> db_read_fault (rp_db s) Krevoked_svids \<Longrightarrow> \<not> db_read_fault (rp_db t) Krevoked_svids \<Longrightarrow>
     same_state s' t' \<and> rs = qs"
proof (induction es arbitrary: s t rs qs)
  case (Cons e es)
  from Cons.prems(2) obtain s1 r rs' where
    s: "apply_entry E td s e = (s1, Inr r)" "apply_entries E td s1 es = (s', Inr rs')" "rs = r # rs'"
    unfolding apply_entries_Cons by blast
  from Cons.prems(3) obtain t1 q qs' where
    t: "apply_entry E td t e = (t1, Inr q)" "apply_entries E td t1 es = (t', Inr qs')" "qs = q # qs'"
    unfolding apply_entries_Cons by blast
  have 1: "same_state s1 t1" "r = q"
    using apply_entry_agrees[OF Cons.prems(1) s(1) t(1) Cons.prems(6,7)] by simp_all
  show ?case
    using Cons.IH[OF 1(1) s(2) t(2)] entry_effect(6,7)[OF s(1) Cons.prems(4)]
      entry_effect(6,7)[OF t(1) Cons.prems(5)] Cons.prems(6,7) s(3) t(3) 1(2) by simp
qed simp


section \<open>Progress\<close>

definition entry_addressed :: "env \<Rightarrow> database \<Rightarrow> entry_payload \<Rightarrow> bool" where
  "entry_addressed E db p = (case p of Normal a \<Rightarrow> well_addressed E db (cmd a) | _ \<Rightarrow> True)"

lemma apply_payload_ok_iff:
  assumes "env_ok E" "db_healthy db" "decodable_inv E db"
  shows "is_ok (apply_payload E db lid p) \<longleftrightarrow> entry_addressed E db p"
  using assms apply_command_ok_iff[OF assms] raft_codecs(2)[OF assms(1)]
  by (cases p) (simp_all add: apply_payload_def entry_addressed_def is_ok_insert codec_ok_total)

lemma audit_ops_ok: "env_ok E \<Longrightarrow> \<exists>aud. audit_ops E v p = Inr aud"
  using codec_ok_enc[OF records_codecs(24)] by (cases p) (fastforce simp: audit_ops_Inr)+

text \<open>On healthy storage an entry is applied exactly when its command is well addressed.\<close>

lemma apply_entry_ok_iff:
  assumes "env_ok E" "db_healthy (rp_db s)" "decodable_inv E (rp_db s)"
  shows "(\<exists>s' r. apply_entry E td s e = (s', Inr r)) \<longleftrightarrow> entry_addressed E (rp_db s) (en_payload e)"
proof -
  obtain lid where lid: "enc (c_log_id E) (en_log_id e) = Some lid"
    using codec_ok_enc[OF raft_codecs(1)[OF assms(1)]] by blast
  obtain aud where aud: "audit_ops E (allocate_version (rp_version s)) (en_payload e) = Inr aud"
    using audit_ops_ok[OF assms(1)] by blast
  have "(\<exists>s' r. apply_entry E td s e = (s', Inr r)) \<longleftrightarrow>
      is_ok (apply_payload E (rp_db s) (en_log_id e) (en_payload e))"
    unfolding apply_entry_Inr is_ok_iff using lid aud healthy_reads(3)[OF assms(2)] by fastforce
  then show ?thesis unfolding apply_payload_ok_iff[OF assms] .
qed

text \<open>Commands that are well addressed whatever the database holds.\<close>

definition self_addressed :: "env \<Rightarrow> fleetos_command \<Rightarrow> bool" where
  "self_addressed E c =
     (case c of
        EvictNode n _ \<Rightarrow> sp_parse E n \<noteq> None
      | RevokeDelegation n _ \<Rightarrow> sp_parse E n \<noteq> None
      | GrantSecretAccess _ _ _ \<Rightarrow> False
      | RevokeSecretAccess _ _ _ \<Rightarrow> False
      | _ \<Rightarrow> True)"

lemma self_addressed: "self_addressed E c \<Longrightarrow> well_addressed E db c"
  by (cases c) (simp_all add: self_addressed_def well_addressed_def)

definition plain_entry :: "env \<Rightarrow> log_entry \<Rightarrow> bool" where
  "plain_entry E e =
     (case en_payload e of
        Normal a \<Rightarrow> self_addressed E (cmd a) \<and> \<not> raw_scheduler_write (cmd a)
      | _ \<Rightarrow> True)"

lemma apply_entry_healthy:
  "apply_entry E td s e = (s', Inr r) \<Longrightarrow> db_healthy (rp_db s') = db_healthy (rp_db s)"
  by (auto simp: apply_entry_Inr dest: kv_commit_healthy)

lemma plain_entry_progress:
  assumes "env_ok E" "replica_inv E (rp_db s)" "db_healthy (rp_db s)" "plain_entry E e"
  shows "\<exists>s' r. apply_entry E td s e = (s', Inr r) \<and> replica_inv E (rp_db s') \<and> db_healthy (rp_db s')"
proof -
  have "entry_addressed E (rp_db s) (en_payload e)"
    using assms(4) self_addressed by (auto simp: plain_entry_def entry_addressed_def split: entry_payload.splits)
  moreover have "decodable_inv E (rp_db s)" using assms(2) by (simp add: replica_inv_def)
  ultimately obtain s' r where run: "apply_entry E td s e = (s', Inr r)"
    using apply_entry_ok_iff[OF assms(1,3), of td e] by blast
  moreover have "replica_inv E (rp_db s')"
    by (rule apply_entry_inv[OF assms(1,2) run]) (use assms(4) in \<open>simp add: plain_entry_def\<close>)
  ultimately show ?thesis using apply_entry_healthy[OF run] assms(3) by blast
qed

lemma plain_run:
  assumes "env_ok E" "list_all (plain_entry E) es" "replica_inv E (rp_db s)" "db_healthy (rp_db s)"
  shows "\<exists>s' rs. apply_entries E td s es = (s', Inr rs) \<and> replica_inv E (rp_db s') \<and> db_healthy (rp_db s')"
  using assms(2-)
proof (induction es arbitrary: s)
  case (Cons e es)
  obtain t r where t: "apply_entry E td s e = (t, Inr r)" "replica_inv E (rp_db t)" "db_healthy (rp_db t)"
    using plain_entry_progress[OF assms(1)] Cons.prems by fastforce
  obtain s' rs where "apply_entries E td t es = (s', Inr rs)" "replica_inv E (rp_db s')" "db_healthy (rp_db s')"
    using Cons.IH[OF _ t(2,3)] Cons.prems(1) by auto
  with t(1) show ?case unfolding apply_entries_Cons by blast
qed simp

lemma reachable_entries:
  assumes "reachable E td s" "apply_entries E td s es = (s', res)"
    and "\<And>e a. e \<in> set es \<Longrightarrow> en_payload e = Normal a \<Longrightarrow> \<not> raw_scheduler_write (cmd a)"
  shows "reachable E td s'"
  using assms
proof (induction es arbitrary: s res)
  case (Cons e es)
  obtain t x where t: "apply_entry E td s e = (t, x)" by force
  have r: "reachable E td t"
    by (rule reachable.applied[OF Cons.prems(1) t]) (rule Cons.prems(3)[of e], simp)
  show ?case
  proof (cases x)
    case (Inl err)
    with Cons.prems(2) t r show ?thesis by simp
  next
    case (Inr y)
    with Cons.prems(2) t obtain res' where "apply_entries E td t es = (s', res')"
      by (auto simp: map_prod_id_eq)
    then show ?thesis using Cons.IH[OF r] Cons.prems(3) by auto
  qed
qed simp

end
