(* ===== verification/Postcard.thy ===== *)
theory Postcard
  imports StateFacts
begin

text \<open>
  An executable instance of the codec parameter, in the layout of the serialisation format the
  program uses for its records: unsigned integers as base-128 varints, signed ones zig-zagged,
  strings and byte vectors as a length and the bytes, options and enumerations by a tag, structs
  as their fields in order. Decoding ignores what follows the value. The instance shows that the
  hypotheses \<open>env_ok\<close> of the theorems can be met, and the witnesses run on it.
\<close>

type_synonym 'a pc = "('a \<Rightarrow> bytes) \<times> (bytes \<Rightarrow> ('a \<times> bytes) option)"

definition pc_ok :: "'a pc \<Rightarrow> bool" where
  "pc_ok c \<longleftrightarrow> (\<forall>x r. snd c (fst c x @ r) = Some (x, r))"

named_theorems pc_rules \<open>lawfulness of the combinators\<close>


section \<open>Combinators\<close>

fun varint :: "nat \<Rightarrow> bytes" where
  "varint n = (if n < 128 then [char_of n] else char_of (128 + n mod 128) # varint (n div 128))"

declare varint.simps [simp del]

fun unvarint :: "bytes \<Rightarrow> (nat \<times> bytes) option" where
  "unvarint [] = None"
| "unvarint (c # cs) =
     (let n = of_char c in
      if n < 128 then Some (n, cs)
      else map_option (\<lambda>(m, r). (n - 128 + 128 * m, r)) (unvarint cs))"

definition pc_nat :: "nat pc" where
  "pc_nat = (varint, unvarint)"

definition pc_iso :: "('b \<Rightarrow> 'a) \<Rightarrow> ('a \<Rightarrow> 'b) \<Rightarrow> 'a pc \<Rightarrow> 'b pc" where
  "pc_iso f g c = (\<lambda>x. fst c (f x), \<lambda>b. map_option (\<lambda>(y, r). (g y, r)) (snd c b))"

definition pc_pair :: "'a pc \<Rightarrow> 'b pc \<Rightarrow> ('a \<times> 'b) pc" where
  "pc_pair c d =
     (\<lambda>(x, y). fst c x @ fst d y,
      \<lambda>b. Option.bind (snd c b) (\<lambda>(x, r). map_option (\<lambda>(y, r'). ((x, y), r')) (snd d r)))"

definition pc_int :: "int pc" where
  "pc_int = pc_iso (\<lambda>i. if i < 0 then nat (- i) * 2 - 1 else nat i * 2)
     (\<lambda>n. if n mod 2 = 1 then - int ((n + 1) div 2) else int (n div 2)) pc_nat"

definition pc_bool :: "bool pc" where
  "pc_bool = pc_iso (\<lambda>b. if b then 1 else 0) (\<lambda>n. n = 1) pc_nat"

definition pc_unit :: "unit pc" where
  "pc_unit = (\<lambda>_. [], \<lambda>b. Some ((), b))"

definition pc_str :: "string pc" where
  "pc_str =
     (\<lambda>s. varint (length s) @ s,
      \<lambda>b. Option.bind (unvarint b) (\<lambda>(n, r). if length r < n then None else Some (take n r, drop n r)))"

definition pc_opt :: "'a pc \<Rightarrow> 'a option pc" where
  "pc_opt c =
     (\<lambda>x. case x of None \<Rightarrow> varint 0 | Some y \<Rightarrow> varint 1 @ fst c y,
      \<lambda>b. Option.bind (unvarint b) (\<lambda>(n, r).
        if n = 0 then Some (None, r) else map_option (\<lambda>(y, r'). (Some y, r')) (snd c r)))"

fun pc_take :: "'a pc \<Rightarrow> nat \<Rightarrow> bytes \<Rightarrow> ('a list \<times> bytes) option" where
  "pc_take c 0 b = Some ([], b)"
| "pc_take c (Suc n) b =
     Option.bind (snd c b) (\<lambda>(x, r). map_option (\<lambda>(xs, r'). (x # xs, r')) (pc_take c n r))"

definition pc_list :: "'a pc \<Rightarrow> 'a list pc" where
  "pc_list c =
     (\<lambda>xs. varint (length xs) @ concat (map (fst c) xs),
      \<lambda>b. Option.bind (unvarint b) (\<lambda>(n, r). pc_take c n r))"

lemma unvarint_varint: "unvarint (varint n @ r) = Some (n, r)"
proof (induction n rule: varint.induct)
  case (1 n)
  show ?case
  proof (cases "n < 128")
    case True
    then show ?thesis by (subst varint.simps) simp
  next
    case False
    have "n mod 128 < 128" by simp
    then have "(128 + n mod 128) mod 256 = 128 + n mod 128" by simp
    with False 1 show ?thesis by (subst varint.simps) (simp add: Let_def)
  qed
qed

lemma pc_nat_ok [pc_rules]: "pc_ok pc_nat"
  by (simp add: pc_ok_def pc_nat_def unvarint_varint)

lemma pc_iso_ok [pc_rules]: "pc_ok c \<Longrightarrow> (\<And>x. g (f x) = x) \<Longrightarrow> pc_ok (pc_iso f g c)"
  by (simp add: pc_ok_def pc_iso_def)

lemma pc_pair_ok [pc_rules]: "pc_ok c \<Longrightarrow> pc_ok d \<Longrightarrow> pc_ok (pc_pair c d)"
  by (auto simp: pc_ok_def pc_pair_def)

lemma pc_int_ok [pc_rules]: "pc_ok pc_int"
  unfolding pc_int_def
proof (intro pc_rules)
  fix x :: int
  show "(if (if x < 0 then nat (- x) * 2 - 1 else nat x * 2) mod 2 = 1
         then - int (((if x < 0 then nat (- x) * 2 - 1 else nat x * 2) + 1) div 2)
         else int ((if x < 0 then nat (- x) * 2 - 1 else nat x * 2) div 2)) = x"
  proof (cases "x < 0")
    case True
    then obtain k where "nat (- x) = Suc k" by (metis gr0_implies_Suc neg_0_less_iff_less zero_less_nat_eq)
    then have "nat (- x) * 2 - 1 = 2 * k + 1" "x = - int (Suc k)" by linarith+
    with True show ?thesis by simp
  qed simp
qed

lemma pc_bool_ok [pc_rules]: "pc_ok pc_bool"
  unfolding pc_bool_def by (intro pc_rules) simp

lemma pc_unit_ok [pc_rules]: "pc_ok pc_unit"
  by (simp add: pc_ok_def pc_unit_def)

lemma pc_str_ok [pc_rules]: "pc_ok pc_str"
  by (simp add: pc_ok_def pc_str_def unvarint_varint)

lemma pc_opt_ok [pc_rules]: "pc_ok c \<Longrightarrow> pc_ok (pc_opt c)"
  by (auto simp: pc_ok_def pc_opt_def unvarint_varint split: option.splits)

lemma pc_take_concat: "pc_ok c \<Longrightarrow> pc_take c (length xs) (concat (map (fst c) xs) @ r) = Some (xs, r)"
  by (induction xs) (simp_all add: pc_ok_def)

lemma pc_list_ok [pc_rules]: "pc_ok c \<Longrightarrow> pc_ok (pc_list c)"
  unfolding pc_ok_def[of "pc_list c"] by (simp add: pc_list_def unvarint_varint pc_take_concat)


section \<open>Enumerations\<close>

definition pc_node_status :: "node_status pc" where
  "pc_node_status = pc_iso (\<lambda>s. case s of Active \<Rightarrow> 0 | Cordoned \<Rightarrow> 1 | Evicted \<Rightarrow> 2)
     (\<lambda>n. if n = 0 then Active else if n = 1 then Cordoned else Evicted) pc_nat"

definition pc_ek_state :: "ek_state pc" where
  "pc_ek_state = pc_iso (\<lambda>s. case s of EkPending \<Rightarrow> 0 | EkJoined \<Rightarrow> 1 | EkRevoked \<Rightarrow> 2)
     (\<lambda>n. if n = 0 then EkPending else if n = 1 then EkJoined else EkRevoked) pc_nat"

definition pc_node_kind :: "node_kind pc" where
  "pc_node_kind =
     pc_iso (\<lambda>s. case s of KAgent \<Rightarrow> 0 | KRouter \<Rightarrow> 1 | KGateway \<Rightarrow> 2 | KControl \<Rightarrow> 3 | KFleetctlProxy \<Rightarrow> 4)
       (\<lambda>n. if n = 0 then KAgent else if n = 1 then KRouter else if n = 2 then KGateway
            else if n = 3 then KControl else KFleetctlProxy) pc_nat"

definition pc_value :: "budget_value pc" where
  "pc_value = pc_iso (\<lambda>v. case v of BCount n \<Rightarrow> (True, n) | BPercent n \<Rightarrow> (False, n))
     (\<lambda>(t, n). if t then BCount n else BPercent n) (pc_pair pc_bool pc_nat)"

definition pc_policy :: "budget_policy pc" where
  "pc_policy = pc_iso (\<lambda>v. case v of MinAvailable n \<Rightarrow> (True, n) | MaxUnavailable n \<Rightarrow> (False, n))
     (\<lambda>(t, n). if t then MinAvailable n else MaxUnavailable n) (pc_pair pc_bool (pc_opt pc_value))"

lemma pc_enums_ok [pc_rules]:
  "pc_ok pc_node_status" "pc_ok pc_ek_state" "pc_ok pc_node_kind" "pc_ok pc_value"
  unfolding pc_node_status_def pc_ek_state_def pc_node_kind_def pc_value_def
  by (intro pc_rules; simp split: node_status.split ek_state.split node_kind.split budget_value.split)+

lemma pc_policy_ok [pc_rules]: "pc_ok pc_policy"
  unfolding pc_policy_def by (intro pc_rules) (simp split: budget_policy.split)


section \<open>Records\<close>

definition pc_node_record :: "node_record pc" where
  "pc_node_record =
     pc_iso
       (\<lambda>r. (nr_node_id r, nr_node_kind r, nr_status r, nr_schedulable r,
       nr_last_heartbeat r, nr_registered_at r, nr_capacity_cpu r, nr_capacity_memory r,
       nr_failure_domain r))
       (\<lambda>(x0, x1, x2, x3, x4, x5, x6, x7, x8). \<lparr>nr_node_id = x0, nr_node_kind =
       x1, nr_status = x2, nr_schedulable = x3, nr_last_heartbeat = x4, nr_registered_at = x5,
       nr_capacity_cpu = x6, nr_capacity_memory = x7, nr_failure_domain = x8\<rparr>)
       (pc_pair pc_str (pc_pair pc_nat (pc_pair pc_node_status (pc_pair pc_bool (pc_pair pc_int
       (pc_pair pc_int (pc_pair pc_nat (pc_pair pc_nat pc_str))))))))"

definition pc_tenant_record :: "tenant_record pc" where
  "pc_tenant_record =
     pc_iso
       (\<lambda>r. (tr_tenant_id r, tr_created_at r, tr_last_applied r))
       (\<lambda>(x0, x1, x2). \<lparr>tr_tenant_id = x0, tr_created_at = x1, tr_last_applied =
       x2\<rparr>)
       (pc_pair pc_str (pc_pair pc_int pc_str))"

definition pc_workload_spec_record :: "workload_spec_record pc" where
  "pc_workload_spec_record =
     pc_iso
       (\<lambda>r. (wr_tenant_id r, wr_workload_id r, wr_spec_bytes r, wr_last_applied r))
       (\<lambda>(x0, x1, x2, x3). \<lparr>wr_tenant_id = x0, wr_workload_id = x1,
       wr_spec_bytes = x2, wr_last_applied = x3\<rparr>)
       (pc_pair pc_str (pc_pair pc_str (pc_pair pc_str pc_str)))"

definition pc_cron_workload_record :: "cron_workload_record pc" where
  "pc_cron_workload_record =
     pc_iso
       (\<lambda>r. (cw_tenant_id r, cw_cron_workload_id r, cw_schedule r, cw_spec_bytes r))
       (\<lambda>(x0, x1, x2, x3). \<lparr>cw_tenant_id = x0, cw_cron_workload_id = x1,
       cw_schedule = x2, cw_spec_bytes = x3\<rparr>)
       (pc_pair pc_str (pc_pair pc_str (pc_pair pc_str pc_str)))"

definition pc_revoked_svid_record :: "revoked_svid_record pc" where
  "pc_revoked_svid_record =
     pc_iso
       (\<lambda>r. (rv_spiffe_id r, rv_expires_at r))
       (\<lambda>(x0, x1). \<lparr>rv_spiffe_id = x0, rv_expires_at = x1\<rparr>)
       (pc_pair pc_str pc_int)"

definition pc_audit_record :: "audit_record pc" where
  "pc_audit_record =
     pc_iso
       (\<lambda>r. (au_version r, au_request_id r, au_actor r, au_action r, au_target r,
       au_timestamp r))
       (\<lambda>(x0, x1, x2, x3, x4, x5). \<lparr>au_version = x0, au_request_id = x1,
       au_actor = x2, au_action = x3, au_target = x4, au_timestamp = x5\<rparr>)
       (pc_pair pc_nat (pc_pair pc_str (pc_pair pc_str (pc_pair pc_str (pc_pair pc_str
       pc_nat)))))"

definition pc_cron_checkpoint_record :: "cron_checkpoint_record pc" where
  "pc_cron_checkpoint_record =
     pc_iso
       (\<lambda>r. (cp_tenant_id r, cp_cron_workload_id r, cp_last_triggered r))
       (\<lambda>(x0, x1, x2). \<lparr>cp_tenant_id = x0, cp_cron_workload_id = x1,
       cp_last_triggered = x2\<rparr>)
       (pc_pair pc_str (pc_pair pc_str pc_int))"

definition pc_operator_grant_record :: "operator_grant_record pc" where
  "pc_operator_grant_record =
     pc_iso
       (\<lambda>r. (og_grant_id r, og_operator_id r, og_granted_by r, og_granted_at r,
       og_expires_at r, og_cluster_admin r, og_read_only r, og_tenants r))
       (\<lambda>(x0, x1, x2, x3, x4, x5, x6, x7). \<lparr>og_grant_id = x0, og_operator_id =
       x1, og_granted_by = x2, og_granted_at = x3, og_expires_at = x4, og_cluster_admin = x5,
       og_read_only = x6, og_tenants = x7\<rparr>)
       (pc_pair pc_str (pc_pair pc_str (pc_pair pc_str (pc_pair pc_nat (pc_pair pc_nat (pc_pair
       pc_bool (pc_pair pc_bool (pc_list pc_str))))))))"

definition pc_workload_status_record :: "workload_status_record pc" where
  "pc_workload_status_record =
     pc_iso
       (\<lambda>r. (st_pod_id r, st_workload_id r, st_tenant_id r, st_ready r, st_live r,
       st_started r, st_policy_enforced r, st_restart_count r, st_observed_at r,
       st_router_connected r, st_gate_violation_since r))
       (\<lambda>(x0, x1, x2, x3, x4, x5, x6, x7, x8, x9, x10). \<lparr>st_pod_id = x0,
       st_workload_id = x1, st_tenant_id = x2, st_ready = x3, st_live = x4, st_started = x5,
       st_policy_enforced = x6, st_restart_count = x7, st_observed_at = x8, st_router_connected
       = x9, st_gate_violation_since = x10\<rparr>)
       (pc_pair pc_str (pc_pair pc_str (pc_pair pc_str (pc_pair pc_bool (pc_pair pc_bool
       (pc_pair pc_bool (pc_pair pc_bool (pc_pair pc_nat (pc_pair pc_int (pc_pair pc_bool
       pc_int))))))))))"

definition pc_tenant_quota_record :: "tenant_quota_record pc" where
  "pc_tenant_quota_record =
     pc_iso
       (\<lambda>r. (tq_tenant_id r, tq_max_cpu r, tq_max_memory r, tq_max_workloads r))
       (\<lambda>(x0, x1, x2, x3). \<lparr>tq_tenant_id = x0, tq_max_cpu = x1, tq_max_memory =
       x2, tq_max_workloads = x3\<rparr>)
       (pc_pair pc_str (pc_pair pc_nat (pc_pair pc_nat pc_nat)))"

definition pc_control_address_record :: "control_address_record pc" where
  "pc_control_address_record =
     pc_iso
       (\<lambda>r. (ca_node_id r, ca_dc_addr r, ca_raft_addr r))
       (\<lambda>(x0, x1, x2). \<lparr>ca_node_id = x0, ca_dc_addr = x1, ca_raft_addr =
       x2\<rparr>)
       (pc_pair pc_nat (pc_pair pc_str pc_str))"

definition pc_node_ek_record :: "node_ek_record pc" where
  "pc_node_ek_record =
     pc_iso
       (\<lambda>r. (ek_fingerprint r, ek_pub r, ek_cert_der r, ek_node_id r, ek_registered_at
       r, ek_expires_at r, ek_state r))
       (\<lambda>(x0, x1, x2, x3, x4, x5, x6). \<lparr>ek_fingerprint = x0, ek_pub = x1,
       ek_cert_der = x2, ek_node_id = x3, ek_registered_at = x4, ek_expires_at = x5, ek_state =
       x6\<rparr>)
       (pc_pair pc_str (pc_pair pc_str (pc_pair pc_str (pc_pair pc_str (pc_pair pc_int (pc_pair
       (pc_opt pc_int) pc_ek_state))))))"

definition pc_node_taint :: "node_taint pc" where
  "pc_node_taint =
     pc_iso
       (\<lambda>r. (ta_key r, ta_value r, ta_effect r, ta_time_added r))
       (\<lambda>(x0, x1, x2, x3). \<lparr>ta_key = x0, ta_value = x1, ta_effect = x2,
       ta_time_added = x3\<rparr>)
       (pc_pair pc_str (pc_pair pc_str (pc_pair pc_str pc_int)))"

definition pc_vpa_recommendation_record :: "vpa_recommendation_record pc" where
  "pc_vpa_recommendation_record =
     pc_iso
       (\<lambda>r. (vp_tenant_id r, vp_workload_id r, vp_recommended_vcpus r,
       vp_recommended_memory_mb r, vp_current_vcpus r, vp_current_memory_mb r, vp_computed_at
       r, vp_mode r))
       (\<lambda>(x0, x1, x2, x3, x4, x5, x6, x7). \<lparr>vp_tenant_id = x0, vp_workload_id =
       x1, vp_recommended_vcpus = x2, vp_recommended_memory_mb = x3, vp_current_vcpus = x4,
       vp_current_memory_mb = x5, vp_computed_at = x6, vp_mode = x7\<rparr>)
       (pc_pair pc_str (pc_pair pc_str (pc_pair pc_nat (pc_pair pc_nat (pc_pair pc_nat (pc_pair
       pc_nat (pc_pair pc_int pc_str)))))))"

definition pc_join_token_record :: "join_token_record pc" where
  "pc_join_token_record =
     pc_iso
       (\<lambda>r. (jt_token r, jt_node_kind r, jt_created_at r, jt_expires_at r, jt_consumed
       r))
       (\<lambda>(x0, x1, x2, x3, x4). \<lparr>jt_token = x0, jt_node_kind = x1, jt_created_at
       = x2, jt_expires_at = x3, jt_consumed = x4\<rparr>)
       (pc_pair pc_str (pc_pair pc_node_kind (pc_pair pc_int (pc_pair (pc_opt pc_int)
       pc_bool))))"

definition pc_pcr_value :: "pcr_value pc" where
  "pc_pcr_value =
     pc_iso
       (\<lambda>r. (pv_index r, pv_hash_algorithm r, pv_digest r))
       (\<lambda>(x0, x1, x2). \<lparr>pv_index = x0, pv_hash_algorithm = x1, pv_digest =
       x2\<rparr>)
       (pc_pair pc_nat (pc_pair pc_nat pc_str))"

definition pc_pcr_policy :: "pcr_policy pc" where
  "pc_pcr_policy =
     pc_iso
       (\<lambda>r. (pp_node_id r, pp_expected_pcrs r, pp_updated_at r, pp_active r))
       (\<lambda>(x0, x1, x2, x3). \<lparr>pp_node_id = x0, pp_expected_pcrs = x1,
       pp_updated_at = x2, pp_active = x3\<rparr>)
       (pc_pair pc_str (pc_pair (pc_list pc_pcr_value) (pc_pair pc_int pc_bool)))"

definition pc_svid_record :: "svid_record pc" where
  "pc_svid_record =
     pc_iso
       (\<lambda>r. (sv_spiffe_id r, sv_version r, sv_issued_at r, sv_x25519_pubkey r))
       (\<lambda>(x0, x1, x2, x3). \<lparr>sv_spiffe_id = x0, sv_version = x1, sv_issued_at =
       x2, sv_x25519_pubkey = x3\<rparr>)
       (pc_pair pc_str (pc_pair pc_nat (pc_pair pc_int pc_str)))"

definition pc_delegation_record :: "delegation_record pc" where
  "pc_delegation_record =
     pc_iso
       (\<lambda>r. (dl_delegation_id r, dl_node_id r, dl_target_svid_id r, dl_target_ordinal
       r, dl_issued_at r, dl_expires_at r, dl_refresh_at r))
       (\<lambda>(x0, x1, x2, x3, x4, x5, x6). \<lparr>dl_delegation_id = x0, dl_node_id = x1,
       dl_target_svid_id = x2, dl_target_ordinal = x3, dl_issued_at = x4, dl_expires_at = x5,
       dl_refresh_at = x6\<rparr>)
       (pc_pair pc_str (pc_pair pc_str (pc_pair pc_str (pc_pair (pc_opt pc_nat) (pc_pair pc_int
       (pc_pair pc_int pc_int))))))"

definition pc_tenant_block :: "tenant_block pc" where
  "pc_tenant_block =
     pc_iso
       (\<lambda>r. (tb_tenant_id r, tb_base r, tb_prefix r, tb_next_offset r))
       (\<lambda>(x0, x1, x2, x3). \<lparr>tb_tenant_id = x0, tb_base = x1, tb_prefix = x2,
       tb_next_offset = x3\<rparr>)
       (pc_pair pc_str (pc_pair pc_nat (pc_pair pc_nat pc_nat)))"

definition pc_service_address :: "service_address pc" where
  "pc_service_address =
     pc_iso
       (\<lambda>r. (sa_tenant_id r, sa_service r, sa_role r, sa_address r))
       (\<lambda>(x0, x1, x2, x3). \<lparr>sa_tenant_id = x0, sa_service = x1, sa_role = x2,
       sa_address = x3\<rparr>)
       (pc_pair pc_str (pc_pair pc_str (pc_pair pc_str pc_nat)))"

definition pc_node_pool_record :: "node_pool_record pc" where
  "pc_node_pool_record =
     pc_iso
       (\<lambda>r. (np_pool_id r, np_node_kind r, np_desired_count r, np_vcpus r, np_memory_mb
       r, np_disk_gb r, np_region_hint r, np_last_applied r))
       (\<lambda>(x0, x1, x2, x3, x4, x5, x6, x7). \<lparr>np_pool_id = x0, np_node_kind = x1,
       np_desired_count = x2, np_vcpus = x3, np_memory_mb = x4, np_disk_gb = x5, np_region_hint
       = x6, np_last_applied = x7\<rparr>)
       (pc_pair pc_str (pc_pair pc_node_kind (pc_pair pc_nat (pc_pair pc_nat (pc_pair pc_nat
       (pc_pair pc_nat (pc_pair pc_str pc_str)))))))"

definition pc_resource_spec :: "resource_spec pc" where
  "pc_resource_spec =
     pc_iso
       (\<lambda>r. (cpu_millicores r, memory_bytes r))
       (\<lambda>(x0, x1). \<lparr>cpu_millicores = x0, memory_bytes = x1\<rparr>)
       (pc_pair pc_nat pc_nat)"

definition pc_placement :: "placement pc" where
  "pc_placement =
     pc_iso
       (\<lambda>r. (pl_pod_id r, pl_tenant_id r, pl_service r, pl_role r, pl_ordinal r,
       pl_node_id r, pl_resources r))
       (\<lambda>(x0, x1, x2, x3, x4, x5, x6). \<lparr>pl_pod_id = x0, pl_tenant_id = x1,
       pl_service = x2, pl_role = x3, pl_ordinal = x4, pl_node_id = x5, pl_resources =
       x6\<rparr>)
       (pc_pair pc_str (pc_pair pc_str (pc_pair pc_str (pc_pair pc_str (pc_pair pc_nat (pc_pair
       pc_str pc_resource_spec))))))"

definition pc_ordinal_assignment :: "ordinal_assignment pc" where
  "pc_ordinal_assignment =
     pc_iso
       (\<lambda>r. (oa_tenant_id r, oa_service r, oa_role r, oa_ordinal r, oa_pod_id r,
       oa_node_id r))
       (\<lambda>(x0, x1, x2, x3, x4, x5). \<lparr>oa_tenant_id = x0, oa_service = x1, oa_role
       = x2, oa_ordinal = x3, oa_pod_id = x4, oa_node_id = x5\<rparr>)
       (pc_pair pc_str (pc_pair pc_str (pc_pair pc_str (pc_pair pc_nat (pc_pair (pc_opt pc_str)
       (pc_opt pc_str))))))"

definition pc_proto_resources :: "proto_resources pc" where
  "pc_proto_resources =
     pc_iso
       (\<lambda>r. (rs_vcpus r, rs_memory_mb r))
       (\<lambda>(x0, x1). \<lparr>rs_vcpus = x0, rs_memory_mb = x1\<rparr>)
       (pc_pair pc_nat pc_nat)"

definition pc_toleration :: "toleration pc" where
  "pc_toleration =
     pc_iso
       (\<lambda>r. (tol_key r, tol_operator r, tol_value r, tol_effect r, tol_seconds r))
       (\<lambda>(x0, x1, x2, x3, x4). \<lparr>tol_key = x0, tol_operator = x1, tol_value = x2,
       tol_effect = x3, tol_seconds = x4\<rparr>)
       (pc_pair pc_str (pc_pair pc_str (pc_pair pc_str (pc_pair pc_str pc_int))))"

definition pc_init_container :: "init_container pc" where
  "pc_init_container =
     pc_iso
       (\<lambda>r. (ic_name r, ic_image r, ic_rest r))
       (\<lambda>(x0, x1, x2). \<lparr>ic_name = x0, ic_image = x1, ic_rest = x2\<rparr>)
       (pc_pair pc_str (pc_pair pc_str pc_str))"

definition pc_pod_spec :: "pod_spec pc" where
  "pc_pod_spec =
     pc_iso
       (\<lambda>r. (ps_tenant_id r, ps_workload_id r, ps_role r, ps_image r, ps_runtime r,
       ps_ordinal r, ps_pod_id r, ps_resources r, ps_priority r, ps_tolerations r, ps_env r,
       ps_labels r, ps_init_containers r, ps_rest r))
       (\<lambda>(x0, x1, x2, x3, x4, x5, x6, x7, x8, x9, x10, x11, x12, x13).
       \<lparr>ps_tenant_id = x0, ps_workload_id = x1, ps_role = x2, ps_image = x3, ps_runtime
       = x4, ps_ordinal = x5, ps_pod_id = x6, ps_resources = x7, ps_priority = x8,
       ps_tolerations = x9, ps_env = x10, ps_labels = x11, ps_init_containers = x12, ps_rest =
       x13\<rparr>)
       (pc_pair pc_str (pc_pair pc_str (pc_pair pc_str (pc_pair pc_str (pc_pair pc_str (pc_pair
       (pc_opt pc_nat) (pc_pair (pc_opt pc_str) (pc_pair (pc_opt pc_proto_resources) (pc_pair
       pc_int (pc_pair (pc_list pc_toleration) (pc_pair (pc_list (pc_pair pc_str pc_str))
       (pc_pair (pc_list (pc_pair pc_str pc_str)) (pc_pair (pc_list pc_init_container)
       pc_str)))))))))))))"

definition pc_disruption_budget :: "disruption_budget pc" where
  "pc_disruption_budget =
     pc_iso
       (\<lambda>r. bud_policy r)
       (\<lambda>x0. \<lparr>bud_policy = x0\<rparr>)
       (pc_opt pc_policy)"

definition pc_autoscaling_policy :: "autoscaling_policy pc" where
  "pc_autoscaling_policy =
     pc_iso
       (\<lambda>r. (hp_enabled r, hp_min_replicas r, hp_max_replicas r, hp_target_cpu r,
       hp_target_memory r, hp_target_net_rx r, hp_target_net_tx r, hp_stabilization_window r))
       (\<lambda>(x0, x1, x2, x3, x4, x5, x6, x7). \<lparr>hp_enabled = x0, hp_min_replicas =
       x1, hp_max_replicas = x2, hp_target_cpu = x3, hp_target_memory = x4, hp_target_net_rx =
       x5, hp_target_net_tx = x6, hp_stabilization_window = x7\<rparr>)
       (pc_pair pc_bool (pc_pair pc_nat (pc_pair pc_nat (pc_pair pc_nat (pc_pair pc_nat
       (pc_pair pc_nat (pc_pair pc_nat pc_nat)))))))"

definition pc_vertical_policy :: "vertical_policy pc" where
  "pc_vertical_policy =
     pc_iso
       (\<lambda>r. (va_enabled r, va_mode r, va_target_cpu_percent r, va_target_memory_percent
       r, va_min_vcpus r, va_max_vcpus r, va_min_memory r, va_max_memory r, va_deadband_percent
       r, va_stabilization_window r))
       (\<lambda>(x0, x1, x2, x3, x4, x5, x6, x7, x8, x9). \<lparr>va_enabled = x0, va_mode =
       x1, va_target_cpu_percent = x2, va_target_memory_percent = x3, va_min_vcpus = x4,
       va_max_vcpus = x5, va_min_memory = x6, va_max_memory = x7, va_deadband_percent = x8,
       va_stabilization_window = x9\<rparr>)
       (pc_pair pc_bool (pc_pair pc_int (pc_pair pc_nat (pc_pair pc_nat (pc_pair pc_nat
       (pc_pair pc_nat (pc_pair pc_nat (pc_pair pc_nat (pc_pair pc_nat pc_nat)))))))))"

definition pc_workload_spec :: "workload_spec pc" where
  "pc_workload_spec =
     pc_iso
       (\<lambda>r. (ws_tenant_id r, ws_workload_id r, ws_image r, ws_replicas r, ws_pod_spec
       r, ws_budgets r, ws_placement r, ws_autoscaling r, ws_vertical r, ws_rest r))
       (\<lambda>(x0, x1, x2, x3, x4, x5, x6, x7, x8, x9). \<lparr>ws_tenant_id = x0,
       ws_workload_id = x1, ws_image = x2, ws_replicas = x3, ws_pod_spec = x4, ws_budgets = x5,
       ws_placement = x6, ws_autoscaling = x7, ws_vertical = x8, ws_rest = x9\<rparr>)
       (pc_pair pc_str (pc_pair pc_str (pc_pair pc_str (pc_pair (pc_list (pc_pair pc_str
       pc_nat)) (pc_pair (pc_opt pc_pod_spec) (pc_pair (pc_list (pc_pair pc_str
       pc_disruption_budget)) (pc_pair pc_int (pc_pair (pc_opt pc_autoscaling_policy) (pc_pair
       (pc_opt pc_vertical_policy) pc_str)))))))))"

definition pc_cron_schedule :: "cron_schedule pc" where
  "pc_cron_schedule =
     pc_iso
       (\<lambda>r. (cs_expression r, cs_suspend r, cs_rest r))
       (\<lambda>(x0, x1, x2). \<lparr>cs_expression = x0, cs_suspend = x1, cs_rest =
       x2\<rparr>)
       (pc_pair pc_str (pc_pair pc_bool pc_str))"

definition pc_cron_workload :: "cron_workload pc" where
  "pc_cron_workload =
     pc_iso
       (\<lambda>r. (cr_tenant_id r, cr_cron_workload_id r, cr_schedule r, cr_template r,
       cr_rest r))
       (\<lambda>(x0, x1, x2, x3, x4). \<lparr>cr_tenant_id = x0, cr_cron_workload_id = x1,
       cr_schedule = x2, cr_template = x3, cr_rest = x4\<rparr>)
       (pc_pair pc_str (pc_pair pc_str (pc_pair (pc_opt pc_cron_schedule) (pc_pair (pc_opt
       pc_workload_spec) pc_str))))"

definition pc_manifest_workload :: "manifest_workload pc" where
  "pc_manifest_workload =
     pc_iso
       (\<lambda>r. (mw_image r, mw_replicas r, mw_pod_spec r, mw_placement r, mw_autoscaling
       r))
       (\<lambda>(x0, x1, x2, x3, x4). \<lparr>mw_image = x0, mw_replicas = x1, mw_pod_spec =
       x2, mw_placement = x3, mw_autoscaling = x4\<rparr>)
       (pc_pair (pc_opt pc_str) (pc_pair (pc_list (pc_pair pc_str pc_nat)) (pc_pair (pc_opt
       pc_pod_spec) (pc_pair (pc_opt pc_int) (pc_opt pc_autoscaling_policy)))))"

definition pc_service_ref :: "service_ref pc" where
  "pc_service_ref =
     pc_iso
       (\<lambda>r. (sf_tenant r, sf_service_name r, sf_role r, sf_port r))
       (\<lambda>(x0, x1, x2, x3). \<lparr>sf_tenant = x0, sf_service_name = x1, sf_role = x2,
       sf_port = x3\<rparr>)
       (pc_pair pc_str (pc_pair pc_str (pc_pair pc_str (pc_opt pc_nat))))"

definition pc_sag_rule :: "sag_rule pc" where
  "pc_sag_rule =
     pc_iso
       (\<lambda>r. (sag_from r, sag_to r, sag_action r, sag_rest r))
       (\<lambda>(x0, x1, x2, x3). \<lparr>sag_from = x0, sag_to = x1, sag_action = x2,
       sag_rest = x3\<rparr>)
       (pc_pair (pc_opt pc_service_ref) (pc_pair (pc_opt pc_service_ref) (pc_pair pc_int
       pc_str)))"

definition pc_workload_assignment_record :: "workload_assignment_record pc" where
  "pc_workload_assignment_record =
     pc_iso
       (\<lambda>r. (wa_workload_id r, wa_runtime r, wa_image r, wa_role r, wa_hostname r,
       wa_pod_spec_bytes r))
       (\<lambda>(x0, x1, x2, x3, x4, x5). \<lparr>wa_workload_id = x0, wa_runtime = x1,
       wa_image = x2, wa_role = x3, wa_hostname = x4, wa_pod_spec_bytes = x5\<rparr>)
       (pc_pair pc_str (pc_pair pc_str (pc_pair pc_str (pc_pair pc_str (pc_pair pc_str
       pc_str)))))"

definition pc_route_entry_record :: "route_entry_record pc" where
  "pc_route_entry_record =
     pc_iso
       (\<lambda>r. (re_destination_svid r, re_destination_role r, re_target_agent_svid r,
       re_dummy_ip r, re_source_spiffe_ids r))
       (\<lambda>(x0, x1, x2, x3, x4). \<lparr>re_destination_svid = x0, re_destination_role =
       x1, re_target_agent_svid = x2, re_dummy_ip = x3, re_source_spiffe_ids = x4\<rparr>)
       (pc_pair pc_str (pc_pair pc_str (pc_pair pc_str (pc_pair pc_nat (pc_list pc_str)))))"

definition pc_log_id :: "log_id pc" where
  "pc_log_id =
     pc_iso
       (\<lambda>r. (lg_term r, lg_leader r, lg_index r))
       (\<lambda>(x0, x1, x2). \<lparr>lg_term = x0, lg_leader = x1, lg_index = x2\<rparr>)
       (pc_pair pc_nat (pc_pair pc_nat pc_nat))"

definition pc_stored_membership :: "stored_membership pc" where
  "pc_stored_membership =
     pc_iso
       (\<lambda>r. (smb_log_id r, smb_membership r))
       (\<lambda>(x0, x1). \<lparr>smb_log_id = x0, smb_membership = x1\<rparr>)
       (pc_pair (pc_opt pc_log_id) pc_str)"

definition pc_vote :: "vote pc" where
  "pc_vote =
     pc_iso
       (\<lambda>r. (vo_term r, vo_node r, vo_committed r))
       (\<lambda>(x0, x1, x2). \<lparr>vo_term = x0, vo_node = x1, vo_committed = x2\<rparr>)
       (pc_pair pc_nat (pc_pair pc_nat pc_bool))"

definition pc_snapshot_meta :: "snapshot_meta pc" where
  "pc_snapshot_meta =
     pc_iso
       (\<lambda>r. (sn_last_log_id r, sn_last_membership r, sn_snapshot_id r))
       (\<lambda>(x0, x1, x2). \<lparr>sn_last_log_id = x0, sn_last_membership = x1,
       sn_snapshot_id = x2\<rparr>)
       (pc_pair (pc_opt pc_log_id) (pc_pair pc_stored_membership pc_str))"

definition pc_application_snapshot :: "application_snapshot pc" where
  "pc_application_snapshot =
     pc_iso
       (\<lambda>r. as_keyspaces r)
       (\<lambda>x0. \<lparr>as_keyspaces = x0\<rparr>)
       (pc_list (pc_pair pc_str (pc_list (pc_pair pc_str pc_str))))"

section \<open>Lawfulness\<close>

lemma pc_node_record_ok [pc_rules]: "pc_ok pc_node_record"
  unfolding pc_node_record_def by (intro pc_rules) simp

lemma pc_tenant_record_ok [pc_rules]: "pc_ok pc_tenant_record"
  unfolding pc_tenant_record_def by (intro pc_rules) simp

lemma pc_workload_spec_record_ok [pc_rules]: "pc_ok pc_workload_spec_record"
  unfolding pc_workload_spec_record_def by (intro pc_rules) simp

lemma pc_cron_workload_record_ok [pc_rules]: "pc_ok pc_cron_workload_record"
  unfolding pc_cron_workload_record_def by (intro pc_rules) simp

lemma pc_revoked_svid_record_ok [pc_rules]: "pc_ok pc_revoked_svid_record"
  unfolding pc_revoked_svid_record_def by (intro pc_rules) simp

lemma pc_audit_record_ok [pc_rules]: "pc_ok pc_audit_record"
  unfolding pc_audit_record_def by (intro pc_rules) simp

lemma pc_cron_checkpoint_record_ok [pc_rules]: "pc_ok pc_cron_checkpoint_record"
  unfolding pc_cron_checkpoint_record_def by (intro pc_rules) simp

lemma pc_operator_grant_record_ok [pc_rules]: "pc_ok pc_operator_grant_record"
  unfolding pc_operator_grant_record_def by (intro pc_rules) simp

lemma pc_workload_status_record_ok [pc_rules]: "pc_ok pc_workload_status_record"
  unfolding pc_workload_status_record_def by (intro pc_rules) simp

lemma pc_tenant_quota_record_ok [pc_rules]: "pc_ok pc_tenant_quota_record"
  unfolding pc_tenant_quota_record_def by (intro pc_rules) simp

lemma pc_control_address_record_ok [pc_rules]: "pc_ok pc_control_address_record"
  unfolding pc_control_address_record_def by (intro pc_rules) simp

lemma pc_node_ek_record_ok [pc_rules]: "pc_ok pc_node_ek_record"
  unfolding pc_node_ek_record_def by (intro pc_rules) simp

lemma pc_node_taint_ok [pc_rules]: "pc_ok pc_node_taint"
  unfolding pc_node_taint_def by (intro pc_rules) simp

lemma pc_vpa_recommendation_record_ok [pc_rules]: "pc_ok pc_vpa_recommendation_record"
  unfolding pc_vpa_recommendation_record_def by (intro pc_rules) simp

lemma pc_join_token_record_ok [pc_rules]: "pc_ok pc_join_token_record"
  unfolding pc_join_token_record_def by (intro pc_rules) simp

lemma pc_pcr_value_ok [pc_rules]: "pc_ok pc_pcr_value"
  unfolding pc_pcr_value_def by (intro pc_rules) simp

lemma pc_pcr_policy_ok [pc_rules]: "pc_ok pc_pcr_policy"
  unfolding pc_pcr_policy_def by (intro pc_rules) simp

lemma pc_svid_record_ok [pc_rules]: "pc_ok pc_svid_record"
  unfolding pc_svid_record_def by (intro pc_rules) simp

lemma pc_delegation_record_ok [pc_rules]: "pc_ok pc_delegation_record"
  unfolding pc_delegation_record_def by (intro pc_rules) simp

lemma pc_tenant_block_ok [pc_rules]: "pc_ok pc_tenant_block"
  unfolding pc_tenant_block_def by (intro pc_rules) simp

lemma pc_service_address_ok [pc_rules]: "pc_ok pc_service_address"
  unfolding pc_service_address_def by (intro pc_rules) simp

lemma pc_node_pool_record_ok [pc_rules]: "pc_ok pc_node_pool_record"
  unfolding pc_node_pool_record_def by (intro pc_rules) simp

lemma pc_resource_spec_ok [pc_rules]: "pc_ok pc_resource_spec"
  unfolding pc_resource_spec_def by (intro pc_rules) simp

lemma pc_placement_ok [pc_rules]: "pc_ok pc_placement"
  unfolding pc_placement_def by (intro pc_rules) simp

lemma pc_ordinal_assignment_ok [pc_rules]: "pc_ok pc_ordinal_assignment"
  unfolding pc_ordinal_assignment_def by (intro pc_rules) simp

lemma pc_proto_resources_ok [pc_rules]: "pc_ok pc_proto_resources"
  unfolding pc_proto_resources_def by (intro pc_rules) simp

lemma pc_toleration_ok [pc_rules]: "pc_ok pc_toleration"
  unfolding pc_toleration_def by (intro pc_rules) simp

lemma pc_init_container_ok [pc_rules]: "pc_ok pc_init_container"
  unfolding pc_init_container_def by (intro pc_rules) simp

lemma pc_pod_spec_ok [pc_rules]: "pc_ok pc_pod_spec"
  unfolding pc_pod_spec_def by (intro pc_rules) simp

lemma pc_disruption_budget_ok [pc_rules]: "pc_ok pc_disruption_budget"
  unfolding pc_disruption_budget_def by (intro pc_rules) simp

lemma pc_autoscaling_policy_ok [pc_rules]: "pc_ok pc_autoscaling_policy"
  unfolding pc_autoscaling_policy_def by (intro pc_rules) simp

lemma pc_vertical_policy_ok [pc_rules]: "pc_ok pc_vertical_policy"
  unfolding pc_vertical_policy_def by (intro pc_rules) simp

lemma pc_workload_spec_ok [pc_rules]: "pc_ok pc_workload_spec"
  unfolding pc_workload_spec_def by (intro pc_rules) simp

lemma pc_cron_schedule_ok [pc_rules]: "pc_ok pc_cron_schedule"
  unfolding pc_cron_schedule_def by (intro pc_rules) simp

lemma pc_cron_workload_ok [pc_rules]: "pc_ok pc_cron_workload"
  unfolding pc_cron_workload_def by (intro pc_rules) simp

lemma pc_manifest_workload_ok [pc_rules]: "pc_ok pc_manifest_workload"
  unfolding pc_manifest_workload_def by (intro pc_rules) simp

lemma pc_service_ref_ok [pc_rules]: "pc_ok pc_service_ref"
  unfolding pc_service_ref_def by (intro pc_rules) simp

lemma pc_sag_rule_ok [pc_rules]: "pc_ok pc_sag_rule"
  unfolding pc_sag_rule_def by (intro pc_rules) simp

lemma pc_workload_assignment_record_ok [pc_rules]: "pc_ok pc_workload_assignment_record"
  unfolding pc_workload_assignment_record_def by (intro pc_rules) simp

lemma pc_route_entry_record_ok [pc_rules]: "pc_ok pc_route_entry_record"
  unfolding pc_route_entry_record_def by (intro pc_rules) simp

lemma pc_log_id_ok [pc_rules]: "pc_ok pc_log_id"
  unfolding pc_log_id_def by (intro pc_rules) simp

lemma pc_stored_membership_ok [pc_rules]: "pc_ok pc_stored_membership"
  unfolding pc_stored_membership_def by (intro pc_rules) simp

lemma pc_vote_ok [pc_rules]: "pc_ok pc_vote"
  unfolding pc_vote_def by (intro pc_rules) simp

lemma pc_snapshot_meta_ok [pc_rules]: "pc_ok pc_snapshot_meta"
  unfolding pc_snapshot_meta_def by (intro pc_rules) simp

lemma pc_application_snapshot_ok [pc_rules]: "pc_ok pc_application_snapshot"
  unfolding pc_application_snapshot_def by (intro pc_rules) simp


section \<open>The instance\<close>

definition codec_of :: "'a pc \<Rightarrow> 'a codec" where
  "codec_of c = \<lparr>enc = \<lambda>x. Some (fst c x), dec = \<lambda>b. map_option fst (snd c b)\<rparr>"

text \<open>Messages of the protocol-buffer kind open with the tag of their first field.\<close>

definition tagged_codec_of :: "'a pc \<Rightarrow> 'a codec" where
  "tagged_codec_of c =
     \<lparr>enc = \<lambda>x. Some (CHR 0x0A # fst c x),
      dec = \<lambda>b. case b of [] \<Rightarrow> None | t # r \<Rightarrow> if t = CHR 0x0A then map_option fst (snd c r) else None\<rparr>"

text \<open>The kind of an identity is a segment of its path.\<close>

definition plain_kind :: "spiffe_id \<Rightarrow> id_kind" where
  "plain_kind s =
     (if sublist ''/ctrl/'' s then IkCtrl else if sublist ''/operator/'' s then IkOperator
      else if sublist ''/control/'' s then IkControl else if sublist ''/node/'' s then IkNode
      else if sublist ''/router/'' s then IkRouter else if sublist ''/gateway/'' s then IkGateway
      else IkSa)"

definition postcard_env :: env where
  "postcard_env = Env
     (codec_of pc_tenant_record)
     (codec_of pc_tenant_block)
     (codec_of pc_service_address)
     (codec_of pc_workload_spec_record)
     (codec_of pc_cron_workload_record)
     (codec_of pc_cron_checkpoint_record)
     (codec_of pc_vpa_recommendation_record)
     (codec_of pc_tenant_quota_record)
     (codec_of pc_control_address_record)
     (codec_of pc_svid_record)
     (codec_of pc_node_ek_record)
     (codec_of (pc_list pc_node_taint))
     (codec_of pc_workload_status_record)
     (codec_of pc_join_token_record)
     (codec_of pc_pcr_policy)
     (codec_of pc_node_record)
     (codec_of pc_delegation_record)
     (codec_of pc_revoked_svid_record)
     (codec_of (pc_list (pc_pair pc_str (pc_list (pc_pair pc_str pc_unit)))))
     (codec_of pc_ordinal_assignment)
     (codec_of pc_placement)
     (codec_of pc_node_pool_record)
     (codec_of pc_operator_grant_record)
     (codec_of pc_audit_record)
     (codec_of pc_log_id)
     (codec_of pc_stored_membership)
     (codec_of pc_snapshot_meta)
     (codec_of pc_application_snapshot)
     (codec_of pc_vote)
     (tagged_codec_of pc_workload_spec)
     (tagged_codec_of pc_pod_spec)
     (tagged_codec_of pc_sag_rule)
     (codec_of (pc_list pc_workload_assignment_record))
     (codec_of (pc_list pc_route_entry_record))
     (tagged_codec_of pc_cron_workload)
     (tagged_codec_of pc_manifest_workload)
     (\<lambda>s. if prefix ''spiffe://'' s then Some s else None)
     plain_kind
     (\<lambda>s. s \<noteq> [])
     (\<lambda>s. s \<noteq> [])
     (\<lambda>service role tenant td. Some (service @ ''.'' @ role @ ''.'' @ tenant @ ''.'' @ td))"

lemma codec_of_ok: "pc_ok c \<Longrightarrow> codec_ok (codec_of c)"
  by (simp add: codec_ok_def codec_of_def pc_ok_def) (metis append_Nil2 fst_conv option.simps(9))

lemma tagged_codec_of_ok: "pc_ok c \<Longrightarrow> codec_ok (tagged_codec_of c)"
  by (simp add: codec_ok_def tagged_codec_of_def pc_ok_def) (metis append_Nil2 fst_conv option.simps(9))

lemma postcard_env_ok: "env_ok postcard_env"
  unfolding env_ok_def records_ok_def raft_ok_def proto_ok_def spiffe_ok_def postcard_env_def
  by (simp only: env.sel, intro conjI codec_of_ok tagged_codec_of_ok pc_rules) simp

lemma enc_codec_of [simp]: "enc (codec_of c) x = Some (fst c x)"
  by (simp add: codec_of_def)

lemma dec_codec_of: "pc_ok c \<Longrightarrow> dec (codec_of c) (fst c x) = Some x"
  using codec_ok_dec[OF codec_of_ok, of c x "fst c x"] by simp

end
