(* ===== verification/LogStore.thy ===== *)
theory LogStore
  imports RaftSnapshot Postcard
begin

text \<open>
  The Raft log store (\<open>raft/store.rs\<close>): entries under the big-endian bytes of their index, the
  vote and the purge watermark in a keyspace of their own. Abstractly the store is a partial map
  from indices to entries; the operations of the store refine the obvious operations on that map.
\<close>


section \<open>Operations\<close>

datatype log_error =
    Read_logs | Write_logs | Write_log_entry log_id | Read_vote | Write_vote

datatype bound = Included nat | Excluded nat | Unbounded

text \<open>The byte range the index range is converted to.\<close>

fun above :: "bound \<Rightarrow> bytes \<Rightarrow> bool" where
  "above (Included n) key \<longleftrightarrow> be_bytes 8 n \<le> key"
| "above (Excluded n) key \<longleftrightarrow> be_bytes 8 n < key"
| "above Unbounded key \<longleftrightarrow> True"

fun below :: "bound \<Rightarrow> bytes \<Rightarrow> bool" where
  "below (Included n) key \<longleftrightarrow> key \<le> be_bytes 8 n"
| "below (Excluded n) key \<longleftrightarrow> key < be_bytes 8 n"
| "below Unbounded key \<longleftrightarrow> True"

definition log_range :: "database \<Rightarrow> bound \<Rightarrow> bound \<Rightarrow> fjall_error + (bytes \<times> bytes) list" where
  "log_range db lo hi =
     bindE (kv_prefix db Kraft_log []) (\<lambda>kvs. Inr (filter (\<lambda>(key, _). above lo key \<and> below hi key) kvs))"

definition try_get_log_entries ::
  "log_entry codec \<Rightarrow> database \<Rightarrow> bound \<Rightarrow> bound \<Rightarrow> log_error + log_entry list" where
  "try_get_log_entries c db lo hi =
     bindE (map_err (\<lambda>_. Read_logs) (log_range db lo hi)) (\<lambda>kvs. Inr (decode_all c kvs))"

record log_state =
  ls_last_purged :: "log_id option"
  ls_last_log_id :: "log_id option"

definition get_log_state :: "env \<Rightarrow> log_entry codec \<Rightarrow> database \<Rightarrow> log_error + log_state" where
  "get_log_state E c db =
     (let last_log_id =
        (if db_read_fault db Kraft_log \<or> db_data db Kraft_log = [] then None
         else map_option en_log_id (dec c (snd (last (db_data db Kraft_log))))) in
      bindE (map_err (\<lambda>_. Read_logs) (kv_get db Kraft_log_meta ''last_purged'')) (\<lambda>v.
      bindE (case v of
               Some b \<Rightarrow> bindE (ok_or Read_logs (dec (c_log_id E) b)) (\<lambda>l. Inr (Some l))
             | None \<Rightarrow> Inr None) (\<lambda>last_purged.
        Inr \<lparr>ls_last_purged = last_purged, ls_last_log_id = last_log_id\<rparr>)))"

definition save_vote :: "env \<Rightarrow> database \<Rightarrow> vote \<Rightarrow> log_error + database" where
  "save_vote E db v =
     bindE (ok_or Write_vote (enc (c_vote E) v)) (\<lambda>b.
       map_err (\<lambda>_. Write_vote) (kv_commit db [Put Kraft_log_meta ''vote'' b]))"

definition read_vote :: "env \<Rightarrow> database \<Rightarrow> log_error + vote option" where
  "read_vote E db =
     bindE (map_err (\<lambda>_. Read_vote) (kv_get db Kraft_log_meta ''vote'')) (\<lambda>v.
       case v of
         Some b \<Rightarrow> bindE (ok_or Read_vote (dec (c_vote E) b)) (\<lambda>x. Inr (Some x))
       | None \<Rightarrow> Inr None)"

abbreviation en_index :: "log_entry \<Rightarrow> nat" where
  "en_index e \<equiv> lg_index (en_log_id e)"

definition append_log :: "log_entry codec \<Rightarrow> database \<Rightarrow> log_entry list \<Rightarrow> log_error + database" where
  "append_log c db es =
     bindE (mapE (\<lambda>e. bindE (ok_or (Write_log_entry (en_log_id e)) (enc c e)) (\<lambda>b.
                    Inr (Put Kraft_log (be_bytes 8 (en_index e)) b))) es) (\<lambda>batch.
       map_err (\<lambda>_. Write_logs) (kv_commit db batch))"

definition truncate_log :: "database \<Rightarrow> log_id \<Rightarrow> log_error + database" where
  "truncate_log db l =
     bindE (map_err (\<lambda>_. Write_logs) (log_range db (Included (lg_index l)) Unbounded)) (\<lambda>kvs.
       map_err (\<lambda>_. Write_logs) (kv_commit db (map (\<lambda>kv. Del Kraft_log (fst kv)) kvs)))"

definition purge_log :: "env \<Rightarrow> database \<Rightarrow> log_id \<Rightarrow> log_error + database" where
  "purge_log E db l =
     bindE (map_err (\<lambda>_. Write_logs) (log_range db Unbounded (Included (lg_index l)))) (\<lambda>kvs.
     bindE (ok_or Write_logs (enc (c_log_id E) l)) (\<lambda>b.
       map_err (\<lambda>_. Write_logs)
         (kv_commit db (map (\<lambda>kv. Del Kraft_log (fst kv)) kvs @ [Put Kraft_log_meta ''last_purged'' b]))))"


section \<open>The abstract log\<close>

definition codec_roundtrip :: "'a codec \<Rightarrow> bool" where
  "codec_roundtrip c \<longleftrightarrow> (\<forall>x b. enc c x = Some b \<longrightarrow> dec c b = Some x)"

lemma codec_roundtripD: "codec_roundtrip c \<Longrightarrow> enc c x = Some b \<Longrightarrow> dec c b = Some x"
  by (simp add: codec_roundtrip_def)

definition log_at :: "log_entry codec \<Rightarrow> database \<Rightarrow> nat \<Rightarrow> log_entry option" where
  "log_at c db i =
     (if i < 2 ^ 64 then Option.bind (lookup db Kraft_log (be_bytes 8 i)) (dec c) else None)"

text \<open>Every stored entry decodes and sits under its own index.\<close>

definition log_inv :: "log_entry codec \<Rightarrow> database \<Rightarrow> bool" where
  "log_inv c db \<longleftrightarrow> db_wf db \<and>
     (\<forall>key v. lookup db Kraft_log key = Some v \<longrightarrow>
        (\<exists>e. dec c v = Some e \<and> en_index e < 2 ^ 64 \<and> key = be_bytes 8 (en_index e)))"

definition index_in :: "bound \<Rightarrow> bound \<Rightarrow> nat \<Rightarrow> bool" where
  "index_in lo hi i \<longleftrightarrow>
     (case lo of Included n \<Rightarrow> n \<le> i | Excluded n \<Rightarrow> n < i | Unbounded \<Rightarrow> True) \<and>
     (case hi of Included n \<Rightarrow> i \<le> n | Excluded n \<Rightarrow> i < n | Unbounded \<Rightarrow> True)"

fun bound_u64 :: "bound \<Rightarrow> bool" where
  "bound_u64 (Included n) \<longleftrightarrow> n < 2 ^ 64"
| "bound_u64 (Excluded n) \<longleftrightarrow> n < 2 ^ 64"
| "bound_u64 Unbounded \<longleftrightarrow> True"

lemma be_bytes_8_le: "m < 2 ^ 64 \<Longrightarrow> n < 2 ^ 64 \<Longrightarrow> be_bytes 8 m \<le> be_bytes 8 n \<longleftrightarrow> m \<le> n"
  by (simp add: be_bytes_8_less flip: not_less)

lemma byte_range:
  assumes "bound_u64 lo" "bound_u64 hi" "i < 2 ^ 64"
  shows "above lo (be_bytes 8 i) \<and> below hi (be_bytes 8 i) \<longleftrightarrow> index_in lo hi i"
proof -
  have "above lo (be_bytes 8 i) \<longleftrightarrow> (case lo of Included n \<Rightarrow> n \<le> i | Excluded n \<Rightarrow> n < i | Unbounded \<Rightarrow> True)"
    using assms(1,3) by (cases lo) (simp_all only: above.simps bound_u64.simps bound.case be_bytes_8_le be_bytes_8_less)
  moreover have "below hi (be_bytes 8 i) \<longleftrightarrow> (case hi of Included n \<Rightarrow> i \<le> n | Excluded n \<Rightarrow> i < n | Unbounded \<Rightarrow> True)"
    using assms(2,3) by (cases hi) (simp_all only: below.simps bound_u64.simps bound.case be_bytes_8_le be_bytes_8_less)
  ultimately show ?thesis by (simp only: index_in_def)
qed

lemma log_range_Inr:
  "log_range db lo hi = Inr kvs \<longleftrightarrow> \<not> db_read_fault db Kraft_log \<and>
     kvs = filter (\<lambda>(key, _). above lo key \<and> below hi key) (db_data db Kraft_log)"
  by (auto simp: log_range_def result_simps kv_prefix_Inr)

lemma log_inv_entry:
  assumes "log_inv c db" "lookup db Kraft_log key = Some v"
  obtains e where "dec c v = Some e" "en_index e < 2 ^ 64" "key = be_bytes 8 (en_index e)"
  using assms by (auto simp: log_inv_def)

lemma log_at_Some:
  assumes "log_inv c db"
  shows "log_at c db i = Some e \<longleftrightarrow>
     i = en_index e \<and> i < 2 ^ 64 \<and> (\<exists>v. lookup db Kraft_log (be_bytes 8 i) = Some v \<and> dec c v = Some e)"
proof
  assume "log_at c db i = Some e"
  then obtain v where v: "i < 2 ^ 64" "lookup db Kraft_log (be_bytes 8 i) = Some v" "dec c v = Some e"
    by (auto simp: log_at_def bind_eq_Some_conv split: if_splits)
  obtain e' where "dec c v = Some e'" "en_index e' < 2 ^ 64" "be_bytes 8 i = be_bytes 8 (en_index e')"
    using log_inv_entry[OF assms v(2)] .
  then have "i = en_index e" using be_bytes_8_inj[OF _ v(1)] v(3) by simp
  with v show "i = en_index e \<and> i < 2 ^ 64 \<and> (\<exists>v. lookup db Kraft_log (be_bytes 8 i) = Some v \<and> dec c v = Some e)"
    by blast
qed (auto simp: log_at_def)

lemma range_dels:
  assumes "log_inv c db" "bound_u64 lo" "bound_u64 hi" "i < 2 ^ 64"
  shows "be_bytes 8 i \<in> fst ` set (filter (\<lambda>(key, _). above lo key \<and> below hi key) (db_data db Kraft_log)) \<longleftrightarrow>
     index_in lo hi i \<and> lookup db Kraft_log (be_bytes 8 i) \<noteq> None"
proof -
  have "om_get (db_data db Kraft_log) (be_bytes 8 i) \<noteq> None \<longleftrightarrow> be_bytes 8 i \<in> fst ` set (db_data db Kraft_log)"
    by (simp add: om_get_None_iff)
  then show ?thesis
    using byte_range[OF assms(2-4)] by force
qed

lemma log_inv_shrink:
  assumes "log_inv c db" "db_wf db'"
    and "\<And>key v. lookup db' Kraft_log key = Some v \<Longrightarrow> lookup db Kraft_log key = Some v"
  shows "log_inv c db'"
  using assms by (auto simp: log_inv_def)

text \<open>Removing a byte range removes exactly the index range.\<close>

lemma remove_range:
  assumes inv: "log_inv c db" and b: "bound_u64 lo" "bound_u64 hi"
    and r: "log_range db lo hi = Inr kvs"
    and c: "kv_commit db (map (\<lambda>kv. Del Kraft_log (fst kv)) kvs @ ops) = Inr db'"
    and ops: "Kraft_log \<notin> fst ` op_target ` set ops"
  shows "log_inv c db'" and "log_at c db' i = (if index_in lo hi i then None else log_at c db i)"
proof -
  have wf: "db_wf db" using inv by (simp add: log_inv_def)
  have "(Kraft_log, key) \<notin> op_target ` set ops" for key
    using ops by (metis fst_conv image_eqI)
  then have look: "lookup db' Kraft_log key =
      (if key \<in> fst ` set kvs then None else lookup db Kraft_log key)" for key
    by (simp add: kv_commit_lookup[OF c wf] batch_get_append batch_get_dels batch_get_untouched)
  have "db_wf db'" using kv_commit_wf[OF c wf] .
  then show "log_inv c db'"
    by (rule log_inv_shrink[OF inv]) (simp add: look split: if_splits)
  have kvs: "kvs = filter (\<lambda>(key, _). above lo key \<and> below hi key) (db_data db Kraft_log)"
    using r by (simp add: log_range_Inr)
  show "log_at c db' i = (if index_in lo hi i then None else log_at c db i)"
    unfolding log_at_def look kvs using range_dels[OF inv b, of i] by (cases "i < 2 ^ 64") auto
qed


section \<open>The interface the consensus core relies on\<close>

locale raft_log =
  fixes log :: "'s \<Rightarrow> nat \<Rightarrow> 'e option"
    and idx :: "'e \<Rightarrow> nat"
    and app :: "'e list \<Rightarrow> 's \<Rightarrow> 's option"
    and trunc :: "nat \<Rightarrow> 's \<Rightarrow> 's option"
    and purge :: "nat \<Rightarrow> 's \<Rightarrow> 's option"
    and ok :: "'s \<Rightarrow> bool"
    and limit :: nat
  assumes app_ok: "ok s \<Longrightarrow> (\<And>e. e \<in> set es \<Longrightarrow> idx e < limit) \<Longrightarrow> app es s = Some s' \<Longrightarrow> ok s'"
    and app_log: "ok s \<Longrightarrow> (\<And>e. e \<in> set es \<Longrightarrow> idx e < limit) \<Longrightarrow> app es s = Some s' \<Longrightarrow>
      log s' = fold (\<lambda>e f. f(idx e \<mapsto> e)) es (log s)"
    and trunc_ok: "ok s \<Longrightarrow> i < limit \<Longrightarrow> trunc i s = Some s' \<Longrightarrow> ok s'"
    and trunc_log: "ok s \<Longrightarrow> i < limit \<Longrightarrow> trunc i s = Some s' \<Longrightarrow>
      log s' = (\<lambda>j. if i \<le> j then None else log s j)"
    and purge_ok: "ok s \<Longrightarrow> i < limit \<Longrightarrow> purge i s = Some s' \<Longrightarrow> ok s'"
    and purge_log: "ok s \<Longrightarrow> i < limit \<Longrightarrow> purge i s = Some s' \<Longrightarrow>
      log s' = (\<lambda>j. if j \<le> i then None else log s j)"
begin

lemma fold_consecutive:
  "map idx es = [i..<i + length es] \<Longrightarrow>
     fold (\<lambda>e f. f(idx e \<mapsto> e)) es f j =
       (if i \<le> j \<and> j < i + length es then Some (es ! (j - i)) else f j)"
proof (induction es arbitrary: i f)
  case (Cons e es)
  have "[i..<i + length (e # es)] = i # [Suc i..<Suc i + length es]"
    by (subst upt_conv_Cons) simp_all
  with Cons.prems have "idx e = i" "map idx es = [Suc i..<Suc i + length es]" by simp_all
  with Cons.IH[of "Suc i" "f(i \<mapsto> e)"] show ?case
    by (auto simp: nth_Cons' Suc_le_eq)
qed auto

text \<open>A follower's conflict resolution: cut the log at an index and append the leader's suffix.\<close>

lemma overwrite_suffix:
  assumes "ok s" "trunc i s = Some s1" "app es s1 = Some s2"
    and "map idx es = [i..<i + length es]" "i + length es \<le> limit" "i < limit"
  shows "ok s2" and "log s2 j = (if j < i then log s j else if j < i + length es then Some (es ! (j - i)) else None)"
proof -
  have small: "idx e < limit" if "e \<in> set es" for e
  proof -
    have "idx e \<in> set [i..<i + length es]" using that assms(4) by (metis image_eqI set_map)
    then show ?thesis using assms(5) by simp
  qed
  have ok1: "ok s1" using trunc_ok[OF assms(1,6,2)] .
  show "ok s2" by (rule app_ok[OF ok1 _ assms(3)]) (rule small)
  have "log s2 = fold (\<lambda>e f. f(idx e \<mapsto> e)) es (log s1)"
    by (rule app_log[OF ok1 _ assms(3)]) (rule small)
  then show "log s2 j = (if j < i then log s j else if j < i + length es then Some (es ! (j - i)) else None)"
    by (simp add: trunc_log[OF assms(1,6,2)] fold_consecutive[OF assms(4)])
qed

text \<open>Purging a prefix never touches what lies above it.\<close>

lemma purge_keeps: "ok s \<Longrightarrow> i < limit \<Longrightarrow> purge i s = Some s' \<Longrightarrow> i < j \<Longrightarrow> log s' j = log s j"
  by (simp add: purge_log)

end

text \<open>
  The model's store meets the contract. The state carries the codec of entries, whose round trip
  is part of \<open>ok\<close>.
\<close>

definition opt_of :: "'e + 'a \<Rightarrow> 'a option" where
  "opt_of r = (case r of Inl _ \<Rightarrow> None | Inr x \<Rightarrow> Some x)"

lemma opt_of_Some [simp]: "opt_of r = Some x \<longleftrightarrow> r = Inr x"
  by (cases r) (auto simp: opt_of_def)

definition store_ok :: "(env \<times> log_entry codec) \<times> database \<Rightarrow> bool" where
  "store_ok s \<longleftrightarrow> codec_roundtrip (snd (fst s)) \<and> log_inv (snd (fst s)) (snd s)"

definition index_id :: "nat \<Rightarrow> log_id" where
  "index_id i = \<lparr>lg_term = 0, lg_leader = 0, lg_index = i\<rparr>"

lemma append_ops:
  "mapE (\<lambda>e. bindE (ok_or (Write_log_entry (en_log_id e)) (enc c e)) (\<lambda>b.
            Inr (Put Kraft_log (be_bytes 8 (en_index e)) b))) es = Inr batch \<longleftrightarrow>
     list_all2 (\<lambda>e x. \<exists>b. enc c e = Some b \<and> x = Put Kraft_log (be_bytes 8 (en_index e)) b) es batch"
  by (auto simp: mapE_Inr_iff result_simps list_all2_conv_all_nth)

lemma append_one:
  assumes "codec_roundtrip c" "log_inv c db" "en_index e < 2 ^ 64" "enc c e = Some b"
    and "kv_commit db [Put Kraft_log (be_bytes 8 (en_index e)) b] = Inr db'"
  shows "log_inv c db'" and "log_at c db' = (log_at c db)(en_index e \<mapsto> e)"
proof -
  have wf: "db_wf db" using assms(2) by (simp add: log_inv_def)
  have d: "dec c b = Some e" using codec_roundtripD[OF assms(1,4)] .
  have look: "lookup db' Kraft_log key =
      (if key = be_bytes 8 (en_index e) then Some b else lookup db Kraft_log key)" for key
    using kv_commit_lookup[OF assms(5) wf] by auto
  show "log_inv c db'"
    using assms(2,3) d kv_commit_wf[OF assms(5) wf] unfolding log_inv_def look by (auto split: if_splits)
  show "log_at c db' = (log_at c db)(en_index e \<mapsto> e)"
  proof
    fix i
    show "log_at c db' i = ((log_at c db)(en_index e \<mapsto> e)) i"
      using assms(3) d be_bytes_8_inj[of i "en_index e"] by (auto simp: log_at_def look)
  qed
qed

lemma append_batch:
  assumes "codec_roundtrip c"
    and "list_all2 (\<lambda>e x. \<exists>b. enc c e = Some b \<and> x = Put Kraft_log (be_bytes 8 (en_index e)) b) es batch"
    and "log_inv c db" "\<And>e. e \<in> set es \<Longrightarrow> en_index e < 2 ^ 64" "kv_commit db batch = Inr db'"
  shows "log_inv c db' \<and> log_at c db' = fold (\<lambda>e f. f(en_index e \<mapsto> e)) es (log_at c db)"
  using assms(2-)
proof (induction es batch arbitrary: db rule: list_all2_induct)
  case Nil
  then show ?case by (auto simp: kv_commit_Inr)
next
  case (Cons e es x batch)
  then obtain b where b: "enc c e = Some b" "x = Put Kraft_log (be_bytes 8 (en_index e)) b" by blast
  define db1 where "db1 = db\<lparr>db_data := run_batch [x] (db_data db)\<rparr>"
  have c1: "kv_commit db [Put Kraft_log (be_bytes 8 (en_index e)) b] = Inr db1"
    and c2: "kv_commit db1 batch = Inr db'"
    using Cons.prems(3) b(2) by (auto simp: kv_commit_Inr db1_def)
  note one = append_one[OF assms(1) Cons.prems(1) Cons.prems(2)[of e] b(1) c1]
  show ?case using Cons.IH[OF one(1) _ c2] Cons.prems(2) one(2) by simp
qed

lemma append_refines:
  assumes "codec_roundtrip c" "log_inv c db" "\<forall>e\<in>set es. en_index e < 2 ^ 64"
    and "append_log c db es = Inr db'"
  shows "log_inv c db' \<and> log_at c db' = fold (\<lambda>e f. f(en_index e \<mapsto> e)) es (log_at c db)"
proof -
  obtain batch where
    "list_all2 (\<lambda>e x. \<exists>b. enc c e = Some b \<and> x = Put Kraft_log (be_bytes 8 (en_index e)) b) es batch"
    "kv_commit db batch = Inr db'"
    using assms(4) by (auto simp: append_log_def result_simps append_ops)
  then show ?thesis using append_batch[OF assms(1) _ assms(2)] assms(3) by blast
qed

lemma truncate_refines:
  assumes "log_inv c db" "lg_index l < 2 ^ 64" "truncate_log db l = Inr db'"
  shows "log_inv c db' \<and> log_at c db' = (\<lambda>j. if lg_index l \<le> j then None else log_at c db j)"
proof -
  obtain kvs where kvs: "log_range db (Included (lg_index l)) Unbounded = Inr kvs"
    "kv_commit db (map (\<lambda>kv. Del Kraft_log (fst kv)) kvs @ []) = Inr db'"
    using assms(3) by (auto simp: truncate_log_def result_simps)
  show ?thesis
    using remove_range[OF assms(1) _ _ kvs] assms(2) by (auto simp: index_in_def)
qed

lemma purge_refines:
  assumes "log_inv c db" "lg_index l < 2 ^ 64" "purge_log E db l = Inr db'"
  shows "log_inv c db' \<and> log_at c db' = (\<lambda>j. if j \<le> lg_index l then None else log_at c db j)"
proof -
  obtain kvs b where kvs: "log_range db Unbounded (Included (lg_index l)) = Inr kvs"
    "kv_commit db (map (\<lambda>kv. Del Kraft_log (fst kv)) kvs @ [Put Kraft_log_meta ''last_purged'' b]) = Inr db'"
    using assms(3) by (auto simp: purge_log_def result_simps)
  show ?thesis
    using remove_range[OF assms(1) _ _ kvs] assms(2) by (auto simp: index_in_def)
qed

interpretation store: raft_log
  "\<lambda>s. log_at (snd (fst s)) (snd s)" en_index
  "\<lambda>es s. map_option (Pair (fst s)) (opt_of (append_log (snd (fst s)) (snd s) es))"
  "\<lambda>i s. map_option (Pair (fst s)) (opt_of (truncate_log (snd s) (index_id i)))"
  "\<lambda>i s. map_option (Pair (fst s)) (opt_of (purge_log (fst (fst s)) (snd s) (index_id i)))"
  store_ok "2 ^ 64"
proof unfold_locales
  fix s s' :: "(env \<times> log_entry codec) \<times> database" and es :: "log_entry list" and i :: nat
  assume ok: "store_ok s"
  then have c: "codec_roundtrip (snd (fst s))" and inv: "log_inv (snd (fst s)) (snd s)"
    by (simp_all add: store_ok_def)
  {
    assume "\<And>e. e \<in> set es \<Longrightarrow> en_index e < 2 ^ 64"
      "map_option (Pair (fst s)) (opt_of (append_log (snd (fst s)) (snd s) es)) = Some s'"
    then show "store_ok s'"
      "log_at (snd (fst s')) (snd s') = fold (\<lambda>e f. f(en_index e \<mapsto> e)) es (log_at (snd (fst s)) (snd s))"
      using append_refines[OF c inv, of es "snd s'"] c by (auto simp: store_ok_def)
  }
  assume i: "i < 2 ^ 64"
  {
    assume "map_option (Pair (fst s)) (opt_of (truncate_log (snd s) (index_id i))) = Some s'"
    then show "store_ok s'"
      "log_at (snd (fst s')) (snd s') = (\<lambda>j. if i \<le> j then None else log_at (snd (fst s)) (snd s) j)"
      using truncate_refines[OF inv, of "index_id i"] c i by (auto simp: store_ok_def index_id_def)
  }
  assume "map_option (Pair (fst s)) (opt_of (purge_log (fst (fst s)) (snd s) (index_id i))) = Some s'"
  then show "store_ok s'"
    "log_at (snd (fst s')) (snd s') = (\<lambda>j. if j \<le> i then None else log_at (snd (fst s)) (snd s) j)"
    using purge_refines[OF inv, of "index_id i"] c i by (auto simp: store_ok_def index_id_def)
qed


section \<open>Reading the log\<close>

lemma decode_keys:
  "(\<And>k v. (k, v) \<in> set kvs \<Longrightarrow> \<exists>e. dec c v = Some e \<and> en_index e < 2 ^ 64 \<and> k = be_bytes 8 (en_index e)) \<Longrightarrow>
     map (\<lambda>e. be_bytes 8 (en_index e)) (decode_all c kvs) = map fst kvs \<and>
     (\<forall>e\<in>set (decode_all c kvs). en_index e < 2 ^ 64) \<and>
     (kvs \<noteq> [] \<longrightarrow> dec c (snd (last kvs)) = Some (last (decode_all c kvs)))"
proof (induction kvs)
  case (Cons kv kvs)
  obtain k v where kv: "kv = (k, v)" by force
  obtain e where e: "dec c v = Some e" "en_index e < 2 ^ 64" "k = be_bytes 8 (en_index e)"
    using Cons.prems[of k v] kv by auto
  have IH: "map (\<lambda>e. be_bytes 8 (en_index e)) (decode_all c kvs) = map fst kvs"
    "\<forall>e\<in>set (decode_all c kvs). en_index e < 2 ^ 64"
    "kvs \<noteq> [] \<longrightarrow> dec c (snd (last kvs)) = Some (last (decode_all c kvs))"
    using Cons.IH Cons.prems by force+
  moreover have "decode_all c kvs = [] \<longleftrightarrow> kvs = []"
    using arg_cong[OF IH(1), of length] by auto
  ultimately show ?case using e by (simp add: kv)
qed simp

lemma sorted_indices:
  assumes "sorted_wrt (<) (map (\<lambda>e. be_bytes 8 (en_index e)) es)" "\<forall>e\<in>set es. en_index e < 2 ^ 64"
  shows "sorted_wrt (<) (map en_index es)"
  using assms by (induction es) (auto simp: be_bytes_8_less)

lemma stored_entries:
  assumes "log_inv c db" "(k, v) \<in> set (filter P (db_data db Kraft_log))"
  shows "\<exists>e. dec c v = Some e \<and> en_index e < 2 ^ 64 \<and> k = be_bytes 8 (en_index e)"
proof -
  have "om_wf (db_data db Kraft_log)" using assms(1) by (simp add: log_inv_def db_wf_def)
  then have "lookup db Kraft_log k = Some v" using assms(2) by (simp add: om_mem_get)
  then show ?thesis using log_inv_entry[OF assms(1)] by blast
qed

lemma try_get_entries:
  assumes inv: "log_inv c db" and b: "bound_u64 lo" "bound_u64 hi"
    and run: "try_get_log_entries c db lo hi = Inr es"
  shows "sorted_wrt (<) (map en_index es)"
    and "e \<in> set es \<longleftrightarrow> index_in lo hi (en_index e) \<and> log_at c db (en_index e) = Some e"
proof -
  have wf: "om_wf (db_data db Kraft_log)" using inv by (simp add: log_inv_def db_wf_def)
  define kvs where "kvs = filter (\<lambda>(key, _). above lo key \<and> below hi key) (db_data db Kraft_log)"
  have es: "es = decode_all c kvs"
    using run by (auto simp: try_get_log_entries_def result_simps log_range_Inr kvs_def)
  have st: "\<exists>e. dec c v = Some e \<and> en_index e < 2 ^ 64 \<and> k = be_bytes 8 (en_index e)"
    if "(k, v) \<in> set kvs" for k v
    using stored_entries[OF inv] that unfolding kvs_def by blast
  note keys = decode_keys[of kvs c, OF st]
  have "sorted_wrt (<) (map fst kvs)"
    using wf unfolding kvs_def om_wf_def sorted_wrt_map by (rule sorted_wrt_filter)
  then show "sorted_wrt (<) (map en_index es)"
    unfolding es by (intro sorted_indices) (use keys in simp_all)
  show "e \<in> set es \<longleftrightarrow> index_in lo hi (en_index e) \<and> log_at c db (en_index e) = Some e"
  proof
    assume "e \<in> set es"
    then obtain k v where kv: "(k, v) \<in> set kvs" "dec c v = Some e" by (auto simp: es in_decode_all)
    then have k: "en_index e < 2 ^ 64" "k = be_bytes 8 (en_index e)" using st by force+
    have "above lo k \<and> below hi k" "lookup db Kraft_log k = Some v"
      using kv(1) wf by (auto simp: kvs_def om_mem_get)
    then show "index_in lo hi (en_index e) \<and> log_at c db (en_index e) = Some e"
      using byte_range[OF b k(1)] k kv(2) by (auto simp: log_at_Some[OF inv])
  next
    assume r: "index_in lo hi (en_index e) \<and> log_at c db (en_index e) = Some e"
    then obtain v where v: "en_index e < 2 ^ 64" "lookup db Kraft_log (be_bytes 8 (en_index e)) = Some v"
      "dec c v = Some e"
      by (auto simp: log_at_Some[OF inv])
    then have "(be_bytes 8 (en_index e), v) \<in> set kvs"
      using r byte_range[OF b v(1)] wf by (auto simp: kvs_def om_mem_get)
    with v(3) show "e \<in> set es" by (auto simp: es in_decode_all)
  qed
qed

lemma sorted_last_max:
  "sorted_wrt (<) (map f xs) \<Longrightarrow> x \<in> set xs \<Longrightarrow> f x \<le> (f (last xs) :: nat)"
  by (induction xs) (auto intro: less_imp_le)

text \<open>The reported last log id is that of the entry with the greatest index.\<close>

lemma log_state_last:
  assumes inv: "log_inv c db" and ok: "\<not> db_read_fault db Kraft_log"
    and run: "get_log_state E c db = Inr st"
  shows "case ls_last_log_id st of
      None \<Rightarrow> (\<forall>i. log_at c db i = None)
    | Some l \<Rightarrow> (\<exists>e. en_log_id e = l \<and> log_at c db (lg_index l) = Some e) \<and>
        (\<forall>i > lg_index l. log_at c db i = None)"
proof -
  define es where "es = decode_all c (db_data db Kraft_log)"
  have run': "try_get_log_entries c db Unbounded Unbounded = Inr es"
    using ok by (auto simp: try_get_log_entries_def log_range_def kv_prefix_def es_def)
  note g = try_get_entries[OF inv _ _ run']
  have keys: "map (\<lambda>e. be_bytes 8 (en_index e)) es = map fst (db_data db Kraft_log)"
    "db_data db Kraft_log \<noteq> [] \<longrightarrow> dec c (snd (last (db_data db Kraft_log))) = Some (last es)"
    using decode_keys[of "db_data db Kraft_log" c] stored_entries[OF inv, of _ _ "\<lambda>_. True"]
    by (auto simp: es_def)
  have emp: "es = [] \<longleftrightarrow> db_data db Kraft_log = []"
    using arg_cong[OF keys(1), of length] by auto
  have l: "ls_last_log_id st = (if es = [] then None else Some (en_log_id (last es)))"
    using run ok keys(2) emp by (auto simp: get_log_state_def Let_def result_simps)
  have mem: "e \<in> set es \<longleftrightarrow> log_at c db (en_index e) = Some e" for e
    using g(2)[of e] by (simp add: index_in_def)
  have idx: "log_at c db i = Some e \<Longrightarrow> i = en_index e" for i e
    using log_at_Some[OF inv] by blast
  show ?thesis
  proof (cases "es = []")
    case True
    have "log_at c db i = None" for i
    proof (cases "log_at c db i")
      case (Some e)
      with idx[OF Some] mem[of e] True show ?thesis by simp
    qed
    then show ?thesis using l True by simp
  next
    case False
    have "log_at c db (en_index (last es)) = Some (last es)" using mem False last_in_set by blast
    moreover have "log_at c db i = None" if "i > en_index (last es)" for i
    proof (rule ccontr)
      assume "log_at c db i \<noteq> None"
      then obtain e where e: "log_at c db i = Some e" by blast
      then have "e \<in> set es" "i = en_index e" using mem idx by blast+
      then show False using sorted_last_max[of en_index es e] g(1) that by simp
    qed
    ultimately show ?thesis using l False by auto
  qed
qed

lemma vote_roundtrip:
  assumes "env_ok E" "db_wf db" "\<not> db_read_fault db Kraft_log_meta" "save_vote E db v = Inr db'"
  shows "read_vote E db' = Inr (Some v)"
proof -
  obtain b where b: "enc (c_vote E) v = Some b" "kv_commit db [Put Kraft_log_meta ''vote'' b] = Inr db'"
    using assms(4) by (auto simp: save_vote_def result_simps)
  have "dec (c_vote E) b = Some v" using codec_ok_dec[OF raft_codecs(5)[OF assms(1)] b(1)] .
  moreover have "lookup db' Kraft_log_meta ''vote'' = Some b" "\<not> db_read_fault db' Kraft_log_meta"
    using kv_commit_lookup[OF b(2) assms(2)] b(2) assms(3) by (auto simp: kv_commit_Inr)
  ultimately show ?thesis by (simp add: read_vote_def kv_get_def)
qed


section \<open>A codec of entries\<close>

text \<open>An instance for entries that carry no command.\<close>

definition plain_entry_codec :: "log_entry codec" where
  "plain_entry_codec =
     \<lparr>enc = (\<lambda>e. case en_payload e of
        Blank \<Rightarrow> Some (fst (pc_pair pc_log_id (pc_opt pc_str)) (en_log_id e, None))
      | Membership m \<Rightarrow> Some (fst (pc_pair pc_log_id (pc_opt pc_str)) (en_log_id e, Some m))
      | Normal _ \<Rightarrow> None),
      dec = (\<lambda>b. map_option (\<lambda>((l, p), _).
        \<lparr>en_log_id = l, en_payload = (case p of None \<Rightarrow> Blank | Some m \<Rightarrow> Membership m)\<rparr>)
        (snd (pc_pair pc_log_id (pc_opt pc_str)) b))\<rparr>"

lemma plain_entry_codec_ok: "codec_roundtrip plain_entry_codec"
proof -
  have ok: "pc_ok (pc_pair pc_log_id (pc_opt pc_str))" by (intro pc_rules)
  have rt: "snd (pc_pair pc_log_id (pc_opt pc_str)) (fst (pc_pair pc_log_id (pc_opt pc_str)) x) = Some (x, [])" for x
    using ok[unfolded pc_ok_def, rule_format, of x "[]"] by simp
  show ?thesis
    unfolding codec_roundtrip_def plain_entry_codec_def
    by (auto simp: rt split: entry_payload.splits)
qed

end
