(* ===== verification/Lifecycle.thy ===== *)
theory Lifecycle
  imports Replication
begin

text \<open>
  What single log entries do to a replica's state, for the commands that move nodes, workloads,
  delegations, secrets and endorsement keys through their life: eviction, deletion and scaling of
  workloads, health reports, access lists.
\<close>


section \<open>Typed views of the database\<close>

definition record_at :: "'a codec \<Rightarrow> database \<Rightarrow> ks \<Rightarrow> bytes \<Rightarrow> 'a option" where
  "record_at c db k key = Option.bind (lookup db k key) (dec c)"

abbreviation placement_at :: "env \<Rightarrow> database \<Rightarrow> string \<Rightarrow> placement option" where
  "placement_at E db \<equiv> record_at (c_placement E) db Kplacements"

abbreviation node_at :: "env \<Rightarrow> database \<Rightarrow> string \<Rightarrow> node_record option" where
  "node_at E db \<equiv> record_at (c_node E) db Knodes"

abbreviation slot_at :: "env \<Rightarrow> database \<Rightarrow> string \<Rightarrow> string \<Rightarrow> string \<Rightarrow> nat \<Rightarrow> ordinal_assignment option" where
  "slot_at E db t s r n \<equiv> record_at (c_ordinal E) db Kordinals (ordinal_key t s r n)"

lemma record_at_Some:
  "record_at c db k key = Some r \<longleftrightarrow> (\<exists>v. lookup db k key = Some v \<and> dec c v = Some r)"
  by (auto simp: record_at_def bind_eq_Some_conv)

text \<open>A command's entry changes the application keyspaces as its batch says.\<close>

lemma command_effect:
  assumes run: "apply_entry E td s e = (s', Inr r)" and p: "en_payload e = Normal a"
    and wf: "db_wf (rp_db s)"
  obtains b kind where "apply_command E (rp_db s) (cmd a) = Inr (b, kind)"
    and "\<And>k key. k \<notin> {Kversion, Kraft_state, Kaudit_log} \<Longrightarrow>
      lookup (rp_db s') k key = batch_get b k key (lookup (rp_db s) k key)"
proof -
  obtain ops kind lid aud where
    ops: "apply_command E (rp_db s) (cmd a) = Inr (ops, kind)" and
    aud: "audit_ops E (allocate_version (rp_version s)) (en_payload e) = Inr aud" and
    c: "kv_commit (rp_db s) (ops @ [Put Kraft_state ''last_applied'' lid] @
          persist_version (allocate_version (rp_version s)) @ aud) = Inr (rp_db s')"
    using run p by (auto simp: apply_entry_Inr apply_payload_def)
  have "lookup (rp_db s') k key = batch_get ops k key (lookup (rp_db s) k key)"
    if "k \<notin> {Kversion, Kraft_state, Kaudit_log}" for k key
    using that aud p
    by (auto simp: kv_commit_lookup[OF c wf] batch_get_append persist_version_def audit_ops_Inr)
  with ops show ?thesis by (rule that)
qed

lemma in_decoded_placements:
  assumes "db_wf db" "storage_inv E db"
  shows "p \<in> set (decode_all (c_placement E) (db_data db Kplacements)) \<longleftrightarrow>
     placement_at E db (pl_pod_id p) = Some p"
proof
  assume "p \<in> set (decode_all (c_placement E) (db_data db Kplacements))"
  then obtain k v where kv: "lookup db Kplacements k = Some v" "dec (c_placement E) v = Some p"
    using assms(1) by (auto simp: in_decode_all db_wf_def om_mem_get)
  moreover have "pl_pod_id p = k" using storage_invD(1)[OF assms(2) kv] .
  ultimately show "placement_at E db (pl_pod_id p) = Some p" by (auto simp: record_at_Some)
next
  assume "placement_at E db (pl_pod_id p) = Some p"
  then show "p \<in> set (decode_all (c_placement E) (db_data db Kplacements))"
    using assms(1) by (auto simp: record_at_Some in_decode_all db_wf_def om_mem_get)
qed

lemma placement_key:
  "storage_inv E db \<Longrightarrow> placement_at E db pod = Some p \<Longrightarrow> pl_pod_id p = pod"
  by (auto simp: record_at_Some dest: storage_invD(1))

text \<open>Deleting the placements that satisfy a predicate removes exactly those.\<close>

lemma placements_deleted:
  assumes "db_wf db" "storage_inv E db"
  shows "Option.bind (if pod \<in> pl_pod_id ` set (filter P (decode_all (c_placement E) (db_data db Kplacements)))
           then None else lookup db Kplacements pod) (dec (c_placement E)) = Some p \<longleftrightarrow>
         placement_at E db pod = Some p \<and> \<not> P p"
proof -
  have "pod \<in> pl_pod_id ` set (filter P (decode_all (c_placement E) (db_data db Kplacements))) \<longleftrightarrow>
      (\<exists>q. placement_at E db pod = Some q \<and> P q)"
  proof
    assume "pod \<in> pl_pod_id ` set (filter P (decode_all (c_placement E) (db_data db Kplacements)))"
    then obtain q where "q \<in> set (decode_all (c_placement E) (db_data db Kplacements))" "P q" "pl_pod_id q = pod"
      by auto
    then show "\<exists>q. placement_at E db pod = Some q \<and> P q"
      using in_decoded_placements[OF assms] by auto
  next
    assume "\<exists>q. placement_at E db pod = Some q \<and> P q"
    then obtain q where q: "placement_at E db pod = Some q" "P q" by blast
    have "pl_pod_id q = pod" using placement_key[OF assms(2) q(1)] .
    with q show "pod \<in> pl_pod_id ` set (filter P (decode_all (c_placement E) (db_data db Kplacements)))"
      using in_decoded_placements[OF assms, of q] by (intro image_eqI[of _ _ q]) simp_all
  qed
  then show ?thesis by (auto simp: record_at_def)
qed


section \<open>Eviction\<close>

lemma revoke_ops_frame: "k \<notin> {Kactive_delegations, Krevoked_delegations} \<Longrightarrow> batch_get (revoke_ops E kv) k key old = old"
  by (auto simp: revoke_ops_def Let_def split: option.splits)

lemma revokes_frame:
  "k \<notin> {Kactive_delegations, Krevoked_delegations} \<Longrightarrow>
     batch_get (concat (map (revoke_ops E) dels)) k key old = old"
  by (induction dels arbitrary: old) (simp_all add: batch_get_append revoke_ops_frame)

lemma bex_key: "(\<exists>kv\<in>S. fst kv = key \<and> D (snd kv)) \<longleftrightarrow> (\<exists>v. (key, v) \<in> S \<and> D v)"
  by force

lemma revokes_targets:
  assumes "\<forall>kv\<in>set dels. \<forall>d. dec (c_delegation E) (snd kv) = Some d \<longrightarrow> delegation_key d = fst kv"
    and "key \<notin> fst ` set dels"
  shows "(k, key) \<notin> op_target ` set (concat (map (revoke_ops E) dels))"
  using assms
proof (induction dels)
  case (Cons kv dels)
  then show ?case
    by (cases "dec (c_delegation E) (snd kv)") (auto simp: revoke_ops_def Let_def)
qed simp

lemma revokes_active:
  assumes "\<forall>kv\<in>set dels. \<forall>d. dec (c_delegation E) (snd kv) = Some d \<longrightarrow> delegation_key d = fst kv"
  shows "batch_get (concat (map (revoke_ops E) dels)) Kactive_delegations key old =
     (if \<exists>kv\<in>set dels. fst kv = key \<and> dec (c_delegation E) (snd kv) \<noteq> None then None else old)"
  using assms
proof (induction dels arbitrary: old)
  case (Cons kv dels)
  then show ?case
    by (cases "dec (c_delegation E) (snd kv)") (auto simp: batch_get_append revoke_ops_def Let_def)
qed simp

lemma revokes_revoked:
  assumes "\<forall>kv\<in>set dels. \<forall>d. dec (c_delegation E) (snd kv) = Some d \<longrightarrow> delegation_key d = fst kv"
    and "distinct (map fst dels)" "(key, v) \<in> set dels" "dec (c_delegation E) v \<noteq> None"
  shows "batch_get (concat (map (revoke_ops E) dels)) Krevoked_delegations key old = Some v"
  using assms
proof (induction dels arbitrary: old)
  case (Cons kv dels)
  obtain k w where kv: "kv = (k, w)" by force
  show ?case
  proof (cases "kv = (key, v)")
    case True
    obtain d where d: "dec (c_delegation E) v = Some d" using Cons.prems(4) by auto
    with Cons.prems(1) True have "delegation_key d = key" by simp
    moreover have "key \<notin> fst ` set dels" using Cons.prems(2) True by simp
    then have "(Krevoked_delegations, key) \<notin> op_target ` set (concat (map (revoke_ops E) dels))"
      using revokes_targets[of dels E key] Cons.prems(1) by simp
    ultimately show ?thesis
      using True d by (simp add: batch_get_append batch_get_untouched) (simp add: revoke_ops_def)
  next
    case False
    with Cons.prems have "(key, v) \<in> set dels" by auto
    with Cons show ?thesis by (simp add: batch_get_append)
  qed
qed simp

lemma apply_evict_Inr:
  "apply_command E db (EvictNode n x) = Inr (b, kind) \<longleftrightarrow>
     (\<exists>i old value rev. sp_parse E n = Some i \<and> read_node E db n = Inr old \<and>
        enc (c_node E) (evicted_node n old) = Some value \<and>
        \<not> db_read_fault db Kactive_delegations \<and> \<not> db_read_fault db Kplacements \<and>
        enc (c_revoked E) \<lparr>rv_spiffe_id = n, rv_expires_at = x\<rparr> = Some rev \<and> kind = Eviction \<and>
        b = Put Knodes n value #
            concat (map (revoke_ops E)
              (filter (\<lambda>(key, _). prefix (node_delegation_prefix i) key) (db_data db Kactive_delegations))) @
            map (\<lambda>p. Del Kplacements (pl_pod_id p))
              (filter (\<lambda>p. pl_node_id p = i) (decode_all (c_placement E) (db_data db Kplacements))) @
            [Put Krevoked_svids n rev])"
  by (auto simp: apply_command_def apply_evict_node_def result_simps Let_def
      to_allocvec_Inr sm_prefix_Inr parse_spiffe_Inr)

lemma evict_effect:
  assumes ok: "env_ok E" and inv: "replica_inv E (rp_db s)"
    and run: "apply_entry E td s e = (s', Inr r)" and p: "en_payload e = Normal a"
    and c: "cmd a = EvictNode n x" and i: "sp_parse E n = Some i"
  shows "node_at E (rp_db s') n =
      Some (evicted_node n (node_at E (rp_db s) n))" (is ?node)
    and "placement_at E (rp_db s') pod = Some q \<longleftrightarrow>
      placement_at E (rp_db s) pod = Some q \<and> pl_node_id q \<noteq> i" (is ?placements)
    and "lookup (rp_db s') Kactive_delegations key =
      (if prefix (node_delegation_prefix i) key \<and> record_at (c_delegation E) (rp_db s) Kactive_delegations key \<noteq> None
       then None else lookup (rp_db s) Kactive_delegations key)" (is ?active)
    and "prefix (node_delegation_prefix i) key \<Longrightarrow>
      record_at (c_delegation E) (rp_db s) Kactive_delegations key = Some d \<Longrightarrow>
      record_at (c_delegation E) (rp_db s') Krevoked_delegations key = Some d" (is "_ \<Longrightarrow> _ \<Longrightarrow> ?revoked")
    and "record_at (c_revoked E) (rp_db s') Krevoked_svids n = Some \<lparr>rv_spiffe_id = n, rv_expires_at = x\<rparr>" (is ?svid)
    and "k \<notin> {Kversion, Kraft_state, Kaudit_log, Knodes, Kplacements, Kactive_delegations,
              Krevoked_delegations, Krevoked_svids} \<Longrightarrow>
      lookup (rp_db s') k key = lookup (rp_db s) k key" (is "_ \<Longrightarrow> ?frame")
proof -
  have wf: "db_wf (rp_db s)" and st: "storage_inv E (rp_db s)" using inv by (simp_all add: replica_inv_def)
  obtain b kind where "apply_command E (rp_db s) (cmd a) = Inr (b, kind)" and
    look: "\<And>k key. k \<notin> {Kversion, Kraft_state, Kaudit_log} \<Longrightarrow>
      lookup (rp_db s') k key = batch_get b k key (lookup (rp_db s) k key)"
    using command_effect[OF run p wf] by metis
  then obtain old vb rev where
    rd: "read_node E (rp_db s) n = Inr old" and
    val: "enc (c_node E) (evicted_node n old) = Some vb" and
    rev: "enc (c_revoked E) \<lparr>rv_spiffe_id = n, rv_expires_at = x\<rparr> = Some rev" and
    b: "b = Put Knodes n vb #
            concat (map (revoke_ops E)
              (filter (\<lambda>(key, _). prefix (node_delegation_prefix i) key) (db_data (rp_db s) Kactive_delegations))) @
            map (\<lambda>p. Del Kplacements (pl_pod_id p))
              (filter (\<lambda>p. pl_node_id p = i) (decode_all (c_placement E) (db_data (rp_db s) Kplacements))) @
            [Put Krevoked_svids n rev]"
    using i by (auto simp: c apply_evict_Inr)
  define dels where "dels =
    filter (\<lambda>(key, _). prefix (node_delegation_prefix i) key) (db_data (rp_db s) Kactive_delegations)"
  have wfd: "om_wf (db_data (rp_db s) Kactive_delegations)" using wf by (simp add: db_wf_def)
  have mem: "(k, v) \<in> set dels \<longleftrightarrow>
      prefix (node_delegation_prefix i) k \<and> lookup (rp_db s) Kactive_delegations k = Some v" for k v
    by (auto simp: dels_def om_mem_get[OF wfd])
  have keyed: "\<forall>kv\<in>set dels. \<forall>d. dec (c_delegation E) (snd kv) = Some d \<longrightarrow> delegation_key d = fst kv"
    using mem storage_invD(3)[OF st] by auto
  have dist: "distinct (map fst dels)"
    using om_wf_distinct[OF wfd] unfolding dels_def by (rule distinct_map_filter)
  have old: "old = node_at E (rp_db s) n"
    using rd by (auto simp: read_node_Inr record_at_def split: option.splits)
  show ?node
    using look[of Knodes n] val codec_ok_dec[OF records_codecs(16)[OF ok] val]
    by (simp add: b record_at_def batch_get_append revokes_frame batch_get_dels old)
  show ?placements
    using placements_deleted[OF wf st, of pod "\<lambda>p. pl_node_id p = i" q] look[of Kplacements pod]
    by (simp add: b record_at_def batch_get_append revokes_frame batch_get_dels)
  have active: "lookup (rp_db s') Kactive_delegations key =
      batch_get (concat (map (revoke_ops E) dels)) Kactive_delegations key
        (lookup (rp_db s) Kactive_delegations key)"
    using look[of Kactive_delegations key] by (simp add: b dels_def batch_get_append batch_get_dels)
  show ?active
    unfolding active revokes_active[OF keyed]
      bex_key[of "set dels" key "\<lambda>v. dec (c_delegation E) v \<noteq> None"] mem
    by (cases "lookup (rp_db s) Kactive_delegations key") (simp_all add: record_at_def)
  show ?revoked if pre: "prefix (node_delegation_prefix i) key"
    and act: "record_at (c_delegation E) (rp_db s) Kactive_delegations key = Some d"
  proof -
    obtain v where v: "lookup (rp_db s) Kactive_delegations key = Some v" "dec (c_delegation E) v = Some d"
      using act by (auto simp: record_at_Some)
    have "(key, v) \<in> set dels" using mem pre v(1) by blast
    then have "lookup (rp_db s') Krevoked_delegations key = Some v"
      using look[of Krevoked_delegations key] revokes_revoked[OF keyed dist _, of key v] v(2)
      by (simp add: b dels_def batch_get_append batch_get_dels)
    with v(2) show ?thesis by (auto simp: record_at_Some)
  qed
  show ?svid
    using look[of Krevoked_svids n] codec_ok_dec[OF records_codecs(18)[OF ok] rev]
    by (simp add: b record_at_def batch_get_append)
  show ?frame if "k \<notin> {Kversion, Kraft_state, Kaudit_log, Knodes, Kplacements, Kactive_delegations,
              Krevoked_delegations, Krevoked_svids}"
    using look[of k key] that by (auto simp: b batch_get_append revokes_frame batch_get_dels)
qed



section \<open>Deleting and scaling workloads\<close>

lemma ordinal_key_suffix_inj: "ordinal_key t w r n = ordinal_key t w r' n' \<longleftrightarrow> r = r' \<and> n = n'"
proof
  assume "ordinal_key t w r n = ordinal_key t w r' n'"
  then have "r @ CHR '':'' # show_nat n = r' @ CHR '':'' # show_nat n'"
    by (simp add: ordinal_key_def)
  then have "rev (show_nat n) @ CHR '':'' # rev r = rev (show_nat n') @ CHR '':'' # rev r'"
    by (metis append.assoc append_Cons append_Nil rev.simps(2) rev_append)
  then show "r = r' \<and> n = n'" by (subst (asm) append_sep_eq) simp_all
qed simp

lemma released_placements:
  "mapE (release_placement E t w) ps = Inr ops \<Longrightarrow>
     batch_get (concat ops) Kplacements key old = (if key \<in> pl_pod_id ` set ps then None else old)"
proof (induction ps arbitrary: ops old)
  case (Cons p ps)
  then show ?case by (auto simp: result_simps sm_Inr)
qed simp

lemma released_slots:
  "mapE (release_placement E t w) ps = Inr ops \<Longrightarrow>
     batch_get (concat ops) Kordinals (ordinal_key t w r n) old =
       (if (r, n) \<in> (\<lambda>p. (pl_role p, pl_ordinal p)) ` set ps
        then enc (c_ordinal E) (freed_slot t w r n) else old)"
proof (induction ps arbitrary: ops old)
  case (Cons p ps)
  from Cons.prems obtain v ops' where
    v: "enc (c_ordinal E) (freed_slot t w (pl_role p) (pl_ordinal p)) = Some v" and
    ops': "mapE (release_placement E t w) ps = Inr ops'" and
    ops: "ops = [Del Kplacements (pl_pod_id p),
                 Put Kordinals (ordinal_key t w (pl_role p) (pl_ordinal p)) v] # ops'"
    by (auto simp: result_simps sm_Inr)
  show ?case
    unfolding ops using v by (auto simp: Cons.IH[OF ops'] ordinal_key_suffix_inj)
qed simp

lemma released_frame:
  "mapE (release_placement E t w) ps = Inr ops \<Longrightarrow> k \<notin> {Kplacements, Kordinals} \<Longrightarrow>
     batch_get (concat ops) k key old = old"
proof (induction ps arbitrary: ops old)
  case (Cons p ps)
  then show ?case by (auto simp: result_simps sm_Inr)
qed simp

text \<open>The common effect: the placements that satisfy \<open>P\<close> are gone and their slots are free.\<close>

lemma release_effect:
  assumes ok: "env_ok E" and inv: "replica_inv E db"
    and ops: "mapE (release_placement E t w)
      (filter P (decode_all (c_placement E) (db_data db Kplacements))) = Inr ops"
    and look: "\<And>k key. k \<in> {Kplacements, Kordinals} \<Longrightarrow>
      lookup db' k key = batch_get (concat ops) k key (lookup db k key)"
  shows "placement_at E db' pod = Some q \<longleftrightarrow> placement_at E db pod = Some q \<and> \<not> P q"
    and "placement_at E db pod = Some q \<Longrightarrow> P q \<Longrightarrow>
      slot_at E db' t w (pl_role q) (pl_ordinal q) = Some (freed_slot t w (pl_role q) (pl_ordinal q))"
proof -
  have wf: "db_wf db" and st: "storage_inv E db" using inv by (simp_all add: replica_inv_def)
  show "placement_at E db' pod = Some q \<longleftrightarrow> placement_at E db pod = Some q \<and> \<not> P q"
    using placements_deleted[OF wf st, of pod P q]
    by (simp add: look record_at_def[of _ db'] released_placements[OF ops])
  assume q: "placement_at E db pod = Some q" "P q"
  have "placement_at E db (pl_pod_id q) = Some q" using q(1) placement_key[OF st q(1)] by simp
  then have mem: "q \<in> set (filter P (decode_all (c_placement E) (db_data db Kplacements)))"
    using q(2) in_decoded_placements[OF wf st, of q] by simp
  then have "(pl_role q, pl_ordinal q) \<in> (\<lambda>p. (pl_role p, pl_ordinal p)) `
      set (filter P (decode_all (c_placement E) (db_data db Kplacements)))"
    by (rule rev_image_eqI) simp
  then have "lookup db' Kordinals (ordinal_key t w (pl_role q) (pl_ordinal q)) =
      enc (c_ordinal E) (freed_slot t w (pl_role q) (pl_ordinal q))"
    by (subst look, simp, subst released_slots[OF ops], simp only: if_True)
  then show "slot_at E db' t w (pl_role q) (pl_ordinal q) = Some (freed_slot t w (pl_role q) (pl_ordinal q))"
    using codec_ok_enc[OF records_codecs(20)[OF ok], of "freed_slot t w (pl_role q) (pl_ordinal q)"]
    by (auto simp: record_at_def)
qed

lemma delete_workload_Inr:
  "apply_command E db (DeleteWorkload t w) = Inr (b, kind) \<longleftrightarrow> \<not> db_read_fault db Kplacements \<and>
     (\<exists>ops. mapE (release_placement E t w) (filter (\<lambda>p. pl_tenant_id p = t \<and> pl_service p = w)
              (decode_all (c_placement E) (db_data db Kplacements))) = Inr ops \<and>
        b = Del Kworkloads (workload_key t w) # concat ops \<and> kind = SchedulingUpdate)"
  by (auto simp: apply_command_def apply_delete_workload_def result_simps sm_prefix_Inr Let_def)

lemma scale_workload_Inr:
  "apply_command E db (ScaleWorkload r) = Inr (b, kind) \<longleftrightarrow> \<not> db_read_fault db Kplacements \<and>
     (\<exists>v ops. enc (c_workload E) r = Some v \<and>
        mapE (release_placement E (wr_tenant_id r) (wr_workload_id r))
          (filter (\<lambda>p. pl_tenant_id p = wr_tenant_id r \<and> pl_service p = wr_workload_id r \<and>
                       scaled_away (decoded_replicas E (wr_spec_bytes r)) p)
            (decode_all (c_placement E) (db_data db Kplacements))) = Inr ops \<and>
        b = Put Kworkloads (workload_key (wr_tenant_id r) (wr_workload_id r)) v # concat ops \<and>
        kind = SchedulingUpdate)"
  by (auto simp: apply_command_def apply_scale_workload_def result_simps sm_prefix_Inr to_allocvec_Inr Let_def)

lemma delete_workload_effect:
  assumes ok: "env_ok E" and inv: "replica_inv E (rp_db s)"
    and run: "apply_entry E td s e = (s', Inr r)" and p: "en_payload e = Normal a"
    and c: "cmd a = DeleteWorkload t w"
  shows "placement_at E (rp_db s') pod = Some q \<longleftrightarrow>
      placement_at E (rp_db s) pod = Some q \<and> \<not> (pl_tenant_id q = t \<and> pl_service q = w)"
    and "placement_at E (rp_db s) pod = Some q \<Longrightarrow> pl_tenant_id q = t \<Longrightarrow> pl_service q = w \<Longrightarrow>
      slot_at E (rp_db s') t w (pl_role q) (pl_ordinal q) = Some (freed_slot t w (pl_role q) (pl_ordinal q))"
    and "lookup (rp_db s') Kworkloads key = (if key = workload_key t w then None else lookup (rp_db s) Kworkloads key)"
proof -
  have wf: "db_wf (rp_db s)" using inv by (simp add: replica_inv_def)
  obtain b kind where cmd: "apply_command E (rp_db s) (cmd a) = Inr (b, kind)" and
    look: "\<And>k key. k \<notin> {Kversion, Kraft_state, Kaudit_log} \<Longrightarrow>
      lookup (rp_db s') k key = batch_get b k key (lookup (rp_db s) k key)"
    using command_effect[OF run p wf] by metis
  obtain ops where ops: "mapE (release_placement E t w) (filter (\<lambda>p. pl_tenant_id p = t \<and> pl_service p = w)
      (decode_all (c_placement E) (db_data (rp_db s) Kplacements))) = Inr ops"
    and b: "b = Del Kworkloads (workload_key t w) # concat ops"
    using cmd by (auto simp: c delete_workload_Inr)
  have l: "lookup (rp_db s') k key = batch_get (concat ops) k key (lookup (rp_db s) k key)"
    if "k \<in> {Kplacements, Kordinals}" for k key
    using look[of k key] that by (auto simp: b)
  note eff = release_effect[OF ok inv ops l]
  show "placement_at E (rp_db s') pod = Some q \<longleftrightarrow>
      placement_at E (rp_db s) pod = Some q \<and> \<not> (pl_tenant_id q = t \<and> pl_service q = w)"
    using eff(1) by blast
  show "slot_at E (rp_db s') t w (pl_role q) (pl_ordinal q) = Some (freed_slot t w (pl_role q) (pl_ordinal q))"
    if "placement_at E (rp_db s) pod = Some q" "pl_tenant_id q = t" "pl_service q = w"
    using eff(2) that by blast
  show "lookup (rp_db s') Kworkloads key = (if key = workload_key t w then None else lookup (rp_db s) Kworkloads key)"
    using look[of Kworkloads key] released_frame[OF ops] by (auto simp: b)
qed

lemma scale_workload_effect:
  assumes ok: "env_ok E" and inv: "replica_inv E (rp_db s)"
    and run: "apply_entry E td s e = (s', Inr r)" and p: "en_payload e = Normal a"
    and c: "cmd a = ScaleWorkload rec" and t: "t = wr_tenant_id rec" and w: "w = wr_workload_id rec"
    and reps: "reps = decoded_replicas E (wr_spec_bytes rec)"
  shows "placement_at E (rp_db s') pod = Some q \<longleftrightarrow>
      placement_at E (rp_db s) pod = Some q \<and> \<not> (pl_tenant_id q = t \<and> pl_service q = w \<and> scaled_away reps q)"
    and "placement_at E (rp_db s) pod = Some q \<Longrightarrow> pl_tenant_id q = t \<Longrightarrow> pl_service q = w \<Longrightarrow> scaled_away reps q \<Longrightarrow>
      slot_at E (rp_db s') t w (pl_role q) (pl_ordinal q) = Some (freed_slot t w (pl_role q) (pl_ordinal q))"
    and "record_at (c_workload E) (rp_db s') Kworkloads (workload_key t w) = Some rec"
proof -
  have wf: "db_wf (rp_db s)" using inv by (simp add: replica_inv_def)
  obtain b kind where cmd: "apply_command E (rp_db s) (cmd a) = Inr (b, kind)" and
    look: "\<And>k key. k \<notin> {Kversion, Kraft_state, Kaudit_log} \<Longrightarrow>
      lookup (rp_db s') k key = batch_get b k key (lookup (rp_db s) k key)"
    using command_effect[OF run p wf] by metis
  obtain v ops where v: "enc (c_workload E) rec = Some v" and
    ops: "mapE (release_placement E t w)
      (filter (\<lambda>p. pl_tenant_id p = t \<and> pl_service p = w \<and> scaled_away reps p)
        (decode_all (c_placement E) (db_data (rp_db s) Kplacements))) = Inr ops"
    and b: "b = Put Kworkloads (workload_key t w) v # concat ops"
    using cmd unfolding c scale_workload_Inr t[symmetric] w[symmetric] reps[symmetric] by blast
  have l: "lookup (rp_db s') k key = batch_get (concat ops) k key (lookup (rp_db s) k key)"
    if "k \<in> {Kplacements, Kordinals}" for k key
    using look[of k key] that by (auto simp: b)
  note eff = release_effect[OF ok inv ops l]
  show "placement_at E (rp_db s') pod = Some q \<longleftrightarrow>
      placement_at E (rp_db s) pod = Some q \<and> \<not> (pl_tenant_id q = t \<and> pl_service q = w \<and> scaled_away reps q)"
    using eff(1) by blast
  show "slot_at E (rp_db s') t w (pl_role q) (pl_ordinal q) = Some (freed_slot t w (pl_role q) (pl_ordinal q))"
    if "placement_at E (rp_db s) pod = Some q" "pl_tenant_id q = t" "pl_service q = w" "scaled_away reps q"
    using eff(2) that by blast
  show "record_at (c_workload E) (rp_db s') Kworkloads (workload_key t w) = Some rec"
    using look[of Kworkloads "workload_key t w"] released_frame[OF ops] codec_ok_dec[OF records_codecs(4)[OF ok] v]
    by (auto simp: b record_at_def)
qed

end
