(* ===== verification/Reports.thy ===== *)
theory Reports
  imports Lifecycle
begin

text \<open>
  Entries that fold a report or a grant into stored state: health reports of pods and the start
  of a gate violation, access lists of secrets, endorsement keys, pod replacement.
\<close>


section \<open>Health reports\<close>

text \<open>The trailing reports in violation: the streak the stored time stamp describes.\<close>

definition violation_streak :: "workload_status_record list \<Rightarrow> workload_status_record list" where
  "violation_streak rs = rev (takeWhile in_violation (rev rs))"

definition streak_start :: "workload_status_record list \<Rightarrow> int" where
  "streak_start rs = (case violation_streak rs of [] \<Rightarrow> 0 | r # _ \<Rightarrow> st_observed_at r)"

lemma streak_snoc:
  "streak_start (rs @ [r]) =
     (if in_violation r then (if violation_streak rs = [] then st_observed_at r else streak_start rs) else 0)"
  by (cases "rev (takeWhile in_violation (rev rs))") (auto simp: streak_start_def violation_streak_def)

lemma streak_Nil: "violation_streak [] = []"
  by (simp add: violation_streak_def)

lemma streak_positive:
  assumes "\<forall>r\<in>set rs. st_observed_at r > 0"
  shows "streak_start rs > 0 \<longleftrightarrow> violation_streak rs \<noteq> []"
proof (cases "violation_streak rs")
  case (Cons r rest)
  then have "r \<in> set (takeWhile in_violation (rev rs))"
    by (metis list.set_intros(1) set_rev violation_streak_def)
  then have "r \<in> set rs" by (metis set_rev set_takeWhileD)
  with Cons assms show ?thesis by (simp add: streak_start_def)
qed (simp add: streak_start_def)

lemma status_effect:
  assumes "env_ok E" "db_wf (rp_db s)" "apply_entry E td s e = (s', Inr r)"
    and "en_payload e = Normal a" "cmd a = UpsertWorkloadStatus st"
  shows "record_at (c_status E) (rp_db s') Kworkload_status (st_pod_id st) =
     Some (st\<lparr>st_gate_violation_since :=
       gate_violation_since (record_at (c_status E) (rp_db s) Kworkload_status (st_pod_id st)) st\<rparr>)"
proof -
  obtain b kind where cmd: "apply_command E (rp_db s) (cmd a) = Inr (b, kind)" and
    look: "\<And>k key. k \<notin> {Kversion, Kraft_state, Kaudit_log} \<Longrightarrow>
      lookup (rp_db s') k key = batch_get b k key (lookup (rp_db s) k key)"
    using command_effect[OF assms(3,4,2)] by metis
  define since where "since = gate_violation_since
    (record_at (c_status E) (rp_db s) Kworkload_status (st_pod_id st)) st"
  obtain v where v: "enc (c_status E) (st\<lparr>st_gate_violation_since := since\<rparr>) = Some v"
    and b: "b = [Put Kworkload_status (st_pod_id st) v]"
    using cmd by (auto simp: assms(5) apply_command_def apply_upsert_status_def result_simps sm_Inr Let_def
        record_at_def since_def)
  show ?thesis
    using look[of Kworkload_status "st_pod_id st"] codec_ok_dec[OF records_codecs(13)[OF assms(1)] v]
    by (simp add: b record_at_def[of _ "rp_db s'"] flip: since_def)
qed

abbreviation reports_status :: "log_entry \<Rightarrow> workload_status_record \<Rightarrow> bool" where
  "reports_status e st \<equiv> (\<exists>a. en_payload e = Normal a \<and> cmd a = UpsertWorkloadStatus st)"

lemma status_run:
  assumes ok: "env_ok E" and wf: "db_wf (rp_db s)"
    and none: "record_at (c_status E) (rp_db s) Kworkload_status pod = None"
  shows "apply_entries E td s es = (s', Inr rs) \<Longrightarrow> list_all2 reports_status es sts \<Longrightarrow>
     (\<forall>st\<in>set sts. st_pod_id st = pod \<and> st_observed_at st > 0) \<Longrightarrow>
     record_at (c_status E) (rp_db s') Kworkload_status pod =
       (if sts = [] then None else Some ((last sts)\<lparr>st_gate_violation_since := streak_start sts\<rparr>))"
proof (induction sts arbitrary: es s' rs rule: rev_induct)
  case Nil
  then show ?case using none by simp
next
  case (snoc st sts)
  from snoc.prems(2) obtain es' e where es: "es = es' @ [e]" "list_all2 reports_status es' sts" "reports_status e st"
    by (auto simp: list_all2_append2 list_all2_Cons2)
  from snoc.prems(1) obtain t rs1 rs2 where
    t: "apply_entries E td s es' = (t, Inr rs1)" "apply_entries E td t [e] = (s', Inr rs2)"
    unfolding es(1) apply_entries_append by blast
  then obtain r where r: "apply_entry E td t e = (s', Inr r)"
    unfolding apply_entries_Cons by auto
  have wf': "db_wf (rp_db t)" using apply_entries_wf[OF t(1) wf] by simp
  have IH: "record_at (c_status E) (rp_db t) Kworkload_status pod =
      (if sts = [] then None else Some ((last sts)\<lparr>st_gate_violation_since := streak_start sts\<rparr>))"
    using snoc.IH[OF t(1) es(2)] snoc.prems(3) by simp
  have pod: "st_pod_id st = pod" and pos: "\<forall>r\<in>set sts. st_observed_at r > 0" using snoc.prems(3) by auto
  obtain a where "en_payload e = Normal a" "cmd a = UpsertWorkloadStatus st" using es(3) by blast
  note eff = status_effect[OF ok wf' r this]
  show ?case
    using eff[unfolded pod IH] streak_positive[OF pos]
    by (cases "sts = []") (auto simp: gate_violation_since_def streak_snoc streak_snoc[of "[]", simplified] streak_Nil)
qed


section \<open>Access lists of secrets\<close>

text \<open>\<open>secrets/acl.rs\<close>.\<close>

definition is_authorized :: "secret_acl \<Rightarrow> string \<Rightarrow> spiffe_id \<Rightarrow> bool" where
  "is_authorized acl key who =
     (case om_get acl key of Some s \<Rightarrow> om_get s who \<noteq> None | None \<Rightarrow> False)"

datatype secret_error = Access_denied string spiffe_id

definition authorize_secret :: "secret_acl \<Rightarrow> string \<Rightarrow> spiffe_id \<Rightarrow> secret_error + unit" where
  "authorize_secret acl key who = (if is_authorized acl key who then Inr () else Inl (Access_denied key who))"

definition authorized_for :: "secret_acl \<Rightarrow> string \<Rightarrow> string list" where
  "authorized_for acl key = (case om_get acl key of Some s \<Rightarrow> map fst s | None \<Rightarrow> [])"

definition acl_wf :: "secret_acl \<Rightarrow> bool" where
  "acl_wf acl \<longleftrightarrow> om_wf acl \<and> (\<forall>(k, s)\<in>set acl. om_wf s)"

lemma acl_wf_get: "acl_wf acl \<Longrightarrow> om_get acl key = Some s \<Longrightarrow> om_wf s"
  by (auto simp: acl_wf_def dest: om_get_Some_mem)

lemma authorized_for_iff: "who \<in> set (authorized_for acl key) \<longleftrightarrow> is_authorized acl key who"
  by (cases "om_get acl key") (auto simp: authorized_for_def is_authorized_def om_get_None_iff[of _ who] rev_image_eqI)

lemma authorized_grant:
  "is_authorized (acl_grant acl key who) key' who' \<longleftrightarrow> (key' = key \<and> who' = who) \<or> is_authorized acl key' who'"
  by (auto simp: is_authorized_def acl_grant_def split: option.splits)

lemma authorized_revoke:
  assumes "acl_wf acl"
  shows "is_authorized (acl_revoke acl key who) key' who' \<longleftrightarrow> is_authorized acl key' who' \<and> \<not> (key' = key \<and> who' = who)"
proof (cases "om_get acl key")
  case (Some s)
  have "om_wf acl" "om_wf s" using assms acl_wf_get[OF assms Some] by (auto simp: acl_wf_def)
  then have get: "om_get (om_del who s) who' = (if who' = who then None else om_get s who')"
    "om_get (om_del key acl) key' = (if key' = key then None else om_get acl key')" for who' key'
    by (simp_all add: om_get_del)
  show ?thesis
  proof (cases "om_del who s = []")
    case True
    then have "who' \<noteq> who \<longrightarrow> om_get s who' = None"
      using get(1)[of who'] by (simp split: if_splits)
    with True Some show ?thesis by (auto simp: is_authorized_def acl_revoke_def get split: option.splits)
  next
    case False
    with Some show ?thesis by (auto simp: is_authorized_def acl_revoke_def get split: option.splits)
  qed
qed (auto simp: is_authorized_def acl_revoke_def)

lemma acl_wf_put: "acl_wf acl \<Longrightarrow> om_wf s \<Longrightarrow> acl_wf (om_put key s acl)"
proof -
  assume a: "acl_wf acl" and s: "om_wf s"
  then have wf: "om_wf (om_put key s acl)" by (simp add: acl_wf_def)
  have "om_wf x" if "(k, x) \<in> set (om_put key s acl)" for k x
  proof -
    from that have "om_get (om_put key s acl) k = Some x" by (simp add: om_mem_get[OF wf])
    then show ?thesis using s acl_wf_get[OF a] by (auto split: if_splits)
  qed
  with wf show ?thesis by (auto simp: acl_wf_def)
qed

lemma acl_wf_grant: "acl_wf acl \<Longrightarrow> acl_wf (acl_grant acl key who)"
  unfolding acl_grant_def by (rule acl_wf_put) (auto simp: om_wf_Cons split: option.splits dest: acl_wf_get)

lemma acl_wf_revoke: "acl_wf acl \<Longrightarrow> acl_wf (acl_revoke acl key who)"
proof (cases "om_get acl key")
  case (Some s)
  assume a: "acl_wf acl"
  then have "acl_wf (om_del key acl)"
    using om_del_subset[of key acl] by (auto simp: acl_wf_def)
  moreover have "acl_wf (om_put key (om_del who s) acl)"
    by (rule acl_wf_put[OF a]) (simp add: acl_wf_get[OF a Some])
  ultimately show ?thesis using Some by (simp add: acl_revoke_def Let_def)
qed (simp add: acl_revoke_def)

text \<open>The list in force for a secret; a secret nobody was granted has the empty list.\<close>

definition acl_at :: "env \<Rightarrow> database \<Rightarrow> string \<Rightarrow> secret_acl option" where
  "acl_at E db key =
     (case lookup db Ksecrets (acl_key key) of None \<Rightarrow> Some [] | Some b \<Rightarrow> dec (c_acl E) b)"

lemma update_acl_effect:
  assumes "env_ok E" "db_wf (rp_db s)" "apply_entry E td s e = (s', Inr r)"
    and "en_payload e = Normal a"
    and "apply_command E (rp_db s) (cmd a) = update_acl E (rp_db s) key who f"
  obtains acl i where "acl_at E (rp_db s) key = Some acl" "sp_parse E who = Some i"
    "acl_at E (rp_db s') key = Some (f acl i)"
    "\<And>k. k \<noteq> acl_key key \<Longrightarrow> lookup (rp_db s') Ksecrets k = lookup (rp_db s) Ksecrets k"
proof -
  obtain b kind where cmd: "apply_command E (rp_db s) (cmd a) = Inr (b, kind)" and
    look: "\<And>k key. k \<notin> {Kversion, Kraft_state, Kaudit_log} \<Longrightarrow>
      lookup (rp_db s') k key = batch_get b k key (lookup (rp_db s) k key)"
    using command_effect[OF assms(3,4,2)] by metis
  obtain acl i v where
    old: "case lookup (rp_db s) Ksecrets (acl_key key) of None \<Rightarrow> acl = [] | Some b \<Rightarrow> dec (c_acl E) b = Some acl"
    and i: "sp_parse E who = Some i"
    and v: "enc (c_acl E) (f acl i) = Some v" and b: "b = [Put Ksecrets (acl_key key) v]"
    using cmd unfolding assms(5) update_acl_Inr by blast
  from old have acl: "acl_at E (rp_db s) key = Some acl" by (auto simp: acl_at_def split: option.splits)
  have "lookup (rp_db s') Ksecrets k = (if k = acl_key key then Some v else lookup (rp_db s) Ksecrets k)" for k
    using look[of Ksecrets k] by (auto simp: b)
  then show ?thesis
    using that[OF acl i] codec_ok_dec[OF records_codecs(19)[OF assms(1)] v] by (simp add: acl_at_def)
qed


section \<open>Endorsement keys\<close>

lemma update_ek_effect:
  assumes "env_ok E" "db_wf (rp_db s)" "apply_entry E td s e = (s', Inr r)"
    and "en_payload e = Normal a"
    and "apply_command E (rp_db s) (cmd a) = update_ek E (rp_db s) fp f"
  shows "record_at (c_ek E) (rp_db s') Knode_eks fp = map_option f (record_at (c_ek E) (rp_db s) Knode_eks fp)"
proof -
  obtain b kind where cmd: "apply_command E (rp_db s) (cmd a) = Inr (b, kind)" and
    look: "\<And>k key. k \<notin> {Kversion, Kraft_state, Kaudit_log} \<Longrightarrow>
      lookup (rp_db s') k key = batch_get b k key (lookup (rp_db s) k key)"
    using command_effect[OF assms(3,4,2)] by metis
  show ?thesis
    using cmd look[of Knode_eks fp] codec_ok_dec[OF records_codecs(11)[OF assms(1)]]
    by (auto simp: assms(5) update_ek_Inr record_at_def split: option.splits)
qed


section \<open>Replacing a pod\<close>

lemma reassign_effect:
  assumes ok: "env_ok E" and inv: "replica_inv E (rp_db s)"
    and run: "apply_entry E td s e = (s', Inr r)" and p: "en_payload e = Normal a"
    and c: "cmd a = ReassignPodId t svc role n new"
    and f: "find (in_slot t svc role n) (decode_all (c_placement E) (db_data (rp_db s) Kplacements)) = Some q"
  shows "placement_at E (rp_db s') pod =
      (if pod = new then Some (q\<lparr>pl_pod_id := new\<rparr>)
       else if pod = pl_pod_id q then None else placement_at E (rp_db s) pod)"
    and "slot_at E (rp_db s') t svc role n =
      Some \<lparr>oa_tenant_id = t, oa_service = svc, oa_role = role, oa_ordinal = n,
            oa_pod_id = Some new, oa_node_id = Some (pl_node_id q)\<rparr>"
proof -
  have wf: "db_wf (rp_db s)" using inv by (simp add: replica_inv_def)
  obtain b kind where cmd: "apply_command E (rp_db s) (cmd a) = Inr (b, kind)" and
    look: "\<And>k key. k \<notin> {Kversion, Kraft_state, Kaudit_log} \<Longrightarrow>
      lookup (rp_db s') k key = batch_get b k key (lookup (rp_db s) k key)"
    using command_effect[OF run p wf] by metis
  obtain v w where v: "enc (c_placement E) (q\<lparr>pl_pod_id := new\<rparr>) = Some v"
    and w: "enc (c_ordinal E) \<lparr>oa_tenant_id = t, oa_service = svc, oa_role = role, oa_ordinal = n,
            oa_pod_id = Some new, oa_node_id = Some (pl_node_id q)\<rparr> = Some w"
    and b: "b = [Del Kplacements (pl_pod_id q), Put Kplacements new v, Put Kordinals (ordinal_key t svc role n) w]"
    using cmd f by (auto simp: c apply_command_def apply_reassign_pod_def result_simps sm_Inr)
  show "placement_at E (rp_db s') pod =
      (if pod = new then Some (q\<lparr>pl_pod_id := new\<rparr>)
       else if pod = pl_pod_id q then None else placement_at E (rp_db s) pod)"
    using look[of Kplacements pod] codec_ok_dec[OF records_codecs(21)[OF ok] v]
    by (auto simp: b record_at_def)
  show "slot_at E (rp_db s') t svc role n =
      Some \<lparr>oa_tenant_id = t, oa_service = svc, oa_role = role, oa_ordinal = n,
            oa_pod_id = Some new, oa_node_id = Some (pl_node_id q)\<rparr>"
    using look[of Kordinals "ordinal_key t svc role n"] codec_ok_dec[OF records_codecs(20)[OF ok] w]
    by (auto simp: b record_at_def)
qed

lemma find_slot:
  assumes "replica_inv E db" "find (in_slot t svc role n) (decode_all (c_placement E) (db_data db Kplacements)) = Some q"
  shows "in_slot t svc role n q \<and> placement_at E db (pl_pod_id q) = Some q"
  using assms in_decoded_placements[of db E q]
  by (auto simp: replica_inv_def find_Some_iff dest: nth_mem)

end
