(* ===== verification/Examples.thy ===== *)
theory Examples
  imports Replication LogStore Reports "HOL-Library.Code_Target_Nat"
begin

text \<open>
  A small concrete cluster on which the theorems are exercised: two nodes, a tenant, a workload
  with two placed pods, a delegation, an endorsement key. The codecs are those of \<open>Postcard\<close>.
\<close>

abbreviation PE :: env where
  "PE \<equiv> postcard_env"

definition ex_entry :: "nat \<Rightarrow> fleetos_command \<Rightarrow> log_entry" where
  "ex_entry i c =
     \<lparr>en_log_id = \<lparr>lg_term = 1, lg_leader = 1, lg_index = i\<rparr>,
      en_payload = Normal \<lparr>cmd = c, audit = None\<rparr>\<rparr>"

definition ex_node :: "string \<Rightarrow> string \<Rightarrow> node_record" where
  "ex_node n zone =
     \<lparr>nr_node_id = n, nr_node_kind = 1, nr_status = Active, nr_schedulable = True,
      nr_last_heartbeat = 5, nr_registered_at = 5, nr_capacity_cpu = 1000, nr_capacity_memory = 1000,
      nr_failure_domain = zone\<rparr>"

abbreviation node_a :: string where
  "node_a \<equiv> ''spiffe://f/a''"

abbreviation node_b :: string where
  "node_b \<equiv> ''spiffe://f/b''"

definition ex_placement :: "nat \<Rightarrow> string \<Rightarrow> placement" where
  "ex_placement i n =
     \<lparr>pl_pod_id = ''web-r-'' @ show_nat i, pl_tenant_id = ''t'', pl_service = ''web'', pl_role = ''r'',
      pl_ordinal = i, pl_node_id = n, pl_resources = \<lparr>cpu_millicores = 500, memory_bytes = 10\<rparr>\<rparr>"

definition ex_delegation :: delegation_record where
  "ex_delegation =
     \<lparr>dl_delegation_id = ''d1'', dl_node_id = node_a, dl_target_svid_id = ''spiffe://f/w'',
      dl_target_ordinal = None, dl_issued_at = 1, dl_expires_at = 9, dl_refresh_at = 5\<rparr>"

definition ex_ek :: node_ek_record where
  "ex_ek =
     \<lparr>ek_fingerprint = ''ff'', ek_pub = ''k'', ek_cert_der = [], ek_node_id = [], ek_registered_at = 1,
      ek_expires_at = None, ek_state = EkRevoked\<rparr>"

definition ex_log :: "log_entry list" where
  "ex_log =
     [ex_entry 1 (RegisterNode (ex_node node_a ''z1'')),
      ex_entry 2 (RegisterNode (ex_node node_b ''z2'')),
      ex_entry 3 (CommitPlacement (ex_placement 0 node_a)),
      ex_entry 4 (CommitPlacement (ex_placement 1 node_b)),
      ex_entry 5 (IssueDelegation ex_delegation),
      ex_entry 6 (RegisterNodeEk ex_ek)]"

definition ex_scaled :: workload_spec_record where
  "ex_scaled = \<lparr>wr_tenant_id = ''t'', wr_workload_id = ''web'', wr_spec_bytes = [], wr_last_applied = []\<rparr>"

definition ex_report :: "bool \<Rightarrow> int \<Rightarrow> workload_status_record" where
  "ex_report enforced t =
     \<lparr>st_pod_id = ''p'', st_workload_id = ''web'', st_tenant_id = ''t'', st_ready = True, st_live = True,
      st_started = True, st_policy_enforced = enforced, st_restart_count = 0, st_observed_at = t,
      st_router_connected = True, st_gate_violation_since = 0\<rparr>"

definition ex_blank :: "nat \<Rightarrow> log_entry" where
  "ex_blank i = \<lparr>en_log_id = \<lparr>lg_term = 1, lg_leader = 1, lg_index = i\<rparr>, en_payload = Blank\<rparr>"

definition ex_log_db :: database where
  "ex_log_db =
     (case append_log plain_entry_codec empty_db [ex_blank 1, ex_blank 2] of Inr db \<Rightarrow> db | Inl _ \<Rightarrow> empty_db)"

definition faulty_db :: database where
  "faulty_db = empty_db\<lparr>db_read_fault := (\<lambda>k. k = Kjoin_tokens)\<rparr>"

definition ex_state :: replica where
  "ex_state = fst (apply_entries PE ''f'' (start_replica empty_db) ex_log)"

lemma sp_parse_PE: "sp_parse PE s = (if prefix ''spiffe://'' s then Some s else None)"
  by (simp add: postcard_env_def)

lemma plain_ex_entry:
  "self_addressed PE c \<Longrightarrow> \<not> raw_scheduler_write c \<Longrightarrow> plain_entry PE (ex_entry i c)"
  by (simp add: plain_entry_def ex_entry_def)

lemma plain_ex_log: "list_all (plain_entry PE) ex_log"
  by (simp add: ex_log_def plain_ex_entry self_addressed_def raw_scheduler_write_def)

lemma start_inv: "replica_inv PE (rp_db (start_replica empty_db))" "db_healthy (rp_db (start_replica empty_db))"
  by (simp_all add: start_replica_def replica_inv_empty)

lemma ex_run: "\<exists>rs. apply_entries PE ''f'' (start_replica empty_db) ex_log = (ex_state, Inr rs)"
  and ex_inv: "replica_inv PE (rp_db ex_state)"
  and ex_healthy: "db_healthy (rp_db ex_state)"
  using plain_run[OF postcard_env_ok plain_ex_log start_inv, of "''f''"] by (auto simp: ex_state_def)

lemma ex_wf: "db_wf (rp_db ex_state)"
  using ex_inv by (simp add: replica_inv_def)

lemma ex_reachable: "reachable PE ''f'' ex_state"
proof -
  obtain rs where run: "apply_entries PE ''f'' (start_replica empty_db) ex_log = (ex_state, Inr rs)"
    using ex_run by blast
  show ?thesis
    by (rule reachable_entries[OF reachable.fresh run])
      (use plain_ex_log in \<open>auto simp: list_all_iff plain_entry_def\<close>)
qed

text \<open>One more entry is always applied when its command is self-addressed.\<close>

lemma ex_step:
  assumes "self_addressed PE c" "\<not> raw_scheduler_write c"
  obtains s' r where "apply_entry PE ''f'' ex_state (ex_entry 7 c) = (s', Inr r)"
  using plain_entry_progress[OF postcard_env_ok ex_inv ex_healthy plain_ex_entry[OF assms], of "''f''"] by blast

lemma ex_payload: "en_payload (ex_entry i c) = Normal \<lparr>cmd = c, audit = None\<rparr>"
  by (simp add: ex_entry_def)

lemma ex_cmd: "cmd \<lparr>cmd = c, audit = x\<rparr> = c"
  by simp

lemma ex_placements:
  "decode_all (c_placement PE) (db_data (rp_db ex_state) Kplacements) =
     [ex_placement 0 node_a, ex_placement 1 node_b]"
  by code_simp

lemma ex_no_secrets: "lookup (rp_db ex_state) Ksecrets (acl_key ''db'') = None"
  by code_simp

lemma ex_ek_at: "record_at (c_ek PE) (rp_db ex_state) Knode_eks ''ff'' = Some ex_ek"
  by code_simp


subsection \<open>A log of two entries\<close>

lemma ex_log_append: "append_log plain_entry_codec empty_db [ex_blank 1, ex_blank 2] = Inr ex_log_db"
  by (simp add: ex_log_db_def append_log_def plain_entry_codec_def ex_blank_def empty_db_def kv_commit_def
      ok_or_def)

lemma empty_log_inv: "log_inv plain_entry_codec empty_db"
  by (simp add: log_inv_def) (simp add: empty_db_def)

lemma ex_log_db_inv: "log_inv plain_entry_codec ex_log_db"
  and ex_log_at: "log_at plain_entry_codec ex_log_db j =
    (if j = 1 then Some (ex_blank 1) else if j = 2 then Some (ex_blank 2) else None)"
proof -
  have "\<forall>e\<in>set [ex_blank 1, ex_blank 2]. en_index e < 2 ^ 64" by (simp add: ex_blank_def)
  note r = append_refines[OF plain_entry_codec_ok empty_log_inv this ex_log_append]
  show "log_inv plain_entry_codec ex_log_db" using r by simp
  have "log_at plain_entry_codec empty_db = (\<lambda>_. None)" by (simp add: log_at_def empty_db_def fun_eq_iff)
  then show "log_at plain_entry_codec ex_log_db j =
    (if j = 1 then Some (ex_blank 1) else if j = 2 then Some (ex_blank 2) else None)"
    using r by (simp add: ex_blank_def)
qed

lemma append_healthy: "append_log c db es = Inr db' \<Longrightarrow> db_healthy db \<Longrightarrow> db_healthy db'"
  by (auto simp: append_log_def result_simps kv_commit_Inr db_healthy_def)

lemma ex_log_db_healthy: "db_healthy ex_log_db"
  by (rule append_healthy[OF ex_log_append db_healthy_empty])

end
