(* ===== verification/ReplicaTheorems.thy ===== *)
theory ReplicaTheorems
  imports Examples
begin

text \<open>
  The properties of the replicated state machine: what holds in every reachable replica, when an
  entry is applied, how entries are numbered and audited, when replicas agree, what a restart and
  a snapshot preserve.
\<close>


text \<open>C1. In every state a replica can reach by applying entries, restarting from its database and
  installing snapshots of other replicas, keyspaces are ordered maps, every scheduler, node,
  delegation, token and status record sits under the key made from its own fields, and the records
  that commands read back decode. Raw manifest writes to scheduler state are the only exclusion.\<close>

theorem reachable_replica_inv:
  assumes "env_ok E" "reachable E td s"
  shows "db_wf (rp_db s) \<and> storage_inv E (rp_db s) \<and> decodable_inv E (rp_db s)"
  using reachable_inv[OF assms] by (simp add: replica_inv_def)

theorem reachable_replica_inv_witness:
  "env_ok PE \<and> reachable PE ''f'' ex_state \<and> storage_inv PE (rp_db ex_state)"
  using reachable_replica_inv[OF postcard_env_ok ex_reachable] postcard_env_ok ex_reachable by simp


text \<open>C3. On healthy storage, a reachable replica applies a log entry if and only if the command
  names identities that parse and, for access-list changes, finds a list that decodes. No other
  command can stop a replica.\<close>

theorem entry_applies_iff:
  assumes "env_ok E" "reachable E td s" "db_healthy (rp_db s)"
  shows "(\<exists>s' r. apply_entry E td s e = (s', Inr r)) \<longleftrightarrow> entry_addressed E (rp_db s) (en_payload e)"
  using apply_entry_ok_iff[OF assms(1,3)] reachable_inv[OF assms(1,2)] by (simp add: replica_inv_def)

theorem entry_applies_iff_witness:
  "(\<exists>s' r. apply_entry PE ''f'' ex_state (ex_entry 7 (EvictNode node_a 9)) = (s', Inr r)) \<and>
   \<not> (\<exists>s' r. apply_entry PE ''f'' ex_state (ex_entry 7 (EvictNode ''a'' 9)) = (s', Inr r))"
  unfolding entry_applies_iff[OF postcard_env_ok ex_reachable ex_healthy] ex_payload
  by (simp add: entry_addressed_def well_addressed_def sp_parse_PE)





text \<open>Responses carry consecutive versions: the i-th entry of a batch gets the counter plus
  \<open>i + 1\<close>, modulo the width of the counter.\<close>

theorem versions_consecutive:
  assumes "db_wf (rp_db s)" "apply_entries E td s es = (s', Inr rs)"
  shows "map resp_version rs = map (\<lambda>i. (rp_version s + Suc i) mod 2 ^ 64) [0..<length es]"
  using apply_entries_versions[OF assms(2,1)] by simp

theorem versions_consecutive_witness:
  "\<exists>rs. apply_entries PE ''f'' (start_replica empty_db) ex_log = (ex_state, Inr rs) \<and>
     map resp_version rs = [1, 2, 3, 4, 5, 6]"
proof -
  obtain rs where run: "apply_entries PE ''f'' (start_replica empty_db) ex_log = (ex_state, Inr rs)"
    using ex_run by blast
  have wf: "db_wf (rp_db (start_replica empty_db))" by (simp add: start_replica_def)
  have v: "rp_version (start_replica empty_db) = 0" by code_simp
  have l: "[0..<length ex_log] = [0, 1, 2, 3, 4, 5]" by (simp add: ex_log_def upt_rec)
  show ?thesis
    using run versions_consecutive[OF wf run] unfolding v l by auto
qed













lemma build_ok:
  assumes "env_ok E" "db_healthy view" "applied_state E live = Inr (la, mem)"
  obtains meta data where "build_snapshot E view live = Inr (meta, data)"
proof -
  have c: "collect_keyspaces view = Inr (map (\<lambda>k. (table_name k, db_data view k)) snapshot_handles)"
    using assms(2) by (simp add: collect_keyspaces_Inr)
  obtain data where "enc (c_app_snapshot E)
      \<lparr>as_keyspaces = map (\<lambda>k. (table_name k, db_data view k)) snapshot_handles\<rparr> = Some data"
    using codec_ok_enc[OF raft_codecs(4)[OF assms(1)]] by blast
  then show ?thesis using that c assms(3) by (fastforce simp: build_snapshot_Inr)
qed

lemma install_ok:
  assumes "env_ok E" "build_snapshot E view live = Inr (meta, data)" "db_healthy db"
  obtains db' where "install_snapshot E db meta data = Inr db'"
proof -
  obtain ksd where ksd: "collect_keyspaces view = Inr ksd"
    "enc (c_app_snapshot E) \<lparr>as_keyspaces = ksd\<rparr> = Some data"
    using assms(2) by (auto simp: build_snapshot_Inr)
  obtain m where "enc (c_meta E) meta = Some m"
    using codec_ok_enc[OF raft_codecs(3)[OF assms(1)]] by blast
  then show ?thesis
    using that install_snapshot_Inr[OF assms(1) ksd, of db meta] assms(3) healthy_reads(3)[OF assms(3)] by auto
qed

text \<open>C4. Snapshots round-trip. A snapshot built from a consistent view of one replica installs on
  any healthy replica, whatever that held: every snapshotted keyspace becomes the source's, the log
  position and membership read back are those in the metadata, keyspaces outside the snapshot are
  untouched, and the installed snapshot is the one later handed out.\<close>

theorem snapshot_roundtrip:
  assumes ok: "env_ok E" and wf: "db_wf src" "db_wf dst" and h: "db_healthy src" "db_healthy dst"
    and b: "build_snapshot E src src = Inr (meta, data)"
  shows "\<exists>dst'. install_snapshot E dst meta data = Inr dst' \<and>
     (\<forall>k\<in>set snapshot_handles. k \<noteq> Kraft_state \<longrightarrow> db_data dst' k = db_data src k) \<and>
     (\<forall>key. key \<noteq> ''snapshot_meta'' \<longrightarrow> lookup dst' Kraft_state key = lookup src Kraft_state key) \<and>
     (\<forall>k key. k \<notin> set snapshot_handles \<longrightarrow> k \<noteq> Kraft_snapshot \<longrightarrow> lookup dst' k key = lookup dst k key) \<and>
     applied_state E dst' = Inr (sn_last_log_id meta, sn_last_membership meta) \<and>
     get_current_snapshot E dst' = Inr (Some (meta, data))"
proof -
  obtain ksd la mem where ksd: "collect_keyspaces src = Inr ksd"
    and data: "enc (c_app_snapshot E) \<lparr>as_keyspaces = ksd\<rparr> = Some data"
    and ap: "applied_state E src = Inr (la, mem)"
    and meta: "sn_last_log_id meta = la" "sn_last_membership meta = mem"
    using b by (auto simp: build_snapshot_Inr)
  obtain m where m: "enc (c_meta E) meta = Some m" "dec (c_meta E) m = Some meta"
    using codec_ok_enc[OF raft_codecs(3)[OF ok]] by blast
  obtain dst' where inst: "install_snapshot E dst meta data = Inr dst'"
    using install_ok[OF ok b h(2)] .
  note look = install_lookup[OF ok ksd data inst wf(2,1)]
  have h': "\<not> db_read_fault dst' k" for k
    using install_faults[OF inst] h(2) by simp
  have "applied_state E dst' = applied_state E src"
    by (rule applied_state_cong) (use h h' Kraft_state_handle in \<open>simp_all add: look\<close>)
  moreover have "get_current_snapshot E dst' = Inr (Some (meta, data))"
    using m h' by (simp add: get_current_snapshot_def sm_get_def kv_get_def from_bytes_def look)
  moreover have "\<forall>k\<in>set snapshot_handles. k \<noteq> Kraft_state \<longrightarrow> db_data dst' k = db_data src k"
    using install_copies[OF ok b inst wf(2,1)] by blast
  moreover have "\<forall>key. key \<noteq> ''snapshot_meta'' \<longrightarrow> lookup dst' Kraft_state key = lookup src Kraft_state key"
    using Kraft_state_handle by (simp add: look)
  moreover have "\<forall>k key. k \<notin> set snapshot_handles \<longrightarrow> k \<noteq> Kraft_snapshot \<longrightarrow> lookup dst' k key = lookup dst k key"
    using Kraft_state_handle by (auto simp: look)
  ultimately show ?thesis using inst ap meta by auto
qed

theorem snapshot_roundtrip_witness:
  "\<exists>meta data dst'. build_snapshot PE empty_db empty_db = Inr (meta, data) \<and>
     install_snapshot PE (rp_db ex_state) meta data = Inr dst' \<and> db_data dst' Knodes = []"
proof -
  have "applied_state PE empty_db = Inr (None, default_membership)"
    by (simp add: applied_state_def sm_get_def kv_get_def empty_db_def)
  from build_ok[OF postcard_env_ok db_healthy_empty this]
  obtain meta data where b: "build_snapshot PE empty_db empty_db = Inr (meta, data)" by metis
  have k: "Knodes \<in> set snapshot_handles" by (simp add: snapshot_handles_def)
  have e: "db_data empty_db Knodes = []" by (simp add: empty_db_def)
  show ?thesis
    using snapshot_roundtrip[OF postcard_env_ok db_wf_empty ex_wf db_healthy_empty ex_healthy b] b k e
    by fastforce
qed


text \<open>C16. Installing a snapshot does not move the in-memory version counter. A replica that installs
  a snapshot of a replica further ahead hands out, for the next entry, a version the snapshot
  already used, and persists it, so that versions go backwards.\<close>

theorem install_leaves_counter_stale:
  assumes ok: "env_ok E" and wf: "db_wf (rp_db s)" "db_wf src" and rd: "\<not> db_read_fault (rp_db s) Kversion"
    and b: "build_snapshot E src live = Inr (meta, data)"
    and inst: "install_snapshot E (rp_db s) meta data = Inr db'"
    and behind: "rp_version s + 1 < initial_version src" "initial_version src < 2 ^ 64"
    and src: "\<not> db_read_fault src Kversion"
    and run: "apply_entry E td (s\<lparr>rp_db := db'\<rparr>) e = (s', Inr r)"
  shows "initial_version db' = initial_version src \<and> resp_version r = rp_version s + 1 \<and>
     resp_version r < initial_version db' \<and> initial_version (rp_db s') = resp_version r"
proof -
  have "Kversion \<in> set snapshot_handles" by (simp add: snapshot_handles_def)
  then have "db_data db' Kversion = db_data src Kversion"
    by (intro install_copies[OF ok b inst wf]) simp_all
  then have v: "initial_version db' = initial_version src"
    using rd src install_faults[OF inst] by (simp add: initial_version_def load_persisted_version_def kv_get_def)
  have wf': "db_wf db'" using install_wf[OF inst wf(1)] .
  have "rp_version s' = rp_version s + 1" "resp_version r = rp_version s'"
    using entry_effect(4,5)[OF run] wf' behind by (simp_all add: allocate_version_def)
  moreover have "initial_version (rp_db s') = rp_version s'"
    using persisted_counter[OF run] wf' rd install_faults[OF inst] by simp
  ultimately show ?thesis using v behind by simp
qed

lemma ex_version: "rp_version ex_state = 6"
proof -
  obtain rs where run: "apply_entries PE ''f'' (start_replica empty_db) ex_log = (ex_state, Inr rs)"
    using ex_run by blast
  have wf: "db_wf (rp_db (start_replica empty_db))" by (simp add: start_replica_def)
  have v: "rp_version (start_replica empty_db) = 0" by code_simp
  show ?thesis using apply_entries_versions[OF run wf] by (simp add: v ex_log_def)
qed

lemma ex_persisted: "initial_version (rp_db ex_state) = 6"
proof -
  obtain rs where run: "apply_entries PE ''f'' (start_replica empty_db) ex_log = (ex_state, Inr rs)"
    using ex_run by blast
  show ?thesis
    using apply_entries_persisted[OF run] ex_version
    by (simp add: start_replica_def ex_log_def)
qed

theorem install_leaves_counter_stale_witness:
  "\<exists>meta data db' s' r. build_snapshot PE (rp_db ex_state) empty_db = Inr (meta, data) \<and>
     install_snapshot PE empty_db meta data = Inr db' \<and>
     apply_entry PE ''f'' (start_replica empty_db\<lparr>rp_db := db'\<rparr>) (ex_entry 7 (EvictNode node_a 9)) = (s', Inr r) \<and>
     resp_version r = 1 \<and> initial_version db' = 6"
proof -
  let ?s = "start_replica empty_db" and ?e = "ex_entry 7 (EvictNode node_a 9)"
  have "applied_state PE empty_db = Inr (None, default_membership)"
    by (simp add: applied_state_def sm_get_def kv_get_def empty_db_def)
  from build_ok[OF postcard_env_ok ex_healthy this]
  obtain meta data where b: "build_snapshot PE (rp_db ex_state) empty_db = Inr (meta, data)" by metis
  obtain db' where i: "install_snapshot PE (rp_db ?s) meta data = Inr db'"
    using install_ok[OF postcard_env_ok b db_healthy_empty] by (auto simp: start_replica_def)
  have inv: "replica_inv PE db'"
    using install_inv[OF postcard_env_ok b i] ex_inv by (simp add: start_replica_def)
  have "db_healthy db'" using install_faults[OF i] by (simp add: db_healthy_def start_replica_def empty_db_def)
  moreover have "plain_entry PE ?e"
    by (simp add: plain_ex_entry self_addressed_def sp_parse_PE raw_scheduler_write_def)
  ultimately obtain s' r where run: "apply_entry PE ''f'' (?s\<lparr>rp_db := db'\<rparr>) ?e = (s', Inr r)"
    using plain_entry_progress[OF postcard_env_ok, of "?s\<lparr>rp_db := db'\<rparr>" ?e "''f''"] inv by auto
  have v: "rp_version ?s = 0" by code_simp
  have h: "db_wf (rp_db ?s)" "\<not> db_read_fault (rp_db ?s) Kversion" "\<not> db_read_fault (rp_db ex_state) Kversion"
    "rp_version ?s + 1 < initial_version (rp_db ex_state)" "initial_version (rp_db ex_state) < 2 ^ 64"
    by (simp_all add: start_replica_def[of empty_db] ex_healthy ex_persisted) (use v in \<open>simp add: start_replica_def\<close>)
  show ?thesis
    using install_leaves_counter_stale[OF postcard_env_ok h(1) ex_wf h(2) b i h(4,5,3) run] b i run v
    by (auto simp: start_replica_def ex_persisted)
qed

end
