(* ===== verification/LifecycleTheorems.thy ===== *)
theory LifecycleTheorems
  imports Examples
begin

text \<open>
  The properties of commands that move nodes, workloads, secrets and keys through their life,
  stated of log entries applied to a replica.
\<close>





text \<open>Scaling removes exactly the placements the new spec no longer wants: those of the
  workload whose role is gone or whose ordinal is at or above the role's count. Their slots are
  freed in place, every other placement is kept, and the new spec is stored.\<close>

theorem scale_workload_exact:
  assumes "env_ok E" "replica_inv E (rp_db s)" "apply_entry E td s e = (s', Inr r)"
    and "en_payload e = Normal a" "cmd a = ScaleWorkload rec"
  shows "(\<forall>pod q. placement_at E (rp_db s') pod = Some q \<longleftrightarrow> placement_at E (rp_db s) pod = Some q \<and>
       \<not> (pl_tenant_id q = wr_tenant_id rec \<and> pl_service q = wr_workload_id rec \<and>
          scaled_away (decoded_replicas E (wr_spec_bytes rec)) q)) \<and>
    (\<forall>pod q. placement_at E (rp_db s) pod = Some q \<longrightarrow> pl_tenant_id q = wr_tenant_id rec \<longrightarrow>
       pl_service q = wr_workload_id rec \<longrightarrow> scaled_away (decoded_replicas E (wr_spec_bytes rec)) q \<longrightarrow>
       slot_at E (rp_db s') (wr_tenant_id rec) (wr_workload_id rec) (pl_role q) (pl_ordinal q) =
         Some (freed_slot (wr_tenant_id rec) (wr_workload_id rec) (pl_role q) (pl_ordinal q))) \<and>
    record_at (c_workload E) (rp_db s') Kworkloads (workload_key (wr_tenant_id rec) (wr_workload_id rec)) = Some rec"
proof -
  note eff = scale_workload_effect[OF assms refl refl refl]
  show ?thesis by (intro conjI allI impI, rule eff(1), rule eff(2), assumption+, rule eff(3))
qed

theorem scale_workload_exact_witness:
  "\<exists>s' r. apply_entry PE ''f'' ex_state (ex_entry 7 (ScaleWorkload ex_scaled)) = (s', Inr r) \<and>
     record_at (c_workload PE) (rp_db s') Kworkloads (workload_key ''t'' ''web'') = Some ex_scaled"
proof -
  have "self_addressed PE (ScaleWorkload ex_scaled)" "\<not> raw_scheduler_write (ScaleWorkload ex_scaled)"
    by (simp_all add: self_addressed_def raw_scheduler_write_def)
  then obtain s' r where run: "apply_entry PE ''f'' ex_state (ex_entry 7 (ScaleWorkload ex_scaled)) = (s', Inr r)"
    by (rule ex_step)
  have "record_at (c_workload PE) (rp_db s') Kworkloads
      (workload_key (wr_tenant_id ex_scaled) (wr_workload_id ex_scaled)) = Some ex_scaled"
    using scale_workload_exact[OF postcard_env_ok ex_inv run ex_payload ex_cmd] by blast
  then show ?thesis using run by (simp add: ex_scaled_def)
qed


text \<open>Deleting a workload removes its spec and all its placements, frees their slots, and
  touches no other workload's spec or placement.\<close>

theorem delete_workload_exact:
  assumes "env_ok E" "replica_inv E (rp_db s)" "apply_entry E td s e = (s', Inr r)"
    and "en_payload e = Normal a" "cmd a = DeleteWorkload t w"
  shows "(\<forall>key. lookup (rp_db s') Kworkloads key =
       (if key = workload_key t w then None else lookup (rp_db s) Kworkloads key)) \<and>
    (\<forall>pod q. placement_at E (rp_db s') pod = Some q \<longleftrightarrow>
       placement_at E (rp_db s) pod = Some q \<and> \<not> (pl_tenant_id q = t \<and> pl_service q = w)) \<and>
    (\<forall>pod q. placement_at E (rp_db s) pod = Some q \<longrightarrow> pl_tenant_id q = t \<longrightarrow> pl_service q = w \<longrightarrow>
       slot_at E (rp_db s') t w (pl_role q) (pl_ordinal q) = Some (freed_slot t w (pl_role q) (pl_ordinal q)))"
proof -
  note eff = delete_workload_effect[OF assms]
  show ?thesis by (intro conjI allI impI, rule eff(3), rule eff(1), rule eff(2), assumption+)
qed

theorem delete_workload_exact_witness:
  "\<exists>s' r. apply_entry PE ''f'' ex_state (ex_entry 7 (DeleteWorkload ''t'' ''web'')) = (s', Inr r) \<and>
     lookup (rp_db s') Kworkloads (workload_key ''t'' ''web'') = None"
proof -
  have "self_addressed PE (DeleteWorkload ''t'' ''web'')" "\<not> raw_scheduler_write (DeleteWorkload ''t'' ''web'')"
    by (simp_all add: self_addressed_def raw_scheduler_write_def)
  then obtain s' r where run: "apply_entry PE ''f'' ex_state (ex_entry 7 (DeleteWorkload ''t'' ''web'')) = (s', Inr r)"
    by (rule ex_step)
  have "lookup (rp_db s') Kworkloads (workload_key ''t'' ''web'') = None"
    using delete_workload_exact[OF postcard_env_ok ex_inv run ex_payload ex_cmd] by simp
  then show ?thesis using run by simp
qed


text \<open>The stored gate violation time is the time of the first report of the current streak of
  violating reports, and 0 when the last report is not in violation. A report in violation says
  started, and not policy-enforced or not connected to its router.\<close>

theorem gate_violation_streak:
  assumes "env_ok E" "db_wf (rp_db s)" "apply_entries E td s es = (s', Inr rs)"
    and "record_at (c_status E) (rp_db s) Kworkload_status pod = None"
    and "list_all2 reports_status es sts" "sts \<noteq> []"
    and "\<forall>st\<in>set sts. st_pod_id st = pod \<and> st_observed_at st > 0"
  shows "record_at (c_status E) (rp_db s') Kworkload_status pod =
     Some ((last sts)\<lparr>st_gate_violation_since := streak_start sts\<rparr>)"
  using status_run[OF assms(1,2,4,3,5,7)] assms(6) by simp

theorem gate_violation_streak_witness:
  "\<exists>s' rs. apply_entries PE ''f'' (start_replica empty_db)
      [ex_entry 1 (UpsertWorkloadStatus (ex_report True 3)), ex_entry 2 (UpsertWorkloadStatus (ex_report False 5)),
       ex_entry 3 (UpsertWorkloadStatus (ex_report False 8))] = (s', Inr rs) \<and>
     map_option st_gate_violation_since (record_at (c_status PE) (rp_db s') Kworkload_status ''p'') = Some 5"
proof -
  let ?sts = "[ex_report True 3, ex_report False 5, ex_report False 8]"
  let ?es = "[ex_entry 1 (UpsertWorkloadStatus (ex_report True 3)),
    ex_entry 2 (UpsertWorkloadStatus (ex_report False 5)), ex_entry 3 (UpsertWorkloadStatus (ex_report False 8))]"
  have "list_all (plain_entry PE) ?es"
    by (simp add: plain_ex_entry self_addressed_def raw_scheduler_write_def)
  then obtain s' rs where run: "apply_entries PE ''f'' (start_replica empty_db) ?es = (s', Inr rs)"
    using plain_run[OF postcard_env_ok _ start_inv, of ?es "''f''"] by blast
  have wf: "db_wf (rp_db (start_replica empty_db))" by (simp add: start_replica_def)
  have none: "record_at (c_status PE) (rp_db (start_replica empty_db)) Kworkload_status ''p'' = None"
    by (simp add: start_replica_def empty_db_def record_at_def)
  have rep: "list_all2 reports_status ?es ?sts" by (simp add: ex_entry_def)
  have pos: "\<forall>st\<in>set ?sts. st_pod_id st = ''p'' \<and> st_observed_at st > 0" by (simp add: ex_report_def)
  have "streak_start ?sts = 5"
    by (simp add: streak_start_def violation_streak_def in_violation_def ex_report_def)
  then show ?thesis
    using run gate_violation_streak[OF postcard_env_ok wf run none rep _ pos] by auto
qed


text \<open>Granting access to a secret adds exactly the named identity to the secret's list, revoking
  removes exactly it; the rest of the list, and every other stored secret and list, is unchanged.
  The tenant of the command plays no part: secrets are keyed by name alone.\<close>

theorem secret_access_exact:
  assumes "env_ok E" "db_wf (rp_db s)" "apply_entry E td s e = (s', Inr r)" "en_payload e = Normal a"
    and "cmd a = (if grant then GrantSecretAccess tenant key who else RevokeSecretAccess tenant key who)"
    and "acl_at E (rp_db s) key = Some acl" "acl_wf acl"
  shows "\<exists>acl' i. sp_parse E who = Some i \<and> acl_at E (rp_db s') key = Some acl' \<and> acl_wf acl' \<and>
     (\<forall>k j. is_authorized acl' k j \<longleftrightarrow>
        (if k = key \<and> j = i then grant else is_authorized acl k j)) \<and>
     (\<forall>k. k \<noteq> acl_key key \<longrightarrow> lookup (rp_db s') Ksecrets k = lookup (rp_db s) Ksecrets k)"
proof -
  define f where "f = (if grant then (\<lambda>acl i. acl_grant acl key i) else (\<lambda>acl i. acl_revoke acl key i))"
  have "apply_command E (rp_db s) (cmd a) = update_acl E (rp_db s) key who f"
    using assms(5) by (simp add: f_def apply_command_def apply_grant_secret_def apply_revoke_secret_def)
  from update_acl_effect[OF assms(1-4) this] obtain acl0 i where
    "acl_at E (rp_db s) key = Some acl0" and i: "sp_parse E who = Some i"
    "acl_at E (rp_db s') key = Some (f acl0 i)"
    "\<And>k. k \<noteq> acl_key key \<Longrightarrow> lookup (rp_db s') Ksecrets k = lookup (rp_db s) Ksecrets k"
    by metis
  with assms(6) have "acl0 = acl" by simp
  moreover have "acl_wf (f acl i)" using assms(7) by (simp add: f_def acl_wf_grant acl_wf_revoke)
  moreover have "is_authorized (f acl i) k j \<longleftrightarrow> (if k = key \<and> j = i then grant else is_authorized acl k j)" for k j
    using assms(7) by (auto simp: f_def authorized_grant authorized_revoke)
  ultimately show ?thesis using i by blast
qed

theorem secret_access_exact_witness:
  "\<exists>s' r acl'. apply_entry PE ''f'' ex_state (ex_entry 7 (GrantSecretAccess ''t'' ''db'' node_a)) = (s', Inr r) \<and>
     acl_at PE (rp_db s') ''db'' = Some acl' \<and> is_authorized acl' ''db'' node_a \<and> \<not> is_authorized acl' ''db'' node_b"
proof -
  have none: "lookup (rp_db ex_state) Ksecrets (acl_key ''db'') = None" by (rule ex_no_secrets)
  have "well_addressed PE (rp_db ex_state) (GrantSecretAccess ''t'' ''db'' node_a)"
    by (simp add: well_addressed_def sp_parse_PE acl_readable_def none)
  then obtain s' r where run: "apply_entry PE ''f'' ex_state (ex_entry 7 (GrantSecretAccess ''t'' ''db'' node_a)) = (s', Inr r)"
    using apply_entry_ok_iff[OF postcard_env_ok ex_healthy, of "''f''" "ex_entry 7 (GrantSecretAccess ''t'' ''db'' node_a)"]
      ex_inv by (auto simp: replica_inv_def entry_addressed_def ex_payload)
  have acl: "acl_at PE (rp_db ex_state) ''db'' = Some []" "acl_wf []"
    by (simp_all add: acl_at_def none acl_wf_def)
  show ?thesis
    using secret_access_exact[OF postcard_env_ok ex_wf run ex_payload _ acl, where grant = True and
        tenant = "''t''" and who = node_a] run
    by (auto simp: sp_parse_PE is_authorized_def)
qed


text \<open>Activating a revoked endorsement key brings it back: the state machine does not check
  that the key is pending, so a revoked key becomes joined and is bound to the given node.\<close>

theorem revoked_ek_rejoins:
  assumes "env_ok E" "db_wf (rp_db s)" "apply_entry E td s e = (s', Inr r)" "en_payload e = Normal a"
    and "cmd a = ActivateNodeEk fp n"
    and "record_at (c_ek E) (rp_db s) Knode_eks fp = Some ek" "ek_state ek = EkRevoked"
  shows "record_at (c_ek E) (rp_db s') Knode_eks fp = Some (ek\<lparr>ek_state := EkJoined, ek_node_id := n\<rparr>)"
  using update_ek_effect[OF assms(1-4), of fp "\<lambda>r. r\<lparr>ek_state := EkJoined, ek_node_id := n\<rparr>"] assms(5,6)
  by (simp add: apply_command_def apply_activate_ek_def)

theorem revoked_ek_rejoins_witness:
  "\<exists>s' r. apply_entry PE ''f'' ex_state (ex_entry 7 (ActivateNodeEk ''ff'' node_b)) = (s', Inr r) \<and>
     record_at (c_ek PE) (rp_db s') Knode_eks ''ff'' = Some (ex_ek\<lparr>ek_state := EkJoined, ek_node_id := node_b\<rparr>)"
proof -
  have "self_addressed PE (ActivateNodeEk ''ff'' node_b)" "\<not> raw_scheduler_write (ActivateNodeEk ''ff'' node_b)"
    by (simp_all add: self_addressed_def raw_scheduler_write_def)
  then obtain s' r where run: "apply_entry PE ''f'' ex_state (ex_entry 7 (ActivateNodeEk ''ff'' node_b)) = (s', Inr r)"
    by (rule ex_step)
  have "ek_state ex_ek = EkRevoked" by (simp add: ex_ek_def)
  from revoked_ek_rejoins[OF postcard_env_ok ex_wf run ex_payload ex_cmd ex_ek_at this] run show ?thesis by simp
qed


text \<open>Replacing a pod keeps its slot: the placement found in the slot moves to the new pod id on
  the same node, the slot names the new pod, and other placements stay. When the new id is the old
  one, the placements do not change at all, so the replacement has no effect on them.\<close>

theorem reassign_keeps_slot:
  assumes "env_ok E" "replica_inv E (rp_db s)" "apply_entry E td s e = (s', Inr r)"
    and "en_payload e = Normal a" "cmd a = ReassignPodId t svc role n new"
    and "find (in_slot t svc role n) (decode_all (c_placement E) (db_data (rp_db s) Kplacements)) = Some q"
  shows "placement_at E (rp_db s') new = Some (q\<lparr>pl_pod_id := new\<rparr>) \<and>
    slot_at E (rp_db s') t svc role n =
      Some \<lparr>oa_tenant_id = t, oa_service = svc, oa_role = role, oa_ordinal = n,
            oa_pod_id = Some new, oa_node_id = Some (pl_node_id q)\<rparr> \<and>
    (\<forall>pod. pod \<noteq> new \<longrightarrow> pod \<noteq> pl_pod_id q \<longrightarrow> placement_at E (rp_db s') pod = placement_at E (rp_db s) pod) \<and>
    (new = pl_pod_id q \<longrightarrow> (\<forall>pod. placement_at E (rp_db s') pod = placement_at E (rp_db s) pod))"
proof -
  have "placement_at E (rp_db s) (pl_pod_id q) = Some q" using find_slot[OF assms(2,6)] by simp
  then show ?thesis using reassign_effect[OF assms] by auto
qed

theorem reassign_keeps_slot_witness:
  "\<exists>s' r. apply_entry PE ''f'' ex_state (ex_entry 7 (ReassignPodId ''t'' ''web'' ''r'' 0 ''fresh'')) = (s', Inr r) \<and>
     placement_at PE (rp_db s') ''fresh'' = Some ((ex_placement 0 node_a)\<lparr>pl_pod_id := ''fresh''\<rparr>)"
proof -
  let ?c = "ReassignPodId ''t'' ''web'' ''r'' 0 ''fresh''"
  have "self_addressed PE ?c" "\<not> raw_scheduler_write ?c"
    by (simp_all add: self_addressed_def raw_scheduler_write_def)
  then obtain s' r where run: "apply_entry PE ''f'' ex_state (ex_entry 7 ?c) = (s', Inr r)"
    by (rule ex_step)
  have f: "find (in_slot ''t'' ''web'' ''r'' 0) (decode_all (c_placement PE) (db_data (rp_db ex_state) Kplacements)) =
      Some (ex_placement 0 node_a)"
    by (simp add: ex_placements in_slot_def ex_placement_def)
  from reassign_keeps_slot[OF postcard_env_ok ex_inv run ex_payload ex_cmd f] run show ?thesis by simp
qed

end
