(* ===== verification/LogTheorems.thy ===== *)
theory LogTheorems
  imports Examples
begin

text \<open>
  The properties of the Raft log store, over the abstract log \<open>log_at\<close> from indices to entries.
\<close>

lemma truncate_index: "truncate_log db l = truncate_log db (index_id (lg_index l))"
  by (simp add: truncate_log_def index_id_def)

lemma purge_last_purged:
  assumes "db_wf db" "purge_log E db l = Inr db'"
  shows "\<exists>b. enc (c_log_id E) l = Some b \<and> lookup db' Kraft_log_meta ''last_purged'' = Some b \<and>
    db_read_fault db' = db_read_fault db"
proof -
  obtain kvs b where "log_range db Unbounded (Included (lg_index l)) = Inr kvs"
    and b: "enc (c_log_id E) l = Some b"
      "kv_commit db (map (\<lambda>kv. Del Kraft_log (fst kv)) kvs @ [Put Kraft_log_meta ''last_purged'' b]) = Inr db'"
    using assms(2) by (auto simp: purge_log_def result_simps)
  then show ?thesis
    using kv_commit_lookup[OF b(2) assms(1)] by (auto simp: kv_commit_Inr)
qed

text \<open>C13. Conflict resolution. Truncating the log at an index and appending entries from that index on
  leaves exactly the old entries below the index followed by the new ones, and nothing above them.\<close>

theorem log_suffix_replaced:
  assumes "codec_roundtrip c" "log_inv c db" "truncate_log db l = Inr db1" "append_log c db1 es = Inr db2"
    and "map en_index es = [lg_index l..<lg_index l + length es]" "lg_index l + length es \<le> 2 ^ 64"
    and "lg_index l < 2 ^ 64"
  shows "log_inv c db2 \<and> (\<forall>j. log_at c db2 j =
     (if j < lg_index l then log_at c db j
      else if j < lg_index l + length es then Some (es ! (j - lg_index l)) else None))"
proof -
  have "store_ok ((undefined, c), db)" using assms(1,2) by (simp add: store_ok_def)
  note suffix = store.overwrite_suffix[OF this, of "lg_index l" "((undefined, c), db1)" es "((undefined, c), db2)"]
  show ?thesis
    using suffix assms(3-7) by (simp add: store_ok_def truncate_index[of db l])
qed

theorem log_suffix_replaced_witness:
  "\<exists>db1 db2. truncate_log ex_log_db (index_id 2) = Inr db1 \<and>
     append_log plain_entry_codec db1 [ex_blank 2, ex_blank 3] = Inr db2 \<and>
     log_at plain_entry_codec db2 1 = Some (ex_blank 1) \<and> log_at plain_entry_codec db2 3 = Some (ex_blank 3)"
proof -
  have "is_ok (truncate_log ex_log_db (index_id 2))"
    using ex_log_db_healthy by (simp add: truncate_log_def log_range_def kv_prefix_def kv_commit_def db_healthy_def)
  then obtain db1 where t: "truncate_log ex_log_db (index_id 2) = Inr db1"
    by (auto simp: is_ok_iff)
  then have "db_healthy db1"
    using ex_log_db_healthy by (auto simp: truncate_log_def result_simps kv_commit_Inr db_healthy_def)
  then have "is_ok (append_log plain_entry_codec db1 [ex_blank 2, ex_blank 3])"
    by (simp add: append_log_def plain_entry_codec_def ex_blank_def kv_commit_def ok_or_def db_healthy_def)
  then obtain db2 where a: "append_log plain_entry_codec db1 [ex_blank 2, ex_blank 3] = Inr db2"
    by (auto simp: is_ok_iff)
  have "map en_index [ex_blank 2, ex_blank 3] = [2..<2 + length [ex_blank 2, ex_blank 3]]"
    by (simp add: upt_rec ex_blank_def)
  then show ?thesis
    using log_suffix_replaced[OF plain_entry_codec_ok ex_log_db_inv t a] t a
    by (simp add: index_id_def ex_log_at)
qed


text \<open>A range read returns exactly the stored entries whose index is in the range, in index
  order.\<close>

theorem log_range_read:
  assumes "log_inv c db" "bound_u64 lo" "bound_u64 hi" "try_get_log_entries c db lo hi = Inr es"
  shows "sorted_wrt (<) (map en_index es) \<and>
    (\<forall>e. e \<in> set es \<longleftrightarrow> index_in lo hi (en_index e) \<and> log_at c db (en_index e) = Some e)"
  using try_get_entries[OF assms] by blast

theorem log_range_read_witness:
  "\<exists>es. try_get_log_entries plain_entry_codec ex_log_db (Included 2) Unbounded = Inr es \<and>
     ex_blank 2 \<in> set es \<and> ex_blank 1 \<notin> set es"
proof -
  obtain es where run: "try_get_log_entries plain_entry_codec ex_log_db (Included 2) Unbounded = Inr es"
    using ex_log_db_healthy by (simp add: try_get_log_entries_def log_range_def kv_prefix_def db_healthy_def)
  have "bound_u64 (Included 2)" "bound_u64 Unbounded" by simp_all
  note r = conjunct2[OF log_range_read[OF ex_log_db_inv this run], rule_format]
  have "ex_blank 2 \<in> set es" "ex_blank 1 \<notin> set es"
    by (simp_all only: r ex_log_at) (simp_all add: ex_blank_def index_in_def)
  with run show ?thesis by blast
qed


text \<open>The reported end of the log is the id of the entry with the highest index, and none exactly
  when the log is empty; after a purge the purged id is reported too, every entry at or below it is
  gone, and every entry above it is kept. A log that was purged completely reports no last id,
  although its purged id is known.\<close>

theorem log_state_exact:
  assumes "env_ok E" "log_inv c db" "\<not> db_read_fault db Kraft_log" "\<not> db_read_fault db Kraft_log_meta"
    and "lg_index l < 2 ^ 64" "purge_log E db l = Inr db'"
  shows "\<exists>last. get_log_state E c db' = Inr \<lparr>ls_last_purged = Some l, ls_last_log_id = last\<rparr> \<and>
    (case last of
       None \<Rightarrow> (\<forall>i > lg_index l. log_at c db i = None)
     | Some k \<Rightarrow> lg_index l < lg_index k \<and> (\<exists>e. en_log_id e = k \<and> log_at c db (lg_index k) = Some e) \<and>
         (\<forall>i > lg_index k. log_at c db i = None)) \<and>
    log_at c db' = (\<lambda>j. if j \<le> lg_index l then None else log_at c db j)"
proof -
  have wf: "db_wf db" using assms(2) by (simp add: log_inv_def)
  note at = purge_refines[OF assms(2,5,6)]
  obtain b where b: "enc (c_log_id E) l = Some b" "lookup db' Kraft_log_meta ''last_purged'' = Some b"
    and rd: "db_read_fault db' = db_read_fault db"
    using purge_last_purged[OF wf assms(6)] by blast
  have "dec (c_log_id E) b = Some l" using codec_ok_dec[OF raft_codecs(1)[OF assms(1)] b(1)] .
  then obtain last where st: "get_log_state E c db' = Inr \<lparr>ls_last_purged = Some l, ls_last_log_id = last\<rparr>"
    using b rd assms(4) by (simp add: get_log_state_def kv_get_def Let_def)
  have f: "log_at c db' = (\<lambda>j. if j \<le> lg_index l then None else log_at c db j)" using at by simp
  from log_state_last[OF _ _ st, simplified] at rd assms(3)
  have "case last of None \<Rightarrow> (\<forall>i. log_at c db' i = None)
    | Some k \<Rightarrow> (\<exists>e. en_log_id e = k \<and> log_at c db' (lg_index k) = Some e) \<and> (\<forall>i > lg_index k. log_at c db' i = None)"
    by simp
  then have "case last of
       None \<Rightarrow> (\<forall>i > lg_index l. log_at c db i = None)
     | Some k \<Rightarrow> lg_index l < lg_index k \<and> (\<exists>e. en_log_id e = k \<and> log_at c db (lg_index k) = Some e) \<and>
         (\<forall>i > lg_index k. log_at c db i = None)"
    unfolding f by (cases last) (auto split: if_splits, metis not_le)
  with st at show ?thesis by blast
qed

theorem log_state_exact_witness:
  "\<exists>db'. purge_log PE ex_log_db (index_id 1) = Inr db' \<and>
     get_log_state PE plain_entry_codec db' =
       Inr \<lparr>ls_last_purged = Some (index_id 1), ls_last_log_id = Some (en_log_id (ex_blank 2))\<rparr>"
proof -
  obtain b where "enc (c_log_id PE) (index_id 1) = Some b"
    using codec_ok_enc[OF raft_codecs(1)[OF postcard_env_ok]] by blast
  then have "is_ok (purge_log PE ex_log_db (index_id 1))"
    using ex_log_db_healthy
    by (simp add: purge_log_def log_range_def kv_prefix_def kv_commit_def db_healthy_def ok_or_def)
  then obtain db' where p: "purge_log PE ex_log_db (index_id 1) = Inr db'"
    by (auto simp: is_ok_iff)
  have rd: "\<not> db_read_fault ex_log_db k" for k using ex_log_db_healthy by (simp add: db_healthy_def)
  have "lg_index (index_id 1) < 2 ^ 64" by (simp add: index_id_def)
  then obtain last where st: "get_log_state PE plain_entry_codec db' =
      Inr \<lparr>ls_last_purged = Some (index_id 1), ls_last_log_id = last\<rparr>"
    and last: "case last of
       None \<Rightarrow> (\<forall>i > lg_index (index_id 1). log_at plain_entry_codec ex_log_db i = None)
     | Some k \<Rightarrow> lg_index (index_id 1) < lg_index k \<and>
         (\<exists>e. en_log_id e = k \<and> log_at plain_entry_codec ex_log_db (lg_index k) = Some e) \<and>
         (\<forall>i > lg_index k. log_at plain_entry_codec ex_log_db i = None)"
    using log_state_exact[OF postcard_env_ok ex_log_db_inv rd rd _ p] by blast
  have "last = Some (en_log_id (ex_blank 2))"
    using last by (cases last) (auto simp: index_id_def ex_log_at split: if_splits dest: spec[of _ 2])
  with st p show ?thesis by simp
qed

end
