(* ===== verification/Scheduler.thy ===== *)
theory Scheduler
  imports Complex_Main Lifecycle "HOL-Library.Product_Lexorder" "HOL-Library.Multiset"
begin

text \<open>
  The scheduler (\<open>scheduler/\<close>): resources, taints and tolerations, anti-affinity, topology and
  bin-packing scores, the engine that filters, scores and selects, and the view of the cluster
  it decides on. Floating-point scores are modelled by rationals: the formulas are those of the
  code, rounding is not. Sorting is stable and by the code's comparison, written as a key.
\<close>


section \<open>Resources and the cluster view\<close>

abbreviation res :: "nat \<Rightarrow> nat \<Rightarrow> resource_spec" where
  "res c m \<equiv> \<lparr>cpu_millicores = c, memory_bytes = m\<rparr>"

definition res_zero :: resource_spec where
  "res_zero = res 0 0"

definition fits_within :: "resource_spec \<Rightarrow> resource_spec \<Rightarrow> bool" where
  "fits_within r available \<longleftrightarrow>
     cpu_millicores r \<le> cpu_millicores available \<and> memory_bytes r \<le> memory_bytes available"

text \<open>Saturating subtraction, and unchecked addition on 64 bits.\<close>

definition res_subtract :: "resource_spec \<Rightarrow> resource_spec \<Rightarrow> resource_spec" where
  "res_subtract a b = res (cpu_millicores a - cpu_millicores b) (memory_bytes a - memory_bytes b)"

definition res_add :: "resource_spec \<Rightarrow> resource_spec \<Rightarrow> resource_spec" where
  "res_add a b = res ((cpu_millicores a + cpu_millicores b) mod 2 ^ 64)
                     ((memory_bytes a + memory_bytes b) mod 2 ^ 64)"

record node_info =
  ni_node_id :: spiffe_id
  ni_capacity :: resource_spec
  ni_available :: resource_spec
  ni_failure_domain :: string
  ni_schedulable :: bool
  ni_pod_count :: nat
  ni_taints :: "node_taint list"

record cluster_state =
  cs_nodes :: "node_info list"
  cs_placements :: "placement list"

definition used_on :: "placement list \<Rightarrow> spiffe_id \<Rightarrow> resource_spec" where
  "used_on ps n = foldl (\<lambda>u p. res_add u (pl_resources p)) res_zero (filter (\<lambda>p. pl_node_id p = n) ps)"

definition node_view ::
  "env \<Rightarrow> placement list \<Rightarrow> (string \<times> node_taint list) list \<Rightarrow> node_record \<Rightarrow> node_info option" where
  "node_view E ps taints r =
     map_option (\<lambda>node_id.
       let capacity = res (nr_capacity_cpu r) (nr_capacity_memory r) in
       \<lparr>ni_node_id = node_id, ni_capacity = capacity,
        ni_available = res_subtract capacity (used_on ps node_id),
        ni_failure_domain = nr_failure_domain r,
        ni_schedulable = (nr_schedulable r \<and> nr_status r = Active),
        ni_pod_count = length (filter (\<lambda>p. pl_node_id p = node_id) ps) mod 2 ^ 32,
        ni_taints = (case om_get taints (nr_node_id r) of Some ts \<Rightarrow> ts | None \<Rightarrow> [])\<rparr>)
     (sp_parse E (nr_node_id r))"

definition cluster_build ::
  "env \<Rightarrow> node_record list \<Rightarrow> placement list \<Rightarrow> (string \<times> node_taint list) list \<Rightarrow> cluster_state" where
  "cluster_build E records ps taints =
     \<lparr>cs_nodes = List.map_filter (node_view E ps taints) records, cs_placements = ps\<rparr>"

definition placements_for_service :: "cluster_state \<Rightarrow> string \<Rightarrow> placement list" where
  "placements_for_service st svc = filter (\<lambda>p. pl_service p = svc) (cs_placements st)"

definition placements_for_service_role :: "cluster_state \<Rightarrow> string \<Rightarrow> string \<Rightarrow> placement list" where
  "placements_for_service_role st svc role =
     filter (\<lambda>p. pl_service p = svc \<and> pl_role p = role) (cs_placements st)"

definition placements_on_node :: "cluster_state \<Rightarrow> spiffe_id \<Rightarrow> placement list" where
  "placements_on_node st n = filter (\<lambda>p. pl_node_id p = n) (cs_placements st)"

definition placements_for_tenant :: "cluster_state \<Rightarrow> string \<Rightarrow> placement list" where
  "placements_for_tenant st t = filter (\<lambda>p. pl_tenant_id p = t) (cs_placements st)"

definition find_node :: "cluster_state \<Rightarrow> spiffe_id \<Rightarrow> node_info option" where
  "find_node st n = find (\<lambda>i. ni_node_id i = n) (cs_nodes st)"

definition schedulable_nodes :: "cluster_state \<Rightarrow> node_info list" where
  "schedulable_nodes st = filter ni_schedulable (cs_nodes st)"

record preemption_plan =
  pr_node_id :: spiffe_id
  pr_victims :: "placement list"

record score_breakdown =
  sb_binpack :: rat
  sb_topology :: rat
  sb_anti_affinity_pass :: bool
  sb_resource_fit :: bool
  sb_taint_penalty :: rat

record schedule_decision =
  sd_node_id :: spiffe_id
  sd_pod_id :: string
  sd_score :: score_breakdown

record pending_pod =
  pp_pod_id :: string
  pp_tenant_id :: string
  pp_service :: string
  pp_role :: string
  pp_ordinal :: nat
  pp_resources :: resource_spec
  pp_previous_node :: "spiffe_id option"
  pp_priority :: int
  pp_tolerations :: "toleration list"


section \<open>Taints\<close>

definition tolerates :: "toleration \<Rightarrow> node_taint \<Rightarrow> bool" where
  "tolerates tol taint =
     (if tol_effect tol \<noteq> [] \<and> tol_effect tol \<noteq> ta_effect taint then False
      else if tol_key tol = [] then tol_operator tol = ''Exists''
      else if tol_key tol \<noteq> ta_key taint then False
      else if tol_operator tol = ''Exists'' then True
      else if tol_operator tol = [] \<or> tol_operator tol = ''Equal'' then tol_value tol = ta_value taint
      else False)"

definition is_tolerated :: "toleration list \<Rightarrow> node_taint \<Rightarrow> bool" where
  "is_tolerated tols taint = list_ex (\<lambda>t. tolerates t taint) tols"

definition passes_taint_filter :: "toleration list \<Rightarrow> node_taint list \<Rightarrow> bool" where
  "passes_taint_filter tols taints =
     list_all (is_tolerated tols)
       (filter (\<lambda>t. ta_effect t = ''NoSchedule'' \<or> ta_effect t = ''NoExecute'') taints)"

definition prefer_no_schedule_penalties :: "toleration list \<Rightarrow> node_taint list \<Rightarrow> nat" where
  "prefer_no_schedule_penalties tols taints =
     length (filter (\<lambda>t. ta_effect t = ''PreferNoSchedule'' \<and> \<not> is_tolerated tols t) taints) mod 2 ^ 32"

text \<open>The most permissive matching toleration: any non-positive grace tolerates for ever.\<close>

definition grace_of :: "toleration list \<Rightarrow> int option" where
  "grace_of matching =
     (if list_ex (\<lambda>t. tol_seconds t \<le> 0) matching then None
      else Some (foldl max 0 (map tol_seconds matching)))"

definition must_leave :: "int \<Rightarrow> toleration list \<Rightarrow> node_taint \<Rightarrow> bool" where
  "must_leave now tols taint =
     (let matching = filter (\<lambda>t. tolerates t taint) tols in
      matching = [] \<or> (case grace_of matching of None \<Rightarrow> False | Some g \<Rightarrow> now - ta_time_added taint > g))"

definition plan_no_execute_evictions ::
  "int \<Rightarrow> node_taint list \<Rightarrow> placement list \<Rightarrow> (placement \<Rightarrow> toleration list) \<Rightarrow> string list" where
  "plan_no_execute_evictions now taints ps tolerations_for =
     (let no_execute = filter (\<lambda>t. ta_effect t = ''NoExecute'') taints in
      remdups_adj (sort (map pl_pod_id
        (filter (\<lambda>p. list_ex (must_leave now (tolerations_for p)) no_execute) ps))))"


section \<open>Anti-affinity\<close>

record anti_affinity_config =
  aa_cross_zone :: bool
  aa_enforced_roles :: "string list"

definition default_anti_affinity :: anti_affinity_config where
  "default_anti_affinity = \<lparr>aa_cross_zone = True, aa_enforced_roles = [''replica'']\<rparr>"

definition check_anti_affinity ::
  "pending_pod \<Rightarrow> node_info \<Rightarrow> cluster_state \<Rightarrow> anti_affinity_config \<Rightarrow> bool" where
  "check_anti_affinity pod node st cfg =
     (if pp_role pod \<notin> set (aa_enforced_roles cfg) then True
      else list_all (\<lambda>p.
             pl_node_id p \<noteq> ni_node_id node \<and>
             (aa_cross_zone cfg \<longrightarrow>
                (case find_node st (pl_node_id p) of
                   Some m \<Rightarrow> ni_failure_domain m \<noteq> ni_failure_domain node
                 | None \<Rightarrow> True)))
           (placements_for_service_role st (pp_service pod) (pp_role pod)))"


section \<open>Scores\<close>

record topology_config =
  tp_tenant_weight :: rat
  tp_pod_weight :: rat

definition default_topology :: topology_config where
  "default_topology = \<lparr>tp_tenant_weight = 1, tp_pod_weight = 1 / 2\<rparr>"

definition tenant_spread_score :: "nat \<Rightarrow> nat \<Rightarrow> nat \<Rightarrow> rat" where
  "tenant_spread_score on_node tenant_pods nodes =
     (let ideal = of_nat tenant_pods / of_nat (max nodes 1) in
      if of_nat on_node \<le> ideal then 1
      else max (1 - (of_nat on_node - ideal) / (ideal + 1)) 0)"

definition pod_spread_score :: "nat \<Rightarrow> nat \<Rightarrow> rat" where
  "pod_spread_score pods max_pods = (if max_pods > 0 then 1 - of_nat pods / of_nat max_pods else 1)"

definition max_pod_count :: "cluster_state \<Rightarrow> nat" where
  "max_pod_count st = (case map ni_pod_count (cs_nodes st) of [] \<Rightarrow> 1 | c # cs \<Rightarrow> foldl max c cs)"

definition score_topology_spread ::
  "pending_pod \<Rightarrow> node_info \<Rightarrow> cluster_state \<Rightarrow> topology_config \<Rightarrow> rat" where
  "score_topology_spread pod node st cfg =
     (let on_node = length (filter (\<lambda>p. pl_tenant_id p = pp_tenant_id pod)
                      (placements_on_node st (ni_node_id node)));
          tenant_pods = length (placements_for_tenant st (pp_tenant_id pod));
          score = tenant_spread_score on_node tenant_pods (length (cs_nodes st)) * tp_tenant_weight cfg +
                  pod_spread_score (ni_pod_count node) (max_pod_count st) * tp_pod_weight cfg;
          max_possible = tp_tenant_weight cfg + tp_pod_weight cfg in
      if max_possible > 0 then score / max_possible else 0)"

datatype binpack_strategy = MostAllocated | LeastAllocated

definition utilization :: "nat \<Rightarrow> nat \<Rightarrow> nat \<Rightarrow> rat" where
  "utilization capacity available request =
     (if capacity > 0 then of_nat (capacity - (available - request)) / of_nat capacity else 0)"

definition score_binpack :: "resource_spec \<Rightarrow> node_info \<Rightarrow> binpack_strategy \<Rightarrow> rat" where
  "score_binpack r node strategy =
     (let cpu = utilization (cpu_millicores (ni_capacity node)) (cpu_millicores (ni_available node)) (cpu_millicores r);
          mem = utilization (memory_bytes (ni_capacity node)) (memory_bytes (ni_available node)) (memory_bytes r);
          combined = (cpu + mem) / 2 in
      case strategy of MostAllocated \<Rightarrow> combined | LeastAllocated \<Rightarrow> 1 - combined)"

definition remaining_after_placement :: "node_info \<Rightarrow> resource_spec \<Rightarrow> resource_spec" where
  "remaining_after_placement node r = res_subtract (ni_available node) r"


section \<open>The engine\<close>

datatype scheduler_error =
    No_suitable_node string string
  | Anti_affinity_violation string
  | Insufficient_resources string string string
  | Node_not_schedulable string
  | Sched_storage storage_error
  | Sched_serialization

record default_scheduler =
  ds_anti_affinity :: anti_affinity_config
  ds_topology :: topology_config
  ds_binpack :: binpack_strategy

definition new_scheduler :: default_scheduler where
  "new_scheduler =
     \<lparr>ds_anti_affinity = default_anti_affinity, ds_topology = default_topology, ds_binpack = MostAllocated\<rparr>"

definition candidate :: "default_scheduler \<Rightarrow> pending_pod \<Rightarrow> cluster_state \<Rightarrow> node_info \<Rightarrow> bool" where
  "candidate ds pod st node \<longleftrightarrow>
     fits_within (pp_resources pod) (ni_available node) \<and>
     check_anti_affinity pod node st (ds_anti_affinity ds) \<and>
     passes_taint_filter (pp_tolerations pod) (ni_taints node)"

definition filter_nodes :: "default_scheduler \<Rightarrow> pending_pod \<Rightarrow> cluster_state \<Rightarrow> node_info list" where
  "filter_nodes ds pod st = filter (candidate ds pod st) (schedulable_nodes st)"

definition breakdown :: "default_scheduler \<Rightarrow> pending_pod \<Rightarrow> cluster_state \<Rightarrow> node_info \<Rightarrow> score_breakdown" where
  "breakdown ds pod st node =
     \<lparr>sb_binpack = score_binpack (pp_resources pod) node (ds_binpack ds),
      sb_topology = score_topology_spread pod node st (ds_topology ds),
      sb_anti_affinity_pass = True, sb_resource_fit = True,
      sb_taint_penalty = of_nat (prefer_no_schedule_penalties (pp_tolerations pod) (ni_taints node)) * (1 / 4)\<rparr>"

definition total_score :: "score_breakdown \<Rightarrow> rat" where
  "total_score b = (sb_topology b - sb_taint_penalty b) * 1000 + sb_binpack b"

definition score_key :: "score_breakdown \<times> node_info \<Rightarrow> rat \<times> string" where
  "score_key x = (- total_score (fst x), ni_node_id (snd x))"

definition score_nodes ::
  "default_scheduler \<Rightarrow> pending_pod \<Rightarrow> node_info list \<Rightarrow> cluster_state \<Rightarrow> (score_breakdown \<times> node_info) list" where
  "score_nodes ds pod candidates st =
     sort_key score_key (map (\<lambda>node. (breakdown ds pod st node, node)) candidates)"

definition schedule ::
  "default_scheduler \<Rightarrow> pending_pod \<Rightarrow> cluster_state \<Rightarrow> scheduler_error + schedule_decision" where
  "schedule ds pod st =
     (let candidates = filter_nodes ds pod st in
      if candidates = [] then
        Inl (No_suitable_node (pp_pod_id pod) ''no nodes passed all filters (capacity + anti-affinity)'')
      else
        (case score_nodes ds pod candidates st of
           [] \<Rightarrow> Inl (No_suitable_node (pp_pod_id pod) ''scoring produced no results'')
         | (b, node) # _ \<Rightarrow>
             Inr \<lparr>sd_node_id = ni_node_id node, sd_pod_id = pp_pod_id pod, sd_score = b\<rparr>))"


section \<open>Ordinals\<close>

definition sched_err :: "storage_error \<Rightarrow> scheduler_error" where
  "sched_err e = (case e of Serialization_error \<Rightarrow> Sched_serialization | _ \<Rightarrow> Sched_storage e)"

definition get_assignment ::
  "env \<Rightarrow> database \<Rightarrow> string \<Rightarrow> string \<Rightarrow> string \<Rightarrow> nat \<Rightarrow> scheduler_error + ordinal_assignment option" where
  "get_assignment E db t s r n =
     map_err sched_err (get_record (c_ordinal E) db Kordinals (ordinal_key t s r n))"

definition get_assignments_for_service_role ::
  "env \<Rightarrow> database \<Rightarrow> string \<Rightarrow> string \<Rightarrow> string \<Rightarrow> scheduler_error + ordinal_assignment list" where
  "get_assignments_for_service_role E db t s r =
     bindE (map_err sched_err (list_records (c_ordinal E) db Kordinals (t @ '':'' @ s @ '':'' @ r @ '':''))) (\<lambda>as.
       Inr (sort_key oa_ordinal as))"

end
