(* ===== verification/SchedulerFacts.thy ===== *)
theory SchedulerFacts
  imports Scheduler
begin

text \<open>
  What the scheduler guarantees: the chosen node passes every filter and has the best score, the
  decision does not depend on the order in which nodes are listed, scores stay in their range,
  and placing the pod where the scheduler says keeps nodes within capacity and enforced roles
  spread.
\<close>


section \<open>Filters and selection\<close>

lemma filter_nodes_iff:
  "n \<in> set (filter_nodes ds pod st) \<longleftrightarrow> n \<in> set (cs_nodes st) \<and> ni_schedulable n \<and> candidate ds pod st n"
  by (auto simp: filter_nodes_def schedulable_nodes_def)

lemma score_nodes_set:
  "set (score_nodes ds pod cs st) = (\<lambda>n. (breakdown ds pod st n, n)) ` set cs"
  by (simp add: score_nodes_def)

lemma score_nodes_sorted: "sorted (map score_key (score_nodes ds pod cs st))"
  by (simp add: score_nodes_def)

lemma score_nodes_Nil [simp]: "score_nodes ds pod cs st = [] \<longleftrightarrow> cs = []"
  using score_nodes_set[of ds pod cs st] by (cases cs) auto

lemma schedule_Inl_iff: "(\<exists>e. schedule ds pod st = Inl e) \<longleftrightarrow> filter_nodes ds pod st = []"
proof (cases "score_nodes ds pod (filter_nodes ds pod st) st")
  case (Cons x xs)
  then have "filter_nodes ds pod st \<noteq> []" by (metis score_nodes_Nil list.distinct(1))
  with Cons show ?thesis by (cases x) (simp add: schedule_def Let_def)
qed (simp add: schedule_def Let_def)

lemma schedule_Inr:
  assumes "schedule ds pod st = Inr d"
  obtains node where "node \<in> set (cs_nodes st)" "ni_schedulable node" "candidate ds pod st node"
    "sd_node_id d = ni_node_id node" "sd_pod_id d = pp_pod_id pod" "sd_score d = breakdown ds pod st node"
    "\<And>m. m \<in> set (cs_nodes st) \<Longrightarrow> ni_schedulable m \<Longrightarrow> candidate ds pod st m \<Longrightarrow>
       score_key (breakdown ds pod st node, node) \<le> score_key (breakdown ds pod st m, m)"
proof -
  obtain b node rest where sc: "score_nodes ds pod (filter_nodes ds pod st) st = (b, node) # rest"
    and d: "d = \<lparr>sd_node_id = ni_node_id node, sd_pod_id = pp_pod_id pod, sd_score = b\<rparr>"
    using assms by (auto simp: schedule_def Let_def split: if_splits list.splits)
  have "(b, node) \<in> set (score_nodes ds pod (filter_nodes ds pod st) st)" by (simp add: sc)
  then have node: "node \<in> set (filter_nodes ds pod st)" "b = breakdown ds pod st node"
    by (auto simp: score_nodes_set)
  have best: "score_key (breakdown ds pod st node, node) \<le> score_key (breakdown ds pod st m, m)"
    if "m \<in> set (filter_nodes ds pod st)" for m
  proof -
    have "(breakdown ds pod st m, m) \<in> set ((b, node) # rest)"
      using that unfolding sc[symmetric] score_nodes_set by blast
    then show ?thesis using score_nodes_sorted[of ds pod "filter_nodes ds pod st" st] node(2) by (auto simp: sc)
  qed
  from node(1) have n: "node \<in> set (cs_nodes st)" "ni_schedulable node" "candidate ds pod st node"
    by (simp_all add: filter_nodes_iff)
  show ?thesis
    by (rule that[OF n]) (use d node(2) best in \<open>simp_all add: filter_nodes_iff\<close>)
qed


section \<open>Order independence\<close>

lemma foldl_max: "foldl max (c::nat) cs = Max (insert c (set cs))"
proof (induction cs arbitrary: c)
  case (Cons x xs)
  have "Max (insert (max c x) (set xs)) = Max (insert c (insert x (set xs)))"
    by (cases "xs = []") (simp_all add: Max_insert max.assoc)
  with Cons.IH[of "max c x"] show ?case by simp
qed simp

lemma max_pod_count_alt:
  "cs_nodes st \<noteq> [] \<Longrightarrow> max_pod_count st = Max (ni_pod_count ` set (cs_nodes st))"
  by (cases "cs_nodes st") (simp_all add: max_pod_count_def foldl_max)

lemma option_eqI:
  assumes "\<And>i. x = Some i \<longleftrightarrow> y = Some i"
  shows "x = y"
  using assms[of "the x"] assms[of "the y"] by (cases x; cases y) simp_all

lemma find_unique:
  assumes "distinct (map f xs)"
  shows "find (\<lambda>x. f x = k) xs = Some y \<longleftrightarrow> y \<in> set xs \<and> f y = k"
  using assms by (induction xs) auto

definition same_view :: "cluster_state \<Rightarrow> cluster_state \<Rightarrow> bool" where
  "same_view st st' \<longleftrightarrow>
     mset (cs_nodes st) = mset (cs_nodes st') \<and> cs_placements st = cs_placements st' \<and>
     distinct (map ni_node_id (cs_nodes st))"

lemma same_view_find:
  assumes "same_view st st'"
  shows "find_node st n = find_node st' n"
proof -
  have s: "set (cs_nodes st) = set (cs_nodes st')" "distinct (map ni_node_id (cs_nodes st))"
    "mset (map ni_node_id (cs_nodes st)) = mset (map ni_node_id (cs_nodes st'))"
    using assms by (auto simp: same_view_def dest: mset_eq_setD)
  then have d: "distinct (map ni_node_id (cs_nodes st'))"
    by (metis mset_eq_imp_distinct_iff)
  have "find_node st n = Some i \<longleftrightarrow> find_node st' n = Some i" for i
    unfolding find_node_def find_unique[OF s(2)] find_unique[OF d] s(1) ..
  then show ?thesis by (rule option_eqI)
qed

lemma same_view_scores:
  assumes "same_view st st'"
  shows "candidate ds pod st = candidate ds pod st'" and "breakdown ds pod st = breakdown ds pod st'"
proof -
  have p: "cs_placements st = cs_placements st'" and s: "set (cs_nodes st) = set (cs_nodes st')"
    and l: "length (cs_nodes st) = length (cs_nodes st')"
    using assms by (auto simp: same_view_def dest: mset_eq_setD mset_eq_length)
  have "max_pod_count st = max_pod_count st'"
  proof (cases "cs_nodes st = []")
    case True
    with l show ?thesis by (simp add: max_pod_count_def)
  next
    case False
    with l have "cs_nodes st' \<noteq> []" by auto
    with False s show ?thesis by (simp add: max_pod_count_alt)
  qed
  with p l show "breakdown ds pod st = breakdown ds pod st'"
    by (simp add: breakdown_def score_topology_spread_def placements_on_node_def placements_for_tenant_def
        fun_eq_iff)
  show "candidate ds pod st = candidate ds pod st'"
    using p same_view_find[OF assms]
    by (simp add: candidate_def check_anti_affinity_def placements_for_service_role_def fun_eq_iff)
qed

lemma sort_key_perm:
  assumes "mset xs = mset ys" "inj_on f (set xs)"
  shows "sort_key f xs = sort_key f ys"
  by (rule sort_key_inj_key_eq) (use assms in simp_all)

lemma schedule_same_view:
  assumes "same_view st st'"
  shows "schedule ds pod st = schedule ds pod st'"
proof -
  have m: "mset (filter_nodes ds pod st) = mset (filter_nodes ds pod st')"
    using assms same_view_scores(1)[OF assms]
    by (simp add: filter_nodes_def schedulable_nodes_def same_view_def)
  have inj: "inj_on ni_node_id (set (filter_nodes ds pod st))"
    using assms by (auto simp: same_view_def distinct_map filter_nodes_iff inj_on_def)
  have "score_nodes ds pod (filter_nodes ds pod st) st = score_nodes ds pod (filter_nodes ds pod st') st'"
    unfolding score_nodes_def same_view_scores(2)[OF assms]
    by (rule sort_key_perm) (use m inj in \<open>auto simp: inj_on_def score_key_def\<close>)
  moreover have "filter_nodes ds pod st = [] \<longleftrightarrow> filter_nodes ds pod st' = []"
    using mset_eq_length[OF m] by auto
  ultimately show ?thesis by (simp add: schedule_def)
qed


section \<open>Score ranges\<close>

lemma tenant_spread_range: "0 \<le> tenant_spread_score a b c \<and> tenant_spread_score a b c \<le> 1"
proof -
  define ideal :: rat where "ideal = of_nat b / of_nat (max c 1)"
  have "ideal \<ge> 0" by (simp add: ideal_def)
  then have "of_nat a > ideal \<Longrightarrow> (of_nat a - ideal) / (ideal + 1) \<ge> 0" by simp
  then show ?thesis unfolding tenant_spread_score_def Let_def ideal_def[symmetric] by auto
qed

lemma pod_spread_range: "p \<le> m \<Longrightarrow> 0 \<le> pod_spread_score p m \<and> pod_spread_score p m \<le> 1"
  by (auto simp: pod_spread_score_def divide_le_eq_1)

lemma max_pod_count_ge: "n \<in> set (cs_nodes st) \<Longrightarrow> ni_pod_count n \<le> max_pod_count st"
  using max_pod_count_alt[of st] by (cases "cs_nodes st = []") auto

lemma weighted_mean:
  fixes a b x y :: rat
  assumes "0 \<le> a" "0 \<le> b" "a + b > 0" "0 \<le> x" "x \<le> 1" "0 \<le> y" "y \<le> 1"
  shows "0 \<le> (x * a + y * b) / (a + b) \<and> (x * a + y * b) / (a + b) \<le> 1"
proof -
  have "x * a \<le> a" "y * b \<le> b" using assms by (simp_all add: mult_left_le_one_le)
  then have "x * a + y * b \<le> a + b" by linarith
  then show ?thesis using assms by (simp add: divide_le_eq_1)
qed

lemma topology_range:
  assumes "n \<in> set (cs_nodes st)" "tp_tenant_weight cfg \<ge> 0" "tp_pod_weight cfg \<ge> 0"
  shows "0 \<le> score_topology_spread pod n st cfg \<and> score_topology_spread pod n st cfg \<le> 1"
  unfolding score_topology_spread_def Let_def
  using weighted_mean[OF assms(2,3)] tenant_spread_range pod_spread_range[OF max_pod_count_ge[OF assms(1)]] by auto

lemma utilization_range: "0 \<le> utilization c a r \<and> utilization c a r \<le> 1"
  by (simp add: utilization_def divide_le_eq_1)

lemma binpack_range: "0 \<le> score_binpack r n s \<and> score_binpack r n s \<le> 1"
  using utilization_range[of "cpu_millicores (ni_capacity n)" "cpu_millicores (ni_available n)" "cpu_millicores r"]
    utilization_range[of "memory_bytes (ni_capacity n)" "memory_bytes (ni_available n)" "memory_bytes r"]
  unfolding score_binpack_def Let_def by (cases s) auto


section \<open>Capacity\<close>

text \<open>The sums without wrap-around.\<close>

definition cpu_on :: "placement list \<Rightarrow> spiffe_id \<Rightarrow> nat" where
  "cpu_on ps n = sum_list (map (\<lambda>p. cpu_millicores (pl_resources p)) (filter (\<lambda>p. pl_node_id p = n) ps))"

definition memory_on :: "placement list \<Rightarrow> spiffe_id \<Rightarrow> nat" where
  "memory_on ps n = sum_list (map (\<lambda>p. memory_bytes (pl_resources p)) (filter (\<lambda>p. pl_node_id p = n) ps))"

lemma foldl_res_add:
  "foldl (\<lambda>u p. res_add u (pl_resources p)) u ps =
     (if ps = [] then u else
      res ((cpu_millicores u + sum_list (map (\<lambda>p. cpu_millicores (pl_resources p)) ps)) mod 2 ^ 64)
          ((memory_bytes u + sum_list (map (\<lambda>p. memory_bytes (pl_resources p)) ps)) mod 2 ^ 64))"
proof (induction ps arbitrary: u)
  case (Cons p ps)
  show ?case
    unfolding foldl_Cons Cons.IH by (cases "ps = []") (simp_all add: res_add_def mod_add_left_eq add.assoc)
qed simp

lemma used_on_exact:
  assumes "cpu_on ps n < 2 ^ 64" "memory_on ps n < 2 ^ 64"
  shows "used_on ps n = res (cpu_on ps n) (memory_on ps n)"
  using assms by (auto simp: used_on_def foldl_res_add res_zero_def cpu_on_def memory_on_def)

definition within_capacity :: "placement list \<Rightarrow> node_info \<Rightarrow> bool" where
  "within_capacity ps n \<longleftrightarrow>
     cpu_on ps (ni_node_id n) \<le> cpu_millicores (ni_capacity n) \<and>
     memory_on ps (ni_node_id n) \<le> memory_bytes (ni_capacity n)"

lemma cluster_node:
  assumes "n \<in> set (cs_nodes (cluster_build E recs ps taints))"
  obtains r where "r \<in> set recs" "sp_parse E (nr_node_id r) = Some (ni_node_id n)"
    "ni_capacity n = res (nr_capacity_cpu r) (nr_capacity_memory r)"
    "ni_available n = res_subtract (ni_capacity n) (used_on ps (ni_node_id n))"
    "ni_schedulable n \<longleftrightarrow> nr_schedulable r \<and> nr_status r = Active"
    "ni_failure_domain n = nr_failure_domain r"
  using assms by (auto simp: cluster_build_def in_map_filter node_view_def Let_def)

definition place :: "pending_pod \<Rightarrow> spiffe_id \<Rightarrow> placement" where
  "place pod n =
     \<lparr>pl_pod_id = pp_pod_id pod, pl_tenant_id = pp_tenant_id pod, pl_service = pp_service pod,
      pl_role = pp_role pod, pl_ordinal = pp_ordinal pod, pl_node_id = n, pl_resources = pp_resources pod\<rparr>"

text \<open>Placing the pod on the chosen node keeps every node that was within capacity within it.\<close>

lemma schedule_capacity:
  assumes run: "schedule ds pod st = Inr d" and st: "st = cluster_build E recs ps taints"
    and n: "n \<in> set (cs_nodes st)" and cap: "within_capacity ps n"
    and u64: "cpu_millicores (ni_capacity n) < 2 ^ 64" "memory_bytes (ni_capacity n) < 2 ^ 64"
    and uniq: "distinct (map ni_node_id (cs_nodes st))"
  shows "within_capacity (place pod (sd_node_id d) # ps) n"
proof (cases "sd_node_id d = ni_node_id n")
  case False
  then show ?thesis using cap by (simp add: within_capacity_def cpu_on_def memory_on_def place_def)
next
  case True
  obtain node where node: "node \<in> set (cs_nodes st)" "candidate ds pod st node" "sd_node_id d = ni_node_id node"
    using schedule_Inr[OF run] by metis
  then have "node = n" using True n uniq by (metis distinct_map inj_onD)
  then have fit: "fits_within (pp_resources pod) (ni_available n)" using node(2) by (simp add: candidate_def)
  obtain r where "ni_available n = res_subtract (ni_capacity n) (used_on ps (ni_node_id n))"
    using cluster_node n unfolding st by metis
  moreover have "used_on ps (ni_node_id n) = res (cpu_on ps (ni_node_id n)) (memory_on ps (ni_node_id n))"
    by (rule used_on_exact) (use cap u64 in \<open>simp_all add: within_capacity_def\<close>)
  ultimately show ?thesis
    using fit cap True
    by (auto simp: fits_within_def res_subtract_def within_capacity_def cpu_on_def memory_on_def place_def)
qed


section \<open>Spread of enforced roles\<close>

text \<open>No two placements of one service and enforced role share a node or a known zone.\<close>

definition zones_apart :: "cluster_state \<Rightarrow> spiffe_id \<Rightarrow> spiffe_id \<Rightarrow> bool" where
  "zones_apart st a b \<longleftrightarrow>
     (case (find_node st a, find_node st b) of
        (Some m, Some n) \<Rightarrow> ni_failure_domain m \<noteq> ni_failure_domain n
      | _ \<Rightarrow> True)"

definition spread :: "anti_affinity_config \<Rightarrow> cluster_state \<Rightarrow> placement list \<Rightarrow> bool" where
  "spread cfg st ps \<longleftrightarrow>
     (\<forall>i < length ps. \<forall>j < length ps. i \<noteq> j \<longrightarrow>
        pl_service (ps ! i) = pl_service (ps ! j) \<longrightarrow> pl_role (ps ! i) = pl_role (ps ! j) \<longrightarrow>
        pl_role (ps ! i) \<in> set (aa_enforced_roles cfg) \<longrightarrow>
        pl_node_id (ps ! i) \<noteq> pl_node_id (ps ! j) \<and>
        (aa_cross_zone cfg \<longrightarrow> zones_apart st (pl_node_id (ps ! i)) (pl_node_id (ps ! j))))"

definition apart :: "anti_affinity_config \<Rightarrow> cluster_state \<Rightarrow> placement \<Rightarrow> placement \<Rightarrow> bool" where
  "apart cfg st p q \<longleftrightarrow>
     (pl_service p = pl_service q \<longrightarrow> pl_role p = pl_role q \<longrightarrow> pl_role p \<in> set (aa_enforced_roles cfg) \<longrightarrow>
        pl_node_id p \<noteq> pl_node_id q \<and> (aa_cross_zone cfg \<longrightarrow> zones_apart st (pl_node_id p) (pl_node_id q)))"

lemma apart_sym: "apart cfg st p q = apart cfg st q p"
  by (auto simp: apart_def zones_apart_def split: option.splits)

lemma spread_sorted: "spread cfg st ps \<longleftrightarrow> sorted_wrt (apart cfg st) ps"
proof -
  have "spread cfg st ps \<longleftrightarrow> (\<forall>i < length ps. \<forall>j < length ps. i \<noteq> j \<longrightarrow> apart cfg st (ps ! i) (ps ! j))"
    by (auto simp: spread_def apart_def)
  also have "\<dots> \<longleftrightarrow> sorted_wrt (apart cfg st) ps"
    unfolding sorted_wrt_iff_nth_less
  proof (intro iffI allI impI)
    fix i j
    assume r: "\<forall>i j. i < j \<longrightarrow> j < length ps \<longrightarrow> apart cfg st (ps ! i) (ps ! j)"
      and "i < length ps" "j < length ps" "i \<noteq> j"
    then consider "i < j" | "j < i" by linarith
    then show "apart cfg st (ps ! i) (ps ! j)"
      using r \<open>i < length ps\<close> \<open>j < length ps\<close> apart_sym[of cfg st "ps ! i" "ps ! j"] by cases simp_all
  qed simp
  finally show ?thesis .
qed

lemma schedule_spread:
  assumes run: "schedule ds pod st = Inr d" and uniq: "distinct (map ni_node_id (cs_nodes st))"
    and old: "spread (ds_anti_affinity ds) st (cs_placements st)"
  shows "spread (ds_anti_affinity ds) st (place pod (sd_node_id d) # cs_placements st)"
proof -
  obtain node where node: "node \<in> set (cs_nodes st)" "candidate ds pod st node" "sd_node_id d = ni_node_id node"
    using schedule_Inr[OF run] by metis
  have f: "find_node st (ni_node_id node) = Some node"
    using find_unique[OF uniq] node(1) by (simp add: find_node_def)
  have "apart (ds_anti_affinity ds) st (place pod (ni_node_id node)) p" if "p \<in> set (cs_placements st)" for p
    using node(2) that f
    by (auto simp: candidate_def check_anti_affinity_def apart_def place_def placements_for_service_role_def
        zones_apart_def list_all_iff split: if_splits option.splits)
  then show ?thesis using old unfolding spread_sorted node(3) by simp
qed


section \<open>Evictions from tainted nodes\<close>

lemma foldl_max_less: "foldl max (c::int) xs < d \<longleftrightarrow> c < d \<and> (\<forall>x\<in>set xs. x < d)"
  by (induction xs arbitrary: c) auto

lemma must_leave_iff:
  "must_leave now ts t \<longleftrightarrow>
     \<not> (\<exists>tol. tol \<in> set ts \<and> tolerates tol t \<and> (tol_seconds tol \<le> 0 \<or> now - ta_time_added t \<le> tol_seconds tol))"
proof -
  define ms where "ms = filter (\<lambda>tol. tolerates tol t) ts"
  have m: "tol \<in> set ms \<longleftrightarrow> tol \<in> set ts \<and> tolerates tol t" for tol by (simp add: ms_def)
  have "must_leave now ts t \<longleftrightarrow> ms = [] \<or> (case grace_of ms of None \<Rightarrow> False | Some g \<Rightarrow> now - ta_time_added t > g)"
    by (simp add: must_leave_def ms_def Let_def)
  also have "\<dots> \<longleftrightarrow> (\<forall>tol\<in>set ms. \<not> tol_seconds tol \<le> 0 \<and> \<not> now - ta_time_added t \<le> tol_seconds tol)"
    by (cases ms) (auto simp: grace_of_def list_ex_iff foldl_max_less)
  finally show ?thesis using m by blast
qed

lemma remdups_adj_strict:
  fixes ys :: "'a::linorder list"
  shows "sorted ys \<Longrightarrow> sorted_wrt (<) (remdups_adj ys)"
proof (induction ys rule: remdups_adj.induct)
  case (3 x y ys)
  show ?case
  proof (cases "x = y")
    case False
    with 3 have "x < y" "sorted_wrt (<) (remdups_adj (y # ys))" by (simp_all add: order.not_eq_order_implies_strict)
    moreover have "\<forall>z\<in>set (y # ys). y \<le> z" using 3 by auto
    ultimately show ?thesis using False by (auto simp del: remdups_adj.simps(3) simp: remdups_adj.simps(3)[of x])
  qed (use 3 in simp)
qed simp_all

lemma strict_sorted_remdups_adj: "sorted_wrt (<) (remdups_adj (sort (xs :: string list)))"
  by (rule remdups_adj_strict) simp

end
