(* ===== verification/SchedulerExamples.thy ===== *)
theory SchedulerExamples
  imports Examples SchedulerFacts
begin

text \<open>
  A two-node cluster that already runs one replica, for the theorems on scheduling.
\<close>

definition ex_replica :: placement where
  "ex_replica = (ex_placement 0 node_a)\<lparr>pl_role := ''replica''\<rparr>"

definition ex_pod :: pending_pod where
  "ex_pod =
     \<lparr>pp_pod_id = ''web-replica-1'', pp_tenant_id = ''t'', pp_service = ''web'', pp_role = ''replica'',
      pp_ordinal = 1, pp_resources = res 500 10, pp_previous_node = None, pp_priority = 0, pp_tolerations = []\<rparr>"

definition ex_cluster :: cluster_state where
  "ex_cluster = cluster_build PE [ex_node node_a ''z1'', ex_node node_b ''z2''] [ex_replica] []"

definition ex_cluster_rev :: cluster_state where
  "ex_cluster_rev = cluster_build PE [ex_node node_b ''z2'', ex_node node_a ''z1''] [ex_replica] []"

definition ex_taint :: node_taint where
  "ex_taint = \<lparr>ta_key = ''k'', ta_value = [], ta_effect = ''NoExecute'', ta_time_added = 0\<rparr>"

lemma ex_cluster_nodes:
  "cs_nodes ex_cluster =
     [\<lparr>ni_node_id = node_a, ni_capacity = res 1000 1000, ni_available = res 500 990, ni_failure_domain = ''z1'',
       ni_schedulable = True, ni_pod_count = 1, ni_taints = []\<rparr>,
      \<lparr>ni_node_id = node_b, ni_capacity = res 1000 1000, ni_available = res 1000 1000, ni_failure_domain = ''z2'',
       ni_schedulable = True, ni_pod_count = 0, ni_taints = []\<rparr>]"
  "cs_placements ex_cluster = [ex_replica]"
  by (simp_all add: ex_cluster_def cluster_build_def List.map_filter_def node_view_def sp_parse_PE ex_node_def
      used_on_def ex_replica_def ex_placement_def res_add_def res_zero_def res_subtract_def)

lemma ex_candidate: "\<exists>n. n \<in> set (filter_nodes new_scheduler ex_pod ex_cluster)"
  unfolding filter_nodes_iff ex_cluster_nodes
  by (rule exI[of _ "cs_nodes ex_cluster ! 1"])
    (simp add: ex_cluster_nodes candidate_def ex_pod_def fits_within_def check_anti_affinity_def
      passes_taint_filter_def placements_for_service_role_def ex_replica_def ex_placement_def find_node_def)

lemma ex_decision: "\<exists>d. schedule new_scheduler ex_pod ex_cluster = Inr d"
  using ex_candidate schedule_Inl_iff[of new_scheduler ex_pod ex_cluster]
  by (cases "schedule new_scheduler ex_pod ex_cluster") auto

lemma ex_distinct: "distinct (map ni_node_id (cs_nodes ex_cluster))"
  by (simp add: ex_cluster_nodes)

end
