(* ===== verification/SchedulerTheorems.thy ===== *)
theory SchedulerTheorems
  imports SchedulerExamples
begin

text \<open>
  The properties of the scheduler.
\<close>




text \<open>The decision does not depend on the order in which nodes are listed.\<close>

theorem schedule_order_independent:
  assumes "mset (cs_nodes st) = mset (cs_nodes st')" "cs_placements st = cs_placements st'"
    and "distinct (map ni_node_id (cs_nodes st))"
  shows "schedule ds pod st = schedule ds pod st'"
  by (rule schedule_same_view) (use assms in \<open>simp add: same_view_def\<close>)

theorem schedule_order_independent_witness:
  "ex_cluster \<noteq> ex_cluster_rev \<and>
   schedule new_scheduler ex_pod ex_cluster = schedule new_scheduler ex_pod ex_cluster_rev"
proof -
  have m: "mset (cs_nodes ex_cluster) = mset (cs_nodes ex_cluster_rev)"
    by (simp add: ex_cluster_def ex_cluster_rev_def cluster_build_def List.map_filter_def node_view_def sp_parse_PE
        ex_node_def add_mset_commute)
  have p: "cs_placements ex_cluster = cs_placements ex_cluster_rev"
    by (simp add: ex_cluster_def ex_cluster_rev_def cluster_build_def)
  have "ni_node_id (hd (cs_nodes ex_cluster)) \<noteq> ni_node_id (hd (cs_nodes ex_cluster_rev))"
    by (simp add: ex_cluster_def ex_cluster_rev_def cluster_build_def List.map_filter_def node_view_def sp_parse_PE
        ex_node_def Let_def)
  then have "ex_cluster \<noteq> ex_cluster_rev" by (metis (full_types))
  then show ?thesis using schedule_order_independent[OF m p ex_distinct] by blast
qed


text \<open>C15. No overcommit by one decision. When the cluster view is built from the placements and a node
  runs within its capacity, it still does after the pod is placed where the scheduler says.\<close>

theorem schedule_within_capacity:
  assumes "schedule ds pod (cluster_build E recs ps taints) = Inr d"
    and "n \<in> set (cs_nodes (cluster_build E recs ps taints))" "within_capacity ps n"
    and "cpu_millicores (ni_capacity n) < 2 ^ 64" "memory_bytes (ni_capacity n) < 2 ^ 64"
    and "distinct (map ni_node_id (cs_nodes (cluster_build E recs ps taints)))"
  shows "within_capacity (place pod (sd_node_id d) # ps) n"
  by (rule schedule_capacity[OF assms(1) refl assms(2-6)])

theorem schedule_within_capacity_witness:
  "\<exists>d. schedule new_scheduler ex_pod ex_cluster = Inr d \<and>
     within_capacity [place ex_pod (sd_node_id d), ex_replica] (cs_nodes ex_cluster ! 1)"
proof -
  obtain d where d: "schedule new_scheduler ex_pod ex_cluster = Inr d" using ex_decision by blast
  have n: "cs_nodes ex_cluster ! 1 \<in> set (cs_nodes ex_cluster)" by (simp add: ex_cluster_nodes)
  have "within_capacity [ex_replica] (cs_nodes ex_cluster ! 1)"
    "cpu_millicores (ni_capacity (cs_nodes ex_cluster ! 1)) < 2 ^ 64"
    "memory_bytes (ni_capacity (cs_nodes ex_cluster ! 1)) < 2 ^ 64"
    by (simp_all add: ex_cluster_nodes within_capacity_def cpu_on_def memory_on_def ex_replica_def ex_placement_def)
  from schedule_within_capacity[OF d[unfolded ex_cluster_def] n[unfolded ex_cluster_def] this[unfolded ex_cluster_def]
      ex_distinct[unfolded ex_cluster_def]] d
  show ?thesis unfolding ex_cluster_def by blast
qed


text \<open>Replicas of an enforced role stay spread: if no two placements of a service in such a role
  share a node or a known failure domain, neither do they after the pod is placed where the
  scheduler says.\<close>

theorem schedule_keeps_spread:
  assumes "schedule ds pod st = Inr d" "distinct (map ni_node_id (cs_nodes st))"
    and "spread (ds_anti_affinity ds) st (cs_placements st)"
  shows "spread (ds_anti_affinity ds) st (place pod (sd_node_id d) # cs_placements st)"
  by (rule schedule_spread[OF assms])

theorem schedule_keeps_spread_witness:
  "\<exists>d. schedule new_scheduler ex_pod ex_cluster = Inr d \<and>
     spread default_anti_affinity ex_cluster [place ex_pod (sd_node_id d), ex_replica]"
proof -
  obtain d where d: "schedule new_scheduler ex_pod ex_cluster = Inr d" using ex_decision by blast
  have a: "ds_anti_affinity new_scheduler = default_anti_affinity" by (simp add: new_scheduler_def)
  have s: "spread (ds_anti_affinity new_scheduler) ex_cluster (cs_placements ex_cluster)"
    by (simp add: spread_sorted ex_cluster_nodes)
  show ?thesis
    using d schedule_keeps_spread[OF d ex_distinct s] unfolding a ex_cluster_nodes(2) by blast
qed


text \<open>Scores are normalised, and topology dominates: with non-negative weights both scores of a node
  lie between 0 and 1, and a node whose topology score less its taint penalty is more than a
  thousandth above another's has the higher total, whatever the bin-packing scores are.\<close>

theorem topology_dominates:
  assumes "n \<in> set (cs_nodes st)" "tp_tenant_weight (ds_topology ds) \<ge> 0" "tp_pod_weight (ds_topology ds) \<ge> 0"
    and "sb_topology (breakdown ds pod st n) - sb_taint_penalty (breakdown ds pod st n) >
         sb_topology (breakdown ds pod st m) - sb_taint_penalty (breakdown ds pod st m) + 1 / 1000"
  shows "sb_topology (breakdown ds pod st n) \<in> {0..1} \<and> sb_binpack (breakdown ds pod st n) \<in> {0..1} \<and>
    total_score (breakdown ds pod st n) > total_score (breakdown ds pod st m)"
proof -
  have "sb_topology (breakdown ds pod st n) \<in> {0..1}"
    using topology_range[OF assms(1-3)] by (simp add: breakdown_def)
  moreover have "sb_binpack (breakdown ds pod st k) \<in> {0..1}" for k
    using binpack_range by (simp add: breakdown_def)
  moreover from this[of n] this[of m] have "total_score (breakdown ds pod st n) > total_score (breakdown ds pod st m)"
    using assms(4) by (simp add: total_score_def)
  ultimately show ?thesis by blast
qed

theorem topology_dominates_witness:
  "total_score (breakdown new_scheduler ex_pod ex_cluster (cs_nodes ex_cluster ! 1)) >
   total_score (breakdown new_scheduler ex_pod ex_cluster (cs_nodes ex_cluster ! 0))"
proof -
  have n: "cs_nodes ex_cluster ! 1 \<in> set (cs_nodes ex_cluster)" by (simp add: ex_cluster_nodes)
  have w: "tp_tenant_weight (ds_topology new_scheduler) \<ge> 0" "tp_pod_weight (ds_topology new_scheduler) \<ge> 0"
    by (simp_all add: new_scheduler_def default_topology_def)
  show ?thesis
    using topology_dominates[OF n w, of ex_pod "cs_nodes ex_cluster ! 0"]
    by (simp add: ex_cluster_nodes breakdown_def score_topology_spread_def placements_on_node_def
        placements_for_tenant_def ex_pod_def ex_replica_def ex_placement_def max_pod_count_def new_scheduler_def
        default_topology_def tenant_spread_score_def pod_spread_score_def prefer_no_schedule_penalties_def Let_def)
qed


text \<open>The eviction plan of a tainted node is exact: a pod is named, once and in id order, exactly when
  some NoExecute taint of the node is met by no toleration of the pod that is unlimited or whose
  grace period has not run out.\<close>

theorem no_execute_plan_exact:
  "sorted_wrt (<) (plan_no_execute_evictions now taints ps tols) \<and>
   (x \<in> set (plan_no_execute_evictions now taints ps tols) \<longleftrightarrow>
     (\<exists>p t. p \<in> set ps \<and> pl_pod_id p = x \<and> t \<in> set taints \<and> ta_effect t = ''NoExecute'' \<and>
        \<not> (\<exists>tol. tol \<in> set (tols p) \<and> tolerates tol t \<and>
             (tol_seconds tol \<le> 0 \<or> now - ta_time_added t \<le> tol_seconds tol))))"
proof -
  have leave: "must_leave now ts t \<longleftrightarrow>
      \<not> (\<exists>tol. tol \<in> set ts \<and> tolerates tol t \<and> (tol_seconds tol \<le> 0 \<or> now - ta_time_added t \<le> tol_seconds tol))"
    for ts t by (rule must_leave_iff)
  show ?thesis
    unfolding plan_no_execute_evictions_def Let_def
    by (auto simp: strict_sorted_remdups_adj list_ex_iff leave)
qed

end
