(* ===== verification/Disruption.thy ===== *)
theory Disruption
  imports Lifecycle
begin

text \<open>
  Disruption budgets (\<open>disruption/mod.rs\<close>). The guard interface is a locale: what a caller may
  rely on whichever guard is wired in. Both guards of the code meet it.
\<close>


section \<open>Operations\<close>

datatype disruption_target = TEviction | TScaleDown | TDelete | TVerticalResize

record disruption_denied =
  dd_min_available :: nat
  dd_current_healthy :: nat
  dd_requested :: nat
  dd_forced :: bool

definition deny :: "nat \<Rightarrow> nat \<Rightarrow> nat \<Rightarrow> disruption_denied" where
  "deny min_available current_healthy requested =
     \<lparr>dd_min_available = min_available, dd_current_healthy = current_healthy,
      dd_requested = requested, dd_forced = False\<rparr>"

definition noop_allow ::
  "string \<Rightarrow> string \<Rightarrow> string \<Rightarrow> nat \<Rightarrow> disruption_target \<Rightarrow> disruption_denied + unit" where
  "noop_allow tenant workload role count target = Inr ()"

definition count_placed :: "env \<Rightarrow> database \<Rightarrow> string \<Rightarrow> string \<Rightarrow> string \<Rightarrow> disruption_denied + nat" where
  "count_placed E db tenant workload role =
     bindE (map_err (\<lambda>_. deny 0 0 0) (list_placements E db)) (\<lambda>ps.
       Inr (length (filter (\<lambda>p. pl_tenant_id p = tenant \<and> pl_service p = workload \<and> pl_role p = role) ps)
            mod 2 ^ 32))"

text \<open>A percentage of the desired count, rounded up or down; products are on 64 bits.\<close>

definition resolve_min_available :: "disruption_budget \<Rightarrow> nat \<Rightarrow> nat option" where
  "resolve_min_available budget desired =
     Option.bind (bud_policy budget) (\<lambda>policy.
       case policy of
         MinAvailable v \<Rightarrow>
           Option.bind v (\<lambda>v. case v of
             BCount c \<Rightarrow> Some c
           | BPercent p \<Rightarrow> if p > 100 then None else Some ((desired * p + 99) div 100 mod 2 ^ 32))
       | MaxUnavailable v \<Rightarrow>
           map_option (\<lambda>max_unavailable. desired - max_unavailable)
             (Option.bind v (\<lambda>v. case v of
                BCount c \<Rightarrow> Some c
              | BPercent p \<Rightarrow> if p > 100 then None else Some (desired * p div 100 mod 2 ^ 32))))"

definition allow_disruption ::
  "env \<Rightarrow> database \<Rightarrow> string \<Rightarrow> string \<Rightarrow> string \<Rightarrow> nat \<Rightarrow> disruption_target \<Rightarrow> disruption_denied + unit" where
  "allow_disruption E db tenant workload role count target =
     bindE (map_err (\<lambda>_. deny 0 0 count) (get_workload_spec db tenant workload)) (\<lambda>raw.
       case raw of
         None \<Rightarrow> Inr ()
       | Some r \<Rightarrow>
           bindE (ok_or (deny 0 0 count) (dec (c_spec E) r)) (\<lambda>spec.
             case om_get (ws_budgets spec) role of
               None \<Rightarrow> Inr ()
             | Some budget \<Rightarrow>
                 if bud_policy budget = None then Inr ()
                 else
                   (let desired = (case om_get (ws_replicas spec) role of Some n \<Rightarrow> n | None \<Rightarrow> 0) in
                    bindE (ok_or (deny 0 0 count) (resolve_min_available budget desired)) (\<lambda>min_available.
                    bindE (count_placed E db tenant workload role) (\<lambda>current_healthy.
                      if current_healthy - count < min_available
                      then Inl (deny min_available current_healthy count) else Inr ())))))"


section \<open>The guard interface\<close>

locale disruption_guard =
  fixes allow :: "'s \<Rightarrow> string \<Rightarrow> string \<Rightarrow> string \<Rightarrow> nat \<Rightarrow> disruption_target \<Rightarrow> disruption_denied + unit"
  assumes fewer: "is_ok (allow s t w r n k) \<Longrightarrow> m \<le> n \<Longrightarrow> is_ok (allow s t w r m k)"
    and partial_allowance: "allow s t w r n k = Inl d \<Longrightarrow> dd_min_available d < dd_current_healthy d \<Longrightarrow>
      is_ok (allow s t w r (dd_current_healthy d - dd_min_available d) k)"
    and target_irrelevant: "allow s t w r n k = allow s t w r n k'"
begin

lemma denied_upwards: "\<not> is_ok (allow s t w r m k) \<Longrightarrow> m \<le> n \<Longrightarrow> \<not> is_ok (allow s t w r n k)"
  using fewer by blast

text \<open>A denied caller may retry with what the denial reports, or with anything below it.\<close>

lemma retry_below:
  assumes "allow s t w r n k = Inl d" "m \<le> dd_current_healthy d - dd_min_available d"
    "dd_min_available d < dd_current_healthy d"
  shows "is_ok (allow s t w r m k')"
  using partial_allowance[OF assms(1,3)] fewer[OF _ assms(2)] target_irrelevant by metis

end

interpretation noop: disruption_guard "\<lambda>_::unit. noop_allow"
  by unfold_locales (simp_all add: noop_allow_def)


section \<open>The budget-backed guard\<close>

text \<open>The budget in force for a role, resolved against the desired count.\<close>

definition budget_floor :: "env \<Rightarrow> bytes \<Rightarrow> string \<Rightarrow> nat option option" where
  "budget_floor E raw role =
     (case dec (c_spec E) raw of
        None \<Rightarrow> Some None
      | Some spec \<Rightarrow>
          (case om_get (ws_budgets spec) role of
             None \<Rightarrow> None
           | Some budget \<Rightarrow>
               if bud_policy budget = None then None
               else Some (resolve_min_available budget
                      (case om_get (ws_replicas spec) role of Some n \<Rightarrow> n | None \<Rightarrow> 0))))"

text \<open>The number of pods of a role that have a placement.\<close>

definition placed :: "env \<Rightarrow> database \<Rightarrow> string \<Rightarrow> string \<Rightarrow> string \<Rightarrow> nat" where
  "placed E db t w r =
     length (filter (\<lambda>p. pl_tenant_id p = t \<and> pl_service p = w \<and> pl_role p = r)
       (decode_all (c_placement E) (db_data db Kplacements))) mod 2 ^ 32"

lemma allow_cases:
  "allow_disruption E db t w r n k =
     (if db_read_fault db Kworkloads then Inl (deny 0 0 n)
      else case lookup db Kworkloads (workload_key t w) of
        None \<Rightarrow> Inr ()
      | Some raw \<Rightarrow>
          (case budget_floor E raw r of
             None \<Rightarrow> Inr ()
           | Some None \<Rightarrow> Inl (deny 0 0 n)
           | Some (Some floor) \<Rightarrow>
               if db_read_fault db Kplacements then Inl (deny 0 0 0)
               else if placed E db t w r - n < floor then Inl (deny floor (placed E db t w r) n)
               else Inr ()))"
proof -
  have c: "count_placed E db t w r =
      (if db_read_fault db Kplacements then Inl (deny 0 0 0) else Inr (placed E db t w r))"
    by (simp add: count_placed_def list_placements_def list_records_def kv_prefix_def placed_def)
  show ?thesis
  proof (cases "db_read_fault db Kworkloads")
    case True
    then show ?thesis by (simp add: allow_disruption_def get_workload_spec_def kv_get_def)
  next
    case False
    then show ?thesis
      by (auto simp: allow_disruption_def get_workload_spec_def kv_get_def budget_floor_def c ok_or_def Let_def
          split: option.splits)
  qed
qed

interpretation budget: disruption_guard "\<lambda>(E, db). allow_disruption E db"
proof unfold_locales
  fix s :: "env \<times> database" and t w r :: string and n m :: nat and k k' :: disruption_target
    and d :: disruption_denied
  obtain E db where s: "s = (E, db)" by force
  show "(case s of (E, db) \<Rightarrow> allow_disruption E db) t w r n k =
      (case s of (E, db) \<Rightarrow> allow_disruption E db) t w r n k'"
    by (simp add: s allow_disruption_def)
  show "is_ok ((case s of (E, db) \<Rightarrow> allow_disruption E db) t w r m k)"
    if "is_ok ((case s of (E, db) \<Rightarrow> allow_disruption E db) t w r n k)" "m \<le> n"
    using that by (auto simp: s allow_cases split: option.splits if_splits)
  show "is_ok ((case s of (E, db) \<Rightarrow> allow_disruption E db) t w r (dd_current_healthy d - dd_min_available d) k)"
    if "(case s of (E, db) \<Rightarrow> allow_disruption E db) t w r n k = Inl d" "dd_min_available d < dd_current_healthy d"
    using that by (auto simp: s allow_cases deny_def split: option.splits if_splits)
qed


section \<open>Rounding\<close>

lemma percent_u32: "(desired :: nat) < 2 ^ 32 \<Longrightarrow> p \<le> 100 \<Longrightarrow> (desired * p + 99) div 100 < 2 ^ 32"
proof -
  assume "desired < 2 ^ 32" "p \<le> 100"
  then have "desired * p \<le> desired * 100" by simp
  then show ?thesis using \<open>desired < 2 ^ 32\<close> by linarith
qed

text \<open>A percentage floor is the least count that is at least that share of the desired count.\<close>

lemma min_percent_ceiling:
  assumes "desired < 2 ^ 32" "p \<le> 100" "bud_policy b = Some (MinAvailable (Some (BPercent p)))"
  obtains m where "resolve_min_available b desired = Some m"
    "\<And>k. m \<le> k \<longleftrightarrow> desired * p \<le> k * 100" "m \<le> desired"
proof -
  define m where "m = (desired * p + 99) div 100"
  have "m < 2 ^ 32" unfolding m_def by (rule percent_u32[OF assms(1,2)])
  then have r: "resolve_min_available b desired = Some m"
    using assms by (simp add: resolve_min_available_def m_def)
  have k: "m \<le> k \<longleftrightarrow> desired * p \<le> k * 100" for k
    unfolding m_def by linarith
  moreover have "desired * p \<le> desired * 100" using assms(2) by simp
  ultimately show ?thesis using that r by simp
qed

lemma max_percent_floor:
  assumes "desired < 2 ^ 32" "p \<le> 100" "bud_policy b = Some (MaxUnavailable (Some (BPercent p)))"
  obtains m where "resolve_min_available b desired = Some m"
    "\<And>k. k \<le> desired \<Longrightarrow> m \<le> desired - k \<longleftrightarrow> k * 100 \<le> desired * p" "m \<le> desired"
proof -
  define u where "u = desired * p div 100"
  have "desired * p \<le> desired * 100" using assms(2) by simp
  then have u: "u \<le> desired" unfolding u_def by linarith
  then have "u mod 2 ^ 32 = u" using assms(1) by simp
  then have r: "resolve_min_available b desired = Some (desired - u)"
    using assms by (simp add: resolve_min_available_def u_def)
  have "desired - u \<le> desired - k \<longleftrightarrow> k * 100 \<le> desired * p" if "k \<le> desired" for k
    using that u unfolding u_def by linarith
  with that[OF r] show ?thesis by simp
qed

end
