(* ===== verification/DisruptionTheorems.thy ===== *)
theory DisruptionTheorems
  imports Examples Disruption
begin

text \<open>
  The properties of disruption budgets.
\<close>

definition ex_budget :: disruption_budget where
  "ex_budget = \<lparr>bud_policy = Some (MinAvailable (Some (BCount 1)))\<rparr>"

definition ex_spec :: workload_spec where
  "ex_spec =
     \<lparr>ws_tenant_id = ''t'', ws_workload_id = ''web'', ws_image = ''img'', ws_replicas = [(''r'', 2)],
      ws_pod_spec = None, ws_budgets = [(''r'', ex_budget)], ws_placement = 0, ws_autoscaling = None,
      ws_vertical = None, ws_rest = []\<rparr>"

text \<open>The example state with the spec's own bytes under the workload key, as the guard expects them.\<close>

definition ex_budget_db :: database where
  "ex_budget_db =
     (rp_db ex_state)\<lparr>db_data := (db_data (rp_db ex_state))(Kworkloads :=
        [(workload_key ''t'' ''web'', the (enc (c_spec PE) ex_spec))])\<rparr>"

definition ex_record :: workload_spec_record where
  "ex_record = \<lparr>wr_tenant_id = ''t'', wr_workload_id = ''web'', wr_spec_bytes = the (enc (c_spec PE) ex_spec),
     wr_last_applied = []\<rparr>"

lemma ex_spec_bytes: "enc (c_spec PE) ex_spec = Some (the (enc (c_spec PE) ex_spec))"
  "dec (c_spec PE) (the (enc (c_spec PE) ex_spec)) = Some ex_spec"
  using codec_ok_enc[OF proto_codecs(1)[OF postcard_env_ok], of ex_spec] by auto

lemma ex_budget_facts:
  "lookup ex_budget_db Kworkloads (workload_key ''t'' ''web'') = Some (the (enc (c_spec PE) ex_spec))"
  "db_read_fault ex_budget_db k = False"
  "placed PE ex_budget_db ''t'' ''web'' ''r'' = 2"
  using ex_healthy by (simp_all add: ex_budget_db_def db_healthy_def placed_def ex_placements ex_placement_def)





text \<open>A denial carries a usable allowance. Whenever the guard denies and reports more healthy pods
  than the floor, disrupting at most the difference is allowed, for every kind of disruption.\<close>

theorem denied_may_retry:
  assumes "allow_disruption E db t w r n k = Inl d" "dd_min_available d < dd_current_healthy d"
    and "m \<le> dd_current_healthy d - dd_min_available d"
  shows "allow_disruption E db t w r m k' = Inr ()"
  using budget.retry_below[of "(E, db)" t w r n k d m k'] assms by (simp add: is_ok_iff)

theorem denied_may_retry_witness:
  "\<exists>d. allow_disruption PE ex_budget_db ''t'' ''web'' ''r'' 2 TEviction = Inl d \<and>
     allow_disruption PE ex_budget_db ''t'' ''web'' ''r'' (dd_current_healthy d - dd_min_available d) TScaleDown = Inr ()"
proof -
  have d: "allow_disruption PE ex_budget_db ''t'' ''web'' ''r'' 2 TEviction = Inl (deny 1 2 2)"
    by (simp add: allow_cases ex_budget_facts budget_floor_def ex_spec_bytes(2))
      (simp add: ex_spec_def ex_budget_def resolve_min_available_def ex_budget_facts)
  show ?thesis using d denied_may_retry[OF d _ order_refl] by (simp add: deny_def)
qed


text \<open>The two ways to write a percentage budget are dual: keeping at least \<open>p\<close> percent available and
  allowing at most \<open>100 - p\<close> percent unavailable give the same floor, which is the least count not
  below \<open>p\<close> percent of the desired count.\<close>

theorem percent_budgets_dual:
  assumes "desired < 2 ^ 32" "p \<le> 100"
    and "bud_policy b = Some (MinAvailable (Some (BPercent p)))"
    and "bud_policy b' = Some (MaxUnavailable (Some (BPercent (100 - p))))"
  shows "\<exists>m. resolve_min_available b desired = Some m \<and> resolve_min_available b' desired = Some m \<and>
     m \<le> desired \<and> (\<forall>k. m \<le> k \<longleftrightarrow> desired * p \<le> k * 100)"
proof -
  obtain m where m: "resolve_min_available b desired = Some m" "m \<le> desired"
    and low: "\<And>k. m \<le> k \<longleftrightarrow> desired * p \<le> k * 100"
    using min_percent_ceiling[OF assms(1-3)] by blast
  have "100 - p \<le> 100" by simp
  from max_percent_floor[OF assms(1) this assms(4)]
  obtain m' where m': "resolve_min_available b' desired = Some m'" "m' \<le> desired"
    and up: "\<And>k. k \<le> desired \<Longrightarrow> m' \<le> desired - k \<longleftrightarrow> k * 100 \<le> desired * (100 - p)" by blast
  have split: "desired * p + desired * (100 - p) = desired * 100"
    using assms(2) by (metis add_diff_inverse_nat distrib_left not_le)
  have "m' \<le> k \<longleftrightarrow> m \<le> k" if "k \<le> desired" for k
    using up[of "desired - k"] low[of k] that split by (simp add: diff_mult_distrib) linarith
  then have "m' = m" using m(2) m'(2) by (metis le_antisym order_refl)
  with m m' low show ?thesis by blast
qed

theorem percent_budgets_dual_witness:
  "resolve_min_available \<lparr>bud_policy = Some (MinAvailable (Some (BPercent 50)))\<rparr> 5 =
   resolve_min_available \<lparr>bud_policy = Some (MaxUnavailable (Some (BPercent 50)))\<rparr> 5"
  using percent_budgets_dual[of 5 50 "\<lparr>bud_policy = Some (MinAvailable (Some (BPercent 50)))\<rparr>"
    "\<lparr>bud_policy = Some (MaxUnavailable (Some (BPercent 50)))\<rparr>"] by auto


text \<open>C17. The guard reads the stored record as if it were the spec. A stored record starts with the
  length of the tenant id, which for ids of one to seven bytes is no tag of a protocol-buffer
  field. For such a tenant, after a workload is submitted, every disruption of it is denied,
  whatever its spec says about budgets.\<close>

theorem submitted_workload_never_disrupted:
  assumes "env_ok E" "db_wf (rp_db s)" "apply_entry E td s e = (s', Inr r)"
    and "en_payload e = Normal a" "cmd a = SubmitWorkloadSpec rec"
    and tag_rule: "\<And>b bs. of_char b < (8 :: nat) \<Longrightarrow> dec (c_spec E) (b # bs) = None"
    and length_rule: "\<And>v. enc (c_workload E) rec = Some v \<Longrightarrow>
      v \<noteq> [] \<and> of_char (hd v) = length (wr_tenant_id rec)"
    and "length (wr_tenant_id rec) < 8"
  shows "\<forall>role n k. allow_disruption E (rp_db s') (wr_tenant_id rec) (wr_workload_id rec) role n k = Inl (deny 0 0 n)"
proof -
  obtain b kind where cmd: "apply_command E (rp_db s) (cmd a) = Inr (b, kind)" and
    look: "\<And>k key. k \<notin> {Kversion, Kraft_state, Kaudit_log} \<Longrightarrow>
      lookup (rp_db s') k key = batch_get b k key (lookup (rp_db s) k key)"
    using command_effect[OF assms(3,4,2)] by metis
  obtain v where v: "enc (c_workload E) rec = Some v"
    and b: "b = [Put Kworkloads (workload_key (wr_tenant_id rec) (wr_workload_id rec)) v]"
    using cmd
    by (auto simp: assms(5) apply_command_def apply_submit_workload_def insert_record_def to_allocvec_def
        result_simps)
  have "dec (c_spec E) v = None"
    using length_rule[OF v] assms(8) tag_rule[of "hd v" "tl v"] by (cases v) auto
  then show ?thesis
    using look[of Kworkloads "workload_key (wr_tenant_id rec) (wr_workload_id rec)"]
    by (simp add: b allow_cases budget_floor_def)
qed

theorem submitted_workload_never_disrupted_witness:
  "\<exists>s' r. apply_entry PE ''f'' ex_state (ex_entry 7 (SubmitWorkloadSpec ex_record)) = (s', Inr r) \<and>
     allow_disruption PE (rp_db s') ''t'' ''web'' ''r'' 0 TEviction = Inl (deny 0 0 0)"
proof -
  have "self_addressed PE (SubmitWorkloadSpec ex_record)" "\<not> raw_scheduler_write (SubmitWorkloadSpec ex_record)"
    by (simp_all add: self_addressed_def raw_scheduler_write_def)
  then obtain s' r where run: "apply_entry PE ''f'' ex_state (ex_entry 7 (SubmitWorkloadSpec ex_record)) = (s', Inr r)"
    by (rule ex_step)
  have tag: "dec (c_spec PE) (b # bs) = None" if "of_char b < (8 :: nat)" for b bs
    using that by (auto simp: postcard_env_def tagged_codec_of_def)
  have len: "v \<noteq> [] \<and> of_char (hd v) = length (wr_tenant_id ex_record)" if "enc (c_workload PE) ex_record = Some v" for v
    using that by (auto simp: postcard_env_def pc_workload_spec_record_def ex_record_def pc_iso_def pc_pair_def pc_str_def varint.simps)
  have "length (wr_tenant_id ex_record) < 8" by (simp add: ex_record_def)
  from submitted_workload_never_disrupted[OF postcard_env_ok ex_wf run ex_payload ex_cmd tag len this] run
  show ?thesis by (simp add: ex_record_def)
qed

end
