(* ===== verification/DummyIp.thy ===== *)
theory DummyIp
  imports Lifecycle "HOL-Library.Word"
begin

text \<open>
  Dummy addresses (\<open>dummy_ip/allocator.rs\<close>): blocks of the 240.0.0.0/4 space for tenants, and one
  address per service and role inside the tenant's block. The allocator only computes; the commands
  that store its results are those of the state machine.
\<close>


section \<open>Operations\<close>

datatype dummy_ip_error =
    Tenant_space_exhausted
  | Service_space_exhausted string
  | Tenant_not_found string
  | Tenant_already_allocated string
  | Invalid_prefix_length nat
  | Dummy_ip_storage storage_error
  | Dummy_ip_serialization
  | Dummy_ip_panic

definition dummy_space_base :: "32 word" where
  "dummy_space_base = 0xF0000000"

definition dummy_space_prefix :: nat where
  "dummy_space_prefix = 4"

definition new_allocator :: "nat \<Rightarrow> dummy_ip_error + nat" where
  "new_allocator tenant_block_prefix =
     (if tenant_block_prefix \<le> dummy_space_prefix \<or> tenant_block_prefix > 32
      then Inl (Invalid_prefix_length tenant_block_prefix) else Inr tenant_block_prefix)"

definition max_hosts :: "tenant_block \<Rightarrow> nat" where
  "max_hosts b = unat (push_bit (32 - tb_prefix b) (1 :: 32 word))"

definition max_tenant_blocks :: "nat \<Rightarrow> nat" where
  "max_tenant_blocks p = unat (push_bit (p - dummy_space_prefix) (1 :: 32 word))"

definition block_base :: "nat \<Rightarrow> nat \<Rightarrow> nat" where
  "block_base p i = unat (dummy_space_base + push_bit (32 - p) (word_of_nat i :: 32 word))"

text \<open>The index of a stored block, recovered from its base; the subtraction wraps.\<close>

definition block_index :: "nat \<Rightarrow> nat \<Rightarrow> nat" where
  "block_index p base = unat (drop_bit (32 - p) (word_of_nat base - dummy_space_base :: 32 word))"

definition dip_read :: "database \<Rightarrow> bytes \<Rightarrow> dummy_ip_error + bytes option" where
  "dip_read db key = map_err (\<lambda>e. Dummy_ip_storage (Storage_error e)) (kv_get db Kdummy_ips key)"

definition get_tenant_block :: "env \<Rightarrow> database \<Rightarrow> string \<Rightarrow> dummy_ip_error + tenant_block option" where
  "get_tenant_block E db t =
     bindE (dip_read db (tenant_block_key t)) (\<lambda>v.
       case v of
         None \<Rightarrow> Inr None
       | Some b \<Rightarrow> bindE (ok_or Dummy_ip_serialization (dec (c_block E) b)) (\<lambda>x. Inr (Some x)))"

definition get_service_address ::
  "env \<Rightarrow> database \<Rightarrow> string \<Rightarrow> string \<Rightarrow> string \<Rightarrow> dummy_ip_error + service_address option" where
  "get_service_address E db t s r =
     bindE (dip_read db (service_address_key t s r)) (\<lambda>v.
       case v of
         None \<Rightarrow> Inr None
       | Some b \<Rightarrow> bindE (ok_or Dummy_ip_serialization (dec (c_address E) b)) (\<lambda>x. Inr (Some x)))"

text \<open>Blocks that do not decode are skipped.\<close>

definition used_block_indices :: "env \<Rightarrow> nat \<Rightarrow> database \<Rightarrow> dummy_ip_error + nat list" where
  "used_block_indices E p db =
     bindE (map_err (\<lambda>e. Dummy_ip_storage (Storage_error e)) (kv_prefix db Kdummy_ips ''tenant:'')) (\<lambda>kvs.
       Inr (map (\<lambda>b. block_index p (tb_base b)) (decode_all (c_block E) kvs)))"

definition compute_tenant_block_allocation ::
  "env \<Rightarrow> nat \<Rightarrow> database \<Rightarrow> string \<Rightarrow> dummy_ip_error + tenant_block" where
  "compute_tenant_block_allocation E p db t =
     bindE (get_tenant_block E db t) (\<lambda>old.
       if old \<noteq> None then Inl (Tenant_already_allocated t)
       else
         bindE (used_block_indices E p db) (\<lambda>used.
         bindE (ok_or Tenant_space_exhausted (find (\<lambda>i. i \<notin> set used) [0..<max_tenant_blocks p])) (\<lambda>i.
           Inr \<lparr>tb_tenant_id = t, tb_base = block_base p i, tb_prefix = p, tb_next_offset = 0\<rparr>)))"

text \<open>An address that exists is returned with the tenant's block, whose absence is a panic.\<close>

definition compute_service_address_allocation ::
  "env \<Rightarrow> database \<Rightarrow> string \<Rightarrow> string \<Rightarrow> string \<Rightarrow> dummy_ip_error + tenant_block \<times> service_address" where
  "compute_service_address_allocation E db t s r =
     bindE (get_service_address E db t s r) (\<lambda>existing.
       case existing of
         Some a \<Rightarrow>
           bindE (get_tenant_block E db t) (\<lambda>block.
             case block of None \<Rightarrow> Inl Dummy_ip_panic | Some b \<Rightarrow> Inr (b, a))
       | None \<Rightarrow>
           bindE (get_tenant_block E db t) (\<lambda>block.
           bindE (ok_or (Tenant_not_found t) block) (\<lambda>b.
             if tb_next_offset b \<ge> max_hosts b then Inl (Service_space_exhausted t)
             else
               Inr (b\<lparr>tb_next_offset := (tb_next_offset b + 1) mod 2 ^ 32\<rparr>,
                    \<lparr>sa_tenant_id = t, sa_service = s, sa_role = r,
                     sa_address = (tb_base b + tb_next_offset b) mod 2 ^ 32\<rparr>))))"


section \<open>Block arithmetic\<close>

definition valid_prefix :: "nat \<Rightarrow> bool" where
  "valid_prefix p \<longleftrightarrow> 4 < p \<and> p \<le> 32"

lemma new_allocator_valid: "new_allocator n = Inr p \<longleftrightarrow> p = n \<and> valid_prefix p"
  by (auto simp: new_allocator_def valid_prefix_def dummy_space_prefix_def)

lemma unat_two_power:
  assumes "n < 32"
  shows "unat (2 ^ n :: 32 word) = 2 ^ n"
proof -
  have "(2 ^ n :: 32 word) = word_of_nat (2 ^ n)" by simp
  moreover have "(2 :: nat) ^ n < 2 ^ 32" using assms by (intro power_strict_increasing) simp_all
  ultimately show ?thesis by (simp only: unat_of_nat) simp
qed

lemma max_tenant_blocks_eq: "valid_prefix p \<Longrightarrow> max_tenant_blocks p = 2 ^ (p - 4)"
  by (auto simp: max_tenant_blocks_def unat_two_power valid_prefix_def dummy_space_prefix_def)

lemma max_hosts_eq: "valid_prefix (tb_prefix b) \<Longrightarrow> max_hosts b = 2 ^ (32 - tb_prefix b)"
  by (auto simp: max_hosts_def unat_two_power valid_prefix_def)

lemma block_span:
  fixes i :: nat
  assumes "valid_prefix p" "i < 2 ^ (p - 4)"
  shows "i * 2 ^ (32 - p) + 2 ^ (32 - p) \<le> 2 ^ 28"
proof -
  have "(i + 1) * 2 ^ (32 - p) \<le> 2 ^ (p - 4) * 2 ^ (32 - p)" using assms(2) by (intro mult_right_mono) simp_all
  also have "\<dots> = 2 ^ 28" using assms(1) by (simp add: valid_prefix_def flip: power_add)
  finally show ?thesis by simp
qed

lemma block_offset:
  fixes i :: nat
  assumes "valid_prefix p" "i < 2 ^ (p - 4)"
  shows "i * 2 ^ (32 - p) < 2 ^ 28"
proof -
  have "(0 :: nat) < 2 ^ (32 - p)" by simp
  then show ?thesis using block_span[OF assms] by linarith
qed

lemma block_base_eq:
  assumes "valid_prefix p" "i < 2 ^ (p - 4)"
  shows "block_base p i = 0xF0000000 + i * 2 ^ (32 - p)"
proof -
  have "block_base p i = unat (word_of_nat (0xF0000000 + i * 2 ^ (32 - p)) :: 32 word)"
    by (simp add: block_base_def dummy_space_base_def push_bit_eq_mult)
  then show ?thesis using block_offset[OF assms] by (simp only: unat_of_nat) simp
qed

lemma block_index_base:
  assumes "valid_prefix p" "i < 2 ^ (p - 4)"
  shows "block_index p (block_base p i) = i"
proof -
  define h where "h = 32 - p"
  have "i * 2 ^ h < 2 ^ 32" using block_offset[OF assms] by (simp add: h_def)
  then have u: "unat (word_of_nat (i * 2 ^ h) :: 32 word) = i * 2 ^ h" by (simp only: unat_of_nat) simp
  have "h < 32" using assms(1) by (simp add: h_def valid_prefix_def)
  then have v: "unat (2 ^ h :: 32 word) = 2 ^ h" by (rule unat_two_power)
  have "word_of_nat (block_base p i) - dummy_space_base = (word_of_nat (i * 2 ^ h) :: 32 word)"
    by (simp add: block_base_eq[OF assms] dummy_space_base_def h_def)
  then have "block_index p (block_base p i) = unat (word_of_nat (i * 2 ^ h) div 2 ^ h :: 32 word)"
    by (simp only: block_index_def drop_bit_eq_div h_def)
  also have "\<dots> = i * 2 ^ h div 2 ^ h" by (simp only: unat_div u v)
  finally show ?thesis by simp
qed

text \<open>Blocks of different indices have no address in common.\<close>

lemma blocks_disjoint:
  assumes "valid_prefix p" "i < 2 ^ (p - 4)" "j < 2 ^ (p - 4)"
    and "block_base p i + x = block_base p j + y" "x < 2 ^ (32 - p)" "y < 2 ^ (32 - p)"
  shows "i = j \<and> x = y"
proof -
  have "i * 2 ^ (32 - p) + x = j * 2 ^ (32 - p) + y"
    using assms(4) block_base_eq[OF assms(1,2)] block_base_eq[OF assms(1,3)] by simp
  moreover have "i = (i * 2 ^ (32 - p) + x) div 2 ^ (32 - p)" using assms(5) by simp
  moreover have "j = (j * 2 ^ (32 - p) + y) div 2 ^ (32 - p)" using assms(6) by simp
  ultimately have "i = j" by simp
  with \<open>i * 2 ^ (32 - p) + x = j * 2 ^ (32 - p) + y\<close> show ?thesis by simp
qed


section \<open>The allocation invariant\<close>

definition block_at :: "env \<Rightarrow> database \<Rightarrow> string \<Rightarrow> tenant_block option" where
  "block_at E db t = record_at (c_block E) db Kdummy_ips (tenant_block_key t)"

definition address_at :: "env \<Rightarrow> database \<Rightarrow> bytes \<Rightarrow> service_address option" where
  "address_at E db key =
     (if prefix ''service:'' key then record_at (c_address E) db Kdummy_ips key else None)"

abbreviation own_key :: "service_address \<Rightarrow> bytes" where
  "own_key a \<equiv> service_address_key (sa_tenant_id a) (sa_service a) (sa_role a)"

text \<open>
  Every block is one of the blocks of the space and no two tenants share one; every address lies in
  the used part of its tenant's block and no two keys share one.
\<close>

definition alloc_inv ::
  "nat \<Rightarrow> (string \<Rightarrow> tenant_block option) \<Rightarrow> (bytes \<Rightarrow> service_address option) \<Rightarrow> bool" where
  "alloc_inv p B A \<longleftrightarrow>
     (\<forall>t b. B t = Some b \<longrightarrow> tb_tenant_id b = t \<and> tb_prefix b = p \<and> tb_next_offset b \<le> 2 ^ (32 - p) \<and>
        (\<exists>i < 2 ^ (p - 4). tb_base b = block_base p i)) \<and>
     (\<forall>t u b c. B t = Some b \<longrightarrow> B u = Some c \<longrightarrow> tb_base b = tb_base c \<longrightarrow> t = u) \<and>
     (\<forall>k a. A k = Some a \<longrightarrow> own_key a = k \<and> (\<exists>b x. B (sa_tenant_id a) = Some b \<and>
        x < tb_next_offset b \<and> sa_address a = tb_base b + x)) \<and>
     (\<forall>k l a c. A k = Some a \<longrightarrow> A l = Some c \<longrightarrow> sa_address a = sa_address c \<longrightarrow> k = l)"

lemma alloc_invD:
  assumes "alloc_inv p B A"
  shows "B t = Some b \<Longrightarrow> tb_tenant_id b = t \<and> tb_prefix b = p \<and> tb_next_offset b \<le> 2 ^ (32 - p)"
    and "B t = Some b \<Longrightarrow> \<exists>i < 2 ^ (p - 4). tb_base b = block_base p i"
    and "B t = Some b \<Longrightarrow> B u = Some c \<Longrightarrow> tb_base b = tb_base c \<Longrightarrow> t = u"
    and "A k = Some a \<Longrightarrow> own_key a = k"
    and "A k = Some a \<Longrightarrow> \<exists>b x. B (sa_tenant_id a) = Some b \<and> x < tb_next_offset b \<and> sa_address a = tb_base b + x"
    and "A k = Some a \<Longrightarrow> A l = Some d \<Longrightarrow> sa_address a = sa_address d \<Longrightarrow> k = l"
  using assms unfolding alloc_inv_def by blast+

lemma alloc_inv_empty: "alloc_inv p (\<lambda>_. None) (\<lambda>_. None)"
  by (simp add: alloc_inv_def)

lemma alloc_inv_tenant:
  assumes inv: "alloc_inv p B A" and t: "B t = None"
    and b: "b = \<lparr>tb_tenant_id = t, tb_base = block_base p i, tb_prefix = p, tb_next_offset = 0\<rparr>" "i < 2 ^ (p - 4)"
    and new: "\<And>u c. B u = Some c \<Longrightarrow> tb_base c \<noteq> block_base p i"
  shows "alloc_inv p (B(t \<mapsto> b)) A"
proof -
  note D = alloc_invD[OF inv]
  have keep: "sa_tenant_id a \<noteq> t" if "A k = Some a" for k a using D(5)[OF that] t by auto
  show ?thesis
    unfolding alloc_inv_def
  proof (intro conjI allI impI)
    show "t' = u" if "(B(t \<mapsto> b)) t' = Some c" "(B(t \<mapsto> b)) u = Some d" "tb_base c = tb_base d" for t' u c d
      using that D(3)[of t' c u d] new[of u d] new[of t' c] b by (auto split: if_splits)
    show "\<exists>c x. (B(t \<mapsto> b)) (sa_tenant_id a) = Some c \<and> x < tb_next_offset c \<and> sa_address a = tb_base c + x"
      if "A k = Some a" for k a using D(5)[OF that] keep[OF that] by auto
  qed (use D b in \<open>auto split: if_splits\<close>)
qed

lemma alloc_inv_service:
  assumes inv: "alloc_inv p B A" and p: "valid_prefix p" and bt: "B t = Some b"
    and room: "tb_next_offset b < 2 ^ (32 - p)"
    and b': "b' = b\<lparr>tb_next_offset := tb_next_offset b + 1\<rparr>"
    and a: "own_key a = k" "sa_tenant_id a = t" "sa_address a = tb_base b + tb_next_offset b"
  shows "alloc_inv p (B(t \<mapsto> b')) (A(k \<mapsto> a))"
proof -
  note D = alloc_invD[OF inv]
  have block: "tb_tenant_id b = t" "tb_prefix b = p" using D(1)[OF bt] by auto
  have fresh: "sa_address c \<noteq> tb_base b + tb_next_offset b" if hit: "A l = Some c" for l c
  proof
    assume eq: "sa_address c = tb_base b + tb_next_offset b"
    obtain d x where d: "B (sa_tenant_id c) = Some d" "x < tb_next_offset d" "sa_address c = tb_base d + x"
      using D(5)[OF hit] by blast
    obtain i j where i: "i < 2 ^ (p - 4)" "tb_base b = block_base p i"
      and j: "j < 2 ^ (p - 4)" "tb_base d = block_base p j" using D(2)[OF bt] D(2)[OF d(1)] by blast
    have "x < 2 ^ (32 - p)" using d(2) D(1)[OF d(1)] by linarith
    with blocks_disjoint[OF p j(1) i(1), of x "tb_next_offset b"] eq d(3) i(2) j(2) room
    have "j = i" "x = tb_next_offset b" by simp_all
    then have "d = b" using D(3)[OF d(1) bt] i(2) j(2) d(1) bt by auto
    with \<open>x = tb_next_offset b\<close> d(2) show False by simp
  qed
  show ?thesis
    unfolding alloc_inv_def
  proof (intro conjI allI impI)
    show "\<exists>c x. (B(t \<mapsto> b')) (sa_tenant_id c') = Some c \<and> x < tb_next_offset c \<and> sa_address c' = tb_base c + x"
      if c: "(A(k \<mapsto> a)) l = Some c'" for l c'
    proof (cases "l = k")
      case False
      with c obtain d x where "B (sa_tenant_id c') = Some d" "x < tb_next_offset d" "sa_address c' = tb_base d + x"
        using D(5)[of l c'] by auto
      then show ?thesis using bt b' by (cases "sa_tenant_id c' = t") auto
    qed (use c a b' in auto)
    show "t' = u" if "(B(t \<mapsto> b')) t' = Some c" "(B(t \<mapsto> b')) u = Some d" "tb_base c = tb_base d" for t' u c d
      using that D(3)[OF bt, of u d] D(3)[of t' c, OF _ bt] D(3)[of t' c u d] b' by (auto split: if_splits)
    show "l = m" if "(A(k \<mapsto> a)) l = Some c" "(A(k \<mapsto> a)) m = Some d" "sa_address c = sa_address d" for l m c d
      using that D(6)[of l c m d] fresh[of l c] fresh[of m d] a(3) by (auto split: if_splits)
    show "\<exists>i<2 ^ (p - 4). tb_base c = block_base p i" if "(B(t \<mapsto> b')) u = Some c" for u c
      using that D(2)[OF bt] D(2) b' by (auto split: if_splits)
  qed (use D(1,4) bt b' block room a(1) in \<open>auto split: if_splits\<close>)
qed


section \<open>What the computations return\<close>

definition dummy_inv :: "env \<Rightarrow> nat \<Rightarrow> database \<Rightarrow> bool" where
  "dummy_inv E p db \<longleftrightarrow> alloc_inv p (block_at E db) (address_at E db)"

lemma tenant_key_no_address [simp]: "\<not> prefix ''service:'' (tenant_block_key t)"
  by (simp add: tenant_block_key_def)

lemma tenant_key_prefix [simp]: "prefix ''tenant:'' (tenant_block_key t)"
  by (simp add: tenant_block_key_def)

lemma address_key_prefix [simp]: "prefix ''service:'' (service_address_key t s r)"
  by (simp add: service_address_key_def)

lemma key_kinds_differ [simp]: "tenant_block_key t \<noteq> service_address_key u s r"
  by (simp add: tenant_block_key_def service_address_key_def)

lemma tenant_block_key_inj [simp]: "tenant_block_key t = tenant_block_key u \<longleftrightarrow> t = u"
  by (simp add: tenant_block_key_def)

lemma get_tenant_block_Inr:
  "get_tenant_block E db t = Inr x \<longleftrightarrow>
     \<not> db_read_fault db Kdummy_ips \<and>
     (case lookup db Kdummy_ips (tenant_block_key t) of
        None \<Rightarrow> x = None | Some v \<Rightarrow> \<exists>b. dec (c_block E) v = Some b \<and> x = Some b)"
  by (auto simp: get_tenant_block_def dip_read_def result_simps kv_get_Inr split: option.splits)

lemma get_service_address_Inr:
  "get_service_address E db t s r = Inr x \<longleftrightarrow>
     \<not> db_read_fault db Kdummy_ips \<and>
     (case lookup db Kdummy_ips (service_address_key t s r) of
        None \<Rightarrow> x = None | Some v \<Rightarrow> \<exists>a. dec (c_address E) v = Some a \<and> x = Some a)"
  by (auto simp: get_service_address_def dip_read_def result_simps kv_get_Inr split: option.splits)

lemma used_iff:
  assumes "db_wf db" "used_block_indices E p db = Inr used"
  shows "j \<in> set used \<longleftrightarrow> (\<exists>t b. block_at E db t = Some b \<and> block_index p (tb_base b) = j)"
proof -
  let ?kvs = "filter (\<lambda>(key, _). prefix ''tenant:'' key) (db_data db Kdummy_ips)"
  have "b \<in> set (decode_all (c_block E) ?kvs) \<longleftrightarrow> (\<exists>t. block_at E db t = Some b)" for b
  proof
    assume "b \<in> set (decode_all (c_block E) ?kvs)"
    then obtain k v where kv: "(k, v) \<in> set (db_data db Kdummy_ips)" "prefix ''tenant:'' k" "dec (c_block E) v = Some b"
      by (auto simp: in_decode_all)
    then obtain t where "k = tenant_block_key t" by (auto simp only: tenant_block_key_def prefix_def)
    then have "block_at E db t = Some b"
      using kv(1,3) assms(1) by (simp add: block_at_def record_at_Some db_wf_def om_mem_get)
    then show "\<exists>t. block_at E db t = Some b" ..
  next
    assume "\<exists>t. block_at E db t = Some b"
    then obtain t v where "(tenant_block_key t, v) \<in> set (db_data db Kdummy_ips)" "dec (c_block E) v = Some b"
      using assms(1) by (auto simp: block_at_def record_at_Some db_wf_def om_mem_get)
    then show "b \<in> set (decode_all (c_block E) ?kvs)"
      unfolding in_decode_all by (intro exI[of _ "tenant_block_key t"] exI[of _ v]) simp
  qed
  moreover have "used = map (\<lambda>b. block_index p (tb_base b)) (decode_all (c_block E) ?kvs)"
    using assms(2) by (auto simp: used_block_indices_def result_simps kv_prefix_Inr)
  ultimately show ?thesis by (simp add: image_iff Bex_def) metis
qed

lemma compute_tenant_Inr:
  assumes "db_wf db" "valid_prefix p" "compute_tenant_block_allocation E p db t = Inr b"
  obtains i where "lookup db Kdummy_ips (tenant_block_key t) = None" "i < 2 ^ (p - 4)"
    "b = \<lparr>tb_tenant_id = t, tb_base = block_base p i, tb_prefix = p, tb_next_offset = 0\<rparr>"
    "\<And>u c. block_at E db u = Some c \<Longrightarrow> tb_base c \<noteq> block_base p i"
    "\<And>j. j < i \<Longrightarrow> \<exists>u c. block_at E db u = Some c \<and> block_index p (tb_base c) = j"
proof -
  obtain used i where old: "get_tenant_block E db t = Inr None"
    and used: "used_block_indices E p db = Inr used"
    and i: "find (\<lambda>i. i \<notin> set used) [0..<max_tenant_blocks p] = Some i"
    and b: "b = \<lparr>tb_tenant_id = t, tb_base = block_base p i, tb_prefix = p, tb_next_offset = 0\<rparr>"
    using assms(3) by (auto simp: compute_tenant_block_allocation_def result_simps split: if_splits)
  from i have range: "i < 2 ^ (p - 4)" "i \<notin> set used" and least: "\<And>j. j < i \<Longrightarrow> j \<in> set used"
    by (auto simp: find_Some_iff max_tenant_blocks_eq[OF assms(2)])
  show ?thesis
  proof (rule that[OF _ range(1) b])
    show "lookup db Kdummy_ips (tenant_block_key t) = None"
      using old by (auto simp: get_tenant_block_Inr split: option.splits)
    show "tb_base c \<noteq> block_base p i" if "block_at E db u = Some c" for u c
      using that range(2) block_index_base[OF assms(2) range(1)] used_iff[OF assms(1) used, of i] by metis
    show "\<exists>u c. block_at E db u = Some c \<and> block_index p (tb_base c) = j" if "j < i" for j
      using least[OF that] used_iff[OF assms(1) used] by blast
  qed
qed

lemma compute_service_Inr:
  assumes "compute_service_address_allocation E db t s r = Inr (b', a)"
  shows "(\<exists>b. block_at E db t = Some b \<and>
     (if lookup db Kdummy_ips (service_address_key t s r) = None
      then tb_next_offset b < max_hosts b \<and> b' = b\<lparr>tb_next_offset := (tb_next_offset b + 1) mod 2 ^ 32\<rparr> \<and>
        a = \<lparr>sa_tenant_id = t, sa_service = s, sa_role = r, sa_address = (tb_base b + tb_next_offset b) mod 2 ^ 32\<rparr>
      else b' = b \<and> address_at E db (service_address_key t s r) = Some a))"
  using assms
  by (auto simp: compute_service_address_allocation_def result_simps get_service_address_Inr get_tenant_block_Inr
      block_at_def address_at_def record_at_def split: option.splits if_splits)


section \<open>Entries whose allocation was computed on the state they reach\<close>

definition computed_here :: "env \<Rightarrow> nat \<Rightarrow> database \<Rightarrow> fleetos_command \<Rightarrow> bool" where
  "computed_here E p db c =
     (case c of
        CreateTenant r b \<Rightarrow> compute_tenant_block_allocation E p db (tr_tenant_id r) = Inr b
      | AllocateTenantBlock b \<Rightarrow> compute_tenant_block_allocation E p db (tb_tenant_id b) = Inr b
      | AllocateServiceAddress b a \<Rightarrow>
          (\<exists>t s r. compute_service_address_allocation E db t s r = Inr (b, a))
      | ApplyManifests us \<Rightarrow> list_all (\<lambda>u. mu_target_keyspace u \<noteq> ''dummy_ips'') us
      | _ \<Rightarrow> True)"

inductive allocating :: "env \<Rightarrow> string \<Rightarrow> nat \<Rightarrow> replica \<Rightarrow> bool" for E td p where
  alloc_start: "allocating E td p (start_replica empty_db)"
| alloc_entry: "allocating E td p s \<Longrightarrow> apply_entry E td s e = (s', Inr r) \<Longrightarrow>
    (\<And>a. en_payload e = Normal a \<Longrightarrow> computed_here E p (rp_db s) (cmd a)) \<Longrightarrow> allocating E td p s'"

text \<open>The commands that may write dummy addresses.\<close>

fun dummy_command :: "fleetos_command \<Rightarrow> bool" where
  "dummy_command (CreateTenant _ _) = True"
| "dummy_command (AllocateTenantBlock _) = True"
| "dummy_command (AllocateServiceAddress _ _) = True"
| "dummy_command (ApplyManifests us) = list_ex (\<lambda>u. mu_target_keyspace u = ''dummy_ips'') us"
| "dummy_command _ = False"

lemma revoke_ops_no_dummy: "x \<in> set (revoke_ops E kv) \<Longrightarrow> fst (op_target x) \<noteq> Kdummy_ips"
  by (auto simp: revoke_ops_def Let_def split: option.splits)

lemma released_ops_no_dummy:
  assumes "mapE (release_placement E t w) ps = Inr ops" "xs \<in> set ops" "x \<in> set xs"
  shows "fst (op_target x) \<noteq> Kdummy_ips"
  using assms(2,3) by (auto simp: mapE_mem[OF assms(1)] sm_Inr)

lemma manifest_dummy: "manifest_keyspace n = Some Kdummy_ips \<longleftrightarrow> n = ''dummy_ips''"
  by (auto simp: manifest_keyspace_def)

lemma apply_command_no_dummy:
  assumes "apply_command E db c = Inr (b, kind)" "x \<in> set b" "\<not> dummy_command c"
  shows "fst (op_target x) \<noteq> Kdummy_ips"
proof (cases c)
  case (DeleteWorkload t w)
  with assms show ?thesis
    by (auto simp: apply_command_def arm_defs result_simps Let_def dest: released_ops_no_dummy)
next
  case (ScaleWorkload r)
  with assms show ?thesis
    by (auto simp: apply_command_def arm_defs result_simps Let_def dest: released_ops_no_dummy)
next
  case (EvictNode n e)
  with assms show ?thesis
    by (auto simp: apply_command_def arm_defs result_simps Let_def dest: revoke_ops_no_dummy)
next
  case (ApplyManifests us)
  with assms obtain u k where "u \<in> set us" "manifest_keyspace (mu_target_keyspace u) = Some k"
    "x = Put k (mu_target_key u) (mu_new_record u)"
    by (auto simp: apply_command_def apply_manifests_def in_map_filter)
  then show ?thesis using assms(3) ApplyManifests manifest_dummy by (auto simp: list_ex_iff)
qed (use assms in \<open>auto simp: apply_command_def arm_defs result_simps sm_Inr Let_def
  split: option.splits if_splits\<close>)

text \<open>Entries that carry no command leave the application keyspaces alone.\<close>

lemma silent_entry:
  assumes run: "apply_entry E td s e = (s', Inr r)" and p: "\<And>a. en_payload e \<noteq> Normal a"
    and wf: "db_wf (rp_db s)" and k: "k \<notin> {Kversion, Kraft_state, Kaudit_log}"
  shows "lookup (rp_db s') k key = lookup (rp_db s) k key"
proof -
  obtain ops kind lid aud where
    ops: "apply_payload E (rp_db s) (en_log_id e) (en_payload e) = Inr (ops, kind)" and
    aud: "audit_ops E (allocate_version (rp_version s)) (en_payload e) = Inr aud" and
    c: "kv_commit (rp_db s) (ops @ [Put Kraft_state ''last_applied'' lid] @
          persist_version (allocate_version (rp_version s)) @ aud) = Inr (rp_db s')"
    using run by (auto simp: apply_entry_Inr)
  have "batch_get ops k key old = old" for old
    using ops p k by (auto simp: apply_payload_def insert_record_Inr split: entry_payload.splits)
  then show ?thesis
    using aud p k
    by (auto simp: kv_commit_lookup[OF c wf] batch_get_append persist_version_def audit_ops_Inr
        split: entry_payload.splits)
qed

lemma dummy_frame:
  assumes "apply_entry E td s e = (s', Inr r)" "db_wf (rp_db s)"
    and "\<And>a. en_payload e = Normal a \<Longrightarrow> \<not> dummy_command (cmd a)"
  shows "lookup (rp_db s') Kdummy_ips key = lookup (rp_db s) Kdummy_ips key"
proof (cases "\<exists>a. en_payload e = Normal a")
  case True
  then obtain a where a: "en_payload e = Normal a" ..
  obtain b kind where cmd: "apply_command E (rp_db s) (cmd a) = Inr (b, kind)"
    and look: "\<And>k key. k \<notin> {Kversion, Kraft_state, Kaudit_log} \<Longrightarrow>
      lookup (rp_db s') k key = batch_get b k key (lookup (rp_db s) k key)"
    using command_effect[OF assms(1) a assms(2)] by metis
  have "(Kdummy_ips, key) \<notin> op_target ` set b"
    using apply_command_no_dummy[OF cmd _ assms(3)[OF a]] by (metis fst_conv imageE)
  then show ?thesis using look[of Kdummy_ips key] by (simp add: batch_get_untouched)
qed (use silent_entry[OF assms(1) _ assms(2)] in simp)

lemma dummy_inv_cong:
  assumes "\<And>key. lookup db' Kdummy_ips key = lookup db Kdummy_ips key"
  shows "dummy_inv E p db' = dummy_inv E p db"
proof -
  have "block_at E db' = block_at E db" "address_at E db' = address_at E db"
    by (simp_all add: fun_eq_iff block_at_def address_at_def record_at_def assms)
  then show ?thesis by (simp add: dummy_inv_def)
qed

lemma put_block:
  assumes "\<And>key. lookup db' Kdummy_ips key = (if key = tenant_block_key t then Some v else lookup db Kdummy_ips key)"
    and "dec (c_block E) v = Some b"
  shows "block_at E db' = (block_at E db)(t \<mapsto> b) \<and> address_at E db' = address_at E db"
  using assms(2) by (auto simp: fun_eq_iff block_at_def address_at_def record_at_def assms(1))

lemma put_address:
  assumes "\<And>key. lookup db' Kdummy_ips key =
      (if key = own_key a then Some w else if key = tenant_block_key t then Some v else lookup db Kdummy_ips key)"
    and "dec (c_block E) v = Some b" "dec (c_address E) w = Some a"
  shows "block_at E db' = (block_at E db)(t \<mapsto> b) \<and> address_at E db' = (address_at E db)(own_key a \<mapsto> a)"
  using assms(2,3) by (auto simp: fun_eq_iff block_at_def address_at_def record_at_def assms(1) key_kinds_differ[symmetric])

text \<open>The arithmetic of a new address does not wrap.\<close>

lemma next_address:
  assumes inv: "alloc_inv p B A" and p: "valid_prefix p" and b: "B t = Some b" and room: "tb_next_offset b < max_hosts b"
  shows "tb_next_offset b < 2 ^ (32 - p)" "(tb_next_offset b + 1) mod 2 ^ 32 = tb_next_offset b + 1"
    "(tb_base b + tb_next_offset b) mod 2 ^ 32 = tb_base b + tb_next_offset b"
proof -
  note D = alloc_invD[OF inv]
  have "tb_prefix b = p" using D(1)[OF b] by simp
  with room p show r: "tb_next_offset b < 2 ^ (32 - p)" by (simp add: max_hosts_eq)
  obtain i where i: "i < 2 ^ (p - 4)" "tb_base b = 0xF0000000 + i * 2 ^ (32 - p)"
    using D(2)[OF b] block_base_eq[OF p] by auto
  have "i * 2 ^ (32 - p) + tb_next_offset b < 2 ^ 28" using block_span[OF p i(1)] r by linarith
  with i(2) show "(tb_base b + tb_next_offset b) mod 2 ^ 32 = tb_base b + tb_next_offset b"
    "(tb_next_offset b + 1) mod 2 ^ 32 = tb_next_offset b + 1" by simp_all
qed

lemma service_step:
  assumes inv: "dummy_inv E p db" and p: "valid_prefix p"
    and c: "compute_service_address_allocation E db t s r = Inr (b', a)"
    and put: "block_at E db' = (block_at E db)(tb_tenant_id b' \<mapsto> b')"
      "address_at E db' = (address_at E db)(own_key a \<mapsto> a)"
  shows "dummy_inv E p db'"
proof -
  note D = alloc_invD[OF inv[unfolded dummy_inv_def]]
  obtain b where b: "block_at E db t = Some b" and
    cs: "if lookup db Kdummy_ips (service_address_key t s r) = None
      then tb_next_offset b < max_hosts b \<and> b' = b\<lparr>tb_next_offset := (tb_next_offset b + 1) mod 2 ^ 32\<rparr> \<and>
        a = \<lparr>sa_tenant_id = t, sa_service = s, sa_role = r, sa_address = (tb_base b + tb_next_offset b) mod 2 ^ 32\<rparr>
      else b' = b \<and> address_at E db (service_address_key t s r) = Some a"
    using compute_service_Inr[OF c] by blast
  have bt: "tb_tenant_id b = t" using D(1)[OF b] by simp
  show ?thesis
  proof (cases "lookup db Kdummy_ips (service_address_key t s r) = None")
    case True
    with cs have room: "tb_next_offset b < max_hosts b" and b': "b' = b\<lparr>tb_next_offset := (tb_next_offset b + 1) mod 2 ^ 32\<rparr>"
      and a: "a = \<lparr>sa_tenant_id = t, sa_service = s, sa_role = r, sa_address = (tb_base b + tb_next_offset b) mod 2 ^ 32\<rparr>"
      by simp_all
    note n = next_address[OF inv[unfolded dummy_inv_def] p b room]
    have "alloc_inv p ((block_at E db)(t \<mapsto> b')) ((address_at E db)(own_key a \<mapsto> a))"
      by (rule alloc_inv_service[OF inv[unfolded dummy_inv_def] p b n(1)])
        (simp_all only: b' a n(2,3) service_address.simps)
    then show ?thesis by (simp add: dummy_inv_def put b' bt)
  next
    case False
    with cs have "b' = b" and a: "address_at E db (service_address_key t s r) = Some a" by simp_all
    then have "block_at E db' = block_at E db" "address_at E db' = address_at E db"
      using b bt D(4)[OF a] by (simp_all add: put fun_upd_idem)
    then show ?thesis using inv by (simp add: dummy_inv_def)
  qed
qed

lemma dummy_step:
  assumes ok: "env_ok E" and p: "valid_prefix p" and wf: "db_wf (rp_db s)" and inv: "dummy_inv E p (rp_db s)"
    and run: "apply_entry E td s e = (s', Inr r)"
    and here: "\<And>a. en_payload e = Normal a \<Longrightarrow> computed_here E p (rp_db s) (cmd a)"
  shows "dummy_inv E p (rp_db s')"
proof (cases "\<exists>a. en_payload e = Normal a \<and> dummy_command (cmd a)")
  case False
  then show ?thesis using dummy_frame[OF run wf] inv dummy_inv_cong[of "rp_db s'" "rp_db s"] by blast
next
  case True
  then obtain a where a: "en_payload e = Normal a" and d: "dummy_command (cmd a)" by blast
  obtain b kind where cmd: "apply_command E (rp_db s) (cmd a) = Inr (b, kind)"
    and look: "\<And>k key. k \<notin> {Kversion, Kraft_state, Kaudit_log} \<Longrightarrow>
      lookup (rp_db s') k key = batch_get b k key (lookup (rp_db s) k key)"
    using command_effect[OF run a wf] by metis
  note codec = codec_ok_dec[OF records_codecs(2)[OF ok]] codec_ok_dec[OF records_codecs(3)[OF ok]]
  have tenant: "dummy_inv E p (rp_db s')" if h: "compute_tenant_block_allocation E p (rp_db s) t = Inr blk"
    "enc (c_block E) blk = Some v" "batch_get b Kdummy_ips = (\<lambda>key. batch_get [Put Kdummy_ips (tenant_block_key t) v] Kdummy_ips key)"
    for t blk v
  proof -
    obtain i where i: "lookup (rp_db s) Kdummy_ips (tenant_block_key t) = None" "i < 2 ^ (p - 4)"
      "blk = \<lparr>tb_tenant_id = t, tb_base = block_base p i, tb_prefix = p, tb_next_offset = 0\<rparr>"
      and new: "\<And>u c. block_at E (rp_db s) u = Some c \<Longrightarrow> tb_base c \<noteq> block_base p i"
      using compute_tenant_Inr[OF wf p h(1)] by metis
    have "block_at E (rp_db s) t = None" using i(1) by (simp add: block_at_def record_at_def)
    then have "alloc_inv p ((block_at E (rp_db s))(t \<mapsto> blk)) (address_at E (rp_db s))"
      by (rule alloc_inv_tenant[OF inv[unfolded dummy_inv_def] _ i(3,2)]) (rule new)
    moreover have "lookup (rp_db s') Kdummy_ips key =
        (if key = tenant_block_key t then Some v else lookup (rp_db s) Kdummy_ips key)" for key
      using look[of Kdummy_ips key] h(3) by simp
    ultimately show ?thesis using put_block[of "rp_db s'" t v "rp_db s"] codec(1)[OF h(2)] by (simp add: dummy_inv_def)
  qed
  show ?thesis
  proof (cases "cmd a")
    case (CreateTenant rec blk)
    then obtain v where "enc (c_block E) blk = Some v"
      "batch_get b Kdummy_ips = (\<lambda>key. batch_get [Put Kdummy_ips (tenant_block_key (tr_tenant_id rec)) v] Kdummy_ips key)"
      using cmd by (auto simp: apply_command_def arm_defs result_simps sm_Inr fun_eq_iff)
    then show ?thesis using tenant here[OF a] CreateTenant by (simp add: computed_here_def)
  next
    case (AllocateTenantBlock blk)
    then obtain v where "enc (c_block E) blk = Some v"
      "batch_get b Kdummy_ips = (\<lambda>key. batch_get [Put Kdummy_ips (tenant_block_key (tb_tenant_id blk)) v] Kdummy_ips key)"
      using cmd by (auto simp: apply_command_def arm_defs result_simps sm_Inr fun_eq_iff)
    then show ?thesis using tenant here[OF a] AllocateTenantBlock by (simp add: computed_here_def)
  next
    case (AllocateServiceAddress blk ad)
    then obtain v w where vw: "enc (c_block E) blk = Some v" "enc (c_address E) ad = Some w"
      and b: "b = [Put Kdummy_ips (tenant_block_key (tb_tenant_id blk)) v, Put Kdummy_ips (own_key ad) w]"
      using cmd by (auto simp: apply_command_def arm_defs result_simps sm_Inr)
    have "lookup (rp_db s') Kdummy_ips key = (if key = own_key ad then Some w
        else if key = tenant_block_key (tb_tenant_id blk) then Some v else lookup (rp_db s) Kdummy_ips key)" for key
      using look[of Kdummy_ips key] b by auto
    note put = put_address[OF this codec(1)[OF vw(1)] codec(2)[OF vw(2)]]
    obtain t s' r' where "compute_service_address_allocation E (rp_db s) t s' r' = Inr (blk, ad)"
      using here[OF a] AllocateServiceAddress by (auto simp: computed_here_def)
    from service_step[OF inv p this] put show ?thesis by blast
  next
    case (ApplyManifests us)
    then show ?thesis using d here[OF a] by (auto simp: computed_here_def list_all_iff list_ex_iff)
  qed (use d in simp_all)
qed

lemma dummy_inv_empty: "dummy_inv E p empty_db"
proof -
  have "block_at E empty_db = (\<lambda>_. None)" "address_at E empty_db = (\<lambda>_. None)"
    by (simp_all add: fun_eq_iff block_at_def address_at_def record_at_def empty_db_def)
  then show ?thesis by (simp add: dummy_inv_def alloc_inv_empty)
qed

lemma allocating_inv:
  assumes "env_ok E" "valid_prefix p" "allocating E td p s"
  shows "db_wf (rp_db s) \<and> dummy_inv E p (rp_db s)"
  using assms(3)
proof (induction rule: allocating.induct)
  case alloc_start
  then show ?case by (simp add: start_replica_def dummy_inv_empty)
next
  case (alloc_entry s e s' r)
  then show ?case using dummy_step[OF assms(1,2), of s td e s' r] entry_effect(6)[of E td s e s' r] by blast
qed

end
