(* ===== verification/DummyIpTheorems.thy ===== *)
theory DummyIpTheorems
  imports Examples DummyIp
begin

text \<open>
  The properties of dummy addresses, with a run that creates a tenant and allocates an address
  out of blocks of prefix length 6.
\<close>

definition ex_tenant :: "string \<Rightarrow> tenant_record" where
  "ex_tenant t = \<lparr>tr_tenant_id = t, tr_created_at = 1, tr_last_applied = []\<rparr>"

definition ex_tenant_block :: "string \<Rightarrow> nat \<Rightarrow> tenant_block" where
  "ex_tenant_block t n = \<lparr>tb_tenant_id = t, tb_base = 0xF0000000, tb_prefix = 6, tb_next_offset = n\<rparr>"

definition ex_address :: "string \<Rightarrow> nat \<Rightarrow> service_address" where
  "ex_address svc n = \<lparr>sa_tenant_id = ''t'', sa_service = svc, sa_role = ''r'', sa_address = 0xF0000000 + n\<rparr>"

definition ex_dip_entries :: "log_entry list" where
  "ex_dip_entries =
     [ex_entry 1 (CreateTenant (ex_tenant ''t'') (ex_tenant_block ''t'' 0)),
      ex_entry 2 (AllocateServiceAddress (ex_tenant_block ''t'' 1) (ex_address ''web'' 0))]"

definition ex_dip :: "nat \<Rightarrow> replica" where
  "ex_dip n = fst (apply_entries PE ''f'' (start_replica empty_db) (take n ex_dip_entries))"

lemma ex_first_block:
  "compute_tenant_block_allocation PE 6 (rp_db (start_replica empty_db)) t = Inr (ex_tenant_block t 0)"
proof -
  have "valid_prefix 6" by (simp add: valid_prefix_def)
  then have "max_tenant_blocks 6 = 4" "block_base 6 0 = 0xF0000000"
    by (simp_all add: max_tenant_blocks_eq block_base_eq)
  moreover have "get_tenant_block PE empty_db t = Inr None" "used_block_indices PE 6 empty_db = Inr []"
    by (simp_all add: get_tenant_block_def dip_read_def used_block_indices_def kv_get_def kv_prefix_def empty_db_def)
  moreover have "find (\<lambda>i. i \<notin> set []) [0..<4] = Some 0" by (simp add: upt_rec)
  ultimately show ?thesis
    by (simp add: compute_tenant_block_allocation_def start_replica_def ok_or_def ex_tenant_block_def)
qed

lemma ex_dip_computed:
  "compute_service_address_allocation PE (rp_db (ex_dip 1)) ''t'' ''web'' ''r'' =
     Inr (ex_tenant_block ''t'' 1, ex_address ''web'' 0)"
  by code_simp

lemma ex_dip_steps:
  "\<exists>r. apply_entry PE ''f'' (ex_dip 0) (ex_dip_entries ! 0) = (ex_dip 1, Inr r)"
  "\<exists>r. apply_entry PE ''f'' (ex_dip 1) (ex_dip_entries ! 1) = (ex_dip 2, Inr r)"
proof -
  have "list_all (plain_entry PE) ex_dip_entries"
    by (simp add: ex_dip_entries_def plain_ex_entry self_addressed_def raw_scheduler_write_def)
  from plain_run[OF postcard_env_ok this start_inv, of "''f''"]
  obtain s' rs where run: "apply_entries PE ''f'' (start_replica empty_db) ex_dip_entries = (s', Inr rs)" by blast
  obtain s1 x where 1: "apply_entry PE ''f'' (start_replica empty_db) (ex_dip_entries ! 0) = (s1, x)" by force
  obtain s2 y where 2: "apply_entry PE ''f'' s1 (ex_dip_entries ! 1) = (s2, y)" by force
  have e: "ex_dip_entries = [ex_dip_entries ! 0, ex_dip_entries ! 1]" by (simp add: ex_dip_entries_def)
  obtain r where x: "x = Inr r" using run 1 by (subst (asm) e) (cases x; auto)
  obtain q where y: "y = Inr q" using run 1 2 x by (subst (asm) e) (cases y; auto)
  have t: "take 1 ex_dip_entries = [ex_dip_entries ! 0]" "take 2 ex_dip_entries = [ex_dip_entries ! 0, ex_dip_entries ! 1]"
    by (simp_all add: ex_dip_entries_def)
  have "ex_dip 0 = start_replica empty_db" "ex_dip 1 = s1" "ex_dip 2 = s2"
    unfolding ex_dip_def t using 1 2 x y by simp_all
  with 1 2 x y show "\<exists>r. apply_entry PE ''f'' (ex_dip 0) (ex_dip_entries ! 0) = (ex_dip 1, Inr r)"
    "\<exists>r. apply_entry PE ''f'' (ex_dip 1) (ex_dip_entries ! 1) = (ex_dip 2, Inr r)" by simp_all
qed

lemma ex_dip_allocating: "allocating PE ''f'' 6 (ex_dip 1)" "allocating PE ''f'' 6 (ex_dip 2)"
proof -
  obtain r q where 1: "apply_entry PE ''f'' (ex_dip 0) (ex_dip_entries ! 0) = (ex_dip 1, Inr r)"
    and 2: "apply_entry PE ''f'' (ex_dip 1) (ex_dip_entries ! 1) = (ex_dip 2, Inr q)" using ex_dip_steps by blast
  have "allocating PE ''f'' 6 (ex_dip 0)" by (simp add: ex_dip_def alloc_start)
  then show s: "allocating PE ''f'' 6 (ex_dip 1)"
    by (rule alloc_entry[OF _ 1]) (use ex_first_block in \<open>auto simp: ex_dip_def ex_dip_entries_def ex_payload computed_here_def ex_tenant_def\<close>)
  show "allocating PE ''f'' 6 (ex_dip 2)"
    by (rule alloc_entry[OF s 2]) (use ex_dip_computed in \<open>auto simp: ex_dip_entries_def ex_payload computed_here_def\<close>)
qed

lemma ex_dip_address:
  "address_at PE (rp_db (ex_dip 2)) (service_address_key ''t'' ''web'' ''r'') = Some (ex_address ''web'' 0)"
  by code_simp

lemma ex_valid: "new_allocator 6 = Inr 6"
  by (simp add: new_allocator_def dummy_space_prefix_def)

lemma free_index:
  assumes "\<forall>i < n. \<exists>t b. B t = Some b \<and> f b = i" "finite (dom B)"
  shows "n \<le> card (dom B)"
proof -
  have "{..<n} \<subseteq> (\<lambda>t. f (the (B t))) ` dom B" using assms(1) by (force simp: image_iff dom_def)
  then have "card {..<n} \<le> card ((\<lambda>t. f (the (B t))) ` dom B)" using assms(2) by (intro card_mono) simp_all
  also have "\<dots> \<le> card (dom B)" using assms(2) by (rule card_image_le)
  finally show ?thesis by simp
qed

lemma blocks_finite: "db_wf db \<Longrightarrow> finite (dom (block_at E db))"
proof -
  have "dom (block_at E db) \<subseteq> tenant_block_key -` (fst ` set (db_data db Kdummy_ips))"
    by (auto simp: block_at_def record_at_Some dest!: om_get_Some_mem) (metis fst_conv image_eqI)
  moreover have "finite (tenant_block_key -` (fst ` set (db_data db Kdummy_ips)))"
    by (rule finite_vimageI) (simp_all add: inj_def)
  ultimately show ?thesis by (rule finite_subset)
qed


lemma create_tenant_block:
  assumes "env_ok E" "apply_entry E td s e = (s', Inr r)" "db_wf (rp_db s)" "en_payload e = Normal a"
    and "cmd a = CreateTenant rec blk"
  shows "\<exists>v. dec (c_block E) v = Some blk \<and> (\<forall>key. lookup (rp_db s') Kdummy_ips key =
    (if key = tenant_block_key (tr_tenant_id rec) then Some v else lookup (rp_db s) Kdummy_ips key))"
proof -
  obtain b kind where cmd: "apply_command E (rp_db s) (cmd a) = Inr (b, kind)"
    and look: "\<And>k key. k \<notin> {Kversion, Kraft_state, Kaudit_log} \<Longrightarrow>
      lookup (rp_db s') k key = batch_get b k key (lookup (rp_db s) k key)"
    using command_effect[OF assms(2,4,3)] by metis
  obtain x v where v: "enc (c_block E) blk = Some v"
    and b: "b = [Put Ktenants (tr_tenant_id rec) x, Put Kdummy_ips (tenant_block_key (tr_tenant_id rec)) v]"
    using cmd assms(5) by (auto simp: apply_command_def arm_defs result_simps sm_Inr)
  have "dec (c_block E) v = Some blk" by (rule codec_ok_dec[OF records_codecs(2)[OF assms(1)] v])
  moreover have "lookup (rp_db s') Kdummy_ips key =
    (if key = tenant_block_key (tr_tenant_id rec) then Some v else lookup (rp_db s) Kdummy_ips key)" for key
    using look[of Kdummy_ips key] by (simp add: b)
  ultimately show ?thesis by blast
qed


text \<open>C9. Addresses are unique. In every state reached by entries whose allocations were computed on the
  state they were applied to, two service addresses are equal only if they are stored under the same
  key, every address lies in 240.0.0.0/4 and in the block of its tenant, and in no other tenant's
  block.\<close>

theorem dummy_addresses_unique:
  assumes "env_ok E" "new_allocator n = Inr p" "allocating E td p s"
    and "address_at E (rp_db s) k = Some a" "address_at E (rp_db s) l = Some c"
  shows "(sa_address a = sa_address c \<longleftrightarrow> k = l) \<and> 0xF0000000 \<le> sa_address a \<and> sa_address a < 2 ^ 32 \<and>
    (\<exists>b. block_at E (rp_db s) (sa_tenant_id a) = Some b \<and> sa_address a \<in> {tb_base b..<tb_base b + 2 ^ (32 - p)}) \<and>
    \<not> (\<exists>u d. u \<noteq> sa_tenant_id a \<and> block_at E (rp_db s) u = Some d \<and>
        sa_address a \<in> {tb_base d..<tb_base d + 2 ^ (32 - p)})"
proof -
  have p: "valid_prefix p" using assms(2) by (auto simp: new_allocator_valid)
  have inv: "alloc_inv p (block_at E (rp_db s)) (address_at E (rp_db s))"
    using allocating_inv[OF assms(1) p assms(3)] by (simp add: dummy_inv_def)
  note D = alloc_invD[OF inv]
  obtain b x where b: "block_at E (rp_db s) (sa_tenant_id a) = Some b" "x < tb_next_offset b"
    "sa_address a = tb_base b + x" using D(5)[OF assms(4)] by blast
  obtain i where i: "i < 2 ^ (p - 4)" "tb_base b = block_base p i" using D(2)[OF b(1)] by blast
  have x: "x < 2 ^ (32 - p)" using b(2) D(1)[OF b(1)] by linarith
  have space: "0xF0000000 \<le> sa_address a" "sa_address a < 2 ^ 32"
    using block_span[OF p i(1)] x b(3) i(2) block_base_eq[OF p i(1)] by simp_all
  have other: "u = sa_tenant_id a" if d: "block_at E (rp_db s) u = Some d"
    "sa_address a \<in> {tb_base d..<tb_base d + 2 ^ (32 - p)}" for u d
  proof -
    obtain j where j: "j < 2 ^ (p - 4)" "tb_base d = block_base p j" using D(2)[OF d(1)] by blast
    define y where "y = sa_address a - tb_base d"
    have "block_base p i + x = block_base p j + y" "y < 2 ^ (32 - p)" using d(2) b(3) i(2) j(2) by (auto simp: y_def)
    then have "i = j" using blocks_disjoint[OF p i(1) j(1) _ x] by blast
    then show ?thesis using D(3)[OF d(1) b(1)] i(2) j(2) by simp
  qed
  have "sa_address a = sa_address c \<longleftrightarrow> k = l" using D(6)[OF assms(4,5)] assms(4,5) by auto
  moreover have "sa_address a \<in> {tb_base b..<tb_base b + 2 ^ (32 - p)}" using b(3) x by simp
  ultimately show ?thesis using b(1) space other by blast
qed

theorem dummy_addresses_unique_witness:
  "allocating PE ''f'' 6 (ex_dip 2) \<and> (\<exists>a. address_at PE (rp_db (ex_dip 2)) (service_address_key ''t'' ''web'' ''r'') = Some a \<and>
     0xF0000000 \<le> sa_address a \<and> sa_address a < 2 ^ 32)"
proof -
  have "address_at PE (rp_db (ex_dip 2)) (service_address_key ''t'' ''web'' ''r'') = Some (ex_address ''web'' 0)"
    by (rule ex_dip_address)
  from dummy_addresses_unique[OF postcard_env_ok ex_valid ex_dip_allocating(2) this this] this ex_dip_allocating(2)
  show ?thesis by blast
qed


text \<open>Blocks are never refused while one is free: on a healthy reachable state, a tenant that has no
  block is given one whenever fewer tenants have a block than the space holds.\<close>

theorem tenant_block_available:
  assumes "env_ok E" "new_allocator n = Inr p" "allocating E td p s" "db_healthy (rp_db s)"
    and "lookup (rp_db s) Kdummy_ips (tenant_block_key t) = None"
    and "card {u. block_at E (rp_db s) u \<noteq> None} < 2 ^ (p - 4)"
  shows "\<exists>b. compute_tenant_block_allocation E p (rp_db s) t = Inr b"
proof -
  have p: "valid_prefix p" using assms(2) by (auto simp: new_allocator_valid)
  have wf: "db_wf (rp_db s)" using allocating_inv[OF assms(1) p assms(3)] by simp
  have old: "get_tenant_block E (rp_db s) t = Inr None"
    using assms(4,5) by (simp add: get_tenant_block_def dip_read_def healthy_reads)
  obtain used where used: "used_block_indices E p (rp_db s) = Inr used"
    using assms(4) by (simp add: used_block_indices_def healthy_reads)
  have "\<not> (\<forall>i < 2 ^ (p - 4). \<exists>u b. block_at E (rp_db s) u = Some b \<and> block_index p (tb_base b) = i)"
    (is "\<not> ?full")
  proof
    assume ?full
    then have "2 ^ (p - 4) \<le> card (dom (block_at E (rp_db s)))" by (rule free_index[OF _ blocks_finite[OF wf]])
    then show False using assms(6) by (simp add: dom_def)
  qed
  then have "\<not> (\<forall>i < 2 ^ (p - 4). i \<in> set used)" using used_iff[OF wf used] by blast
  then have "find (\<lambda>i. i \<notin> set used) [0..<max_tenant_blocks p] \<noteq> None"
    by (auto simp: find_None_iff max_tenant_blocks_eq[OF p])
  then show ?thesis using old used by (auto simp: compute_tenant_block_allocation_def ok_or_def)
qed

theorem tenant_block_available_witness:
  "\<exists>b. compute_tenant_block_allocation PE 6 (rp_db (start_replica empty_db)) ''t'' = Inr b"
proof -
  have "{u. block_at PE (rp_db (start_replica empty_db)) u \<noteq> None} = {}"
    by (simp add: block_at_def record_at_def start_replica_def empty_db_def)
  then have "card {u. block_at PE (rp_db (start_replica empty_db)) u \<noteq> None} < 2 ^ (6 - 4)" by simp
  moreover have "lookup (rp_db (start_replica empty_db)) Kdummy_ips (tenant_block_key ''t'') = None"
    by (simp add: start_replica_def empty_db_def)
  ultimately show ?thesis
    using tenant_block_available[OF postcard_env_ok ex_valid alloc_start start_inv(2)] by blast
qed


text \<open>Allocation is not safe under concurrent requests. The admin service computes a block before it
  proposes the entry: two tenants whose blocks are computed on the same state get the same block,
  and once both entries are applied the two tenants share all their addresses.\<close>

theorem concurrent_tenants_share_block:
  assumes "env_ok E" "new_allocator n = Inr p" "db_wf (rp_db s)" "t \<noteq> u"
    and "compute_tenant_block_allocation E p (rp_db s) t = Inr b" "compute_tenant_block_allocation E p (rp_db s) u = Inr c"
    and "tr_tenant_id rt = t" "tr_tenant_id ru = u"
    and "en_payload e = Normal x" "cmd x = CreateTenant rt b" "en_payload f = Normal y" "cmd y = CreateTenant ru c"
    and "apply_entry E td s e = (s', Inr r)" "apply_entry E td s' f = (s'', Inr q)"
  shows "block_at E (rp_db s'') t = Some b \<and> block_at E (rp_db s'') u = Some c \<and> tb_base b = tb_base c"
proof -
  have base: "tb_base b = tb_base c"
    using assms(5,6) by (auto simp: compute_tenant_block_allocation_def result_simps split: if_splits)
  have wf: "db_wf (rp_db s')" using entry_effect(6)[OF assms(13,3)] .
  obtain v where v: "dec (c_block E) v = Some b" "\<forall>key. lookup (rp_db s') Kdummy_ips key =
      (if key = tenant_block_key t then Some v else lookup (rp_db s) Kdummy_ips key)"
    using create_tenant_block[OF assms(1,13,3,9,10)] assms(7) by auto
  obtain w where w: "dec (c_block E) w = Some c" "\<forall>key. lookup (rp_db s'') Kdummy_ips key =
      (if key = tenant_block_key u then Some w else lookup (rp_db s') Kdummy_ips key)"
    using create_tenant_block[OF assms(1,14) wf assms(11,12)] assms(8) by auto
  show ?thesis using v w base assms(4) by (simp add: block_at_def record_at_def)
qed

theorem concurrent_tenants_share_block_witness:
  "\<exists>s' s'' r q. apply_entry PE ''f'' (start_replica empty_db)
       (ex_entry 1 (CreateTenant (ex_tenant ''t'') (ex_tenant_block ''t'' 0))) = (s', Inr r) \<and>
     apply_entry PE ''f'' s' (ex_entry 2 (CreateTenant (ex_tenant ''u'') (ex_tenant_block ''u'' 0))) = (s'', Inr q) \<and>
     map_option tb_base (block_at PE (rp_db s'') ''t'') = map_option tb_base (block_at PE (rp_db s'') ''u'') \<and>
     block_at PE (rp_db s'') ''t'' \<noteq> None"
proof -
  let ?e = "ex_entry 1 (CreateTenant (ex_tenant ''t'') (ex_tenant_block ''t'' 0))"
  let ?f = "ex_entry 2 (CreateTenant (ex_tenant ''u'') (ex_tenant_block ''u'' 0))"
  have plain: "plain_entry PE ?e" "plain_entry PE ?f"
    by (simp_all add: plain_ex_entry self_addressed_def raw_scheduler_write_def)
  obtain s' r where 1: "apply_entry PE ''f'' (start_replica empty_db) ?e = (s', Inr r)" and
    s': "replica_inv PE (rp_db s')" "db_healthy (rp_db s')"
    using plain_entry_progress[OF postcard_env_ok start_inv plain(1), of "''f''"] by blast
  obtain s'' q where 2: "apply_entry PE ''f'' s' ?f = (s'', Inr q)"
    using plain_entry_progress[OF postcard_env_ok s' plain(2), of "''f''"] by blast
  have wf: "db_wf (rp_db (start_replica empty_db))" by (simp add: start_replica_def)
  have "''t'' \<noteq> ''u''" by simp
  from concurrent_tenants_share_block[OF postcard_env_ok ex_valid wf this ex_first_block ex_first_block _ _
      ex_payload ex_cmd ex_payload ex_cmd 1 2] 1 2
  show ?thesis by (auto simp: ex_tenant_def)
qed


text \<open>Deleting a tenant keeps its block. Afterwards the tenant record is gone, but the allocator
  refuses to compute a block for the same tenant id, so that the tenant cannot be created again.\<close>

theorem deleted_tenant_keeps_block:
  assumes "db_wf (rp_db s)" "\<not> db_read_fault (rp_db s) Kdummy_ips" "block_at E (rp_db s) t = Some b"
    and "apply_entry E td s e = (s', Inr r)" "en_payload e = Normal a" "cmd a = DeleteTenant t"
  shows "lookup (rp_db s') Ktenants t = None \<and>
    compute_tenant_block_allocation E p (rp_db s') t = Inl (Tenant_already_allocated t)"
proof -
  obtain ops kind where cmd: "apply_command E (rp_db s) (cmd a) = Inr (ops, kind)"
    and look: "\<And>k key. k \<notin> {Kversion, Kraft_state, Kaudit_log} \<Longrightarrow>
      lookup (rp_db s') k key = batch_get ops k key (lookup (rp_db s) k key)"
    using command_effect[OF assms(4,5,1)] by metis
  have ops: "ops = [Del Ktenants t]" using cmd assms(6) by (simp add: apply_command_def apply_delete_tenant_def)
  have "lookup (rp_db s') Ktenants t = None" using look[of Ktenants t] by (simp add: ops)
  moreover have "get_tenant_block E (rp_db s') t = Inr (Some b)"
    using look[of Kdummy_ips "tenant_block_key t"] assms(2,3) entry_effect(7)[OF assms(4,1)]
    by (auto simp: ops get_tenant_block_Inr block_at_def record_at_Some)
  ultimately show ?thesis by (simp add: compute_tenant_block_allocation_def)
qed

theorem deleted_tenant_keeps_block_witness:
  "\<exists>s' r. apply_entry PE ''f'' (ex_dip 1) (ex_entry 2 (DeleteTenant ''t'')) = (s', Inr r) \<and>
     compute_tenant_block_allocation PE 6 (rp_db s') ''t'' = Inl (Tenant_already_allocated ''t'')"
proof -
  obtain r where 1: "apply_entry PE ''f'' (start_replica empty_db) (ex_dip_entries ! 0) = (ex_dip 1, Inr r)"
    using ex_dip_steps(1) by (auto simp: ex_dip_def)
  have e: "ex_dip_entries ! 0 = ex_entry 1 (CreateTenant (ex_tenant ''t'') (ex_tenant_block ''t'' 0))"
    by (simp add: ex_dip_entries_def)
  have plain: "plain_entry PE (ex_dip_entries ! 0)" "plain_entry PE (ex_entry 2 (DeleteTenant ''t''))"
    by (simp_all add: e plain_ex_entry self_addressed_def raw_scheduler_write_def)
  have s1: "replica_inv PE (rp_db (ex_dip 1))" "db_healthy (rp_db (ex_dip 1))"
    using plain_entry_progress[OF postcard_env_ok start_inv plain(1), of "''f''"] 1 by auto
  obtain s' q where 2: "apply_entry PE ''f'' (ex_dip 1) (ex_entry 2 (DeleteTenant ''t'')) = (s', Inr q)"
    using plain_entry_progress[OF postcard_env_ok s1 plain(2), of "''f''"] by blast
  have wf: "db_wf (rp_db (ex_dip 1))" using s1 by (simp add: replica_inv_def)
  have "db_wf (rp_db (start_replica empty_db))" by (simp add: start_replica_def)
  from create_tenant_block[OF postcard_env_ok 1[unfolded e] this ex_payload ex_cmd]
  have b: "block_at PE (rp_db (ex_dip 1)) ''t'' = Some (ex_tenant_block ''t'' 0)"
    by (auto simp: block_at_def record_at_def ex_tenant_def)
  have rd: "\<not> db_read_fault (rp_db (ex_dip 1)) Kdummy_ips" using s1(2) by (simp add: db_healthy_def)
  from deleted_tenant_keeps_block[OF wf rd b 2 ex_payload ex_cmd] 2 show ?thesis by blast
qed

end
