(* ===== verification/WorkloadController.thy ===== *)
theory WorkloadController
  imports SchedulerFacts DummyIp
begin

text \<open>
  The workload controller (\<open>controllers/workload_controller.rs\<close>): it turns workload specs into
  pending pods, schedules them, preempts lower priorities, and allocates service addresses. Raft's
  \<open>client_write\<close> is a parameter: it takes the replica and a command, and returns the replica after
  the write with an error or a response.
\<close>

type_synonym writer = "replica \<Rightarrow> audited_command \<Rightarrow> replica \<times> (string + fleetos_response)"


section \<open>State and errors\<close>

datatype controller_error =
    Ctrl_storage storage_error
  | Ctrl_serialization
  | Ctrl_scheduler scheduler_error
  | Ctrl_raft string
  | Ctrl_dummy_ip dummy_ip_error

text \<open>The text of an event: given in the source, or the rendering of a scheduler error.\<close>

datatype event_message = Text string | Rendered scheduler_error

record pod_event =
  pe_pod_id :: string
  pe_node_id :: string
  pe_event_type :: string
  pe_reason :: string
  pe_message :: event_message
  pe_timestamp :: int
  pe_count :: nat

record controller =
  ct_replica :: replica
  ct_events :: "pod_event list"

abbreviation ct_db :: "controller \<Rightarrow> database" where
  "ct_db st \<equiv> rp_db (ct_replica st)"

definition thenM ::
  "controller \<times> (controller_error + 'a) \<Rightarrow> (controller \<Rightarrow> 'a \<Rightarrow> controller \<times> (controller_error + 'b)) \<Rightarrow>
     controller \<times> (controller_error + 'b)" where
  "thenM m f = (case m of (st, Inl e) \<Rightarrow> (st, Inl e) | (st, Inr x) \<Rightarrow> f st x)"

fun for_each ::
  "(controller \<Rightarrow> 'a \<Rightarrow> controller \<times> (controller_error + unit)) \<Rightarrow> 'a list \<Rightarrow> controller \<Rightarrow>
     controller \<times> (controller_error + unit)" where
  "for_each f [] st = (st, Inr ())"
| "for_each f (x # xs) st = thenM (f st x) (\<lambda>st _. for_each f xs st)"

definition emit :: "controller \<Rightarrow> pod_event \<Rightarrow> controller" where
  "emit st e = st\<lparr>ct_events := ct_events st @ [e]\<rparr>"

definition client_write :: "writer \<Rightarrow> controller \<Rightarrow> fleetos_command \<Rightarrow> controller \<times> (controller_error + unit)" where
  "client_write cw st c =
     (case cw (ct_replica st) (system_command c) of
        (s, Inl m) \<Rightarrow> (st\<lparr>ct_replica := s\<rparr>, Inl (Ctrl_raft m))
      | (s, Inr _) \<Rightarrow> (st\<lparr>ct_replica := s\<rparr>, Inr ()))"


section \<open>The cluster view\<close>

definition read_taints :: "env \<Rightarrow> database \<Rightarrow> storage_error + (string \<times> node_taint list) list" where
  "read_taints E db =
     bindE (map_err Storage_error (kv_prefix db Knode_taints [])) (\<lambda>kvs.
       Inr (List.map_filter (\<lambda>(key, v). map_option (Pair key) (dec (c_taints E) v)) kvs))"

definition build_cluster_state :: "env \<Rightarrow> database \<Rightarrow> controller_error + cluster_state" where
  "build_cluster_state E db =
     bindE (map_err Ctrl_storage (list_node_records E db)) (\<lambda>records.
     bindE (map_err Ctrl_storage (list_placements E db)) (\<lambda>ps.
     bindE (map_err Ctrl_storage (read_taints E db)) (\<lambda>taints.
       Inr (cluster_build E records ps taints))))"


section \<open>Pass 1: pending pods\<close>

definition build_pod_spec :: "workload_spec \<Rightarrow> string \<Rightarrow> string \<Rightarrow> string \<Rightarrow> string \<Rightarrow> nat \<Rightarrow> pod_spec" where
  "build_pod_spec spec pod_id tenant_id workload_id role ordinal =
     (case ws_pod_spec spec of Some p \<Rightarrow> p | None \<Rightarrow> default_pod_spec)
       \<lparr>ps_tenant_id := tenant_id, ps_workload_id := workload_id, ps_role := role,
        ps_image := ws_image spec, ps_ordinal := Some ordinal, ps_pod_id := Some pod_id\<rparr>"

definition pod_name :: "string \<Rightarrow> string \<Rightarrow> nat \<Rightarrow> string" where
  "pod_name workload role ordinal = workload @ ''-'' @ role @ ''-'' @ show_nat ordinal"

definition pod_resources :: "pod_spec \<Rightarrow> resource_spec" where
  "pod_resources ps =
     (case ps_resources ps of
        None \<Rightarrow> res 500 (512 * 1024 * 1024)
      | Some r \<Rightarrow> res (rs_vcpus r * 1000) (rs_memory_mb r * 1024 * 1024))"

definition new_pending :: "workload_spec \<Rightarrow> string \<Rightarrow> nat \<Rightarrow> pending_pod" where
  "new_pending spec role ordinal =
     (let pod_id = pod_name (ws_workload_id spec) role ordinal;
          ps = build_pod_spec spec pod_id (ws_tenant_id spec) (ws_workload_id spec) role ordinal in
      \<lparr>pp_pod_id = pod_id, pp_tenant_id = ws_tenant_id spec, pp_service = ws_workload_id spec, pp_role = role,
       pp_ordinal = ordinal, pp_resources = pod_resources ps, pp_previous_node = None,
       pp_priority = ps_priority ps, pp_tolerations = ps_tolerations ps\<rparr>)"

definition slot_pending ::
  "env \<Rightarrow> database \<Rightarrow> cluster_state \<Rightarrow> workload_spec \<Rightarrow> string \<times> nat \<Rightarrow> controller_error + pending_pod list" where
  "slot_pending E db cs spec slot =
     (case slot of (role, ordinal) \<Rightarrow>
        bindE (map_err Ctrl_scheduler (get_assignment E db (ws_tenant_id spec) (ws_workload_id spec) role ordinal))
          (\<lambda>existing.
             if (case existing of
                   Some a \<Rightarrow> oa_pod_id a \<noteq> None \<and>
                     list_ex (\<lambda>p. pl_tenant_id p = ws_tenant_id spec \<and> pl_service p = ws_workload_id spec \<and>
                       pl_role p = role \<and> pl_ordinal p = ordinal) (cs_placements cs)
                 | None \<Rightarrow> False) then Inr []
             else if existing \<noteq> None then Inr []
             else Inr [new_pending spec role ordinal]))"

text \<open>The replica counts, collected into an ordered map.\<close>

definition ordered_replicas :: "workload_spec \<Rightarrow> (string \<times> nat) list" where
  "ordered_replicas spec = foldl (\<lambda>m (k, v). om_put k v m) [] (ws_replicas spec)"

definition spec_slots :: "workload_spec \<Rightarrow> (string \<times> nat) list" where
  "spec_slots spec = concat (map (\<lambda>(role, count). map (Pair role) [0..<count]) (ordered_replicas spec))"

definition collect_pending ::
  "env \<Rightarrow> database \<Rightarrow> cluster_state \<Rightarrow> workload_spec list \<Rightarrow> controller_error + pending_pod list" where
  "collect_pending E db cs specs =
     bindE (mapE (\<lambda>spec. bindE (mapE (slot_pending E db cs spec) (spec_slots spec)) (\<lambda>xs. Inr (concat xs))) specs)
       (\<lambda>xs. Inr (concat xs))"


section \<open>Pass 2: order\<close>

definition order_pending :: "pending_pod list \<Rightarrow> pending_pod list" where
  "order_pending = sort_key (\<lambda>p. (- pp_priority p, pp_pod_id p))"


section \<open>Pass 3: schedule\<close>

definition commit_scheduling ::
  "writer \<Rightarrow> controller \<Rightarrow> pending_pod \<Rightarrow> spiffe_id \<Rightarrow> controller \<times> (controller_error + unit)" where
  "commit_scheduling cw st pod node =
     thenM (client_write cw st (RecordOrdinalAssignment
         \<lparr>oa_tenant_id = pp_tenant_id pod, oa_service = pp_service pod, oa_role = pp_role pod,
          oa_ordinal = pp_ordinal pod, oa_pod_id = Some (pp_pod_id pod), oa_node_id = Some node\<rparr>)) (\<lambda>st _.
       client_write cw st (CommitPlacement
         \<lparr>pl_pod_id = pp_pod_id pod, pl_tenant_id = pp_tenant_id pod, pl_service = pp_service pod,
          pl_role = pp_role pod, pl_ordinal = pp_ordinal pod, pl_node_id = node,
          pl_resources = pp_resources pod\<rparr>))"

fun schedule_all ::
  "writer \<Rightarrow> default_scheduler \<Rightarrow> cluster_state \<Rightarrow> pending_pod list \<Rightarrow> controller \<Rightarrow>
     controller \<times> (controller_error + pending_pod list)" where
  "schedule_all cw ds cs [] st = (st, Inr [])"
| "schedule_all cw ds cs (pod # pods) st =
     (case schedule ds pod cs of
        Inr d \<Rightarrow> thenM (commit_scheduling cw st pod (sd_node_id d)) (\<lambda>st _. schedule_all cw ds cs pods st)
      | Inl e \<Rightarrow>
          thenM (schedule_all cw ds cs pods (emit st
            \<lparr>pe_pod_id = pp_pod_id pod, pe_node_id = [], pe_event_type = ''FailedScheduling'',
             pe_reason = ''Unschedulable'', pe_message = Rendered e,
             pe_timestamp = 0, pe_count = 1\<rparr>)) (\<lambda>st unscheduled. (st, Inr (pod # unscheduled))))"


section \<open>Pass 4: preempt\<close>

definition workload_priority_map :: "workload_spec list \<Rightarrow> string \<times> string \<Rightarrow> int" where
  "workload_priority_map specs key =
     (case map_of (rev (map (\<lambda>s. ((ws_tenant_id s, ws_workload_id s),
              case ws_pod_spec s of Some p \<Rightarrow> ps_priority p | None \<Rightarrow> 0)) specs)) key of
        Some n \<Rightarrow> n | None \<Rightarrow> 0)"

text \<open>Victims are taken in order until the pod fits.\<close>

fun take_victims :: "resource_spec \<Rightarrow> resource_spec \<Rightarrow> placement list \<Rightarrow> resource_spec \<times> placement list" where
  "take_victims need available [] = (available, [])"
| "take_victims need available (v # vs) =
     (if fits_within need available then (available, [])
      else (case take_victims need (res_add available (pl_resources v)) vs of (a, taken) \<Rightarrow> (a, v # taken)))"

definition victim_candidates ::
  "pending_pod \<Rightarrow> cluster_state \<Rightarrow> (placement \<Rightarrow> int) \<Rightarrow> node_info \<Rightarrow> placement list" where
  "victim_candidates pod cs prio node =
     sort_key (\<lambda>p. (prio p, pl_pod_id p))
       (filter (\<lambda>p. prio p < pp_priority pod) (placements_on_node cs (ni_node_id node)))"

definition node_plan ::
  "pending_pod \<Rightarrow> cluster_state \<Rightarrow> (placement \<Rightarrow> int) \<Rightarrow> node_info \<Rightarrow> preemption_plan option" where
  "node_plan pod cs prio node =
     (if \<not> passes_taint_filter (pp_tolerations pod) (ni_taints node) then None
      else
        (case take_victims (pp_resources pod) (ni_available node) (victim_candidates pod cs prio node) of
           (available, victims) \<Rightarrow>
             if \<not> fits_within (pp_resources pod) available then None
             else Some \<lparr>pr_node_id = ni_node_id node, pr_victims = victims\<rparr>))"

definition plan_key :: "(placement \<Rightarrow> int) \<Rightarrow> preemption_plan \<Rightarrow> nat \<times> int \<times> string" where
  "plan_key prio plan = (length (pr_victims plan), sum_list (map prio (pr_victims plan)), pr_node_id plan)"

definition better_plan ::
  "(placement \<Rightarrow> int) \<Rightarrow> preemption_plan option \<Rightarrow> preemption_plan option \<Rightarrow> preemption_plan option" where
  "better_plan prio best new =
     (case new of
        None \<Rightarrow> best
      | Some plan \<Rightarrow>
          (case best of
             None \<Rightarrow> Some plan
           | Some b \<Rightarrow> if plan_key prio plan < plan_key prio b then Some plan else Some b))"

definition find_preemption_plan ::
  "pending_pod \<Rightarrow> cluster_state \<Rightarrow> (placement \<Rightarrow> int) \<Rightarrow> preemption_plan option" where
  "find_preemption_plan pod cs prio =
     foldl (better_plan prio) None (map (node_plan pod cs prio) (schedulable_nodes cs))"

definition evict_victim :: "writer \<Rightarrow> pending_pod \<Rightarrow> controller \<Rightarrow> placement \<Rightarrow> controller \<times> (controller_error + unit)" where
  "evict_victim cw pod st v =
     thenM (client_write cw (emit st
         \<lparr>pe_pod_id = pl_pod_id v, pe_node_id = pl_node_id v, pe_event_type = ''Evicting'',
          pe_reason = ''Preemption'', pe_message = Text (''preempted by '' @ pp_pod_id pod),
          pe_timestamp = 0, pe_count = 1\<rparr>) (RemovePlacement (pl_pod_id v))) (\<lambda>st _.
       client_write cw st (RecordOrdinalAssignment
         (freed_slot (pl_tenant_id v) (pl_service v) (pl_role v) (pl_ordinal v))))"

definition apply_preemption ::
  "writer \<Rightarrow> controller \<Rightarrow> pending_pod \<Rightarrow> preemption_plan \<Rightarrow> controller \<times> (controller_error + unit)" where
  "apply_preemption cw st pod plan =
     thenM (for_each (evict_victim cw pod) (pr_victims plan) st) (\<lambda>st _.
       commit_scheduling cw st pod (pr_node_id plan))"

definition preempt_all ::
  "writer \<Rightarrow> cluster_state \<Rightarrow> workload_spec list \<Rightarrow> pending_pod list \<Rightarrow> controller \<Rightarrow>
     controller \<times> (controller_error + unit)" where
  "preempt_all cw cs specs unscheduled st =
     for_each (\<lambda>st pod.
       case find_preemption_plan pod cs (\<lambda>p. workload_priority_map specs (pl_tenant_id p, pl_service p)) of
         Some plan \<Rightarrow> apply_preemption cw st pod plan
       | None \<Rightarrow> (st, Inr ())) (filter (\<lambda>p. pp_priority p > 0) unscheduled) st"


section \<open>Pass 5: service addresses\<close>

definition allocate_role_address ::
  "env \<Rightarrow> writer \<Rightarrow> workload_spec \<Rightarrow> controller \<Rightarrow> string \<Rightarrow> controller \<times> (controller_error + unit)" where
  "allocate_role_address E cw spec st role =
     (case get_service_address E (ct_db st) (ws_tenant_id spec) (ws_workload_id spec) role of
        Inl e \<Rightarrow> (st, Inl (Ctrl_dummy_ip e))
      | Inr (Some _) \<Rightarrow> (st, Inr ())
      | Inr None \<Rightarrow>
          (case compute_service_address_allocation E (ct_db st) (ws_tenant_id spec) (ws_workload_id spec) role of
             Inl e \<Rightarrow> (st, Inl (Ctrl_dummy_ip e))
           | Inr (block, address) \<Rightarrow> client_write cw st (AllocateServiceAddress block address)))"

definition allocate_service_addresses ::
  "env \<Rightarrow> writer \<Rightarrow> controller \<Rightarrow> workload_spec \<Rightarrow> controller \<times> (controller_error + unit)" where
  "allocate_service_addresses E cw st spec =
     for_each (allocate_role_address E cw spec) (map fst (ordered_replicas spec)) st"


section \<open>Reconciliation\<close>

definition reconcile_all ::
  "env \<Rightarrow> writer \<Rightarrow> default_scheduler \<Rightarrow> workload_spec list \<Rightarrow> controller \<Rightarrow> controller \<times> (controller_error + unit)" where
  "reconcile_all E cw ds specs st =
     (if specs = [] then (st, Inr ())
      else
        (case build_cluster_state E (ct_db st) of
           Inl e \<Rightarrow> (st, Inl e)
         | Inr cs \<Rightarrow>
             (case collect_pending E (ct_db st) cs specs of
                Inl e \<Rightarrow> (st, Inl e)
              | Inr pending \<Rightarrow>
                  thenM (schedule_all cw ds cs (order_pending pending) st) (\<lambda>st unscheduled.
                  thenM (if unscheduled = [] then (st, Inr ()) else preempt_all cw cs specs unscheduled st) (\<lambda>st _.
                    for_each (allocate_service_addresses E cw) specs st)))))"

definition reconcile ::
  "env \<Rightarrow> writer \<Rightarrow> default_scheduler \<Rightarrow> workload_spec \<Rightarrow> controller \<Rightarrow> controller \<times> (controller_error + unit)" where
  "reconcile E cw ds spec st = reconcile_all E cw ds [spec] st"

end
