(* ===== verification/WorkloadFacts.thy ===== *)
theory WorkloadFacts
  imports WorkloadController Postcard
begin

text \<open>
  Facts about the workload controller: which slots are pending, what the scheduling pass stores,
  and which plan preemption chooses.
\<close>


section \<open>Sequencing\<close>

lemma thenM_Inr:
  "thenM m f = (st', Inr y) \<longleftrightarrow> (\<exists>st x. m = (st, Inr x) \<and> f st x = (st', Inr y))"
  by (cases m; cases "snd m") (auto simp: thenM_def)

lemma for_each_Cons_Inr:
  "for_each f (x # xs) st = (st', Inr ()) \<longleftrightarrow> (\<exists>t. f st x = (t, Inr ()) \<and> for_each f xs t = (st', Inr ()))"
  by (auto simp: thenM_Inr)


section \<open>Pending pods\<close>

lemma get_assignment_Inr:
  "get_assignment E db t s r n = Inr x \<longleftrightarrow>
     \<not> db_read_fault db Kordinals \<and>
     (case lookup db Kordinals (ordinal_key t s r n) of
        None \<Rightarrow> x = None | Some v \<Rightarrow> \<exists>a. dec (c_ordinal E) v = Some a \<and> x = Some a)"
  by (auto simp: get_assignment_def get_record_def result_simps kv_get_Inr split: option.splits)

lemma slot_pending_Inr:
  assumes "slot_pending E db cs spec (role, n) = Inr pods"
  shows "pods = (if lookup db Kordinals (ordinal_key (ws_tenant_id spec) (ws_workload_id spec) role n) = None
    then [new_pending spec role n] else [])"
  using assms by (auto simp: slot_pending_def result_simps get_assignment_Inr split: option.splits if_splits)

lemma concat_mapE_Inr:
  assumes "bindE (mapE f xs) (\<lambda>ys. Inr (concat ys)) = Inr zs"
  shows "z \<in> set zs \<longleftrightarrow> (\<exists>x y. x \<in> set xs \<and> f x = Inr y \<and> z \<in> set y)"
    and "x \<in> set xs \<Longrightarrow> \<exists>y. f x = Inr y"
proof -
  obtain ys where ys: "mapE f xs = Inr ys" "zs = concat ys" using assms by (auto simp: result_simps)
  have "y \<in> set ys \<longleftrightarrow> (\<exists>x\<in>set xs. f x = Inr y)" for y using mapE_mem[OF ys(1)] by blast
  then show "z \<in> set zs \<longleftrightarrow> (\<exists>x y. x \<in> set xs \<and> f x = Inr y \<and> z \<in> set y)"
    unfolding ys(2) by (simp add: Bex_def) metis
  show "\<exists>y. f x = Inr y" if "x \<in> set xs" using ys(1) that
    by (induction xs arbitrary: ys) (auto simp: result_simps)
qed

text \<open>A pod is pending exactly when its slot has no record at all.\<close>

lemma collect_pending_iff:
  assumes "collect_pending E db cs specs = Inr pending"
  shows "pod \<in> set pending \<longleftrightarrow>
    (\<exists>spec role n. spec \<in> set specs \<and> (role, n) \<in> set (spec_slots spec) \<and> pod = new_pending spec role n \<and>
       lookup db Kordinals (ordinal_key (ws_tenant_id spec) (ws_workload_id spec) role n) = None)"
proof -
  let ?f = "\<lambda>spec. bindE (mapE (slot_pending E db cs spec) (spec_slots spec)) (\<lambda>xs. Inr (concat xs))"
  note outer = concat_mapE_Inr[OF assms[unfolded collect_pending_def]]
  have inner: "pod \<in> set ps \<longleftrightarrow> (\<exists>role n. (role, n) \<in> set (spec_slots spec) \<and> pod = new_pending spec role n \<and>
       lookup db Kordinals (ordinal_key (ws_tenant_id spec) (ws_workload_id spec) role n) = None)"
    if run: "?f spec = Inr ps" for spec ps
  proof
    assume "pod \<in> set ps"
    then obtain role n y where "(role, n) \<in> set (spec_slots spec)" "slot_pending E db cs spec (role, n) = Inr y" "pod \<in> set y"
      using concat_mapE_Inr(1)[OF run, of pod] by auto
    then show "\<exists>role n. (role, n) \<in> set (spec_slots spec) \<and> pod = new_pending spec role n \<and>
       lookup db Kordinals (ordinal_key (ws_tenant_id spec) (ws_workload_id spec) role n) = None"
      using slot_pending_Inr[of E db cs spec role n y] by (auto split: if_splits)
  next
    assume "\<exists>role n. (role, n) \<in> set (spec_slots spec) \<and> pod = new_pending spec role n \<and>
       lookup db Kordinals (ordinal_key (ws_tenant_id spec) (ws_workload_id spec) role n) = None"
    then obtain role n where s: "(role, n) \<in> set (spec_slots spec)" "pod = new_pending spec role n"
      "lookup db Kordinals (ordinal_key (ws_tenant_id spec) (ws_workload_id spec) role n) = None" by blast
    obtain y where y: "slot_pending E db cs spec (role, n) = Inr y" using concat_mapE_Inr(2)[OF run s(1)] by blast
    then have "pod \<in> set y" using slot_pending_Inr[OF y] s by simp
    then show "pod \<in> set ps" using concat_mapE_Inr(1)[OF run, of pod] s(1) y by blast
  qed
  show ?thesis unfolding outer(1) using inner outer(2) by metis
qed


section \<open>Writes\<close>

lemma commit_placement_effect:
  assumes "env_ok E" "db_wf (rp_db s)" "apply_entry E td s e = (s', Inr r)"
    and "en_payload e = Normal a" "cmd a = CommitPlacement p"
  shows "placement_at E (rp_db s') pid = (if pid = pl_pod_id p then Some p else placement_at E (rp_db s) pid)"
proof -
  obtain b kind where cmd: "apply_command E (rp_db s) (cmd a) = Inr (b, kind)"
    and look: "\<And>k key. k \<notin> {Kversion, Kraft_state, Kaudit_log} \<Longrightarrow>
      lookup (rp_db s') k key = batch_get b k key (lookup (rp_db s) k key)"
    using command_effect[OF assms(3,4,2)] by metis
  obtain v where v: "enc (c_placement E) p = Some v" "b = [Put Kplacements (pl_pod_id p) v]"
    using cmd assms(5) by (auto simp: apply_command_def arm_defs sm_Inr)
  show ?thesis
    using look[of Kplacements pid] v(2) codec_ok_dec[OF records_codecs(21)[OF assms(1)] v(1)]
    by (simp add: record_at_def)
qed

lemma record_slot_effect:
  assumes "env_ok E" "db_wf (rp_db s)" "apply_entry E td s e = (s', Inr r)"
    and "en_payload e = Normal a" "cmd a = RecordOrdinalAssignment o'"
  shows "placement_at E (rp_db s') pid = placement_at E (rp_db s) pid"
    and "record_at (c_ordinal E) (rp_db s') Kordinals (slot_key o') = Some o'"
proof -
  obtain b kind where cmd: "apply_command E (rp_db s) (cmd a) = Inr (b, kind)"
    and look: "\<And>k key. k \<notin> {Kversion, Kraft_state, Kaudit_log} \<Longrightarrow>
      lookup (rp_db s') k key = batch_get b k key (lookup (rp_db s) k key)"
    using command_effect[OF assms(3,4,2)] by metis
  obtain v where v: "enc (c_ordinal E) o' = Some v" "b = [Put Kordinals (slot_key o') v]"
    using cmd assms(5) by (auto simp: apply_command_def arm_defs sm_Inr)
  show "placement_at E (rp_db s') pid = placement_at E (rp_db s) pid"
    using look[of Kplacements pid] v(2) by (simp add: record_at_def)
  show "record_at (c_ordinal E) (rp_db s') Kordinals (slot_key o') = Some o'"
    using look[of Kordinals "slot_key o'"] v(2) codec_ok_dec[OF records_codecs(20)[OF assms(1)] v(1)]
    by (simp add: record_at_def)
qed

text \<open>
  What the controllers rely on of \<open>client_write\<close>: an acknowledged write has been applied to the
  local replica as one log entry.
\<close>

locale raft_writer =
  fixes E :: env and td :: string and cw :: writer
  assumes codecs: "env_ok E"
    and applies: "cw s a = (s', Inr r) \<Longrightarrow> \<exists>e. en_payload e = Normal a \<and> apply_entry E td s e = (s', Inr r)"
begin

lemma client_write_applies:
  assumes "client_write cw st c = (st', Inr ())"
  obtains e r where "en_payload e = Normal (system_command c)"
    "apply_entry E td (ct_replica st) e = (ct_replica st', Inr r)" "ct_events st' = ct_events st"
  using assms applies by (fastforce simp: client_write_def split: prod.splits sum.splits)

lemma client_write_wf: "client_write cw st c = (st', Inr ()) \<Longrightarrow> db_wf (ct_db st) \<Longrightarrow> db_wf (ct_db st')"
  by (meson client_write_applies entry_effect(6))

lemma commit_scheduling_effect:
  assumes "commit_scheduling cw st pod node = (st', Inr ())" "db_wf (ct_db st)"
  shows "db_wf (ct_db st')"
    and "placement_at E (ct_db st') pid = (if pid = pp_pod_id pod then Some (place pod node) else placement_at E (ct_db st) pid)"
proof -
  let ?o = "\<lparr>oa_tenant_id = pp_tenant_id pod, oa_service = pp_service pod, oa_role = pp_role pod,
          oa_ordinal = pp_ordinal pod, oa_pod_id = Some (pp_pod_id pod), oa_node_id = Some node\<rparr>"
  obtain t where 1: "client_write cw st (RecordOrdinalAssignment ?o) = (t, Inr ())"
    and 2: "client_write cw t (CommitPlacement (place pod node)) = (st', Inr ())"
    using assms(1) by (auto simp: commit_scheduling_def thenM_Inr place_def)
  have wf: "db_wf (ct_db t)" by (rule client_write_wf[OF 1 assms(2)])
  then show "db_wf (ct_db st')" by (rule client_write_wf[OF 2])
  obtain e r where e: "en_payload e = Normal (system_command (RecordOrdinalAssignment ?o))"
    "apply_entry E td (ct_replica st) e = (ct_replica t, Inr r)" using client_write_applies[OF 1] by blast
  obtain f q where f: "en_payload f = Normal (system_command (CommitPlacement (place pod node)))"
    "apply_entry E td (ct_replica t) f = (ct_replica st', Inr q)" using client_write_applies[OF 2] by blast
  show "placement_at E (ct_db st') pid = (if pid = pp_pod_id pod then Some (place pod node) else placement_at E (ct_db st) pid)"
    using commit_placement_effect[OF codecs wf f(2,1), of "place pod node" pid]
      record_slot_effect(1)[OF codecs assms(2) e(2,1), of ?o pid]
    by (simp add: system_command_def place_def)
qed

text \<open>The pass decides every pod on the same view and stores every decision.\<close>

lemma schedule_all_effect:
  assumes "schedule_all cw ds cs pods st = (st', Inr uns)" "db_wf (ct_db st)" "distinct (map pp_pod_id pods)"
  shows "db_wf (ct_db st') \<and> uns = filter (\<lambda>p. \<not> is_ok (schedule ds p cs)) pods \<and>
    (\<forall>pod\<in>set pods. \<forall>d. schedule ds pod cs = Inr d \<longrightarrow>
      placement_at E (ct_db st') (pp_pod_id pod) = Some (place pod (sd_node_id d))) \<and>
    (\<forall>pid. (\<forall>pod\<in>set pods. is_ok (schedule ds pod cs) \<longrightarrow> pp_pod_id pod \<noteq> pid) \<longrightarrow>
      placement_at E (ct_db st') pid = placement_at E (ct_db st) pid)"
  using assms
proof (induction pods arbitrary: st uns)
  case (Cons p pods)
  have d: "distinct (map pp_pod_id pods)" "\<forall>q\<in>set pods. pp_pod_id q \<noteq> pp_pod_id p"
    using Cons.prems(3) by (simp_all, metis image_eqI)
  show ?case
  proof (cases "schedule ds p cs")
    case (Inl err)
    then obtain u where run: "schedule_all cw ds cs pods (emit st
            \<lparr>pe_pod_id = pp_pod_id p, pe_node_id = [], pe_event_type = ''FailedScheduling'',
             pe_reason = ''Unschedulable'', pe_message = Rendered err, pe_timestamp = 0, pe_count = 1\<rparr>) = (st', Inr u)"
      and u: "uns = p # u" using Cons.prems(1) by (auto simp: thenM_Inr)
    from Cons.IH[OF run _ d(1)] Cons.prems(2) Inl u show ?thesis by (simp add: emit_def)
  next
    case (Inr dec)
    then obtain t where c: "commit_scheduling cw st p (sd_node_id dec) = (t, Inr ())"
      and run: "schedule_all cw ds cs pods t = (st', Inr uns)" using Cons.prems(1) by (auto simp: thenM_Inr)
    note eff = commit_scheduling_effect[OF c Cons.prems(2)]
    note ih = Cons.IH[OF run eff(1) d(1)]
    have frame: "placement_at E (ct_db st') pid = placement_at E (ct_db t) pid"
      if "\<forall>pod\<in>set pods. is_ok (schedule ds pod cs) \<longrightarrow> pp_pod_id pod \<noteq> pid" for pid using ih that by blast
    have "placement_at E (ct_db st') (pp_pod_id p) = Some (place p (sd_node_id dec))"
      using frame[of "pp_pod_id p"] d(2) eff(2) by simp
    with ih Inr frame eff(2) show ?thesis by simp
  qed
qed simp

end

text \<open>A cluster of one node meets the contract: the leader applies each write at once.\<close>

definition local_write :: "env \<Rightarrow> string \<Rightarrow> writer" where
  "local_write E td s a =
     (case apply_entry E td s
        \<lparr>en_log_id = \<lparr>lg_term = 1, lg_leader = 1, lg_index = rp_version s + 1\<rparr>, en_payload = Normal a\<rparr> of
        (s', Inl _) \<Rightarrow> (s', Inl ''storage error'')
      | (s', Inr r) \<Rightarrow> (s', Inr r))"

text \<open>On healthy storage such a write succeeds for every command that names its records itself.\<close>

lemma local_write_progress:
  assumes "env_ok E" "replica_inv E (rp_db s)" "db_healthy (rp_db s)" "self_addressed E (cmd a)" "\<not> raw_scheduler_write (cmd a)"
  shows "\<exists>s' r. local_write E td s a = (s', Inr r) \<and> replica_inv E (rp_db s') \<and> db_healthy (rp_db s')"
proof -
  let ?e = "\<lparr>en_log_id = \<lparr>lg_term = 1, lg_leader = 1, lg_index = rp_version s + 1\<rparr>, en_payload = Normal a\<rparr>"
  have "plain_entry E ?e" using assms(4,5) by (simp add: plain_entry_def)
  from plain_entry_progress[OF assms(1-3) this, of td] show ?thesis by (auto simp: local_write_def)
qed

interpretation single: raft_writer postcard_env td "local_write postcard_env td" for td
proof unfold_locales
  show "env_ok postcard_env" by (rule postcard_env_ok)
  show "\<exists>e. en_payload e = Normal a \<and> apply_entry postcard_env td s e = (s', Inr r)"
    if "local_write postcard_env td s a = (s', Inr r)" for s a s' r
    using that
    by (intro exI[of _ "\<lparr>en_log_id = \<lparr>lg_term = 1, lg_leader = 1, lg_index = rp_version s + 1\<rparr>, en_payload = Normal a\<rparr>"])
      (auto simp: local_write_def split: prod.splits sum.splits)
qed


section \<open>Preemption\<close>

abbreviation with_freed :: "resource_spec \<Rightarrow> placement list \<Rightarrow> resource_spec" where
  "with_freed a vs \<equiv> foldl (\<lambda>a v. res_add a (pl_resources v)) a vs"

lemma take_victims_prefix:
  assumes "take_victims need a vs = (a', ts)"
  shows "prefix ts vs \<and> a' = with_freed a ts \<and> (fits_within need a' \<or> ts = vs) \<and>
    (\<forall>j < length ts. \<not> fits_within need (with_freed a (take j ts)))"
  using assms
proof (induction vs arbitrary: a a' ts)
  case (Cons v vs)
  show ?case
  proof (cases "fits_within need a")
    case False
    then obtain us where us: "take_victims need (res_add a (pl_resources v)) vs = (a', us)" "ts = v # us"
      using Cons.prems by (auto split: prod.splits)
    from Cons.IH[OF us(1)] False us(2) show ?thesis by (auto simp: less_Suc_eq_0_disj)
  qed (use Cons.prems in auto)
qed auto

lemma better_plan_best:
  "foldl (better_plan prio) b plans = None \<longleftrightarrow> b = None \<and> set plans \<subseteq> {None}"
  "foldl (better_plan prio) b plans = Some p \<Longrightarrow>
     Some p \<in> set (b # plans) \<and> (\<forall>q. Some q \<in> set (b # plans) \<longrightarrow> plan_key prio p \<le> plan_key prio q)"
proof (induction plans arbitrary: b)
  case (Cons x plans)
  {
    case 1
    show ?case using Cons.IH(1)[of "better_plan prio b x"]
      by (auto simp: better_plan_def split: option.splits if_splits)
  next
    case 2
    then have ih: "Some p \<in> set (better_plan prio b x # plans)"
      "\<And>q. Some q \<in> set (better_plan prio b x # plans) \<Longrightarrow> plan_key prio p \<le> plan_key prio q"
      using Cons.IH(2)[of "better_plan prio b x"] by auto
    have "better_plan prio b x \<in> {b, x}" by (auto simp: better_plan_def split: option.splits)
    moreover have "\<exists>r. better_plan prio b x = Some r \<and> plan_key prio r \<le> plan_key prio q" if "Some q \<in> {b, x}" for q
      using that by (auto simp: better_plan_def split: option.splits)
    ultimately show ?case using ih by (force intro: order_trans)
  }
qed auto

lemma find_plan_None:
  "find_preemption_plan pod cs prio = None \<longleftrightarrow> (\<forall>n\<in>set (schedulable_nodes cs). node_plan pod cs prio n = None)"
  unfolding find_preemption_plan_def better_plan_best(1) by auto

lemma find_plan_Some:
  assumes "find_preemption_plan pod cs prio = Some plan"
  obtains n where "n \<in> set (schedulable_nodes cs)" "node_plan pod cs prio n = Some plan"
    "\<And>m q. m \<in> set (schedulable_nodes cs) \<Longrightarrow> node_plan pod cs prio m = Some q \<Longrightarrow> plan_key prio plan \<le> plan_key prio q"
proof -
  note best = better_plan_best(2)[OF assms[unfolded find_preemption_plan_def]]
  then obtain n where n: "n \<in> set (schedulable_nodes cs)" "node_plan pod cs prio n = Some plan" by (auto simp: image_iff)
  show ?thesis
  proof (rule that[OF n])
    fix m q assume "m \<in> set (schedulable_nodes cs)" "node_plan pod cs prio m = Some q"
    then have "Some q \<in> set (None # map (node_plan pod cs prio) (schedulable_nodes cs))" by (metis image_eqI list.set_intros(2) set_map)
    then show "plan_key prio plan \<le> plan_key prio q" using best by blast
  qed
qed

lemma node_plan_Some:
  assumes "node_plan pod cs prio n = Some plan"
  shows "pr_node_id plan = ni_node_id n" and "passes_taint_filter (pp_tolerations pod) (ni_taints n)"
    and "prefix (pr_victims plan) (victim_candidates pod cs prio n)"
    and "fits_within (pp_resources pod) (with_freed (ni_available n) (pr_victims plan))"
    and "j < length (pr_victims plan) \<Longrightarrow>
      \<not> fits_within (pp_resources pod) (with_freed (ni_available n) (take j (pr_victims plan)))"
proof -
  obtain a vs where t: "take_victims (pp_resources pod) (ni_available n) (victim_candidates pod cs prio n) = (a, vs)" by force
  with assms have plan: "plan = \<lparr>pr_node_id = ni_node_id n, pr_victims = vs\<rparr>" "fits_within (pp_resources pod) a"
    "passes_taint_filter (pp_tolerations pod) (ni_taints n)"
    by (auto simp: node_plan_def split: if_splits)
  note p = take_victims_prefix[OF t]
  show "pr_node_id plan = ni_node_id n" "passes_taint_filter (pp_tolerations pod) (ni_taints n)"
    "prefix (pr_victims plan) (victim_candidates pod cs prio n)"
    "fits_within (pp_resources pod) (with_freed (ni_available n) (pr_victims plan))"
    using plan p by simp_all
  show "\<not> fits_within (pp_resources pod) (with_freed (ni_available n) (take j (pr_victims plan)))"
    if "j < length (pr_victims plan)" using p plan(1) that by simp
qed

lemma node_plan_None:
  assumes "node_plan pod cs prio n = None" "passes_taint_filter (pp_tolerations pod) (ni_taints n)"
  shows "\<not> fits_within (pp_resources pod) (with_freed (ni_available n) (victim_candidates pod cs prio n))"
proof -
  obtain a vs where t: "take_victims (pp_resources pod) (ni_available n) (victim_candidates pod cs prio n) = (a, vs)" by force
  with assms have "\<not> fits_within (pp_resources pod) a" by (auto simp: node_plan_def split: if_splits)
  then show ?thesis using take_victims_prefix[OF t] by auto
qed

lemma victim_candidates_iff:
  "v \<in> set (victim_candidates pod cs prio n) \<longleftrightarrow>
     v \<in> set (cs_placements cs) \<and> pl_node_id v = ni_node_id n \<and> prio v < pp_priority pod"
  by (auto simp: victim_candidates_def placements_on_node_def)

text \<open>A node the pod already fits on needs no victims.\<close>

lemma node_plan_fits:
  assumes "passes_taint_filter (pp_tolerations pod) (ni_taints n)" "fits_within (pp_resources pod) (ni_available n)"
  shows "node_plan pod cs prio n = Some \<lparr>pr_node_id = ni_node_id n, pr_victims = []\<rparr>"
proof -
  have "take_victims (pp_resources pod) (ni_available n) vs = (ni_available n, [])" for vs
    using assms(2) by (cases vs) simp_all
  then show ?thesis using assms by (simp add: node_plan_def)
qed

end
