(* ===== verification/WorkloadTheorems.thy ===== *)
theory WorkloadTheorems
  imports SchedulerExamples WorkloadFacts
begin



definition ex_job :: workload_spec where
  "ex_job =
     \<lparr>ws_tenant_id = ''t'', ws_workload_id = ''job'', ws_image = ''img'', ws_replicas = [(''worker'', 1)],
      ws_pod_spec = None, ws_budgets = [], ws_placement = 0, ws_autoscaling = None,
      ws_vertical = None, ws_rest = []\<rparr>"

text \<open>Only the node that already runs the replica.\<close>

definition ex_full :: cluster_state where
  "ex_full = ex_cluster\<lparr>cs_nodes := [hd (cs_nodes ex_cluster)]\<rparr>"








text \<open>A pod is scheduled exactly when its slot has no ordinal record. A slot that was recorded once and
  then freed, by a scale-down, a preemption or a removed placement, is never scheduled again.\<close>

theorem recorded_slot_never_pending:
  assumes "collect_pending E db cs specs = Inr pending"
  shows "pod \<in> set pending \<longleftrightarrow>
    (\<exists>spec role n. spec \<in> set specs \<and> (role, n) \<in> set (spec_slots spec) \<and> pod = new_pending spec role n \<and>
       lookup db Kordinals (ordinal_key (ws_tenant_id spec) (ws_workload_id spec) role n) = None)"
  by (rule collect_pending_iff[OF assms])

theorem recorded_slot_never_pending_witness:
  "\<exists>pending. collect_pending PE empty_db ex_cluster [ex_job] = Inr pending \<and> new_pending ex_job ''worker'' 0 \<in> set pending"
proof -
  have slots: "spec_slots ex_job = [(''worker'', 0)]"
    by (simp add: spec_slots_def ordered_replicas_def ex_job_def)
  obtain pending where run: "collect_pending PE empty_db ex_cluster [ex_job] = Inr pending"
    by (simp add: collect_pending_def slots slot_pending_def get_assignment_def get_record_def kv_get_def)
      (simp add: empty_db_def)
  have "lookup empty_db Kordinals k = None" for k by (simp add: empty_db_def)
  then show ?thesis using run recorded_slot_never_pending[OF run] slots by auto
qed




text \<open>Preemption does not check anti-affinity. When the scheduler refuses a pod although some
  schedulable node has room and only tolerated taints, the plan has no victims and names a node on
  which the pod breaks anti-affinity; applying it places the pod there.\<close>

theorem preemption_ignores_anti_affinity:
  assumes "schedule ds pod cs = Inl err"
    and "n \<in> set (cs_nodes cs)" "ni_schedulable n" "passes_taint_filter (pp_tolerations pod) (ni_taints n)"
    and "fits_within (pp_resources pod) (ni_available n)"
  shows "\<exists>plan m. find_preemption_plan pod cs prio = Some plan \<and> pr_victims plan = [] \<and>
    m \<in> set (cs_nodes cs) \<and> pr_node_id plan = ni_node_id m \<and> \<not> check_anti_affinity pod m cs (ds_anti_affinity ds)"
proof -
  have n: "n \<in> set (schedulable_nodes cs)" using assms(2,3) by (simp add: schedulable_nodes_def)
  note np = node_plan_fits[OF assms(4,5), of cs prio]
  obtain plan where plan: "find_preemption_plan pod cs prio = Some plan" using n np find_plan_None by fastforce
  from find_plan_Some[OF plan] obtain m where m: "m \<in> set (schedulable_nodes cs)" "node_plan pod cs prio m = Some plan"
    and best: "plan_key prio plan \<le> plan_key prio \<lparr>pr_node_id = ni_node_id n, pr_victims = []\<rparr>" using n np by metis
  have v: "pr_victims plan = []" using best by (auto simp: plan_key_def less_eq_prod_def)
  have "filter_nodes ds pod cs = []" using assms(1) schedule_Inl_iff by blast
  then have "\<not> candidate ds pod cs m" using m(1) by (metis filter_nodes_def filter_empty_conv)
  then have "\<not> check_anti_affinity pod m cs (ds_anti_affinity ds)"
    using node_plan_Some(2,4)[OF m(2)] v by (simp add: candidate_def)
  then show ?thesis using plan v m(1) node_plan_Some(1)[OF m(2)] by (auto simp: schedulable_nodes_def)
qed

theorem preemption_ignores_anti_affinity_witness:
  "\<exists>plan. find_preemption_plan (ex_pod\<lparr>pp_priority := 1\<rparr>) ex_full (\<lambda>_. 0) = Some plan \<and> pr_victims plan = []"
proof -
  let ?pod = "ex_pod\<lparr>pp_priority := 1\<rparr>" and ?n = "cs_nodes ex_full ! 0"
  have n: "?n \<in> set (cs_nodes ex_full)" "ni_schedulable ?n" "passes_taint_filter (pp_tolerations ?pod) (ni_taints ?n)"
    "fits_within (pp_resources ?pod) (ni_available ?n)"
    by (simp_all add: ex_full_def ex_cluster_nodes ex_pod_def passes_taint_filter_def fits_within_def)
  have "filter_nodes new_scheduler ?pod ex_full = []"
    by (simp add: filter_nodes_def schedulable_nodes_def ex_full_def ex_cluster_nodes candidate_def ex_pod_def
        check_anti_affinity_def new_scheduler_def default_anti_affinity_def placements_for_service_role_def ex_replica_def
        ex_placement_def)
  then obtain e where "schedule new_scheduler ?pod ex_full = Inl e" using schedule_Inl_iff by metis
  from preemption_ignores_anti_affinity[OF this n] show ?thesis by blast
qed

end
