(* ===== verification/AttestStores.thy ===== *)
theory AttestStores
  imports Lifecycle
begin

text \<open>
  The stores behind attestation: join tokens (\<open>attestation/join_token.rs\<close>), nonces
  (\<open>attestation/nonce.rs\<close>) and PCR policies (\<open>attestation/pcr_policy.rs\<close>). Tokens and policies
  live in replicated keyspaces and are only read here; nonces are local to a node and are written
  directly. Random bytes and the clock are arguments.
\<close>

datatype attestation_error =
    Nonce_error
  | Quote_verification
  | Pcr_mismatch
  | Join_token_error
  | Join_token_already_used
  | Join_token_not_found
  | Rate_limited
  | Attest_storage storage_error
  | Attest_serialization


section \<open>Join tokens\<close>

definition DEFAULT_JOIN_TOKEN_TTL_SECS :: nat where
  "DEFAULT_JOIN_TOKEN_TTL_SECS = 3600"

definition compute_token_record :: "nat \<Rightarrow> int \<Rightarrow> bytes \<Rightarrow> node_kind \<Rightarrow> join_token_record" where
  "compute_token_record ttl now token kind =
     \<lparr>jt_token = token, jt_node_kind = kind, jt_created_at = now,
      jt_expires_at = Some (now + int ttl), jt_consumed = False\<rparr>"

definition validate_only :: "env \<Rightarrow> database \<Rightarrow> int \<Rightarrow> bytes \<Rightarrow> attestation_error + join_token_record" where
  "validate_only E db now token =
     bindE (map_err (\<lambda>e. Attest_storage (Storage_error e)) (kv_get db Kjoin_tokens token)) (\<lambda>v.
     bindE (ok_or Join_token_not_found v) (\<lambda>b.
     bindE (ok_or Attest_serialization (dec (c_token E) b)) (\<lambda>r.
       if jt_consumed r then Inl Join_token_already_used
       else (case jt_expires_at r of
               Some exp \<Rightarrow> if now > exp then Inl Join_token_error else Inr r
             | None \<Rightarrow> Inr r))))"

definition list_active :: "env \<Rightarrow> database \<Rightarrow> attestation_error + join_token_record list" where
  "list_active E db =
     bindE (map_err (\<lambda>_. Join_token_error) (kv_prefix db Kjoin_tokens [])) (\<lambda>kvs.
       Inr (filter (\<lambda>r. \<not> jt_consumed r) (decode_all (c_token E) kvs)))"

text \<open>Direct writes to a keyspace, outside the replicated log.\<close>

definition kv_insert :: "database \<Rightarrow> ks \<Rightarrow> bytes \<Rightarrow> bytes \<Rightarrow> fjall_error + database" where
  "kv_insert db k key v = kv_commit db [Put k key v]"

definition kv_remove :: "database \<Rightarrow> ks \<Rightarrow> bytes \<Rightarrow> fjall_error + database" where
  "kv_remove db k key = kv_commit db [Del k key]"

text \<open>Removing a list of keys stops at the first failure, keeping what was removed.\<close>

fun remove_keys :: "ks \<Rightarrow> bytes list \<Rightarrow> database \<Rightarrow> database \<times> (fjall_error + unit)" where
  "remove_keys k [] db = (db, Inr ())"
| "remove_keys k (key # keys) db =
     (case kv_remove db k key of Inl e \<Rightarrow> (db, Inl e) | Inr db' \<Rightarrow> remove_keys k keys db')"

definition sweep_expired_tokens :: "env \<Rightarrow> int \<Rightarrow> database \<Rightarrow> database \<times> (attestation_error + nat)" where
  "sweep_expired_tokens E now db =
     (let expired = map jt_token (filter (\<lambda>r. \<not> jt_consumed r \<and>
            (case jt_expires_at r of Some exp \<Rightarrow> now > exp | None \<Rightarrow> False))
            (decode_all (c_token E) (readable_items db Kjoin_tokens))) in
      case remove_keys Kjoin_tokens expired db of
        (db', Inl e) \<Rightarrow> (db', Inl (Attest_storage (Storage_error e)))
      | (db', Inr _) \<Rightarrow> (db', Inr (length expired)))"


section \<open>Nonces\<close>

record nonce_manager =
  nm_ttl :: nat
  nm_max_pending :: nat

definition new_nonce_manager :: nonce_manager where
  "new_nonce_manager = \<lparr>nm_ttl = 300, nm_max_pending = 1000\<rparr>"

text \<open>\<open>i64::to_be_bytes\<close> and its inverse on eight bytes.\<close>

definition i64_be_bytes :: "int \<Rightarrow> bytes" where
  "i64_be_bytes z = be_bytes 8 (nat (z mod 2 ^ 64))"

definition i64_of_be_bytes :: "bytes \<Rightarrow> int" where
  "i64_of_be_bytes b = (let n = int (be_value b) in if n < 2 ^ 63 then n else n - 2 ^ 64)"

definition nonce_expiry :: "bytes \<Rightarrow> int option" where
  "nonce_expiry v = (if length v = 8 then Some (i64_of_be_bytes v) else None)"

definition expired_nonces :: "int \<Rightarrow> (bytes \<times> bytes) list \<Rightarrow> bytes list" where
  "expired_nonces now kvs =
     map fst (filter (\<lambda>(_, v). case nonce_expiry v of Some e \<Rightarrow> e < now | None \<Rightarrow> False) kvs)"

definition sweep_expired_nonces :: "int \<Rightarrow> database \<Rightarrow> database \<times> (attestation_error + unit)" where
  "sweep_expired_nonces now db =
     (case remove_keys Knonces (expired_nonces now (readable_items db Knonces)) db of
        (db', Inl _) \<Rightarrow> (db', Inl Nonce_error)
      | (db', Inr _) \<Rightarrow> (db', Inr ()))"

definition is_nonce_pending :: "database \<Rightarrow> bytes \<Rightarrow> bool" where
  "is_nonce_pending db nonce = (case kv_get db Knonces nonce of Inr (Some _) \<Rightarrow> True | _ \<Rightarrow> False)"

definition count_pending :: "database \<Rightarrow> nat" where
  "count_pending db = length (readable_items db Knonces)"

definition generate_nonce ::
  "nonce_manager \<Rightarrow> int \<Rightarrow> bytes \<Rightarrow> database \<Rightarrow> database \<times> (attestation_error + bytes)" where
  "generate_nonce nm now nonce db =
     (let db1 = fst (sweep_expired_nonces now db) in
      if count_pending db1 \<ge> nm_max_pending nm then (db1, Inl Rate_limited)
      else
        (case kv_insert db1 Knonces nonce (i64_be_bytes (now + int (nm_ttl nm))) of
           Inl _ \<Rightarrow> (db1, Inl Nonce_error)
         | Inr db2 \<Rightarrow> (db2, Inr nonce)))"

definition validate_and_consume :: "int \<Rightarrow> bytes \<Rightarrow> database \<Rightarrow> database \<times> (attestation_error + bool)" where
  "validate_and_consume now nonce db =
     (case kv_get db Knonces nonce of
        Inl _ \<Rightarrow> (db, Inl Nonce_error)
      | Inr None \<Rightarrow> (db, Inr False)
      | Inr (Some v) \<Rightarrow>
          (case kv_remove db Knonces nonce of
             Inl _ \<Rightarrow> (db, Inl Nonce_error)
           | Inr db' \<Rightarrow>
               (case nonce_expiry v of
                  None \<Rightarrow> (db', Inl Nonce_error)
                | Some expires_at \<Rightarrow> (db', Inr (now \<le> expires_at)))))"


section \<open>PCR policies\<close>

definition set_policy :: "env \<Rightarrow> database \<Rightarrow> pcr_policy \<Rightarrow> attestation_error + database" where
  "set_policy E db p =
     bindE (ok_or Attest_serialization (enc (c_pcr E) p)) (\<lambda>b.
       map_err (\<lambda>e. Attest_storage (Storage_error e)) (kv_insert db Kpcr_policies (pp_node_id p) b))"

definition get_policy :: "env \<Rightarrow> database \<Rightarrow> string \<Rightarrow> attestation_error + pcr_policy option" where
  "get_policy E db node_id =
     bindE (map_err (\<lambda>e. Attest_storage (Storage_error e)) (kv_get db Kpcr_policies node_id)) (\<lambda>v.
       case v of
         None \<Rightarrow> Inr None
       | Some b \<Rightarrow> bindE (ok_or Attest_serialization (dec (c_pcr E) b)) (\<lambda>p. Inr (Some p)))"

definition get_expected_pcrs :: "env \<Rightarrow> database \<Rightarrow> string \<Rightarrow> attestation_error + pcr_value list option" where
  "get_expected_pcrs E db node_id =
     bindE (get_policy E db node_id) (\<lambda>p.
       case p of
         Some policy \<Rightarrow> Inr (if pp_active policy then Some (pp_expected_pcrs policy) else None)
       | None \<Rightarrow> Inr None)"

definition delete_policy :: "database \<Rightarrow> string \<Rightarrow> attestation_error + database" where
  "delete_policy db node_id =
     map_err (\<lambda>e. Attest_storage (Storage_error e)) (kv_remove db Kpcr_policies node_id)"

end
