(* ===== verification/AdminAuth.thy ===== *)
theory AdminAuth
  imports WorkloadController Disruption AttestStores
begin

text \<open>
  The front of the admin service (\<open>admin/service.rs\<close>, \<open>admin/authz.rs\<close>): who may call what, which
  identifiers are admitted, and the tenant quota. A call carries what the TLS layer knows of the
  peer; its clock reading and its random request id are part of the call. A gRPC \<open>Status\<close> is
  represented by its code.
\<close>

datatype status =
    Unauthenticated | Permission_denied | Invalid_argument | Already_exists | Not_found
  | Resource_exhausted | Unavailable | Unimplemented | Internal

text \<open>
  \<open>cl_peer\<close> is the connection info of the request: absent, or present with or without a peer
  identity.
\<close>

record caller =
  cl_peer :: "spiffe_id option option"
  cl_now :: int
  cl_request_id :: string

record operators_config =
  oc_bootstrap_admins :: "string list"
  oc_allowed_operators :: "string list"
  oc_grant_ttl_secs :: nat


section \<open>Validation\<close>

definition lower_or_digit :: "char \<Rightarrow> bool" where
  "lower_or_digit c \<longleftrightarrow> (CHR ''a'' \<le> c \<and> c \<le> CHR ''z'') \<or> (CHR ''0'' \<le> c \<and> c \<le> CHR ''9'')"

definition validate_identifier :: "string \<Rightarrow> status + unit" where
  "validate_identifier s =
     (if s = [] \<or> length s > 63 then Inl Invalid_argument
      else if list_all (\<lambda>c. lower_or_digit c \<or> c = CHR ''-'') s \<and> hd s \<noteq> CHR ''-'' \<and> last s \<noteq> CHR ''-''
      then Inr () else Inl Invalid_argument)"

definition MAX_REPLICAS_PER_ROLE :: nat where
  "MAX_REPLICAS_PER_ROLE = 1024"

definition MAX_ROLES_PER_WORKLOAD :: nat where
  "MAX_ROLES_PER_WORKLOAD = 16"

definition MAX_SPEC_BYTES :: nat where
  "MAX_SPEC_BYTES = 1024 * 1024"

definition MAX_TAINTS_PER_NODE :: nat where
  "MAX_TAINTS_PER_NODE = 100"

fun check_init_containers :: "string list \<Rightarrow> init_container list \<Rightarrow> status + unit" where
  "check_init_containers seen [] = Inr ()"
| "check_init_containers seen (c # cs) =
     (if ic_name c = [] then Inl Invalid_argument
      else if ic_name c \<in> set seen then Inl Invalid_argument
      else if ic_image c = [] then Inl Invalid_argument
      else check_init_containers (ic_name c # seen) cs)"

definition validate_init_containers :: "pod_spec \<Rightarrow> status + unit" where
  "validate_init_containers ps = check_init_containers [] (ps_init_containers ps)"

definition validate_taint_effect :: "string \<Rightarrow> status + unit" where
  "validate_taint_effect effect =
     (if effect \<in> {''NoSchedule'', ''PreferNoSchedule'', ''NoExecute''} then Inr () else Inl Invalid_argument)"


section \<open>Callers\<close>

definition verify_admin_caller :: "env \<Rightarrow> spiffe_id \<Rightarrow> bool" where
  "verify_admin_caller E svid \<longleftrightarrow> sp_kind E svid = IkCtrl"

definition caller_spiffe_id :: "caller \<Rightarrow> status + spiffe_id" where
  "caller_spiffe_id cl = bindE (ok_or Unauthenticated (cl_peer cl)) (ok_or Unauthenticated)"

definition verify_caller :: "env \<Rightarrow> caller \<Rightarrow> status + unit" where
  "verify_caller E cl =
     bindE (caller_spiffe_id cl) (\<lambda>svid.
       if sp_kind E svid = IkCtrl \<or> sp_kind E svid = IkOperator then Inr () else Inl Permission_denied)"

definition build_audit_context :: "caller \<Rightarrow> string \<Rightarrow> audit_context" where
  "build_audit_context cl target =
     \<lparr>ac_request_id = cl_request_id cl,
      ac_actor = (case cl_peer cl of Some (Some svid) \<Rightarrow> svid | _ \<Rightarrow> ''unknown''),
      ac_target = target, ac_timestamp = nat (cl_now cl mod 2 ^ 64)\<rparr>"

definition caller_is_ctrl :: "env \<Rightarrow> caller \<Rightarrow> status + bool" where
  "caller_is_ctrl E cl = bindE (caller_spiffe_id cl) (\<lambda>svid. Inr (sp_kind E svid = IkCtrl))"

text \<open>\<open>now\<close> as the unsigned timestamp grants are compared with.\<close>

definition now_u64 :: "caller \<Rightarrow> nat" where
  "now_u64 cl = nat (cl_now cl mod 2 ^ 64)"

definition active_grants_for_operator ::
  "env \<Rightarrow> database \<Rightarrow> string \<Rightarrow> nat \<Rightarrow> status + operator_grant_record list" where
  "active_grants_for_operator E db operator_id now =
     bindE (map_err (\<lambda>_. Internal) (kv_prefix db Koperator_grants [])) (\<lambda>kvs.
       Inr (filter (\<lambda>g. og_operator_id g = operator_id \<and> og_expires_at g > now)
              (decode_all (c_grant E) kvs)))"

definition has_active_grant ::
  "env \<Rightarrow> database \<Rightarrow> string \<Rightarrow> nat \<Rightarrow> (operator_grant_record \<Rightarrow> bool) \<Rightarrow> status + bool" where
  "has_active_grant E db operator_id now P =
     bindE (map_err (\<lambda>_. Internal) (kv_prefix db Koperator_grants [])) (\<lambda>kvs.
       Inr (list_ex (\<lambda>g. og_operator_id g = operator_id \<and> og_expires_at g > now \<and> P g)
              (decode_all (c_grant E) kvs)))"

definition require_cluster_admin ::
  "env \<Rightarrow> operators_config \<Rightarrow> database \<Rightarrow> caller \<Rightarrow> status + unit" where
  "require_cluster_admin E oc db cl =
     bindE (caller_spiffe_id cl) (\<lambda>svid.
       if sp_kind E svid = IkCtrl then Inr ()
       else if sp_kind E svid = IkOperator then
         (if svid \<in> set (oc_bootstrap_admins oc) then Inr ()
          else bindE (has_active_grant E db svid (now_u64 cl) og_cluster_admin) (\<lambda>ok.
                 if ok then Inr () else Inl Permission_denied))
       else Inl Permission_denied)"

definition require_read_access :: "env \<Rightarrow> database \<Rightarrow> caller \<Rightarrow> status + unit" where
  "require_read_access E db cl =
     bindE (caller_is_ctrl E cl) (\<lambda>ctrl.
       if ctrl then Inr ()
       else
         bindE (caller_spiffe_id cl) (\<lambda>svid.
         bindE (active_grants_for_operator E db svid (now_u64 cl)) (\<lambda>grants.
           if grants = [] then Inl Permission_denied else Inr ())))"

definition require_tenant_write :: "env \<Rightarrow> database \<Rightarrow> caller \<Rightarrow> string \<Rightarrow> status + unit" where
  "require_tenant_write E db cl tenant_id =
     bindE (caller_is_ctrl E cl) (\<lambda>ctrl.
       if ctrl then Inr ()
       else
         bindE (caller_spiffe_id cl) (\<lambda>svid.
         bindE (active_grants_for_operator E db svid (now_u64 cl)) (\<lambda>grants.
           if list_ex (\<lambda>g. \<not> og_read_only g \<and> (og_cluster_admin g \<or> tenant_id \<in> set (og_tenants g))) grants
           then Inr () else Inl Permission_denied)))"

definition require_cluster_admin_write ::
  "env \<Rightarrow> operators_config \<Rightarrow> database \<Rightarrow> caller \<Rightarrow> status + unit" where
  "require_cluster_admin_write E oc db cl =
     bindE (caller_is_ctrl E cl) (\<lambda>ctrl.
       if ctrl then Inr ()
       else
         bindE (caller_spiffe_id cl) (\<lambda>svid.
           if svid \<in> set (oc_bootstrap_admins oc) then Inr ()
           else
             bindE (active_grants_for_operator E db svid (now_u64 cl)) (\<lambda>grants.
               if list_ex (\<lambda>g. og_cluster_admin g \<and> \<not> og_read_only g) grants
               then Inr () else Inl Permission_denied)))"


section \<open>Tenant quota\<close>

definition check_tenant_quota :: "env \<Rightarrow> database \<Rightarrow> string \<Rightarrow> workload_spec \<Rightarrow> status + unit" where
  "check_tenant_quota E db tenant_id spec =
     bindE (map_err (\<lambda>_. Internal) (get_tenant_quota E db tenant_id)) (\<lambda>q.
       case q of
         None \<Rightarrow> Inr ()
       | Some quota \<Rightarrow>
           bindE (map_err (\<lambda>_. Internal) (compute_tenant_usage E db tenant_id)) (\<lambda>(cpu, mem, n).
             let replicas = spec_total_replicas spec;
                 new_cpu = (cpu + spec_cpu_per_pod spec * replicas mod 2 ^ 64) mod 2 ^ 64;
                 new_memory = (mem + spec_mem_per_pod spec * replicas mod 2 ^ 64) mod 2 ^ 64;
                 new_workloads = (n + 1) mod 2 ^ 32 in
             if new_workloads > tq_max_workloads quota mod 2 ^ 32 then Inl Resource_exhausted
             else if new_cpu > tq_max_cpu quota then Inl Resource_exhausted
             else if new_memory > tq_max_memory quota then Inl Resource_exhausted
             else Inr ()))"

end
