(* ===== verification/Secrets.thy ===== *)
theory Secrets
  imports Reports
begin

text \<open>
  Secrets at rest (\<open>secrets/crypto.rs\<close>, \<open>secrets/mod.rs\<close>): envelope encryption with one data key
  per secret wrapped by the master key, and the store that checks the access list before it
  decrypts. The authenticated cipher and the byte layout of the envelope are fields of the store;
  random bytes are arguments. \<open>store_ok\<close> states what the code relies on: decrypting what was
  encrypted under the same key and nonce gives the plaintext, and the envelope codec round-trips.
\<close>


section \<open>Envelope encryption\<close>

record aead =
  ae_encrypt :: "bytes \<Rightarrow> bytes \<Rightarrow> bytes \<Rightarrow> bytes option"
  ae_decrypt :: "bytes \<Rightarrow> bytes \<Rightarrow> bytes \<Rightarrow> bytes option"

record wrapped_dek =
  wd_nonce :: bytes
  wd_ciphertext :: bytes

record envelope_secret =
  ev_wrapped_dek :: wrapped_dek
  ev_nonce :: bytes
  ev_ciphertext :: bytes

record secret_store =
  ss_aead :: aead
  ss_master_key :: bytes
  ss_codec :: "envelope_secret codec"

datatype secret_failure =
    Secret_denied secret_error
  | Secret_not_found string
  | Invalid_dek_length nat
  | Invalid_master_key_length nat
  | Invalid_nonce_length nat
  | Encryption_failed
  | Decryption_failed
  | Secret_storage storage_error
  | Secret_serialization

definition DEK_LENGTH :: nat where
  "DEK_LENGTH = 32"

definition MASTER_KEY_LENGTH :: nat where
  "MASTER_KEY_LENGTH = 32"

definition NONCE_LENGTH :: nat where
  "NONCE_LENGTH = 12"

definition dek_from_bytes :: "bytes \<Rightarrow> secret_failure + bytes" where
  "dek_from_bytes b = (if length b \<noteq> DEK_LENGTH then Inl (Invalid_dek_length (length b)) else Inr b)"

text \<open>\<open>FileMasterKey::load\<close> on the bytes of the file.\<close>

definition load_master_key :: "bytes \<Rightarrow> secret_failure + bytes" where
  "load_master_key b =
     (if length b \<noteq> MASTER_KEY_LENGTH then Inl (Invalid_master_key_length (length b)) else Inr b)"

definition wrap_dek :: "secret_store \<Rightarrow> bytes \<Rightarrow> bytes \<Rightarrow> secret_failure + wrapped_dek" where
  "wrap_dek S nonce dek =
     bindE (ok_or Encryption_failed (ae_encrypt (ss_aead S) (ss_master_key S) nonce dek)) (\<lambda>c.
       Inr \<lparr>wd_nonce = nonce, wd_ciphertext = c\<rparr>)"

definition unwrap_dek :: "secret_store \<Rightarrow> wrapped_dek \<Rightarrow> secret_failure + bytes" where
  "unwrap_dek S w =
     (if length (wd_nonce w) \<noteq> NONCE_LENGTH then Inl (Invalid_nonce_length (length (wd_nonce w)))
      else
        bindE (ok_or Decryption_failed (ae_decrypt (ss_aead S) (ss_master_key S) (wd_nonce w) (wd_ciphertext w)))
          dek_from_bytes)"

text \<open>The random bytes of one encryption: the data key, the nonce of the value, the nonce of the wrapping.\<close>

record seal_randoms =
  sr_dek :: bytes
  sr_nonce :: bytes
  sr_wrap_nonce :: bytes

definition encrypt_at_rest :: "secret_store \<Rightarrow> seal_randoms \<Rightarrow> bytes \<Rightarrow> secret_failure + envelope_secret" where
  "encrypt_at_rest S rnd plaintext =
     bindE (ok_or Encryption_failed (ae_encrypt (ss_aead S) (sr_dek rnd) (sr_nonce rnd) plaintext)) (\<lambda>c.
     bindE (wrap_dek S (sr_wrap_nonce rnd) (sr_dek rnd)) (\<lambda>w.
       Inr \<lparr>ev_wrapped_dek = w, ev_nonce = sr_nonce rnd, ev_ciphertext = c\<rparr>))"

definition decrypt_at_rest :: "secret_store \<Rightarrow> envelope_secret \<Rightarrow> secret_failure + bytes" where
  "decrypt_at_rest S ev =
     bindE (unwrap_dek S (ev_wrapped_dek ev)) (\<lambda>dek.
       if length (ev_nonce ev) \<noteq> NONCE_LENGTH then Inl (Invalid_nonce_length (length (ev_nonce ev)))
       else ok_or Decryption_failed (ae_decrypt (ss_aead S) dek (ev_nonce ev) (ev_ciphertext ev)))"


section \<open>The store\<close>

definition prepare_secret ::
  "env \<Rightarrow> secret_store \<Rightarrow> seal_randoms \<Rightarrow> string \<Rightarrow> bytes \<Rightarrow> spiffe_id list \<Rightarrow> secret_failure + bytes \<times> bytes" where
  "prepare_secret E S rnd key plaintext authorized =
     bindE (encrypt_at_rest S rnd plaintext) (\<lambda>ev.
     bindE (ok_or Secret_serialization (enc (ss_codec S) ev)) (\<lambda>envelope_bytes.
     bindE (ok_or Secret_serialization (enc (c_acl E) (foldl (\<lambda>acl i. acl_grant acl key i) [] authorized)))
       (\<lambda>acl_bytes. Inr (envelope_bytes, acl_bytes))))"

definition load_acl :: "env \<Rightarrow> database \<Rightarrow> string \<Rightarrow> secret_failure + secret_acl" where
  "load_acl E db key =
     bindE (map_err (\<lambda>e. Secret_storage (Storage_error e)) (kv_get db Ksecrets (acl_key key))) (\<lambda>v.
       case v of Some b \<Rightarrow> ok_or Secret_serialization (dec (c_acl E) b) | None \<Rightarrow> Inr [])"

definition load_envelope :: "secret_store \<Rightarrow> database \<Rightarrow> string \<Rightarrow> secret_failure + envelope_secret option" where
  "load_envelope S db key =
     bindE (map_err (\<lambda>e. Secret_storage (Storage_error e)) (kv_get db Ksecrets (secret_key key))) (\<lambda>v.
       case v of
         Some b \<Rightarrow> bindE (ok_or Secret_serialization (dec (ss_codec S) b)) (\<lambda>ev. Inr (Some ev))
       | None \<Rightarrow> Inr None)"

definition fetch_secret :: "env \<Rightarrow> secret_store \<Rightarrow> database \<Rightarrow> string \<Rightarrow> spiffe_id \<Rightarrow> secret_failure + bytes" where
  "fetch_secret E S db key requesting =
     bindE (load_acl E db key) (\<lambda>acl.
     bindE (map_err Secret_denied (authorize_secret acl key requesting)) (\<lambda>_.
     bindE (load_envelope S db key) (\<lambda>ev.
     bindE (ok_or (Secret_not_found key) ev) (decrypt_at_rest S))))"


section \<open>Round trip\<close>

definition aead_ok :: "aead \<Rightarrow> bool" where
  "aead_ok A \<longleftrightarrow> (\<forall>k n p c. ae_encrypt A k n p = Some c \<longrightarrow> ae_decrypt A k n c = Some p)"

definition secret_store_ok :: "secret_store \<Rightarrow> bool" where
  "secret_store_ok S \<longleftrightarrow> aead_ok (ss_aead S) \<and> codec_ok (ss_codec S)"

definition randoms_ok :: "seal_randoms \<Rightarrow> bool" where
  "randoms_ok rnd \<longleftrightarrow>
     length (sr_dek rnd) = DEK_LENGTH \<and> length (sr_nonce rnd) = NONCE_LENGTH \<and>
     length (sr_wrap_nonce rnd) = NONCE_LENGTH"

lemma decrypt_encrypt:
  assumes "aead_ok (ss_aead S)" "randoms_ok rnd" "encrypt_at_rest S rnd p = Inr ev"
  shows "decrypt_at_rest S ev = Inr p"
proof -
  obtain c w where c: "ae_encrypt (ss_aead S) (sr_dek rnd) (sr_nonce rnd) p = Some c"
    and w: "ae_encrypt (ss_aead S) (ss_master_key S) (sr_wrap_nonce rnd) (sr_dek rnd) = Some w"
    and ev: "ev = \<lparr>ev_wrapped_dek = \<lparr>wd_nonce = sr_wrap_nonce rnd, wd_ciphertext = w\<rparr>,
      ev_nonce = sr_nonce rnd, ev_ciphertext = c\<rparr>"
    using assms(3) by (auto simp: encrypt_at_rest_def wrap_dek_def result_simps)
  have "ae_decrypt (ss_aead S) (sr_dek rnd) (sr_nonce rnd) c = Some p"
    "ae_decrypt (ss_aead S) (ss_master_key S) (sr_wrap_nonce rnd) w = Some (sr_dek rnd)"
    using assms(1) c w by (simp_all add: aead_ok_def)
  with assms(2) show ?thesis
    by (simp add: ev decrypt_at_rest_def unwrap_dek_def dek_from_bytes_def randoms_ok_def)
qed

lemma granted_list: "is_authorized (foldl (\<lambda>acl i. acl_grant acl key i) acl0 ids) k j \<longleftrightarrow>
    (k = key \<and> j \<in> set ids) \<or> is_authorized acl0 k j"
  by (induction ids arbitrary: acl0) (auto simp: authorized_grant)

lemma secret_keys_distinct [simp]: "secret_key k \<noteq> acl_key j"
  by (simp add: secret_key_def acl_key_def)

lemma secret_key_inj [simp]: "secret_key k = secret_key j \<longleftrightarrow> k = j"
  by (simp add: secret_key_def)

lemma acl_key_inj [simp]: "acl_key k = acl_key j \<longleftrightarrow> k = j"
  by (simp add: acl_key_def)

text \<open>What a fetch sees depends on the two records of the secret only.\<close>

lemma fetch_secret_of_records:
  assumes ok: "env_ok E" "secret_store_ok S" "randoms_ok rnd"
    and prep: "prepare_secret E S rnd key p ids = Inr (eb, ab)"
    and db: "\<not> db_read_fault db Ksecrets" "lookup db Ksecrets (secret_key key) = Some eb"
      "lookup db Ksecrets (acl_key key) = Some ab"
  shows "fetch_secret E S db key who =
    (if who \<in> set ids then Inr p else Inl (Secret_denied (Access_denied key who)))"
proof -
  let ?acl = "foldl (\<lambda>acl i. acl_grant acl key i) [] ids"
  obtain ev where ev: "encrypt_at_rest S rnd p = Inr ev" "enc (ss_codec S) ev = Some eb"
    "enc (c_acl E) ?acl = Some ab"
    using prep by (auto simp: prepare_secret_def result_simps)
  have "dec (ss_codec S) eb = Some ev" "dec (c_acl E) ab = Some ?acl"
    using codec_ok_dec[OF _ ev(2)] codec_ok_dec[OF records_codecs(19)[OF ok(1)] ev(3)] ok(2)
    by (simp_all add: secret_store_ok_def)
  moreover have "decrypt_at_rest S ev = Inr p"
    using decrypt_encrypt[OF _ ok(3) ev(1)] ok(2) by (simp add: secret_store_ok_def)
  moreover have "is_authorized ?acl key who \<longleftrightarrow> who \<in> set ids"
    by (simp add: granted_list) (simp add: is_authorized_def)
  ultimately show ?thesis
    using db by (simp add: fetch_secret_def load_acl_def load_envelope_def kv_get_def authorize_secret_def)
qed


text \<open>A fetch reads the list in force and the envelope, nothing else.\<close>

lemma fetch_secret_cases:
  assumes "\<not> db_read_fault db Ksecrets"
  shows "fetch_secret E S db key who =
    (case acl_at E db key of
       None \<Rightarrow> Inl Secret_serialization
     | Some acl \<Rightarrow>
         if \<not> is_authorized acl key who then Inl (Secret_denied (Access_denied key who))
         else
           (case lookup db Ksecrets (secret_key key) of
              None \<Rightarrow> Inl (Secret_not_found key)
            | Some b \<Rightarrow> bindE (ok_or Secret_serialization (dec (ss_codec S) b)) (decrypt_at_rest S)))"
proof (cases "lookup db Ksecrets (secret_key key)")
  case None
  then show ?thesis
    using assms
    by (auto simp: fetch_secret_def load_acl_def load_envelope_def kv_get_def acl_at_def authorize_secret_def
        split: option.splits)
next
  case (Some b)
  then show ?thesis
    using assms
    by (cases "dec (ss_codec S) b")
      (auto simp: fetch_secret_def load_acl_def load_envelope_def kv_get_def acl_at_def authorize_secret_def
        split: option.splits)
qed

lemma prepared_envelope_opens:
  assumes "secret_store_ok S" "randoms_ok rnd" "prepare_secret E S rnd key p ids = Inr (eb, ab)"
  shows "bindE (ok_or Secret_serialization (dec (ss_codec S) eb)) (decrypt_at_rest S) = Inr p"
proof -
  obtain ev where ev: "encrypt_at_rest S rnd p = Inr ev" "enc (ss_codec S) ev = Some eb"
    using assms(3) by (auto simp: prepare_secret_def result_simps)
  then show ?thesis
    using decrypt_encrypt[OF _ assms(2) ev(1)] codec_ok_dec[OF _ ev(2)] assms(1) by (simp add: secret_store_ok_def)
qed

end
