(* ===== verification/Delegation.thy ===== *)
theory Delegation
  imports AttestStores
begin

text \<open>
  Delegated signing keys (\<open>delegation/id.rs\<close>, \<open>delegation/mod.rs\<close>, \<open>delegation/revocation.rs\<close>,
  \<open>ca/key_issuance.rs\<close>): identifiers and their parser, the revocation store, and the check that a
  workload is placed on the node before a key for its identity is issued. Key generation and
  certificate signing belong to external libraries and are the parameter \<open>sign\<close>.
\<close>

datatype delegation_error =
    Id_computation
  | Delegation_not_found string
  | Delegation_storage storage_error
  | Delegation_serialization


section \<open>Identifiers\<close>

definition ordinal_text :: "nat option \<Rightarrow> string" where
  "ordinal_text ordinal = (case ordinal of Some n \<Rightarrow> show_nat n | None \<Rightarrow> ''none'')"

definition compute_delegation_id :: "string \<Rightarrow> string \<Rightarrow> nat option \<Rightarrow> int \<Rightarrow> string" where
  "compute_delegation_id node_id target ordinal issued_at =
     node_id @ ''|'' @ target @ ''|'' @ ordinal_text ordinal @ ''|'' @ show_int issued_at"

text \<open>\<open>str::parse\<close> of the standard library: an optional sign and a non-empty run of digits in range.\<close>

definition unsigned_part :: "string \<Rightarrow> string" where
  "unsigned_part s = (case s of c # r \<Rightarrow> if c = CHR ''+'' then r else s | [] \<Rightarrow> [])"

definition parse_unsigned :: "nat \<Rightarrow> string \<Rightarrow> nat option" where
  "parse_unsigned bits s =
     (let t = unsigned_part s in
      if t \<noteq> [] \<and> list_all is_digit t \<and> digits_value t < 2 ^ bits then Some (digits_value t) else None)"

definition parse_signed :: "nat \<Rightarrow> string \<Rightarrow> int option" where
  "parse_signed bits s =
     (case s of
        c # t \<Rightarrow>
          if c = CHR ''-'' then
            (if t \<noteq> [] \<and> list_all is_digit t \<and> digits_value t \<le> 2 ^ (bits - 1)
             then Some (- int (digits_value t)) else None)
          else map_option int (parse_unsigned (bits - 1) s)
      | [] \<Rightarrow> None)"

fun split_on :: "char \<Rightarrow> string \<Rightarrow> string list" where
  "split_on sep [] = [[]]"
| "split_on sep (c # cs) =
     (if c = sep then [] # split_on sep cs
      else (case split_on sep cs of [] \<Rightarrow> [[c]] | p # ps \<Rightarrow> (c # p) # ps))"

definition parse_delegation_id ::
  "string \<Rightarrow> delegation_error + string \<times> string \<times> nat option \<times> int" where
  "parse_delegation_id s =
     (case split_on CHR ''|'' s of
        [node_id, target, ord, issued] \<Rightarrow>
          bindE (if ord = ''none'' then Inr None
                 else bindE (ok_or Id_computation (parse_unsigned 32 ord)) (\<lambda>n. Inr (Some n))) (\<lambda>ordinal.
          bindE (ok_or Id_computation (parse_signed 64 issued)) (\<lambda>issued_at.
            Inr (node_id, target, ordinal, issued_at)))
      | _ \<Rightarrow> Inl Id_computation)"


section \<open>Records\<close>

definition is_expired :: "int \<Rightarrow> delegation_record \<Rightarrow> bool" where
  "is_expired now r \<longleftrightarrow> now \<ge> dl_expires_at r"

definition should_refresh :: "int \<Rightarrow> delegation_record \<Rightarrow> bool" where
  "should_refresh now r \<longleftrightarrow> now \<ge> dl_refresh_at r"

definition time_until_expiry :: "int \<Rightarrow> delegation_record \<Rightarrow> int" where
  "time_until_expiry now r = max (dl_expires_at r - now) 0"


section \<open>Revocation store\<close>

definition dlg_read :: "fjall_error + 'a \<Rightarrow> delegation_error + 'a" where
  "dlg_read = map_err (\<lambda>e. Delegation_storage (Storage_error e))"

definition record_active :: "env \<Rightarrow> database \<Rightarrow> delegation_record \<Rightarrow> delegation_error + database" where
  "record_active E db r =
     bindE (ok_or Delegation_serialization (enc (c_delegation E) r)) (\<lambda>b.
       dlg_read (kv_insert db Kactive_delegations (composite_delegation_key (dl_node_id r) (dl_delegation_id r)) b))"

text \<open>Two separate writes: a failure of the second leaves the first in place.\<close>

definition revoke_delegation ::
  "env \<Rightarrow> spiffe_id \<Rightarrow> string \<Rightarrow> database \<Rightarrow> database \<times> (delegation_error + unit)" where
  "revoke_delegation E node_id did db =
     (let key = composite_delegation_key node_id did in
      case bindE (dlg_read (kv_get db Kactive_delegations key)) (\<lambda>v.
           bindE (ok_or (Delegation_not_found did) v) (\<lambda>b.
             ok_or Delegation_serialization (dec (c_delegation E) b))) of
        Inl e \<Rightarrow> (db, Inl e)
      | Inr r \<Rightarrow>
          (case kv_remove db Kactive_delegations key of
             Inl e \<Rightarrow> (db, Inl (Delegation_storage (Storage_error e)))
           | Inr db1 \<Rightarrow>
               (case bindE (ok_or Delegation_serialization (enc (c_delegation E) r)) (\<lambda>b.
                       dlg_read (kv_insert db1 Krevoked_delegations key b)) of
                  Inl e \<Rightarrow> (db1, Inl e)
                | Inr db2 \<Rightarrow> (db2, Inr ()))))"

definition key_delegation_id :: "bytes \<Rightarrow> string option" where
  "key_delegation_id key =
     Option.bind (node_prefix_len key) (\<lambda>n. if length key > n then Some (drop n key) else None)"

fun revoke_each ::
  "env \<Rightarrow> spiffe_id \<Rightarrow> string list \<Rightarrow> database \<Rightarrow> database \<times> (delegation_error + unit)" where
  "revoke_each E node_id [] db = (db, Inr ())"
| "revoke_each E node_id (d # ds) db =
     (case revoke_delegation E node_id d db of
        (db', Inl e) \<Rightarrow> (db', Inl e)
      | (db', Inr _) \<Rightarrow> revoke_each E node_id ds db')"

definition revoke_all_for_node ::
  "env \<Rightarrow> spiffe_id \<Rightarrow> database \<Rightarrow> database \<times> (delegation_error + string list)" where
  "revoke_all_for_node E node_id db =
     (case dlg_read (kv_prefix db Kactive_delegations (node_delegation_prefix node_id)) of
        Inl e \<Rightarrow> (db, Inl e)
      | Inr kvs \<Rightarrow>
          (let ids = List.map_filter (\<lambda>(key, _). key_delegation_id key) kvs in
           case revoke_each E node_id ids db of
             (db', Inl e) \<Rightarrow> (db', Inl e)
           | (db', Inr _) \<Rightarrow> (db', Inr ids)))"

definition get_revoked_set :: "env \<Rightarrow> database \<Rightarrow> int \<Rightarrow> delegation_error + string list" where
  "get_revoked_set E db now =
     bindE (dlg_read (kv_prefix db Krevoked_delegations [])) (\<lambda>kvs.
       Inr (map dl_delegation_id (filter (\<lambda>r. dl_expires_at r > now) (decode_all (c_delegation E) kvs))))"

definition cleanup_expired_revocations :: "env \<Rightarrow> int \<Rightarrow> database \<Rightarrow> database \<times> (delegation_error + nat)" where
  "cleanup_expired_revocations E now db =
     (case dlg_read (kv_prefix db Krevoked_delegations []) of
        Inl e \<Rightarrow> (db, Inl e)
      | Inr kvs \<Rightarrow>
          (let keys = map (\<lambda>r. composite_delegation_key (dl_node_id r) (dl_delegation_id r))
                 (filter (\<lambda>r. dl_expires_at r \<le> now) (decode_all (c_delegation E) kvs)) in
           case remove_keys Krevoked_delegations keys db of
             (db', Inl e) \<Rightarrow> (db', Inl (Delegation_storage (Storage_error e)))
           | (db', Inr _) \<Rightarrow> (db', Inr (length keys))))"


section \<open>Issuing a key\<close>

datatype ca_error = Placement_verification | Ca_storage storage_error | Ca_validation | Ca_signing

definition implied_svid :: "string \<Rightarrow> placement \<Rightarrow> spiffe_id" where
  "implied_svid td p = spiffe_sa td (pl_tenant_id p) (pl_service p)"

text \<open>The role of the first placement that implies the target identity; \<open>td\<close> is its trust domain.\<close>

definition verify_placement ::
  "env \<Rightarrow> database \<Rightarrow> string \<Rightarrow> spiffe_id \<Rightarrow> spiffe_id \<Rightarrow> nat option \<Rightarrow> ca_error + string option" where
  "verify_placement E db td node_id target ordinal =
     bindE (map_err (\<lambda>e. Ca_storage (Storage_error e)) (kv_prefix db Kplacements [])) (\<lambda>kvs.
       case find (\<lambda>p. pl_node_id p = node_id \<and> (case ordinal of Some n \<Rightarrow> pl_ordinal p = n | None \<Rightarrow> True) \<and>
                      implied_svid td p = target) (decode_all (c_placement E) kvs) of
         Some p \<Rightarrow> Inr (if pl_role p = [] then None else Some (pl_role p))
       | None \<Rightarrow> Inl Placement_verification)"

record delegation_request =
  dr_node_id :: spiffe_id
  dr_target :: spiffe_id
  dr_ordinal :: "nat option"
  dr_ttl_secs :: nat

record delegated_key_bundle =
  dk_key_bytes :: bytes
  dk_delegation_id :: string

text \<open>
  \<open>sign\<close> stands for key generation, the certificate builder and the signature of the trust bundle:
  from the request, the issue time and the role it gives the serialised signing key.
\<close>

definition issue_delegated_key ::
  "env \<Rightarrow> (spiffe_id \<Rightarrow> string) \<Rightarrow> (delegation_request \<Rightarrow> int \<Rightarrow> string option \<Rightarrow> bytes option) \<Rightarrow>
     database \<Rightarrow> int \<Rightarrow> delegation_request \<Rightarrow> ca_error + delegated_key_bundle" where
  "issue_delegated_key E domain sign db now req =
     bindE (verify_placement E db (domain (dr_target req)) (dr_node_id req) (dr_target req) (dr_ordinal req)) (\<lambda>role.
     bindE (ok_or Ca_signing (sign req now role)) (\<lambda>key.
     bindE (case role of Some r \<Rightarrow> if role_ok E r then Inr () else Inl Ca_validation | None \<Rightarrow> Inr ()) (\<lambda>_.
       Inr \<lparr>dk_key_bytes = key,
            dk_delegation_id = compute_delegation_id (dr_node_id req) (dr_target req) (dr_ordinal req) now\<rparr>)))"


section \<open>Facts\<close>

lemma split_on_nonempty [simp]: "split_on sep s \<noteq> []"
  by (induction s) (auto split: list.splits)

lemma split_on_plain: "sep \<notin> set s \<Longrightarrow> split_on sep s = [s]"
  by (induction s) auto

lemma split_on_append: "sep \<notin> set s \<Longrightarrow> split_on sep (s @ sep # t) = s # split_on sep t"
  by (induction s) auto

lemma unsigned_part_digits: "list_all is_digit s \<Longrightarrow> unsigned_part s = s"
  by (cases s) (auto simp: unsigned_part_def is_digit_def)

lemma parse_unsigned_show: "n < 2 ^ bits \<Longrightarrow> parse_unsigned bits (show_nat n) = Some n"
  using show_nat_digits[of n] by (simp add: parse_unsigned_def unsigned_part_digits digits_value_show)

lemma show_nat_not_minus: "show_nat n \<noteq> CHR ''-'' # t"
  using show_nat_digits[of n] by (auto simp: is_digit_def)

lemma parse_signed_show:
  assumes "- (2 ^ (bits - 1)) \<le> i" "i < 2 ^ (bits - 1)"
  shows "parse_signed bits (show_int i) = Some i"
proof (cases "i < 0")
  case True
  then have "nat (- i) \<le> 2 ^ (bits - 1)" using assms(1) by (simp add: nat_le_iff)
  with True show ?thesis
    by (simp add: parse_signed_def show_int_def show_nat_digits digits_value_show)
next
  case False
  then have n: "parse_unsigned (bits - 1) (show_nat (nat i)) = Some (nat i)"
    using assms(2) by (intro parse_unsigned_show) (simp add: nat_less_iff)
  have "show_nat (nat i) = c # t \<Longrightarrow> c \<noteq> CHR ''-''" for c t
    using show_nat_not_minus by blast
  then show ?thesis
    using False n by (cases "show_nat (nat i)") (auto simp: parse_signed_def show_int_def)
qed

lemma bar_not_in_show [simp]: "CHR ''|'' \<notin> set (show_nat n)"
  by (rule not_digit_not_in_show) (simp add: is_digit_def)

lemma parse_compute_delegation_id:
  assumes "CHR ''|'' \<notin> set node" "CHR ''|'' \<notin> set target"
    and "\<And>n. ordinal = Some n \<Longrightarrow> n < 2 ^ 32" "- (2 ^ 63) \<le> issued" "issued < 2 ^ 63"
  shows "parse_delegation_id (compute_delegation_id node target ordinal issued) = Inr (node, target, ordinal, issued)"
proof -
  have i: "parse_signed 64 (show_int issued) = Some issued"
    using parse_signed_show[of 64 issued] assms(4,5) by simp
  have nb: "CHR ''|'' \<notin> set (show_int issued)" "CHR ''|'' \<notin> set (ordinal_text ordinal)"
    by (auto simp: show_int_def ordinal_text_def split: option.split)
  have "split_on CHR ''|'' (compute_delegation_id node target ordinal issued) =
    [node, target, ordinal_text ordinal, show_int issued]"
    using assms(1,2) nb by (simp add: compute_delegation_id_def split_on_append split_on_plain)
  moreover have "show_nat n \<noteq> ''none''" for n
    using show_nat_digits[of n] by (auto simp: is_digit_def)
  ultimately show ?thesis
    using i assms(3) by (cases ordinal) (auto simp: parse_delegation_id_def ordinal_text_def parse_unsigned_show)
qed

lemma verify_placement_Inr:
  assumes "verify_placement E db td node target ordinal = Inr role" "db_wf db"
  obtains key v p where "lookup db Kplacements key = Some v" "dec (c_placement E) v = Some p"
    "pl_node_id p = node" "implied_svid td p = target" "\<forall>n. ordinal = Some n \<longrightarrow> pl_ordinal p = n"
    "role = (if pl_role p = [] then None else Some (pl_role p))"
proof -
  define P where "P = (\<lambda>p. pl_node_id p = node \<and> (case ordinal of Some n \<Rightarrow> pl_ordinal p = n | None \<Rightarrow> True) \<and>
        implied_svid td p = target)"
  obtain kvs p where kvs: "kv_prefix db Kplacements [] = Inr kvs"
    and p: "find P (decode_all (c_placement E) kvs) = Some p"
      "role = (if pl_role p = [] then None else Some (pl_role p))"
    using assms(1) unfolding verify_placement_def P_def[symmetric]
    by (auto simp: result_simps split: option.splits)
  then have "p \<in> set (decode_all (c_placement E) kvs)" and q: "pl_node_id p = node" "implied_svid td p = target"
    "case ordinal of Some n \<Rightarrow> pl_ordinal p = n | None \<Rightarrow> True"
    by (auto simp: find_Some_iff P_def)
  then obtain key v where "(key, v) \<in> set kvs" "dec (c_placement E) v = Some p" by (auto simp: in_decode_all)
  with kv_prefix_mem[OF kvs assms(2)] q p(2) that show ?thesis by (cases ordinal) auto
qed

end
