(* ===== verification/AdminService.thy ===== *)
theory AdminService
  imports AdminAuth Secrets Delegation
begin

text \<open>
  The handlers of the admin service (\<open>admin/service.rs\<close>), one definition each. A handler checks the
  caller and the request against the local database, then proposes a command; \<open>propose\<close> is that last
  step. The record \<open>core_api\<close> collects the functions of external crates the handlers call; the
  record \<open>admin_service\<close> is the service with its configuration.
\<close>


section \<open>The service\<close>

record core_api =
  co_domain :: "spiffe_id \<Rightarrow> string"
  co_rule_id :: "string \<Rightarrow> string \<Rightarrow> string option \<Rightarrow> nat option \<Rightarrow> string \<Rightarrow> string option \<Rightarrow> nat option \<Rightarrow> string \<Rightarrow> string"
  co_port :: "nat option \<Rightarrow> nat option option"
  co_grant_id :: "string \<Rightarrow> string \<Rightarrow> nat \<Rightarrow> nat \<Rightarrow> bool \<Rightarrow> bool \<Rightarrow> string list \<Rightarrow> string"
  co_ek_chain_ok :: "bytes \<Rightarrow> bool"
  co_ek_of_cert :: "bytes \<Rightarrow> string option"
  co_ek_of_pub :: "bytes \<Rightarrow> string"
  co_cron :: "string \<Rightarrow> (int \<Rightarrow> int option) option"
  co_sign :: "delegation_request \<Rightarrow> int \<Rightarrow> string option \<Rightarrow> bytes option"

record admin_service =
  ad_env :: env
  ad_core :: core_api
  ad_operators :: operators_config
  ad_dummy_prefix :: nat
  ad_token_ttl :: nat
  ad_node_ttl :: nat
  ad_delegated_ttl :: nat
  ad_refresh_fraction :: rat
  ad_has_ca :: bool
  ad_secrets :: secret_store
  ad_guard :: "database \<Rightarrow> string \<Rightarrow> string \<Rightarrow> string \<Rightarrow> nat \<Rightarrow> disruption_target \<Rightarrow> disruption_denied + unit"

definition audited :: "audit_context \<Rightarrow> fleetos_command \<Rightarrow> audited_command" where
  "audited a c = \<lparr>cmd = c, audit = Some a\<rparr>"

text \<open>Proposing: a refused request writes nothing; a failed proposal is an internal error.\<close>

definition propose ::
  "writer \<Rightarrow> replica \<Rightarrow> status + audited_command \<times> 'r \<Rightarrow> replica \<times> (status + 'r)" where
  "propose cw st plan =
     (case plan of
        Inl e \<Rightarrow> (st, Inl e)
      | Inr (c, r) \<Rightarrow> (case cw st c of (st', Inl _) \<Rightarrow> (st', Inl Internal) | (st', Inr _) \<Rightarrow> (st', Inr r)))"

fun propose_all :: "writer \<Rightarrow> audited_command list \<Rightarrow> replica \<Rightarrow> replica \<times> (status + unit)" where
  "propose_all cw [] st = (st, Inr ())"
| "propose_all cw (c # cs) st =
     (case cw st c of (st', Inl _) \<Rightarrow> (st', Inl Internal) | (st', Inr _) \<Rightarrow> propose_all cw cs st')"

abbreviation guardE :: "bool \<Rightarrow> 'e \<Rightarrow> 'e + unit" where
  "guardE ok e \<equiv> (if ok then Inr () else Inl e)"

text \<open>\<open>verify_caller\<close> followed by the scope a handler asks for.\<close>

definition cluster_write :: "admin_service \<Rightarrow> database \<Rightarrow> caller \<Rightarrow> status + unit" where
  "cluster_write A db cl =
     bindE (verify_caller (ad_env A) cl) (\<lambda>_. require_cluster_admin_write (ad_env A) (ad_operators A) db cl)"

definition tenant_write :: "admin_service \<Rightarrow> database \<Rightarrow> caller \<Rightarrow> string \<Rightarrow> status + unit" where
  "tenant_write A db cl tenant =
     bindE (verify_caller (ad_env A) cl) (\<lambda>_. require_tenant_write (ad_env A) db cl tenant)"

definition read_access :: "admin_service \<Rightarrow> database \<Rightarrow> caller \<Rightarrow> status + unit" where
  "read_access A db cl =
     bindE (verify_caller (ad_env A) cl) (\<lambda>_. require_read_access (ad_env A) db cl)"

definition cluster_read :: "admin_service \<Rightarrow> database \<Rightarrow> caller \<Rightarrow> status + unit" where
  "cluster_read A db cl =
     bindE (verify_caller (ad_env A) cl) (\<lambda>_. require_cluster_admin (ad_env A) (ad_operators A) db cl)"

definition read_or_internal :: "'e + 'a \<Rightarrow> status + 'a" where
  "read_or_internal = map_err (\<lambda>_. Internal)"


section \<open>Tenants and workloads\<close>

definition create_tenant :: "admin_service \<Rightarrow> writer \<Rightarrow> caller \<Rightarrow> string \<Rightarrow> replica \<Rightarrow> replica \<times> (status + unit)" where
  "create_tenant A cw cl tenant_id st =
     (let db = rp_db st; E = ad_env A in
      propose cw st (
        bindE (cluster_write A db cl) (\<lambda>_.
        bindE (validate_identifier tenant_id) (\<lambda>_.
        bindE (read_or_internal (get_tenant E db tenant_id)) (\<lambda>existing.
        bindE (guardE (existing = None) Already_exists) (\<lambda>_.
        bindE (read_or_internal (compute_tenant_block_allocation E (ad_dummy_prefix A) db tenant_id)) (\<lambda>block.
          Inr (audited (build_audit_context cl tenant_id)
                 (CreateTenant \<lparr>tr_tenant_id = tenant_id, tr_created_at = cl_now cl, tr_last_applied = []\<rparr> block),
               ()))))))))"

definition validate_vertical :: "workload_spec \<Rightarrow> status + unit" where
  "validate_vertical spec =
     (case ws_vertical spec of
        None \<Rightarrow> Inr ()
      | Some vpa \<Rightarrow>
          if \<not> va_enabled vpa then Inr ()
          else
            (let cpu_active = va_target_cpu_percent vpa > 0; mem_active = va_target_memory_percent vpa > 0 in
             if \<not> cpu_active \<and> \<not> mem_active then Inl Invalid_argument
             else if va_min_vcpus vpa > va_max_vcpus vpa then Inl Invalid_argument
             else if va_min_memory vpa > va_max_memory vpa then Inl Invalid_argument
             else
               (case ws_autoscaling spec of
                  None \<Rightarrow> Inr ()
                | Some hpa \<Rightarrow>
                    if \<not> hp_enabled hpa then Inr ()
                    else if cpu_active \<and> hp_target_cpu hpa > 0 then Inl Invalid_argument
                    else if mem_active \<and> hp_target_memory hpa > 0 then Inl Invalid_argument
                    else Inr ())))"

definition validate_role_count :: "string \<times> nat \<Rightarrow> status + unit" where
  "validate_role_count rc =
     bindE (validate_identifier (fst rc)) (\<lambda>_.
       guardE (\<not> (snd rc = 0 \<or> snd rc > MAX_REPLICAS_PER_ROLE)) Invalid_argument)"

definition submit_workload_spec ::
  "admin_service \<Rightarrow> writer \<Rightarrow> caller \<Rightarrow> workload_spec \<Rightarrow> replica \<Rightarrow> replica \<times> (status + unit)" where
  "submit_workload_spec A cw cl spec st =
     (let db = rp_db st; E = ad_env A in
      propose cw st (
        bindE (tenant_write A db cl (ws_tenant_id spec)) (\<lambda>_.
        bindE (validate_identifier (ws_tenant_id spec)) (\<lambda>_.
        bindE (validate_identifier (ws_workload_id spec)) (\<lambda>_.
        bindE (guardE (ws_image spec \<noteq> []) Invalid_argument) (\<lambda>_.
        bindE (guardE (ws_replicas spec \<noteq> []) Invalid_argument) (\<lambda>_.
        bindE (guardE (length (ws_replicas spec) \<le> MAX_ROLES_PER_WORKLOAD) Invalid_argument) (\<lambda>_.
        bindE (mapE validate_role_count (ws_replicas spec)) (\<lambda>_.
        bindE (ok_or Internal (enc (c_spec E) spec)) (\<lambda>spec_bytes.
        bindE (guardE (length spec_bytes \<le> MAX_SPEC_BYTES) Invalid_argument) (\<lambda>_.
        bindE (case ws_pod_spec spec of Some ps \<Rightarrow> validate_init_containers ps | None \<Rightarrow> Inr ()) (\<lambda>_.
        bindE (validate_vertical spec) (\<lambda>_.
        bindE (check_tenant_quota E db (ws_tenant_id spec) spec) (\<lambda>_.
          Inr (audited (build_audit_context cl (ws_workload_id spec))
                 (SubmitWorkloadSpec
                    \<lparr>wr_tenant_id = ws_tenant_id spec, wr_workload_id = ws_workload_id spec,
                     wr_spec_bytes = spec_bytes, wr_last_applied = []\<rparr>), ())))))))))))))))"

definition delete_workload ::
  "admin_service \<Rightarrow> writer \<Rightarrow> caller \<Rightarrow> string \<Rightarrow> string \<Rightarrow> replica \<Rightarrow> replica \<times> (status + unit)" where
  "delete_workload A cw cl tenant workload st =
     propose cw st (
       bindE (tenant_write A (rp_db st) cl tenant) (\<lambda>_.
         Inr (audited (build_audit_context cl workload) (DeleteWorkload tenant workload), ())))"

definition scale_workload ::
  "admin_service \<Rightarrow> writer \<Rightarrow> caller \<Rightarrow> string \<Rightarrow> string \<Rightarrow> (string \<times> nat) list \<Rightarrow> replica \<Rightarrow> replica \<times> (status + unit)" where
  "scale_workload A cw cl tenant workload replicas st =
     (let db = rp_db st; E = ad_env A in
      propose cw st (
        bindE (tenant_write A db cl tenant) (\<lambda>_.
        bindE (read_or_internal (get_workload_spec db tenant workload)) (\<lambda>raw.
        bindE (ok_or Not_found raw) (\<lambda>b.
        bindE (ok_or Internal (dec (c_workload E) b)) (\<lambda>r.
        bindE (ok_or Internal (dec (c_spec E) (wr_spec_bytes r))) (\<lambda>old.
        let spec = old\<lparr>ws_replicas := replicas\<rparr> in
        bindE (check_tenant_quota E db tenant spec) (\<lambda>_.
        bindE (ok_or Internal (enc (c_spec E) spec)) (\<lambda>spec_bytes.
          Inr (audited (build_audit_context cl workload) (ScaleWorkload (r\<lparr>wr_spec_bytes := spec_bytes\<rparr>)), ()))))))))))"

definition submit_cron_workload ::
  "admin_service \<Rightarrow> writer \<Rightarrow> caller \<Rightarrow> cron_workload \<Rightarrow> replica \<Rightarrow> replica \<times> (status + unit)" where
  "submit_cron_workload A cw cl cron st =
     propose cw st (
       bindE (tenant_write A (rp_db st) cl (cr_tenant_id cron)) (\<lambda>_.
       bindE (validate_identifier (cr_tenant_id cron)) (\<lambda>_.
       bindE (validate_identifier (cr_cron_workload_id cron)) (\<lambda>_.
       bindE (ok_or Invalid_argument (cr_schedule cron)) (\<lambda>schedule.
       bindE (ok_or Invalid_argument (co_cron (ad_core A) (cs_expression schedule))) (\<lambda>_.
       bindE (ok_or Internal (enc (c_cron_spec (ad_env A)) cron)) (\<lambda>spec_bytes.
         Inr (audited (build_audit_context cl (cr_cron_workload_id cron))
                (SubmitCronWorkload
                   \<lparr>cw_tenant_id = cr_tenant_id cron, cw_cron_workload_id = cr_cron_workload_id cron,
                    cw_schedule = cs_expression schedule, cw_spec_bytes = spec_bytes\<rparr>
                   \<lparr>cp_tenant_id = cr_tenant_id cron, cp_cron_workload_id = cr_cron_workload_id cron,
                    cp_last_triggered = cl_now cl\<rparr>), ()))))))))"

definition set_quota ::
  "admin_service \<Rightarrow> writer \<Rightarrow> caller \<Rightarrow> tenant_quota_record option \<Rightarrow> replica \<Rightarrow> replica \<times> (status + unit)" where
  "set_quota A cw cl quota st =
     propose cw st (
       bindE (cluster_write A (rp_db st) cl) (\<lambda>_.
       bindE (ok_or Invalid_argument quota) (\<lambda>q.
       bindE (validate_identifier (tq_tenant_id q)) (\<lambda>_.
       bindE (read_or_internal (get_tenant (ad_env A) (rp_db st) (tq_tenant_id q))) (\<lambda>tenant.
       bindE (guardE (tenant \<noteq> None) Not_found) (\<lambda>_.
         Inr (audited (build_audit_context cl (tq_tenant_id q)) (SetTenantQuota q), ())))))))"

end
