(* ===== verification/AdminCluster.thy ===== *)
theory AdminCluster
  imports AdminService
begin

text \<open>
  The handlers of the admin service for join tokens, policy rules, secrets, delegated keys, nodes,
  operator grants and node pools, and the read-only queries (\<open>admin/service.rs\<close>), with the mapping
  of node kinds of \<open>provisioning/mod.rs\<close>.
\<close>


section \<open>Join tokens and policy rules\<close>

definition node_kind_of_text :: "string \<Rightarrow> node_kind option" where
  "node_kind_of_text s =
     (if s = ''agent'' then Some KAgent else if s = ''router'' then Some KRouter
      else if s = ''gateway'' then Some KGateway else if s = ''control'' then Some KControl
      else if s = ''fleetctl_proxy'' then Some KFleetctlProxy else None)"

definition generate_join_token ::
  "admin_service \<Rightarrow> writer \<Rightarrow> caller \<Rightarrow> bytes \<Rightarrow> string \<Rightarrow> replica \<Rightarrow> replica \<times> (status + bytes)" where
  "generate_join_token A cw cl token kind_text st =
     propose cw st (
       bindE (cluster_write A (rp_db st) cl) (\<lambda>_.
       bindE (ok_or Invalid_argument (node_kind_of_text kind_text)) (\<lambda>kind.
       let r = compute_token_record (ad_token_ttl A) (cl_now cl) token kind in
         Inr (audited (build_audit_context cl kind_text) (MintJoinToken r), jt_token r))))"

definition role_of_text :: "env \<Rightarrow> string \<Rightarrow> status + string option" where
  "role_of_text E s =
     (if s = [] then Inr None else if role_ok E s then Inr (Some s) else Inl Invalid_argument)"

definition action_text :: "int \<Rightarrow> status + string" where
  "action_text a = (if a = 0 then Inr ''ALLOW'' else if a = 1 then Inr ''DENY'' else Inl Invalid_argument)"

definition upsert_sag_rule ::
  "admin_service \<Rightarrow> writer \<Rightarrow> caller \<Rightarrow> sag_rule option \<Rightarrow> replica \<Rightarrow> replica \<times> (status + string)" where
  "upsert_sag_rule A cw cl rule st =
     (let E = ad_env A; C = ad_core A in
      propose cw st (
        bindE (cluster_write A (rp_db st) cl) (\<lambda>_.
        bindE (ok_or Invalid_argument rule) (\<lambda>rule.
        bindE (ok_or Invalid_argument (sag_from rule)) (\<lambda>from.
        bindE (ok_or Invalid_argument (sag_to rule)) (\<lambda>to.
        bindE (guardE (sf_tenant from = sf_tenant to) Invalid_argument) (\<lambda>_.
        bindE (validate_identifier (sf_tenant from)) (\<lambda>_.
        bindE (validate_identifier (sf_service_name from)) (\<lambda>_.
        bindE (validate_identifier (sf_service_name to)) (\<lambda>_.
        bindE (ok_or Invalid_argument (co_port C (sf_port from))) (\<lambda>from_port.
        bindE (ok_or Invalid_argument (co_port C (sf_port to))) (\<lambda>to_port.
        bindE (role_of_text E (sf_role from)) (\<lambda>from_role.
        bindE (role_of_text E (sf_role to)) (\<lambda>to_role.
        bindE (action_text (sag_action rule)) (\<lambda>action.
        let rule_id = co_rule_id C (sf_tenant from) (sf_service_name from) from_role from_port
              (sf_service_name to) to_role to_port action in
        bindE (ok_or Internal (enc (c_sag_rule E) rule)) (\<lambda>rule_bytes.
          Inr (audited (build_audit_context cl rule_id)
                 (UpsertSagRule \<lparr>sr_rule_id = rule_id, sr_rule_bytes = rule_bytes, sr_last_applied = []\<rparr>),
               rule_id)))))))))))))))))"

definition delete_sag_rule ::
  "admin_service \<Rightarrow> writer \<Rightarrow> caller \<Rightarrow> string \<Rightarrow> replica \<Rightarrow> replica \<times> (status + string)" where
  "delete_sag_rule A cw cl rule_id st =
     propose cw st (
       bindE (cluster_write A (rp_db st) cl) (\<lambda>_.
       bindE (guardE (rule_id \<noteq> []) Invalid_argument) (\<lambda>_.
         Inr (audited (build_audit_context cl rule_id) (DeleteSagRule rule_id), rule_id))))"


section \<open>Secrets\<close>

record store_secret_request =
  sq_tenant_id :: string
  sq_key :: string
  sq_value :: bytes
  sq_authorized :: "string list"

definition store_secret ::
  "admin_service \<Rightarrow> writer \<Rightarrow> caller \<Rightarrow> seal_randoms \<Rightarrow> store_secret_request \<Rightarrow> replica \<Rightarrow> replica \<times> (status + unit)" where
  "store_secret A cw cl rnd req st =
     propose cw st (
       bindE (tenant_write A (rp_db st) cl (sq_tenant_id req)) (\<lambda>_.
       bindE (validate_identifier (sq_tenant_id req)) (\<lambda>_.
       bindE (guardE (sq_key req \<noteq> []) Invalid_argument) (\<lambda>_.
       bindE (guardE (sq_value req \<noteq> []) Invalid_argument) (\<lambda>_.
       bindE (guardE (sq_authorized req \<noteq> []) Invalid_argument) (\<lambda>_.
       bindE (mapE (\<lambda>s. ok_or Invalid_argument (sp_parse (ad_env A) s)) (sq_authorized req)) (\<lambda>authorized.
       bindE (read_or_internal (prepare_secret (ad_env A) (ad_secrets A) rnd (sq_key req) (sq_value req) authorized))
         (\<lambda>(envelope_bytes, acl_bytes).
           Inr (audited (build_audit_context cl (sq_key req))
                  (StoreSecret
                     \<lparr>se_key = sq_key req, se_envelope = envelope_bytes, se_acl = acl_bytes, se_last_applied = []\<rparr>
                     (hd authorized)), ())))))))))"

text \<open>Granting and revoking access differ in the command only.\<close>

definition change_secret_access ::
  "(string \<Rightarrow> string \<Rightarrow> string \<Rightarrow> fleetos_command) \<Rightarrow> admin_service \<Rightarrow> writer \<Rightarrow> caller \<Rightarrow> string \<Rightarrow> string \<Rightarrow> string \<Rightarrow>
     replica \<Rightarrow> replica \<times> (status + unit)" where
  "change_secret_access mk A cw cl tenant key who st =
     propose cw st (
       bindE (tenant_write A (rp_db st) cl tenant) (\<lambda>_.
       bindE (validate_identifier tenant) (\<lambda>_.
       bindE (guardE (key \<noteq> []) Invalid_argument) (\<lambda>_.
       bindE (ok_or Invalid_argument (sp_parse (ad_env A) who)) (\<lambda>_.
       bindE (read_or_internal (kv_get (rp_db st) Ksecrets (secret_key key))) (\<lambda>v.
       bindE (guardE (v \<noteq> None) Not_found) (\<lambda>_.
         Inr (audited (build_audit_context cl key) (mk tenant key who), ()))))))))"

definition grant_secret_access ::
  "admin_service \<Rightarrow> writer \<Rightarrow> caller \<Rightarrow> string \<Rightarrow> string \<Rightarrow> string \<Rightarrow> replica \<Rightarrow> replica \<times> (status + unit)" where
  "grant_secret_access = change_secret_access GrantSecretAccess"

definition revoke_secret_access ::
  "admin_service \<Rightarrow> writer \<Rightarrow> caller \<Rightarrow> string \<Rightarrow> string \<Rightarrow> string \<Rightarrow> replica \<Rightarrow> replica \<times> (status + unit)" where
  "revoke_secret_access = change_secret_access RevokeSecretAccess"


section \<open>Delegated keys\<close>

record delegated_key_request =
  kq_node_svid :: string
  kq_target :: string
  kq_ordinal :: "nat option"
  kq_ttl_secs :: nat

definition bounded_ttl :: "nat \<Rightarrow> nat \<Rightarrow> nat" where
  "bounded_ttl limit requested = (if requested = 0 \<or> requested > limit then limit else requested)"

definition request_delegated_key ::
  "admin_service \<Rightarrow> writer \<Rightarrow> caller \<Rightarrow> delegated_key_request \<Rightarrow> replica \<Rightarrow>
     replica \<times> (status + delegated_key_bundle \<times> int)" where
  "request_delegated_key A cw cl req st =
     (let E = ad_env A; now = cl_now cl in
      propose cw st (
        bindE (cluster_read A (rp_db st) cl) (\<lambda>_.
        bindE (ok_or Invalid_argument (sp_parse E (kq_node_svid req))) (\<lambda>node.
        bindE (ok_or Invalid_argument (sp_parse E (kq_target req))) (\<lambda>target.
        let ttl = bounded_ttl (ad_delegated_ttl A) (kq_ttl_secs req) in
        bindE (guardE (ad_has_ca A) Unavailable) (\<lambda>_.
        bindE (read_or_internal (issue_delegated_key E (co_domain (ad_core A)) (co_sign (ad_core A)) (rp_db st) now
                 \<lparr>dr_node_id = node, dr_target = target, dr_ordinal = kq_ordinal req, dr_ttl_secs = ttl\<rparr>)) (\<lambda>bundle.
          Inr (audited (build_audit_context cl (dk_delegation_id bundle))
                 (IssueDelegation
                    \<lparr>dl_delegation_id = dk_delegation_id bundle, dl_node_id = node, dl_target_svid_id = target,
                     dl_target_ordinal = kq_ordinal req, dl_issued_at = now, dl_expires_at = now + int ttl,
                     dl_refresh_at = now + \<lfloor>of_nat ttl * ad_refresh_fraction A\<rfloor>\<rparr>),
               (bundle, now + int ttl))))))))) "


section \<open>Nodes\<close>

definition cordon_node :: "admin_service \<Rightarrow> writer \<Rightarrow> caller \<Rightarrow> string \<Rightarrow> replica \<Rightarrow> replica \<times> (status + unit)" where
  "cordon_node A cw cl node st =
     propose cw st (
       bindE (cluster_write A (rp_db st) cl) (\<lambda>_.
         Inr (audited (build_audit_context cl node) (SetNodeSchedulable node False), ())))"

type_synonym pod_group = "(string \<times> string \<times> string) \<times> placement list"

definition group_key :: "placement \<Rightarrow> string \<times> string \<times> string" where
  "group_key p = (pl_tenant_id p, pl_service p, pl_role p)"

definition pod_groups :: "placement list \<Rightarrow> pod_group list" where
  "pod_groups ps = map (\<lambda>k. (k, filter (\<lambda>p. group_key p = k) ps)) (sort (remdups (map group_key ps)))"

text \<open>The pods of a group that may go now, and whether the whole group may.\<close>

definition group_allowance :: "admin_service \<Rightarrow> database \<Rightarrow> pod_group \<Rightarrow> bool \<times> placement list" where
  "group_allowance A db g =
     (case g of ((tenant, service, role), ps) \<Rightarrow>
        if \<not> tenant_ok (ad_env A) tenant \<or> \<not> role_ok (ad_env A) role then (False, [])
        else
          (case ad_guard A db tenant service role (length ps mod 2 ^ 32) TEviction of
             Inr _ \<Rightarrow> (True, [])
           | Inl d \<Rightarrow> (False, take (min (length ps mod 2 ^ 32) (dd_current_healthy d - dd_min_available d)) ps)))"

definition drain_commands :: "audit_context \<Rightarrow> string \<Rightarrow> placement list \<Rightarrow> audited_command list" where
  "drain_commands a node ps =
     audited a (SetNodeSchedulable node False) #
     concat (map (\<lambda>p. [audited a (RemovePlacement (pl_pod_id p)),
       audited a (RecordOrdinalAssignment
         \<lparr>oa_tenant_id = pl_tenant_id p, oa_service = pl_service p, oa_role = pl_role p,
          oa_ordinal = pl_ordinal p, oa_pod_id = None, oa_node_id = None\<rparr>)]) ps)"

definition evict_node ::
  "admin_service \<Rightarrow> writer \<Rightarrow> caller \<Rightarrow> string \<Rightarrow> bool \<Rightarrow> replica \<Rightarrow> replica \<times> (status + bool)" where
  "evict_node A cw cl node_svid force st =
     (let db = rp_db st; a = build_audit_context cl node_svid;
          full = propose cw st (Inr (audited a (EvictNode node_svid (cl_now cl + int (ad_node_ttl A))), True)) in
      case bindE (cluster_write A db cl) (\<lambda>_. ok_or Invalid_argument (sp_parse (ad_env A) node_svid)) of
        Inl e \<Rightarrow> (st, Inl e)
      | Inr node \<Rightarrow>
          if force then full
          else
            (case read_or_internal (get_placements_for_node (ad_env A) db node) of
               Inl e \<Rightarrow> (st, Inl e)
             | Inr ps \<Rightarrow>
                 (let allowances = map (group_allowance A db) (pod_groups ps) in
                  if list_all fst allowances then full
                  else
                    (case propose_all cw (drain_commands a node_svid (concat (map snd allowances))) st of
                       (st', Inl e) \<Rightarrow> (st', Inl e)
                     | (st', Inr _) \<Rightarrow> (st', Inr False)))))"

end
