(* ===== verification/AdminOperators.thy ===== *)
theory AdminOperators
  imports AdminCluster
begin

text \<open>
  The handlers of the admin service (\<open>admin/service.rs\<close>) for operator grants, node pools,
  endorsement keys, measured-boot policies and taints, and its read-only queries; with the mapping
  of node kinds of \<open>provisioning/mod.rs\<close>.
\<close>


section \<open>Operator grants\<close>

record operator_scope =
  os_cluster_admin :: bool
  os_tenants :: "string list"
  os_read_only :: bool

definition default_scope :: operator_scope where
  "default_scope = \<lparr>os_cluster_admin = False, os_tenants = [], os_read_only = False\<rparr>"

definition grant_operator_access ::
  "admin_service \<Rightarrow> writer \<Rightarrow> caller \<Rightarrow> string \<Rightarrow> operator_scope option \<Rightarrow> nat \<Rightarrow> replica \<Rightarrow> replica \<times> (status + string)" where
  "grant_operator_access A cw cl operator_id scope ttl_secs st =
     (let E = ad_env A; oc = ad_operators A in
      propose cw st (
        bindE (cluster_write A (rp_db st) cl) (\<lambda>_.
        bindE (caller_spiffe_id cl) (\<lambda>granted_by.
        bindE (ok_or Invalid_argument (sp_parse E operator_id)) (\<lambda>op_spiffe.
        bindE (guardE (sp_kind E op_spiffe = IkOperator) Invalid_argument) (\<lambda>_.
        bindE (guardE (oc_allowed_operators oc = [] \<or> operator_id \<in> set (oc_allowed_operators oc)) Permission_denied) (\<lambda>_.
        let granted_at = now_u64 cl;
            ttl = (if ttl_secs = 0 then oc_grant_ttl_secs oc else ttl_secs);
            expires_at = (granted_at + ttl) mod 2 ^ 64;
            sc = (case scope of Some s \<Rightarrow> s | None \<Rightarrow> default_scope);
            grant_id = co_grant_id (ad_core A) operator_id granted_by granted_at expires_at
              (os_cluster_admin sc) (os_read_only sc) (os_tenants sc) in
          Inr (audited (build_audit_context cl operator_id)
                 (GrantOperatorAccess
                    \<lparr>og_grant_id = grant_id, og_operator_id = operator_id, og_granted_by = granted_by,
                     og_granted_at = granted_at, og_expires_at = expires_at,
                     og_cluster_admin = os_cluster_admin sc, og_read_only = os_read_only sc,
                     og_tenants = os_tenants sc\<rparr>), grant_id))))))))"

definition revoke_operator_access ::
  "admin_service \<Rightarrow> writer \<Rightarrow> caller \<Rightarrow> string \<Rightarrow> replica \<Rightarrow> replica \<times> (status + string)" where
  "revoke_operator_access A cw cl grant_id st =
     propose cw st (
       bindE (cluster_write A (rp_db st) cl) (\<lambda>_.
       bindE (read_or_internal (kv_get (rp_db st) Koperator_grants grant_id)) (\<lambda>v.
       bindE (guardE (v \<noteq> None) Not_found) (\<lambda>_.
         Inr (audited (build_audit_context cl grant_id) (RevokeOperatorAccess grant_id), grant_id)))))"


section \<open>Node pools\<close>

definition node_kind_to_proto :: "node_kind \<Rightarrow> int" where
  "node_kind_to_proto k =
     (case k of KControl \<Rightarrow> 0 | KAgent \<Rightarrow> 1 | KRouter \<Rightarrow> 2 | KGateway \<Rightarrow> 3 | KFleetctlProxy \<Rightarrow> 4)"

definition node_kind_from_proto :: "int \<Rightarrow> node_kind option" where
  "node_kind_from_proto v =
     (if v = 0 then Some KControl else if v = 1 then Some KAgent else if v = 2 then Some KRouter
      else if v = 3 then Some KGateway else if v = 4 then Some KFleetctlProxy else None)"

record node_pool_request =
  nq_pool_id :: string
  nq_node_kind :: int
  nq_desired_count :: nat
  nq_vcpus :: nat
  nq_memory_mb :: nat
  nq_disk_gb :: nat
  nq_region_hint :: string

definition create_node_pool ::
  "admin_service \<Rightarrow> writer \<Rightarrow> caller \<Rightarrow> node_pool_request \<Rightarrow> replica \<Rightarrow> replica \<times> (status + unit)" where
  "create_node_pool A cw cl req st =
     propose cw st (
       bindE (cluster_write A (rp_db st) cl) (\<lambda>_.
       bindE (guardE (nq_pool_id req \<noteq> []) Invalid_argument) (\<lambda>_.
       bindE (validate_identifier (nq_pool_id req)) (\<lambda>_.
       bindE (ok_or Invalid_argument (node_kind_from_proto (nq_node_kind req))) (\<lambda>kind.
       bindE (read_or_internal (get_node_pool (ad_env A) (rp_db st) (nq_pool_id req))) (\<lambda>existing.
       bindE (guardE (existing = None) Already_exists) (\<lambda>_.
         Inr (audited (build_audit_context cl (nq_pool_id req))
                (StoreNodePool
                   \<lparr>np_pool_id = nq_pool_id req, np_node_kind = kind, np_desired_count = nq_desired_count req,
                    np_vcpus = nq_vcpus req, np_memory_mb = nq_memory_mb req, np_disk_gb = nq_disk_gb req,
                    np_region_hint = nq_region_hint req, np_last_applied = []\<rparr>), ()))))))))"

definition delete_node_pool ::
  "admin_service \<Rightarrow> writer \<Rightarrow> caller \<Rightarrow> string \<Rightarrow> replica \<Rightarrow> replica \<times> (status + unit)" where
  "delete_node_pool A cw cl pool_id st =
     propose cw st (
       bindE (cluster_write A (rp_db st) cl) (\<lambda>_.
       bindE (guardE (pool_id \<noteq> []) Invalid_argument) (\<lambda>_.
       bindE (read_or_internal (get_node_pool (ad_env A) (rp_db st) pool_id)) (\<lambda>existing.
       bindE (guardE (existing \<noteq> None) Not_found) (\<lambda>_.
         Inr (audited (build_audit_context cl pool_id) (DeleteNodePool pool_id), ()))))))"


section \<open>Endorsement keys and boot policies\<close>

record register_ek_request =
  eq_ek_cert_der :: bytes
  eq_ek_pub :: bytes
  eq_node_id :: string
  eq_ttl_secs :: nat

definition ek_fingerprint_of :: "core_api \<Rightarrow> bytes \<Rightarrow> bytes \<Rightarrow> status + string" where
  "ek_fingerprint_of C cert pub =
     bindE (guardE (cert \<noteq> [] \<or> pub \<noteq> []) Invalid_argument) (\<lambda>_.
     bindE (guardE (cert = [] \<or> co_ek_chain_ok C cert) Invalid_argument) (\<lambda>_.
       if cert \<noteq> [] then ok_or Invalid_argument (co_ek_of_cert C cert) else Inr (co_ek_of_pub C pub)))"

definition register_node_ek ::
  "admin_service \<Rightarrow> writer \<Rightarrow> caller \<Rightarrow> register_ek_request \<Rightarrow> replica \<Rightarrow> replica \<times> (status + string)" where
  "register_node_ek A cw cl req st =
     (let C = ad_core A; cert = eq_ek_cert_der req; pub = eq_ek_pub req in
      propose cw st (
        bindE (cluster_write A (rp_db st) cl) (\<lambda>_.
        bindE (ek_fingerprint_of C cert pub) (\<lambda>fp.
        bindE (guardE (cert = [] \<or> pub = [] \<or> fp = co_ek_of_pub C pub) Invalid_argument) (\<lambda>_.
        bindE (read_or_internal (kv_get (rp_db st) Knode_eks fp)) (\<lambda>existing.
        bindE (guardE (existing = None) Already_exists) (\<lambda>_.
          Inr (audited (build_audit_context cl fp)
                 (RegisterNodeEk
                    \<lparr>ek_fingerprint = fp, ek_pub = pub, ek_cert_der = cert, ek_node_id = eq_node_id req,
                     ek_registered_at = cl_now cl,
                     ek_expires_at = Some (cl_now cl + (if eq_ttl_secs req = 0 then 3600 else int (eq_ttl_secs req))),
                     ek_state = EkPending\<rparr>), fp))))))))"

definition revoke_node_ek ::
  "admin_service \<Rightarrow> writer \<Rightarrow> caller \<Rightarrow> string \<Rightarrow> replica \<Rightarrow> replica \<times> (status + unit)" where
  "revoke_node_ek A cw cl fp st =
     propose cw st (
       bindE (cluster_write A (rp_db st) cl) (\<lambda>_.
       bindE (guardE (fp \<noteq> []) Invalid_argument) (\<lambda>_.
       bindE (read_or_internal (kv_get (rp_db st) Knode_eks fp)) (\<lambda>v.
       bindE (guardE (v \<noteq> None) Not_found) (\<lambda>_.
         Inr (audited (build_audit_context cl fp) (RevokeNodeEk fp), ()))))))"

text \<open>The wire values are 32 bits wide; \<open>as u8\<close> and \<open>as u16\<close> keep the low bits.\<close>

definition narrow_pcr :: "pcr_value \<Rightarrow> pcr_value" where
  "narrow_pcr p = p\<lparr>pv_index := pv_index p mod 2 ^ 8, pv_hash_algorithm := pv_hash_algorithm p mod 2 ^ 16\<rparr>"

definition set_pcr_policy ::
  "admin_service \<Rightarrow> writer \<Rightarrow> caller \<Rightarrow> string \<Rightarrow> pcr_value list \<Rightarrow> bool \<Rightarrow> replica \<Rightarrow> replica \<times> (status + unit)" where
  "set_pcr_policy A cw cl node_id expected active st =
     propose cw st (
       bindE (cluster_write A (rp_db st) cl) (\<lambda>_.
       bindE (ok_or Invalid_argument (sp_parse (ad_env A) node_id)) (\<lambda>_.
         Inr (audited (build_audit_context cl node_id)
                (SetPcrPolicy \<lparr>pp_node_id = node_id, pp_expected_pcrs = map narrow_pcr expected,
                               pp_updated_at = cl_now cl, pp_active = active\<rparr>), ()))))"


section \<open>Taints\<close>

fun check_taints :: "(string \<times> string) list \<Rightarrow> node_taint list \<Rightarrow> status + unit" where
  "check_taints seen [] = Inr ()"
| "check_taints seen (t # ts) =
     bindE (guardE (ta_key t \<noteq> []) Invalid_argument) (\<lambda>_.
     bindE (validate_taint_effect (ta_effect t)) (\<lambda>_.
     bindE (guardE ((ta_key t, ta_effect t) \<notin> set seen) Invalid_argument) (\<lambda>_.
       check_taints ((ta_key t, ta_effect t) # seen) ts)))"

definition node_registered :: "database \<Rightarrow> string \<Rightarrow> status + unit" where
  "node_registered db node =
     bindE (read_or_internal (kv_get db Knodes node)) (\<lambda>v. guardE (v \<noteq> None) Not_found)"

definition set_node_taints ::
  "admin_service \<Rightarrow> writer \<Rightarrow> caller \<Rightarrow> string \<Rightarrow> node_taint list \<Rightarrow> replica \<Rightarrow> replica \<times> (status + unit)" where
  "set_node_taints A cw cl node taints st =
     propose cw st (
       bindE (cluster_write A (rp_db st) cl) (\<lambda>_.
       bindE (guardE (node \<noteq> []) Invalid_argument) (\<lambda>_.
       bindE (guardE (length taints \<le> MAX_TAINTS_PER_NODE) Invalid_argument) (\<lambda>_.
       bindE (check_taints [] taints) (\<lambda>_.
       bindE (node_registered (rp_db st) node) (\<lambda>_.
         Inr (audited (build_audit_context cl node)
                (SetNodeTaints node (map (\<lambda>t. if ta_time_added t = 0 then t\<lparr>ta_time_added := cl_now cl\<rparr> else t) taints)),
              ())))))))"

definition remove_node_taint ::
  "admin_service \<Rightarrow> writer \<Rightarrow> caller \<Rightarrow> string \<Rightarrow> string \<Rightarrow> string \<Rightarrow> replica \<Rightarrow> replica \<times> (status + unit)" where
  "remove_node_taint A cw cl node key effect st =
     propose cw st (
       bindE (cluster_write A (rp_db st) cl) (\<lambda>_.
       bindE (guardE (node \<noteq> []) Invalid_argument) (\<lambda>_.
       bindE (guardE (key \<noteq> []) Invalid_argument) (\<lambda>_.
       bindE (validate_taint_effect effect) (\<lambda>_.
       bindE (node_registered (rp_db st) node) (\<lambda>_.
         Inr (audited (build_audit_context cl node) (RemoveNodeTaint node key effect), ())))))))"


section \<open>Queries\<close>

definition list_nodes :: "admin_service \<Rightarrow> caller \<Rightarrow> database \<Rightarrow> status + string list" where
  "list_nodes A cl db =
     bindE (read_access A db cl) (\<lambda>_.
     bindE (read_or_internal (list_node_records (ad_env A) db)) (\<lambda>rs.
       Inr (map nr_node_id (filter (\<lambda>r. nr_status r \<noteq> Evicted) rs))))"

definition get_cluster_status :: "admin_service \<Rightarrow> caller \<Rightarrow> nat \<Rightarrow> database \<Rightarrow> status + nat \<times> nat" where
  "get_cluster_status A cl raft_term db =
     bindE (read_access A db cl) (\<lambda>_.
     bindE (read_or_internal (list_node_records (ad_env A) db)) (\<lambda>rs.
       Inr (raft_term, length (filter (\<lambda>r. nr_status r = Active) rs) mod 2 ^ 32)))"

definition get_vpa_status ::
  "admin_service \<Rightarrow> caller \<Rightarrow> string \<Rightarrow> string \<Rightarrow> database \<Rightarrow> status + vpa_recommendation_record option" where
  "get_vpa_status A cl tenant workload db =
     bindE (read_access A db cl) (\<lambda>_.
     bindE (validate_identifier tenant) (\<lambda>_.
     bindE (validate_identifier workload) (\<lambda>_.
       read_or_internal (get_vpa_recommendation (ad_env A) db tenant workload))))"

definition get_quota :: "admin_service \<Rightarrow> caller \<Rightarrow> string option \<Rightarrow> database \<Rightarrow> status + tenant_quota_record" where
  "get_quota A cl tenant db =
     bindE (read_access A db cl) (\<lambda>_.
     bindE (ok_or Invalid_argument tenant) (\<lambda>t.
     bindE (validate_identifier t) (\<lambda>_.
     bindE (read_or_internal (get_tenant_quota (ad_env A) db t)) (ok_or Not_found))))"

definition list_operator_access :: "admin_service \<Rightarrow> caller \<Rightarrow> database \<Rightarrow> status + operator_grant_record list" where
  "list_operator_access A cl db =
     bindE (cluster_read A db cl) (\<lambda>_.
     bindE (read_or_internal (kv_prefix db Koperator_grants [])) (\<lambda>kvs.
       Inr (decode_all (c_grant (ad_env A)) kvs)))"

definition list_audit_log ::
  "admin_service \<Rightarrow> caller \<Rightarrow> nat \<Rightarrow> nat \<Rightarrow> database \<Rightarrow> status + audit_record list" where
  "list_audit_log A cl from_version max_entries db =
     bindE (cluster_read A db cl) (\<lambda>_.
     bindE (read_or_internal (kv_prefix db Kaudit_log [])) (\<lambda>kvs.
       mapE (\<lambda>(_, v). ok_or Internal (dec (c_audit (ad_env A)) v))
         (take (if max_entries = 0 then 1000 else max_entries)
            (filter (\<lambda>(key, _). be_bytes 8 from_version \<le> key) kvs))))"

definition admin_list_node_pools :: "admin_service \<Rightarrow> caller \<Rightarrow> database \<Rightarrow> status + node_pool_request list" where
  "admin_list_node_pools A cl db =
     bindE (read_access A db cl) (\<lambda>_.
     bindE (read_or_internal (list_node_pools (ad_env A) db)) (\<lambda>rs.
       Inr (map (\<lambda>r. \<lparr>nq_pool_id = np_pool_id r, nq_node_kind = node_kind_to_proto (np_node_kind r),
                      nq_desired_count = np_desired_count r, nq_vcpus = np_vcpus r, nq_memory_mb = np_memory_mb r,
                      nq_disk_gb = np_disk_gb r, nq_region_hint = np_region_hint r\<rparr>) rs)))"

end
