(* ===== verification/Merge.thy ===== *)
theory Merge
  imports Snapshots
begin

text \<open>
  The three-way merge of the declarative interface (\<open>apply/merge.rs\<close>). Every field goes through the
  same step: a field the manifest does not give is left alone; a live value that differs both from
  the last applied and from the wanted one is a conflict; otherwise the wanted value is taken. The
  step is one definition over a getter and a setter. A conflict is represented by its field path;
  the rendered values that go with it are not.
\<close>

datatype merge_outcome = Updated bytes | Unchanged | Conflicted "string list"

type_synonym 'r merge_state = "'r \<times> string list \<times> bool"

definition merge_step ::
  "string \<Rightarrow> ('a \<Rightarrow> 'a \<Rightarrow> bool) \<Rightarrow> ('r \<Rightarrow> 'a) \<Rightarrow> ('a \<Rightarrow> 'r \<Rightarrow> 'r) \<Rightarrow> 'a option \<Rightarrow> 'a \<Rightarrow> 'r merge_state \<Rightarrow> 'r merge_state" where
  "merge_step path same get put wanted base s =
     (case s of (live, conflicts, changed) \<Rightarrow>
      case wanted of
        None \<Rightarrow> s
      | Some w \<Rightarrow>
          if \<not> same (get live) base \<and> \<not> same (get live) w then (live, conflicts @ [path], changed)
          else if \<not> same (get live) w then (put w live, conflicts, True)
          else s)"

definition merge_result :: "('r \<Rightarrow> bytes) \<Rightarrow> 'r merge_state \<Rightarrow> merge_outcome" where
  "merge_result encode s =
     (case s of (live, conflicts, changed) \<Rightarrow>
        if conflicts \<noteq> [] then Conflicted conflicts
        else if changed then Updated (encode live) else Unchanged)"

text \<open>Equality of maps given as lists of entries.\<close>

definition same_map :: "(string \<times> 'v) list \<Rightarrow> (string \<times> 'v) list \<Rightarrow> bool" where
  "same_map m n \<longleftrightarrow> list_all (\<lambda>(k, _). map_of m k = map_of n k) (m @ n)"


section \<open>Workloads\<close>

definition default_workload_spec :: workload_spec where
  "default_workload_spec =
     \<lparr>ws_tenant_id = [], ws_workload_id = [], ws_image = [], ws_replicas = [], ws_pod_spec = None,
      ws_budgets = [], ws_placement = 0, ws_autoscaling = None, ws_vertical = None, ws_rest = []\<rparr>"

definition default_manifest :: manifest_workload where
  "default_manifest =
     \<lparr>mw_image = None, mw_replicas = [], mw_pod_spec = None, mw_placement = None, mw_autoscaling = None\<rparr>"

definition decode_or :: "'a \<Rightarrow> 'a codec \<Rightarrow> bytes \<Rightarrow> 'a" where
  "decode_or d c b = (if b = [] then d else (case dec c b of Some x \<Rightarrow> x | None \<Rightarrow> d))"

definition given_map :: "(string \<times> 'v) list \<Rightarrow> (string \<times> 'v) list option" where
  "given_map m = (if m = [] then None else Some m)"

definition given_option :: "'a option \<Rightarrow> 'a option option" where
  "given_option x = (if x = None then None else Some x)"

abbreviation on_pod :: "(pod_spec \<Rightarrow> pod_spec) \<Rightarrow> workload_spec \<Rightarrow> workload_spec" where
  "on_pod f spec \<equiv> spec\<lparr>ws_pod_spec := Some (f (pod_template spec))\<rparr>"

definition merge_pod :: "pod_spec \<Rightarrow> pod_spec \<Rightarrow> workload_spec merge_state \<Rightarrow> workload_spec merge_state" where
  "merge_pod manifest_pod last_pod s =
     merge_step ''pod_spec.labels'' same_map (\<lambda>r. ps_labels (pod_template r))
         (\<lambda>x. on_pod (\<lambda>p. p\<lparr>ps_labels := x\<rparr>)) (given_map (ps_labels manifest_pod)) (ps_labels last_pod)
     (merge_step ''pod_spec.env'' same_map (\<lambda>r. ps_env (pod_template r))
         (\<lambda>x. on_pod (\<lambda>p. p\<lparr>ps_env := x\<rparr>)) (given_map (ps_env manifest_pod)) (ps_env last_pod)
     (merge_step ''pod_spec.resources'' (=) (\<lambda>r. ps_resources (pod_template r))
         (\<lambda>x. on_pod (\<lambda>p. p\<lparr>ps_resources := x\<rparr>)) (given_option (ps_resources manifest_pod)) (ps_resources last_pod)
     (map_prod (on_pod id) id s)))"

definition merge_workload :: "env \<Rightarrow> manifest_workload \<Rightarrow> bytes \<Rightarrow> bytes \<Rightarrow> merge_outcome" where
  "merge_workload E manifest live_bytes last_applied_bytes =
     (let live = decode_or default_workload_spec (c_spec E) live_bytes;
          base = decode_or default_manifest (c_manifest E) last_applied_bytes in
      merge_result (\<lambda>spec. or_empty (enc (c_spec E) spec))
        (merge_step ''autoscaling'' (=) ws_autoscaling (\<lambda>x r. r\<lparr>ws_autoscaling := x\<rparr>)
           (given_option (mw_autoscaling manifest)) (mw_autoscaling base)
        (merge_step ''placement'' (=) ws_placement (\<lambda>x r. r\<lparr>ws_placement := x\<rparr>)
           (mw_placement manifest) (case mw_placement base of Some p \<Rightarrow> p | None \<Rightarrow> 0)
        ((case mw_pod_spec manifest of
            None \<Rightarrow> id
          | Some mp \<Rightarrow> merge_pod mp (case mw_pod_spec base of Some p \<Rightarrow> p | None \<Rightarrow> default_pod_spec))
        (merge_step ''replicas'' same_map ws_replicas (\<lambda>x r. r\<lparr>ws_replicas := x\<rparr>)
           (given_map (mw_replicas manifest)) (mw_replicas base)
        (merge_step ''image'' (=) ws_image (\<lambda>x r. r\<lparr>ws_image := x\<rparr>)
           (mw_image manifest) (case mw_image base of Some i \<Rightarrow> i | None \<Rightarrow> [])
           (live, [], False)))))))"


section \<open>The other kinds\<close>

definition merge_tenant :: "bytes \<Rightarrow> bytes \<Rightarrow> merge_outcome" where
  "merge_tenant live_bytes last_applied_bytes = Unchanged"

record manifest_sag_rule =
  ms_from :: "service_ref option"
  ms_to :: "service_ref option"
  ms_action :: "int option"

definition default_sag_rule :: sag_rule where
  "default_sag_rule = \<lparr>sag_from = None, sag_to = None, sag_action = 0, sag_rest = []\<rparr>"

definition merge_sag_rule :: "env \<Rightarrow> manifest_sag_rule \<Rightarrow> bytes \<Rightarrow> bytes \<Rightarrow> merge_outcome" where
  "merge_sag_rule E manifest live_bytes last_applied_bytes =
     (let live = decode_or default_sag_rule (c_sag_rule E) live_bytes;
          base = decode_or default_sag_rule (c_sag_rule E) last_applied_bytes in
      merge_result (\<lambda>r. or_empty (enc (c_sag_rule E) r))
        (merge_step ''action'' (=) sag_action (\<lambda>x r. r\<lparr>sag_action := x\<rparr>) (ms_action manifest) (sag_action base)
        (merge_step ''to'' (=) sag_to (\<lambda>x r. r\<lparr>sag_to := x\<rparr>) (given_option (ms_to manifest)) (sag_to base)
        (merge_step ''from'' (=) sag_from (\<lambda>x r. r\<lparr>sag_from := x\<rparr>) (given_option (ms_from manifest)) (sag_from base)
           (live, [], False)))))"

record manifest_secret =
  mx_value :: "bytes option"
  mx_authorized :: "string list"

definition merge_secret :: "manifest_secret \<Rightarrow> bytes \<Rightarrow> bytes \<Rightarrow> merge_outcome" where
  "merge_secret manifest live_bytes last_applied_bytes =
     (if mx_value manifest \<noteq> None \<or> mx_authorized manifest \<noteq> [] then Updated live_bytes else Unchanged)"

record manifest_node_pool =
  mn_desired_count :: "nat option"
  mn_vcpus :: "nat option"
  mn_memory_mb :: "nat option"
  mn_disk_gb :: "nat option"
  mn_region_hint :: "string option"

definition default_node_pool :: node_pool_record where
  "default_node_pool =
     \<lparr>np_pool_id = [], np_node_kind = KAgent, np_desired_count = 0, np_vcpus = 0, np_memory_mb = 0,
      np_disk_gb = 0, np_region_hint = [], np_last_applied = []\<rparr>"

definition merge_node_pool :: "env \<Rightarrow> manifest_node_pool \<Rightarrow> bytes \<Rightarrow> bytes \<Rightarrow> merge_outcome" where
  "merge_node_pool E manifest live_bytes last_applied_bytes =
     (if live_bytes = [] then Unchanged
      else
        (let live = decode_or default_node_pool (c_pool E) live_bytes;
             base = decode_or live (c_pool E) last_applied_bytes in
         merge_result (\<lambda>r. or_empty (enc (c_pool E) r))
           (merge_step ''region_hint'' (=) np_region_hint (\<lambda>x r. r\<lparr>np_region_hint := x\<rparr>)
              (mn_region_hint manifest) (np_region_hint base)
           (merge_step ''disk_gb'' (=) np_disk_gb (\<lambda>x r. r\<lparr>np_disk_gb := x\<rparr>) (mn_disk_gb manifest) (np_disk_gb base)
           (merge_step ''memory_mb'' (=) np_memory_mb (\<lambda>x r. r\<lparr>np_memory_mb := x\<rparr>)
              (mn_memory_mb manifest) (np_memory_mb base)
           (merge_step ''vcpus'' (=) np_vcpus (\<lambda>x r. r\<lparr>np_vcpus := x\<rparr>) (mn_vcpus manifest) (np_vcpus base)
           (merge_step ''desired_count'' (=) np_desired_count (\<lambda>x r. r\<lparr>np_desired_count := x\<rparr>)
              (mn_desired_count manifest) (np_desired_count base)
              (live, [], False))))))))"

end
