(* ===== verification/AdminApply.thy ===== *)
theory AdminApply
  imports AdminOperators Merge
begin

text \<open>
  The declarative entry point of the admin service (\<open>process_manifest\<close> and \<open>apply\<close> of
  \<open>admin/service.rs\<close>), and the service as a whole: \<open>admin_call\<close> lists the calls that may write,
  and \<open>handle\<close> dispatches them.
\<close>


section \<open>Manifests\<close>

datatype manifest_spec =
    MWorkload manifest_workload
  | MTenant
  | MSagRule manifest_sag_rule
  | MSecret manifest_secret
  | MNodePool manifest_node_pool

record manifest =
  mf_api_version :: string
  mf_kind :: string
  mf_name :: string
  mf_tenant_id :: string
  mf_spec :: "manifest_spec option"

datatype apply_status = Apply_created | Apply_applied | Apply_unchanged | Apply_conflict | Apply_invalid

record apply_result =
  ar_kind :: string
  ar_name :: string
  ar_tenant_id :: string
  ar_status :: apply_status
  ar_conflicts :: "string list"

definition result_of :: "manifest \<Rightarrow> apply_status \<Rightarrow> string list \<Rightarrow> apply_result" where
  "result_of m s cs =
     \<lparr>ar_kind = mf_kind m, ar_name = mf_name m, ar_tenant_id = mf_tenant_id m, ar_status = s, ar_conflicts = cs\<rparr>"

text \<open>The keyspace a kind lives in, with the name the update carries.\<close>

definition target_of :: "manifest \<Rightarrow> (string \<times> ks \<times> bytes) option" where
  "target_of m =
     (if mf_kind m = ''Workload'' then Some (''workloads'', Kworkloads, workload_key (mf_tenant_id m) (mf_name m))
      else if mf_kind m = ''Tenant'' then Some (''tenants'', Ktenants, mf_name m)
      else if mf_kind m = ''SagRule'' then Some (''sag_rules'', Ksag_rules, mf_name m)
      else if mf_kind m = ''Secret'' then Some (''secrets'', Ksecrets, secret_key (mf_name m))
      else if mf_kind m = ''NodePool'' then Some (''node_pools'', Knode_pools, mf_name m)
      else None)"

text \<open>A spec of another kind than the manifest says is ignored; the last applied bytes are always empty.\<close>

definition merge_manifest :: "env \<Rightarrow> manifest \<Rightarrow> bytes \<Rightarrow> merge_outcome" where
  "merge_manifest E m live =
     (case mf_spec m of
        Some (MWorkload w) \<Rightarrow> if mf_kind m = ''Workload'' then merge_workload E w live [] else Unchanged
      | Some MTenant \<Rightarrow> if mf_kind m = ''Tenant'' then merge_tenant live [] else Unchanged
      | Some (MSagRule s) \<Rightarrow> if mf_kind m = ''SagRule'' then merge_sag_rule E s live [] else Unchanged
      | Some (MSecret s) \<Rightarrow> if mf_kind m = ''Secret'' then merge_secret s live [] else Unchanged
      | Some (MNodePool n) \<Rightarrow> if mf_kind m = ''NodePool'' then merge_node_pool E n live [] else Unchanged
      | None \<Rightarrow> Unchanged)"

definition process_manifest ::
  "admin_service \<Rightarrow> database \<Rightarrow> manifest \<Rightarrow> status + apply_result \<times> manifest_update option" where
  "process_manifest A db m =
     (case target_of m of
        None \<Rightarrow> Inr (result_of m Apply_invalid [], None)
      | Some (name, k, key) \<Rightarrow>
          bindE (read_or_internal (kv_get db k key)) (\<lambda>v.
            case merge_manifest (ad_env A) m (or_empty v) of
              Updated b \<Rightarrow>
                Inr (result_of m (if mf_tenant_id m = [] \<and> mf_kind m = ''Tenant'' then Apply_created else Apply_applied) [],
                     Some \<lparr>mu_target_keyspace = name, mu_target_key = key, mu_new_record = b\<rparr>)
            | Unchanged \<Rightarrow> Inr (result_of m Apply_unchanged [], None)
            | Conflicted cs \<Rightarrow> Inr (result_of m Apply_conflict cs, None)))"

text \<open>One manifest: its result if it has one, its update, and whether it blocks the request.\<close>

definition apply_one ::
  "admin_service \<Rightarrow> database \<Rightarrow> caller \<Rightarrow> manifest \<Rightarrow> status + apply_result list \<times> manifest_update list \<times> bool" where
  "apply_one A db cl m =
     (if mf_api_version m \<noteq> ''fleetos.dev/v1alpha1'' then Inr ([result_of m Apply_invalid []], [], True)
      else if \<not> is_ok (if mf_tenant_id m \<noteq> [] then require_tenant_write (ad_env A) db cl (mf_tenant_id m)
                       else require_cluster_admin_write (ad_env A) (ad_operators A) db cl)
      then Inr ([], [], True)
      else
        bindE (process_manifest A db m) (\<lambda>(r, u).
          Inr ([r], (case u of Some x \<Rightarrow> [x] | None \<Rightarrow> []), ar_status r = Apply_conflict)))"

record apply_response =
  rs_applied :: bool
  rs_results :: "apply_result list"

definition apply_request ::
  "admin_service \<Rightarrow> writer \<Rightarrow> caller \<Rightarrow> manifest list option \<Rightarrow> bool \<Rightarrow> replica \<Rightarrow> replica \<times> (status + apply_response)" where
  "apply_request A cw cl manifests dry_run st =
     (case bindE (verify_caller (ad_env A) cl) (\<lambda>_.
           bindE (ok_or Invalid_argument manifests) (\<lambda>ms.
             mapE (apply_one A (rp_db st) cl) ms)) of
        Inl e \<Rightarrow> (st, Inl e)
      | Inr outs \<Rightarrow>
          (let results = concat (map fst outs); updates = concat (map (fst \<circ> snd) outs) in
           if list_ex (snd \<circ> snd) outs \<or> dry_run \<or> updates = [] then (st, Inr \<lparr>rs_applied = False, rs_results = results\<rparr>)
           else propose cw st (Inr (audited (build_audit_context cl ''apply'') (ApplyManifests updates),
                                    \<lparr>rs_applied = True, rs_results = results\<rparr>))))"


section \<open>The service\<close>

datatype admin_call =
    CallCreateTenant string
  | CallSubmitWorkload workload_spec
  | CallDeleteWorkload string string
  | CallScaleWorkload string string "(string \<times> nat) list"
  | CallSubmitCron cron_workload
  | CallSetQuota "tenant_quota_record option"
  | CallGenerateJoinToken bytes string
  | CallUpsertSagRule "sag_rule option"
  | CallDeleteSagRule string
  | CallStoreSecret seal_randoms store_secret_request
  | CallGrantSecret string string string
  | CallRevokeSecret string string string
  | CallDelegatedKey delegated_key_request
  | CallCordonNode string
  | CallEvictNode string bool
  | CallGrantOperator string "operator_scope option" nat
  | CallRevokeOperator string
  | CallCreateNodePool node_pool_request
  | CallDeleteNodePool string
  | CallRegisterEk register_ek_request
  | CallRevokeEk string
  | CallSetPcrPolicy string "pcr_value list" bool
  | CallSetTaints string "node_taint list"
  | CallRemoveTaint string string string
  | CallApply "manifest list option" bool

text \<open>The reply of a call is kept only as far as it is an error or not.\<close>

abbreviation outcome_of :: "replica \<times> (status + 'a) \<Rightarrow> replica \<times> (status + unit)" where
  "outcome_of r \<equiv> map_prod id (map_sum id (\<lambda>_. ())) r"

definition handle :: "admin_service \<Rightarrow> writer \<Rightarrow> caller \<Rightarrow> admin_call \<Rightarrow> replica \<Rightarrow> replica \<times> (status + unit)" where
  "handle A cw cl c st =
     (case c of
        CallCreateTenant t \<Rightarrow> create_tenant A cw cl t st
      | CallSubmitWorkload s \<Rightarrow> submit_workload_spec A cw cl s st
      | CallDeleteWorkload t w \<Rightarrow> delete_workload A cw cl t w st
      | CallScaleWorkload t w rs \<Rightarrow> scale_workload A cw cl t w rs st
      | CallSubmitCron x \<Rightarrow> submit_cron_workload A cw cl x st
      | CallSetQuota q \<Rightarrow> set_quota A cw cl q st
      | CallGenerateJoinToken b k \<Rightarrow> outcome_of (generate_join_token A cw cl b k st)
      | CallUpsertSagRule r \<Rightarrow> outcome_of (upsert_sag_rule A cw cl r st)
      | CallDeleteSagRule r \<Rightarrow> outcome_of (delete_sag_rule A cw cl r st)
      | CallStoreSecret rnd r \<Rightarrow> store_secret A cw cl rnd r st
      | CallGrantSecret t k w \<Rightarrow> grant_secret_access A cw cl t k w st
      | CallRevokeSecret t k w \<Rightarrow> revoke_secret_access A cw cl t k w st
      | CallDelegatedKey r \<Rightarrow> outcome_of (request_delegated_key A cw cl r st)
      | CallCordonNode n \<Rightarrow> cordon_node A cw cl n st
      | CallEvictNode n f \<Rightarrow> outcome_of (evict_node A cw cl n f st)
      | CallGrantOperator i s t \<Rightarrow> outcome_of (grant_operator_access A cw cl i s t st)
      | CallRevokeOperator g \<Rightarrow> outcome_of (revoke_operator_access A cw cl g st)
      | CallCreateNodePool r \<Rightarrow> create_node_pool A cw cl r st
      | CallDeleteNodePool p \<Rightarrow> delete_node_pool A cw cl p st
      | CallRegisterEk r \<Rightarrow> outcome_of (register_node_ek A cw cl r st)
      | CallRevokeEk f \<Rightarrow> revoke_node_ek A cw cl f st
      | CallSetPcrPolicy n v a \<Rightarrow> set_pcr_policy A cw cl n v a st
      | CallSetTaints n ts \<Rightarrow> set_node_taints A cw cl n ts st
      | CallRemoveTaint n k e \<Rightarrow> remove_node_taint A cw cl n k e st
      | CallApply ms d \<Rightarrow> outcome_of (apply_request A cw cl ms d st))"

end
