(* ===== verification/AdminFacts.thy ===== *)
theory AdminFacts
  imports AdminApply WorkloadFacts
begin

text \<open>
  Facts about the admin service: what the authorisation checks amount to, that no handler writes
  before them, what an accepted proposal leaves in the database, and the arithmetic of quotas.
\<close>


section \<open>Proposals\<close>

lemma propose_Inl [simp]: "propose cw st (Inl e) = (st, Inl e)"
  by (simp add: propose_def)

lemma propose_ok:
  "propose cw st plan = (st', Inr x) \<longleftrightarrow> (\<exists>c r. plan = Inr (c, x) \<and> cw st c = (st', Inr r))"
  by (auto simp: propose_def split: sum.splits prod.splits)

context raft_writer
begin

lemma proposal_applied:
  assumes "propose cw st plan = (st', Inr x)"
  obtains c e r where "plan = Inr (c, x)" "en_payload e = Normal c" "apply_entry E td st e = (st', Inr r)"
  using assms applies by (metis propose_ok)

lemma propose_frame:
  assumes "propose cw st plan = (st', Inr x)" "db_wf (rp_db st)"
  shows "db_wf (rp_db st')" "db_read_fault (rp_db st') = db_read_fault (rp_db st)"
  using proposal_applied[OF assms(1)] entry_effect(6,7) assms(2) by metis+

text \<open>What a command that went through leaves behind.\<close>

lemma written:
  assumes "cw st (audited a c) = (st', Inr r)" "db_wf (rp_db st)"
  obtains bt kind where "apply_command E (rp_db st) c = Inr (bt, kind)"
    "\<And>k key. k \<notin> {Kversion, Kraft_state, Kaudit_log} \<Longrightarrow>
       lookup (rp_db st') k key = batch_get bt k key (lookup (rp_db st) k key)"
    "db_wf (rp_db st')" "db_read_fault (rp_db st') = db_read_fault (rp_db st)"
proof -
  obtain e where e: "en_payload e = Normal (audited a c)" and run: "apply_entry E td st e = (st', Inr r)"
    using applies[OF assms(1)] by blast
  from command_effect[OF run e assms(2)] obtain bt kind where
    c: "apply_command E (rp_db st) (cmd (audited a c)) = Inr (bt, kind)"
    and look: "\<And>k key. k \<notin> {Kversion, Kraft_state, Kaudit_log} \<Longrightarrow>
      lookup (rp_db st') k key = batch_get bt k key (lookup (rp_db st) k key)" by blast
  have "apply_command E (rp_db st) c = Inr (bt, kind)" using c by (simp add: audited_def)
  then show ?thesis by (rule that[OF _ look entry_effect(6,7)[OF run assms(2)]])
qed

end


section \<open>Authority\<close>

text \<open>What the code grants, stated over the stored grants without the order of the checks.\<close>

datatype scope = ClusterWrite | ClusterAdmin | TenantWrite string

definition holds_grant :: "env \<Rightarrow> database \<Rightarrow> spiffe_id \<Rightarrow> nat \<Rightarrow> operator_grant_record \<Rightarrow> bool" where
  "holds_grant E db who now g \<longleftrightarrow>
     (\<exists>key. record_at (c_grant E) db Koperator_grants key = Some g) \<and> og_operator_id g = who \<and> og_expires_at g > now"

definition scope_grant :: "scope \<Rightarrow> operator_grant_record \<Rightarrow> bool" where
  "scope_grant sc g =
     (case sc of
        ClusterWrite \<Rightarrow> og_cluster_admin g \<and> \<not> og_read_only g
      | ClusterAdmin \<Rightarrow> og_cluster_admin g
      | TenantWrite t \<Rightarrow> \<not> og_read_only g \<and> (og_cluster_admin g \<or> t \<in> set (og_tenants g)))"

definition authorised :: "admin_service \<Rightarrow> database \<Rightarrow> caller \<Rightarrow> scope \<Rightarrow> bool" where
  "authorised A db cl sc \<longleftrightarrow>
     (\<exists>who. cl_peer cl = Some (Some who) \<and>
        (sp_kind (ad_env A) who = IkCtrl \<or>
         sp_kind (ad_env A) who = IkOperator \<and>
           ((\<forall>t. sc \<noteq> TenantWrite t) \<and> who \<in> set (oc_bootstrap_admins (ad_operators A)) \<or>
            (\<exists>g. holds_grant (ad_env A) db who (now_u64 cl) g \<and> scope_grant sc g))))"

definition gate :: "admin_service \<Rightarrow> database \<Rightarrow> caller \<Rightarrow> scope \<Rightarrow> status + unit" where
  "gate A db cl sc =
     (case sc of
        ClusterWrite \<Rightarrow> cluster_write A db cl
      | ClusterAdmin \<Rightarrow> cluster_read A db cl
      | TenantWrite t \<Rightarrow> tenant_write A db cl t)"

lemma stored_grants:
  assumes "kv_prefix db Koperator_grants [] = Inr kvs" "db_wf db"
  shows "g \<in> set (decode_all (c_grant E) kvs) \<longleftrightarrow> (\<exists>key. record_at (c_grant E) db Koperator_grants key = Some g)"
  using kv_prefix_mem[OF assms] by (auto simp: in_decode_all record_at_def bind_eq_Some_conv)

lemma active_grants_Inr:
  assumes "active_grants_for_operator E db who now = Inr gs" "db_wf db"
  shows "g \<in> set gs \<longleftrightarrow> holds_grant E db who now g"
  using assms stored_grants[OF _ assms(2)]
  by (auto simp: active_grants_for_operator_def holds_grant_def result_simps)

lemma has_active_grant_Inr:
  assumes "has_active_grant E db who now P = Inr b" "db_wf db"
  shows "b \<longleftrightarrow> (\<exists>g. holds_grant E db who now g \<and> P g)"
proof -
  obtain kvs where kvs: "kv_prefix db Koperator_grants [] = Inr kvs"
    and b: "b = list_ex (\<lambda>g. og_operator_id g = who \<and> og_expires_at g > now \<and> P g) (decode_all (c_grant E) kvs)"
    using assms(1) by (auto simp: has_active_grant_def result_simps)
  show ?thesis
    unfolding b list_ex_iff Bex_def stored_grants[OF kvs assms(2)] holds_grant_def by blast
qed

lemma caller_spiffe_id_Inr [simp]: "caller_spiffe_id cl = Inr who \<longleftrightarrow> cl_peer cl = Some (Some who)"
  by (auto simp: caller_spiffe_id_def result_simps)

lemma verify_caller_Inr:
  "verify_caller E cl = Inr u \<longleftrightarrow>
     (\<exists>who. cl_peer cl = Some (Some who) \<and> (sp_kind E who = IkCtrl \<or> sp_kind E who = IkOperator))"
  by (auto simp: verify_caller_def result_simps)

lemma active_grants_cases:
  obtains "db_read_fault db Koperator_grants" "active_grants_for_operator E db who now = Inl Internal"
    "has_active_grant E db who now P = Inl Internal"
  | gs b where "\<not> db_read_fault db Koperator_grants" "active_grants_for_operator E db who now = Inr gs"
    "has_active_grant E db who now P = Inr b"
  by (cases "db_read_fault db Koperator_grants")
    (auto simp: active_grants_for_operator_def has_active_grant_def kv_prefix_def)

text \<open>The three gates at once: an unreadable grant store is an internal error for operators without
  a standing right; otherwise the gate decides exactly by authority.\<close>

definition standing_right :: "admin_service \<Rightarrow> caller \<Rightarrow> scope \<Rightarrow> bool" where
  "standing_right A cl sc \<longleftrightarrow>
     (\<exists>who. cl_peer cl = Some (Some who) \<and>
        (sp_kind (ad_env A) who = IkCtrl \<or> sp_kind (ad_env A) who = IkOperator \<and>
           (\<forall>t. sc \<noteq> TenantWrite t) \<and> who \<in> set (oc_bootstrap_admins (ad_operators A))))"

lemma gate_standing: "standing_right A cl sc \<Longrightarrow> gate A db cl sc = Inr ()"
  by (auto simp: standing_right_def gate_def cluster_write_def cluster_read_def tenant_write_def
      verify_caller_def require_cluster_admin_write_def require_cluster_admin_def require_tenant_write_def
      caller_is_ctrl_def caller_spiffe_id_def split: scope.splits)

lemma gate_operator:
  assumes "cl_peer cl = Some (Some who)" "sp_kind (ad_env A) who = IkOperator" "\<not> standing_right A cl sc"
  shows "gate A db cl sc =
    (if db_read_fault db Koperator_grants then Inl Internal
     else if \<exists>g. g \<in> set (filter (\<lambda>g. og_operator_id g = who \<and> og_expires_at g > now_u64 cl)
                (decode_all (c_grant (ad_env A)) (db_data db Koperator_grants))) \<and> scope_grant sc g
     then Inr () else Inl Permission_denied)"
  using assms
  by (auto simp: standing_right_def gate_def cluster_write_def cluster_read_def tenant_write_def
      verify_caller_def require_cluster_admin_write_def require_cluster_admin_def require_tenant_write_def
      caller_is_ctrl_def caller_spiffe_id_def active_grants_for_operator_def has_active_grant_def
      kv_prefix_def list_ex_iff scope_grant_def split: scope.splits)

lemma gate_nobody:
  assumes "\<And>who. cl_peer cl = Some (Some who) \<Longrightarrow> sp_kind (ad_env A) who \<notin> {IkCtrl, IkOperator}"
  shows "gate A db cl sc = Inl (if \<exists>who. cl_peer cl = Some (Some who) then Permission_denied else Unauthenticated)"
  using assms
  by (cases "cl_peer cl"; cases "the (cl_peer cl)")
    (auto simp: gate_def cluster_write_def cluster_read_def tenant_write_def verify_caller_def
      caller_spiffe_id_def split: scope.splits)

lemma listed_grant:
  assumes "db_wf db"
  shows "g \<in> set (filter (\<lambda>g. og_operator_id g = who \<and> og_expires_at g > now)
      (decode_all (c_grant E) (db_data db Koperator_grants))) \<longleftrightarrow> holds_grant E db who now g"
proof -
  have "g \<in> set (decode_all (c_grant E) (db_data db Koperator_grants)) \<longleftrightarrow>
      (\<exists>key. record_at (c_grant E) db Koperator_grants key = Some g)"
    using assms by (auto simp: in_decode_all record_at_def bind_eq_Some_conv db_wf_def om_mem_get)
  then show ?thesis by (auto simp: holds_grant_def)
qed

lemma gate_exact:
  assumes "db_wf db" "\<not> db_read_fault db Koperator_grants"
  shows "gate A db cl sc =
    (if authorised A db cl sc then Inr ()
     else Inl (if \<exists>who. cl_peer cl = Some (Some who) then Permission_denied else Unauthenticated))"
proof (cases "standing_right A cl sc")
  case True
  then have "authorised A db cl sc" by (auto simp: authorised_def standing_right_def)
  with gate_standing[OF True] show ?thesis by simp
next
  case std: False
  show ?thesis
  proof (cases "\<exists>who. cl_peer cl = Some (Some who) \<and> sp_kind (ad_env A) who = IkOperator")
    case True
    then obtain who where who: "cl_peer cl = Some (Some who)" "sp_kind (ad_env A) who = IkOperator" by blast
    then have "authorised A db cl sc \<longleftrightarrow> (\<exists>g. holds_grant (ad_env A) db who (now_u64 cl) g \<and> scope_grant sc g)"
      using std by (auto simp: authorised_def standing_right_def)
    then show ?thesis
      unfolding gate_operator[OF who std] listed_grant[OF assms(1)] using who assms(2) by simp
  next
    case False
    then have n: "sp_kind (ad_env A) who \<notin> {IkCtrl, IkOperator}" if "cl_peer cl = Some (Some who)" for who
      using that std by (auto simp: standing_right_def)
    have "\<not> authorised A db cl sc" using n by (auto simp: authorised_def)
    then show ?thesis using gate_nobody[of cl A db sc] n by simp
  qed
qed

lemma gate_authorised:
  assumes "db_wf db" "gate A db cl sc = Inr u"
  shows "authorised A db cl sc"
proof (cases "db_read_fault db Koperator_grants")
  case False
  then show ?thesis using assms gate_exact[OF assms(1)] by (metis Inl_Inr_False)
next
  case fault: True
  show ?thesis
  proof (cases "standing_right A cl sc")
    case True
    then show ?thesis by (auto simp: authorised_def standing_right_def)
  next
    case std: False
    have "\<not> (\<exists>who. cl_peer cl = Some (Some who) \<and> sp_kind (ad_env A) who = IkOperator)"
      using gate_operator[OF _ _ std] fault assms(2) by auto
    then have "sp_kind (ad_env A) who \<notin> {IkCtrl, IkOperator}" if "cl_peer cl = Some (Some who)" for who
      using that std by (auto simp: standing_right_def)
    then show ?thesis using gate_nobody[of cl A db sc] assms(2) by simp
  qed
qed


section \<open>No write before the gate\<close>

fun call_scope :: "admin_call \<Rightarrow> scope option" where
  "call_scope (CallSubmitWorkload s) = Some (TenantWrite (ws_tenant_id s))"
| "call_scope (CallDeleteWorkload t w) = Some (TenantWrite t)"
| "call_scope (CallScaleWorkload t w rs) = Some (TenantWrite t)"
| "call_scope (CallSubmitCron x) = Some (TenantWrite (cr_tenant_id x))"
| "call_scope (CallStoreSecret rnd r) = Some (TenantWrite (sq_tenant_id r))"
| "call_scope (CallGrantSecret t k w) = Some (TenantWrite t)"
| "call_scope (CallRevokeSecret t k w) = Some (TenantWrite t)"
| "call_scope (CallDelegatedKey r) = Some ClusterAdmin"
| "call_scope (CallApply ms d) = None"
| "call_scope _ = Some ClusterWrite"

lemmas handler_defs =
  create_tenant_def submit_workload_spec_def delete_workload_def scale_workload_def
  submit_cron_workload_def set_quota_def generate_join_token_def upsert_sag_rule_def
  delete_sag_rule_def store_secret_def grant_secret_access_def revoke_secret_access_def
  change_secret_access_def request_delegated_key_def cordon_node_def evict_node_def
  grant_operator_access_def revoke_operator_access_def create_node_pool_def delete_node_pool_def
  register_node_ek_def revoke_node_ek_def set_pcr_policy_def set_node_taints_def remove_node_taint_def

lemma refused_at_gate:
  assumes "call_scope c = Some sc" "gate A (rp_db st) cl sc = Inl e"
  shows "handle A cw cl c st = (st, Inl e)"
  using assms by (cases c; clarsimp simp: handle_def handler_defs gate_def Let_def)

lemma mapE_image: "mapE f xs = Inr ys \<Longrightarrow> x \<in> set xs \<Longrightarrow> \<exists>y\<in>set ys. f x = Inr y"
  by (induction xs arbitrary: ys) (auto simp: result_simps)

definition manifest_scope :: "manifest \<Rightarrow> scope" where
  "manifest_scope m = (if mf_tenant_id m \<noteq> [] then TenantWrite (mf_tenant_id m) else ClusterWrite)"

lemma apply_writes_gated:
  assumes "apply_request A cw cl ms d st = (st', r)" "st' \<noteq> st"
  shows "\<exists>l. ms = Some l \<and> (\<forall>m\<in>set l. is_ok (gate A (rp_db st) cl (manifest_scope m)))"
proof -
  obtain l outs where l: "ms = Some l" and v: "verify_caller (ad_env A) cl = Inr ()"
    and outs: "mapE (apply_one A (rp_db st) cl) l = Inr outs" and none: "\<not> list_ex (snd \<circ> snd) outs"
    using assms by (auto simp: apply_request_def Let_def result_simps split: sum.splits if_splits)
  have "is_ok (gate A (rp_db st) cl (manifest_scope m))" if m: "m \<in> set l" for m
  proof -
    obtain y where y: "apply_one A (rp_db st) cl m = Inr y" "y \<in> set outs"
      using mapE_image[OF outs m] by blast
    then have "\<not> snd (snd y)" using none by (auto simp: list_ex_iff)
    with y(1) v show ?thesis
      by (auto simp: apply_one_def gate_def manifest_scope_def tenant_write_def cluster_write_def result_simps
          split: if_splits)
  qed
  with l show ?thesis by blast
qed


section \<open>Contents after a command\<close>

lemma command_data:
  assumes "apply_entry E td s e = (s', Inr r)" "en_payload e = Normal a"
  obtains b kind where "apply_command E (rp_db s) (cmd a) = Inr (b, kind)"
    and "\<And>k. k \<notin> {Kversion, Kraft_state, Kaudit_log} \<Longrightarrow> db_data (rp_db s') k = run_batch b (db_data (rp_db s)) k"
    and "db_read_fault (rp_db s') = db_read_fault (rp_db s)"
proof -
  obtain ops kind lid aud where
    ops: "apply_command E (rp_db s) (cmd a) = Inr (ops, kind)" and
    aud: "audit_ops E (allocate_version (rp_version s)) (en_payload e) = Inr aud" and
    c: "kv_commit (rp_db s) (ops @ [Put Kraft_state ''last_applied'' lid] @
          persist_version (allocate_version (rp_version s)) @ aud) = Inr (rp_db s')"
    using assms by (auto simp: apply_entry_Inr apply_payload_def)
  have "db_data (rp_db s') k = run_batch ops (db_data (rp_db s)) k"
    if "k \<notin> {Kversion, Kraft_state, Kaudit_log}" for k
    using c aud that assms(2)
    by (auto simp: kv_commit_Inr persist_version_def audit_ops_def result_simps)
  with ops c show ?thesis by (intro that) (auto simp: kv_commit_Inr)
qed


section \<open>Quota arithmetic\<close>

definition record_usage :: "env \<Rightarrow> string \<Rightarrow> (workload_spec \<Rightarrow> nat) \<Rightarrow> workload_spec_record \<Rightarrow> nat" where
  "record_usage E t per_pod r =
     (if wr_tenant_id r \<noteq> t then 0
      else (case dec (c_spec E) (wr_spec_bytes r) of
              None \<Rightarrow> 0 | Some spec \<Rightarrow> per_pod spec * spec_total_replicas spec mod 2 ^ 64))"

definition record_count :: "string \<Rightarrow> workload_spec_record \<Rightarrow> nat" where
  "record_count t r = (if wr_tenant_id r = t then 1 else 0)"

text \<open>A quantity of the stored workload records, summed over the keyspace.\<close>

definition total_of :: "env \<Rightarrow> (workload_spec_record \<Rightarrow> nat) \<Rightarrow> database \<Rightarrow> nat" where
  "total_of E f db = sum_list (map f (decode_all (c_workload E) (db_data db Kworkloads)))"

lemma usage_fold:
  "foldl (add_usage E t) (c mod 2 ^ 64, m mod 2 ^ 64, n mod 2 ^ 32) rs =
     ((c + sum_list (map (record_usage E t spec_cpu_per_pod) rs)) mod 2 ^ 64,
      (m + sum_list (map (record_usage E t spec_mem_per_pod) rs)) mod 2 ^ 64,
      (n + sum_list (map (record_count t) rs)) mod 2 ^ 32)"
proof (induction rs arbitrary: c m n)
  case (Cons r rs)
  have step: "add_usage E t (c mod 2 ^ 64, m mod 2 ^ 64, n mod 2 ^ 32) r =
      ((c + record_usage E t spec_cpu_per_pod r) mod 2 ^ 64,
       (m + record_usage E t spec_mem_per_pod r) mod 2 ^ 64, (n + record_count t r) mod 2 ^ 32)"
    by (simp add: record_usage_def record_count_def mod_simps split: option.splits)
  show ?case by (simp only: foldl_Cons step Cons.IH list.map sum_list.Cons add.assoc)
qed simp

lemma tenant_usage_exact:
  "compute_tenant_usage E db t = Inr (c, m, n) \<longleftrightarrow> \<not> db_read_fault db Kworkloads \<and>
     c = total_of E (record_usage E t spec_cpu_per_pod) db mod 2 ^ 64 \<and>
     m = total_of E (record_usage E t spec_mem_per_pod) db mod 2 ^ 64 \<and>
     n = total_of E (record_count t) db mod 2 ^ 32"
  using usage_fold[of E t 0 0 0]
  by (auto simp: compute_tenant_usage_def list_workloads_def list_records_Inr result_simps total_of_def)

lemma sum_decoded_put:
  fixes f :: "'a \<Rightarrow> nat"
  assumes "dec c v = Some x"
  shows "sum_list (map f (decode_all c (om_put k v kvs))) \<le> sum_list (map f (decode_all c kvs)) + f x"
proof (induction kvs)
  case Nil
  show ?case using assms by simp
next
  case (Cons kv kvs)
  obtain a b where "kv = (a, b)" by force
  with Cons assms show ?case by (auto split: option.splits)
qed

lemma total_of_put:
  assumes "db_data db' Kworkloads = om_put key v (db_data db Kworkloads)" "dec (c_workload E) v = Some r"
  shows "total_of E f db' \<le> total_of E f db + f r"
  unfolding total_of_def assms(1) by (rule sum_decoded_put[OF assms(2)])

lemma counter_within:
  fixes a b c q m :: nat
  assumes "c \<le> a + b mod m" "a + b < m" "(a mod m + b mod m) mod m \<le> q"
  shows "c mod m \<le> q"
proof -
  have "a mod m = a" "b mod m = b" "(a + b) mod m = a + b" using assms(2) by simp_all
  then have "c \<le> q" using assms(1,3) by simp
  then show ?thesis using mod_less_eq_dividend[of c m] by (rule order_trans[rotated])
qed

lemma tenant_quota_exact:
  "get_tenant_quota E db t = Inr (Some q) \<longleftrightarrow>
     \<not> db_read_fault db Ktenant_quotas \<and> record_at (c_quota E) db Ktenant_quotas t = Some q"
  by (auto simp: get_tenant_quota_def get_record_def result_simps kv_get_Inr record_at_def split: option.splits)


section \<open>Admission\<close>

definition dns_label :: "string \<Rightarrow> bool" where
  "dns_label s \<longleftrightarrow>
     1 \<le> length s \<and> length s \<le> 63 \<and> (\<forall>c\<in>set s. lower_or_digit c \<or> c = CHR ''-'') \<and>
     hd s \<noteq> CHR ''-'' \<and> last s \<noteq> CHR ''-''"

definition admitted :: "workload_spec \<Rightarrow> bool" where
  "admitted spec \<longleftrightarrow>
     dns_label (ws_tenant_id spec) \<and> dns_label (ws_workload_id spec) \<and> ws_image spec \<noteq> [] \<and>
     1 \<le> length (ws_replicas spec) \<and> length (ws_replicas spec) \<le> 16 \<and>
     (\<forall>(role, n)\<in>set (ws_replicas spec). dns_label role \<and> 1 \<le> n \<and> n \<le> 1024) \<and>
     (\<forall>ps. ws_pod_spec spec = Some ps \<longrightarrow> distinct (map ic_name (ps_init_containers ps)) \<and>
        (\<forall>c\<in>set (ps_init_containers ps). ic_name c \<noteq> [] \<and> ic_image c \<noteq> [])) \<and>
     (\<forall>v. ws_vertical spec = Some v \<and> va_enabled v \<longrightarrow>
        (va_target_cpu_percent v > 0 \<or> va_target_memory_percent v > 0) \<and>
        va_min_vcpus v \<le> va_max_vcpus v \<and> va_min_memory v \<le> va_max_memory v \<and>
        (\<forall>h. ws_autoscaling spec = Some h \<and> hp_enabled h \<longrightarrow>
           \<not> (va_target_cpu_percent v > 0 \<and> hp_target_cpu h > 0) \<and>
           \<not> (va_target_memory_percent v > 0 \<and> hp_target_memory h > 0)))"

lemma validate_identifier_iff: "validate_identifier s = Inr () \<longleftrightarrow> dns_label s"
  by (auto simp: validate_identifier_def dns_label_def list_all_iff Suc_le_eq)

lemma init_containers_iff:
  "check_init_containers seen cs = Inr () \<longleftrightarrow>
     distinct (map ic_name cs) \<and> set (map ic_name cs) \<inter> set seen = {} \<and>
     (\<forall>c\<in>set cs. ic_name c \<noteq> [] \<and> ic_image c \<noteq> [])"
  by (induction cs arbitrary: seen) auto

lemma role_counts_iff:
  "mapE validate_role_count rs = Inr us \<Longrightarrow>
     \<forall>(role, n)\<in>set rs. dns_label role \<and> 1 \<le> n \<and> n \<le> MAX_REPLICAS_PER_ROLE"
  by (induction rs arbitrary: us)
    (auto simp: result_simps validate_role_count_def validate_identifier_iff not_less split: if_splits)

lemma submit_accepted:
  assumes "raft_writer (ad_env A) td cw" "submit_workload_spec A cw cl spec st = (st', Inr ())"
  obtains b e r where "enc (c_spec (ad_env A)) spec = Some b" "admitted spec"
    "check_tenant_quota (ad_env A) (rp_db st) (ws_tenant_id spec) spec = Inr ()"
    "en_payload e = Normal (audited (build_audit_context cl (ws_workload_id spec))
       (SubmitWorkloadSpec \<lparr>wr_tenant_id = ws_tenant_id spec, wr_workload_id = ws_workload_id spec,
          wr_spec_bytes = b, wr_last_applied = []\<rparr>))"
    "apply_entry (ad_env A) td st e = (st', Inr r)"
proof -
  obtain b us rr where c: "validate_identifier (ws_tenant_id spec) = Inr ()" "validate_identifier (ws_workload_id spec) = Inr ()"
      "ws_image spec \<noteq> []" "ws_replicas spec \<noteq> []" "length (ws_replicas spec) \<le> MAX_ROLES_PER_WORKLOAD"
      "mapE validate_role_count (ws_replicas spec) = Inr us"
      "(case ws_pod_spec spec of Some ps \<Rightarrow> validate_init_containers ps | None \<Rightarrow> Inr ()) = Inr ()"
      "validate_vertical spec = Inr ()"
    and q: "check_tenant_quota (ad_env A) (rp_db st) (ws_tenant_id spec) spec = Inr ()"
    and b: "enc (c_spec (ad_env A)) spec = Some b"
    and w: "cw st (audited (build_audit_context cl (ws_workload_id spec))
       (SubmitWorkloadSpec \<lparr>wr_tenant_id = ws_tenant_id spec, wr_workload_id = ws_workload_id spec,
          wr_spec_bytes = b, wr_last_applied = []\<rparr>)) = (st', Inr rr)"
    using assms(2) by (auto simp: submit_workload_spec_def Let_def propose_ok result_simps split: if_splits)
  have v: "\<forall>v. ws_vertical spec = Some v \<and> va_enabled v \<longrightarrow>
        (va_target_cpu_percent v > 0 \<or> va_target_memory_percent v > 0) \<and>
        va_min_vcpus v \<le> va_max_vcpus v \<and> va_min_memory v \<le> va_max_memory v \<and>
        (\<forall>h. ws_autoscaling spec = Some h \<and> hp_enabled h \<longrightarrow>
           \<not> (va_target_cpu_percent v > 0 \<and> hp_target_cpu h > 0) \<and>
           \<not> (va_target_memory_percent v > 0 \<and> hp_target_memory h > 0))"
    using c(8) by (auto simp: validate_vertical_def Let_def split: option.splits if_splits)
  have p: "\<forall>ps. ws_pod_spec spec = Some ps \<longrightarrow> distinct (map ic_name (ps_init_containers ps)) \<and>
        (\<forall>c\<in>set (ps_init_containers ps). ic_name c \<noteq> [] \<and> ic_image c \<noteq> [])"
    using c(7) by (auto simp: validate_init_containers_def init_containers_iff)
  have "admitted spec"
    unfolding admitted_def using c(1-5) role_counts_iff[OF c(6)] v p
    by (simp add: validate_identifier_iff MAX_ROLES_PER_WORKLOAD_def MAX_REPLICAS_PER_ROLE_def Suc_le_eq)
  with raft_writer.applies[OF assms(1) w] q b show ?thesis by (metis that)
qed


text \<open>What an accepted submission leaves in the workload keyspace.\<close>

lemma submit_stored:
  assumes "raft_writer (ad_env A) td cw" "submit_workload_spec A cw cl spec st = (st', Inr ())"
  obtains v r where "db_data (rp_db st') Kworkloads =
      om_put (workload_key (ws_tenant_id spec) (ws_workload_id spec)) v (db_data (rp_db st) Kworkloads)"
    "dec (c_workload (ad_env A)) v = Some r"
    "wr_tenant_id r = ws_tenant_id spec" "wr_workload_id r = ws_workload_id spec"
    "dec (c_spec (ad_env A)) (wr_spec_bytes r) = Some spec"
    "db_read_fault (rp_db st') = db_read_fault (rp_db st)"
proof -
  let ?E = "ad_env A"
  let ?r = "\<lambda>b. \<lparr>wr_tenant_id = ws_tenant_id spec, wr_workload_id = ws_workload_id spec, wr_spec_bytes = b, wr_last_applied = []\<rparr>"
  have ok: "env_ok ?E" by (rule raft_writer.codecs[OF assms(1)])
  from submit_accepted[OF assms] obtain b e r where b: "enc (c_spec ?E) spec = Some b"
    and e: "en_payload e = Normal (audited (build_audit_context cl (ws_workload_id spec)) (SubmitWorkloadSpec (?r b)))"
    and run: "apply_entry ?E td st e = (st', Inr r)" by metis
  from command_data[OF run e] obtain bt kind where
    c: "apply_command ?E (rp_db st) (SubmitWorkloadSpec (?r b)) = Inr (bt, kind)"
    and data: "\<And>k. k \<notin> {Kversion, Kraft_state, Kaudit_log} \<Longrightarrow> db_data (rp_db st') k = run_batch bt (db_data (rp_db st)) k"
    and rd: "db_read_fault (rp_db st') = db_read_fault (rp_db st)"
    by (auto simp: audited_def)
  from c obtain v where v: "enc (c_workload ?E) (?r b) = Some v"
    "bt = [Put Kworkloads (workload_key (ws_tenant_id spec) (ws_workload_id spec)) v]"
    by (auto simp: apply_command_def apply_submit_workload_def insert_record_Inr)
  show ?thesis
    by (rule that[of v "?r b"])
      (use data[of Kworkloads] v rd codec_ok_dec[OF records_codecs(4)[OF ok] v(1)] codec_ok_dec[OF proto_codecs(1)[OF ok] b]
        in simp_all)
qed


lemma quota_passed:
  assumes "check_tenant_quota E db t spec = Inr ()" "get_tenant_quota E db t = Inr (Some q)"
  obtains cpu mem n where "compute_tenant_usage E db t = Inr (cpu, mem, n)"
    "(cpu + spec_cpu_per_pod spec * spec_total_replicas spec mod 2 ^ 64) mod 2 ^ 64 \<le> tq_max_cpu q"
    "(mem + spec_mem_per_pod spec * spec_total_replicas spec mod 2 ^ 64) mod 2 ^ 64 \<le> tq_max_memory q"
    "(n + 1) mod 2 ^ 32 \<le> tq_max_workloads q mod 2 ^ 32"
proof (cases "compute_tenant_usage E db t")
  case (Inl e)
  then show ?thesis using assms by (simp only: check_tenant_quota_def map_err_simps bindE_simps option.case) simp
next
  case (Inr u)
  obtain cpu mem n where u: "u = (cpu, mem, n)" by (cases u)
  have "(if tq_max_workloads q mod 2 ^ 32 < (n + 1) mod 2 ^ 32 then Inl Resource_exhausted
     else if tq_max_cpu q < (cpu + spec_cpu_per_pod spec * spec_total_replicas spec mod 2 ^ 64) mod 2 ^ 64 then Inl Resource_exhausted
     else if tq_max_memory q < (mem + spec_mem_per_pod spec * spec_total_replicas spec mod 2 ^ 64) mod 2 ^ 64
     then Inl Resource_exhausted else Inr ()) = Inr ()"
    using assms by (simp only: check_tenant_quota_def Inr u map_err_simps bindE_simps option.case case_prod_conv Let_def)
  then show ?thesis using that[OF Inr[unfolded u]] by (simp only: not_less[symmetric] sum.distinct not_False_eq_True simp_thms split: if_splits)
qed

end
