(* ===== verification/AdminExamples.thy ===== *)
theory AdminExamples
  imports AdminFacts Examples
begin

text \<open>
  A concrete admin service for the witnesses: the codecs of \<open>Postcard\<close>, a cipher that prefixes key
  and nonce, and simple stand-ins for the functions of external crates.
\<close>

definition plain_aead :: aead where
  "plain_aead =
     \<lparr>ae_encrypt = (\<lambda>k n p. Some (k @ n @ p)),
      ae_decrypt = (\<lambda>k n c. if prefix (k @ n) c then Some (drop (length (k @ n)) c) else None)\<rparr>"

definition pc_wrapped_dek :: "wrapped_dek pc" where
  "pc_wrapped_dek =
     pc_iso (\<lambda>r. (wd_nonce r, wd_ciphertext r)) (\<lambda>(a, b). \<lparr>wd_nonce = a, wd_ciphertext = b\<rparr>) (pc_pair pc_str pc_str)"

definition pc_envelope :: "envelope_secret pc" where
  "pc_envelope =
     pc_iso (\<lambda>r. (ev_wrapped_dek r, ev_nonce r, ev_ciphertext r))
       (\<lambda>(a, b, c). \<lparr>ev_wrapped_dek = a, ev_nonce = b, ev_ciphertext = c\<rparr>)
       (pc_pair pc_wrapped_dek (pc_pair pc_str pc_str))"

definition ex_secrets :: secret_store where
  "ex_secrets = \<lparr>ss_aead = plain_aead, ss_master_key = replicate 32 CHR ''m'', ss_codec = codec_of pc_envelope\<rparr>"

definition ex_randoms :: seal_randoms where
  "ex_randoms =
     \<lparr>sr_dek = replicate 32 CHR ''k'', sr_nonce = replicate 12 CHR ''n'', sr_wrap_nonce = replicate 12 CHR ''w''\<rparr>"

text \<open>The domain of an identity: the text between the scheme and the next slash.\<close>

definition plain_domain :: "spiffe_id \<Rightarrow> string" where
  "plain_domain s = takeWhile (\<lambda>c. c \<noteq> CHR ''/'') (drop 9 s)"

definition ex_core :: core_api where
  "ex_core =
     \<lparr>co_domain = plain_domain,
      co_rule_id = (\<lambda>t a ra pa b rb pb act. t @ a @ b @ act),
      co_port = (\<lambda>p. case p of None \<Rightarrow> Some None | Some n \<Rightarrow> if n \<le> 65535 then Some (Some n) else None),
      co_grant_id = (\<lambda>i by t e a r ts. i @ by),
      co_ek_chain_ok = (\<lambda>_. True),
      co_ek_of_cert = Some,
      co_ek_of_pub = id,
      co_cron = (\<lambda>e. Some (\<lambda>t. Some (t + 60))),
      co_sign = (\<lambda>r now role. Some ''key'')\<rparr>"

definition ex_admin :: admin_service where
  "ex_admin =
     \<lparr>ad_env = PE, ad_core = ex_core,
      ad_operators = \<lparr>oc_bootstrap_admins = [], oc_allowed_operators = [], oc_grant_ttl_secs = 3600\<rparr>,
      ad_dummy_prefix = 20, ad_token_ttl = 3600, ad_node_ttl = 3600, ad_delegated_ttl = 14400,
      ad_refresh_fraction = 3 / 4, ad_has_ca = True, ad_secrets = ex_secrets, ad_guard = allow_disruption PE\<rparr>"

definition ex_caller :: "string \<Rightarrow> caller" where
  "ex_caller who = \<lparr>cl_peer = Some (Some who), cl_now = 100, cl_request_id = ''q''\<rparr>"

abbreviation ctrl_id :: string where
  "ctrl_id \<equiv> ''spiffe://a/ns/s/ctrl/p''"

abbreviation op_id :: string where
  "op_id \<equiv> ''spiffe://a/ns/s/operator/o''"

abbreviation ex_writer :: writer where
  "ex_writer \<equiv> local_write PE ''f''"

abbreviation ex_handle :: "string \<Rightarrow> admin_call \<Rightarrow> replica \<Rightarrow> replica \<times> (status + unit)" where
  "ex_handle who \<equiv> handle ex_admin ex_writer (ex_caller who)"

abbreviation fresh :: replica where
  "fresh \<equiv> start_replica empty_db"

lemma plain_aead_ok: "aead_ok plain_aead"
  by (simp add: aead_ok_def plain_aead_def)

lemma pc_envelope_ok: "pc_ok pc_envelope"
  unfolding pc_envelope_def pc_wrapped_dek_def by (intro pc_rules) simp_all

lemma ex_secrets_ok: "secret_store_ok ex_secrets"
  by (simp add: secret_store_ok_def ex_secrets_def plain_aead_ok codec_of_ok[OF pc_envelope_ok])

lemma ex_randoms_ok: "randoms_ok ex_randoms"
  by (simp add: randoms_ok_def ex_randoms_def DEK_LENGTH_def NONCE_LENGTH_def)

lemma ex_kinds [simp]:
  "sp_kind PE ctrl_id = IkCtrl" "sp_kind PE op_id = IkOperator" "sp_kind PE node_a = IkSa"
  by code_simp+

lemma ex_admin_simps [simp]:
  "ad_env ex_admin = PE" "ad_core ex_admin = ex_core" "ad_secrets ex_admin = ex_secrets"
  "oc_bootstrap_admins (ad_operators ex_admin) = []" "ad_guard ex_admin = allow_disruption PE"
  by (simp_all add: ex_admin_def)

lemma ex_caller_simps [simp]:
  "cl_peer (ex_caller who) = Some (Some who)" "cl_now (ex_caller who) = 100"
  by (simp_all add: ex_caller_def)

lemma fresh_wf [simp]: "db_wf (rp_db fresh)"
  by (simp add: start_replica_def)

lemma ex_ctrl_authorised: "authorised ex_admin db (ex_caller ctrl_id) sc"
  by (simp add: authorised_def)

lemma ex_write: "raft_writer PE ''f'' ex_writer"
  by unfold_locales

end
