(* ===== verification/AdminTheorems.thy ===== *)
theory AdminTheorems
  imports AdminExamples
begin

text \<open>
  Properties of the admin service: authorisation of every write, admission of specs and quotas.
\<close>


section \<open>Authorisation\<close>





section \<open>Admission\<close>

text \<open>C19. A spec the service accepts is well formed: its names are DNS labels, it has between one
  and sixteen roles with one to 1024 replicas each, its initial containers have distinct names and
  images, and an enabled vertical policy has an active target, ordered bounds and no target in
  common with an enabled horizontal one. The record stored under its names decodes to the spec.\<close>

theorem accepted_spec_wf:
  assumes "raft_writer (ad_env A) td cw" "db_wf (rp_db st)"
    and "submit_workload_spec A cw cl spec st = (st', Inr ())"
  shows "admitted spec \<and>
    (\<exists>r. record_at (c_workload (ad_env A)) (rp_db st') Kworkloads (workload_key (ws_tenant_id spec) (ws_workload_id spec)) = Some r \<and>
       wr_tenant_id r = ws_tenant_id spec \<and> wr_workload_id r = ws_workload_id spec \<and>
       dec (c_spec (ad_env A)) (wr_spec_bytes r) = Some spec)"
proof -
  obtain v r where "db_data (rp_db st') Kworkloads =
      om_put (workload_key (ws_tenant_id spec) (ws_workload_id spec)) v (db_data (rp_db st) Kworkloads)"
    "dec (c_workload (ad_env A)) v = Some r" "wr_tenant_id r = ws_tenant_id spec"
    "wr_workload_id r = ws_workload_id spec" "dec (c_spec (ad_env A)) (wr_spec_bytes r) = Some spec"
    by (rule submit_stored[OF assms(1,3)])
  moreover have "admitted spec" by (rule submit_accepted[OF assms(1,3)])
  ultimately show ?thesis by (simp add: record_at_def)
qed

definition ex_web :: workload_spec where
  "ex_web = default_workload_spec\<lparr>ws_tenant_id := ''t'', ws_workload_id := ''web'', ws_image := ''img'', ws_replicas := [(''r'', 2)]\<rparr>"

lemma ex_web_accepted: "snd (submit_workload_spec ex_admin ex_writer (ex_caller ctrl_id) ex_web fresh) = Inr ()"
  by code_simp

theorem accepted_spec_wf_witness:
  "\<exists>st'. submit_workload_spec ex_admin ex_writer (ex_caller ctrl_id) ex_web fresh = (st', Inr ()) \<and> admitted ex_web"
proof -
  obtain st' where run: "submit_workload_spec ex_admin ex_writer (ex_caller ctrl_id) ex_web fresh = (st', Inr ())"
    using ex_web_accepted by (metis prod.collapse)
  have "raft_writer (ad_env ex_admin) ''f'' ex_writer" using ex_write by simp
  from accepted_spec_wf[OF this fresh_wf run] run show ?thesis by blast
qed










section \<open>Storage keys\<close>

text \<open>Admitted names cannot be confused in storage keys: keys of workloads and of ordinal slots
  determine their tenant, workload, role and ordinal, and no workload key is a cron key, although
  both kinds share a keyspace and a tenant may be called \<open>cron\<close>.\<close>

theorem admitted_keys_unambiguous:
  assumes "validate_identifier t = Inr ()" "validate_identifier w = Inr ()" "validate_identifier role = Inr ()"
    and "validate_identifier t' = Inr ()" "validate_identifier w' = Inr ()" "validate_identifier role' = Inr ()"
  shows "(workload_key t w = workload_key t' w' \<longleftrightarrow> t = t' \<and> w = w') \<and>
    (ordinal_key t w role n = ordinal_key t' w' role' n' \<longleftrightarrow> t = t' \<and> w = w' \<and> role = role' \<and> n = n') \<and>
    (cron_key t w = cron_key t' w' \<longleftrightarrow> t = t' \<and> w = w') \<and> workload_key t w \<noteq> cron_key t' w'"
proof -
  have colon: "CHR '':'' \<notin> set s" if "validate_identifier s = Inr ()" for s
    using that by (auto simp: validate_identifier_iff dns_label_def lower_or_digit_def)
  note c = colon[OF assms(1)] colon[OF assms(2)] colon[OF assms(3)] colon[OF assms(4)] colon[OF assms(5)] colon[OF assms(6)]
  have "workload_key t w \<noteq> cron_key t' w'"
  proof
    assume "workload_key t w = cron_key t' w'"
    then have "w = t' @ '':'' @ w'"
      using append_sep_eq[of "CHR '':''" t "''cron''" w "t' @ '':'' @ w'"] c(1) by (simp add: workload_key_def cron_key_def)
    then show False using c(2) by simp
  qed
  then show ?thesis
    using c by (auto simp: workload_key_def cron_key_def ordinal_key_def append_sep_eq)
qed

theorem admitted_keys_unambiguous_witness:
  "workload_key ''cron'' ''a'' \<noteq> cron_key ''t'' ''a'' \<and> ordinal_key ''t'' ''a'' ''r'' 1 \<noteq> ordinal_key ''t'' ''a'' ''r-1'' 1"
proof -
  have v: "validate_identifier ''cron'' = Inr ()" "validate_identifier ''a'' = Inr ()" "validate_identifier ''r'' = Inr ()"
    "validate_identifier ''t'' = Inr ()" "validate_identifier ''r-1'' = Inr ()"
    by (simp_all add: validate_identifier_def lower_or_digit_def)
  show ?thesis
    using admitted_keys_unambiguous[OF v(1,2,3,4,2,3), of 1 1] admitted_keys_unambiguous[OF v(4,2,3,4,2,5), of 1 1] by simp
qed

end
