(* ===== verification/SecretTheorems.thy ===== *)
theory SecretTheorems
  imports AdminExamples
begin

text \<open>
  Properties of secrets, delegated keys and attestation nonces, from the admin request that writes
  a record to the read that uses it.
\<close>


section \<open>Secrets\<close>

lemma stored_secret:
  assumes "raft_writer (ad_env A) td cw" "db_wf (rp_db st)" "store_secret A cw cl rnd req st = (st', Inr ())"
  obtains ids eb ab where
    "mapE (\<lambda>s. ok_or Invalid_argument (sp_parse (ad_env A) s)) (sq_authorized req) = Inr ids"
    "prepare_secret (ad_env A) (ad_secrets A) rnd (sq_key req) (sq_value req) ids = Inr (eb, ab)"
    "\<And>k. lookup (rp_db st') Ksecrets k =
       (if k = acl_key (sq_key req) then Some ab else if k = secret_key (sq_key req) then Some eb
        else lookup (rp_db st) Ksecrets k)"
    "db_wf (rp_db st')" "db_read_fault (rp_db st') = db_read_fault (rp_db st)"
proof -
  obtain ids eb ab rr where ids: "mapE (\<lambda>s. ok_or Invalid_argument (sp_parse (ad_env A) s)) (sq_authorized req) = Inr ids"
    "prepare_secret (ad_env A) (ad_secrets A) rnd (sq_key req) (sq_value req) ids = Inr (eb, ab)"
    and w: "cw st (audited (build_audit_context cl (sq_key req)) (StoreSecret
      \<lparr>se_key = sq_key req, se_envelope = eb, se_acl = ab, se_last_applied = []\<rparr> (hd ids))) = (st', Inr rr)"
    using assms(3) by (auto simp: store_secret_def propose_ok result_simps read_or_internal_def split: if_splits)
  obtain bt kind where
    c: "apply_command (ad_env A) (rp_db st) (StoreSecret
      \<lparr>se_key = sq_key req, se_envelope = eb, se_acl = ab, se_last_applied = []\<rparr> (hd ids)) = Inr (bt, kind)"
    and look: "\<And>k key. k \<notin> {Kversion, Kraft_state, Kaudit_log} \<Longrightarrow>
      lookup (rp_db st') k key = batch_get bt k key (lookup (rp_db st) k key)"
    and frame: "db_wf (rp_db st')" "db_read_fault (rp_db st') = db_read_fault (rp_db st)"
    by (rule raft_writer.written[OF assms(1) w assms(2)]) (rule that)
  show ?thesis
    by (rule that[OF ids _ frame])
      (use c look[of Ksecrets] in \<open>auto simp: apply_command_def apply_store_secret_def secret_keys_distinct[symmetric]\<close>)
qed

lemma stored_secret_opens:
  assumes "raft_writer (ad_env A) td cw" "db_wf (rp_db st)" "\<not> db_read_fault (rp_db st) Ksecrets"
    and "secret_store_ok (ad_secrets A)" "randoms_ok rnd"
    and "store_secret A cw cl rnd req st = (st', Inr ())"
  obtains ids where "mapE (\<lambda>s. ok_or Invalid_argument (sp_parse (ad_env A) s)) (sq_authorized req) = Inr ids"
    "\<And>who. fetch_secret (ad_env A) (ad_secrets A) (rp_db st') (sq_key req) who =
       (if who \<in> set ids then Inr (sq_value req) else Inl (Secret_denied (Access_denied (sq_key req) who)))"
proof -
  obtain ids eb ab where ids: "mapE (\<lambda>s. ok_or Invalid_argument (sp_parse (ad_env A) s)) (sq_authorized req) = Inr ids"
    and prep: "prepare_secret (ad_env A) (ad_secrets A) rnd (sq_key req) (sq_value req) ids = Inr (eb, ab)"
    and look: "\<And>k. lookup (rp_db st') Ksecrets k =
       (if k = acl_key (sq_key req) then Some ab else if k = secret_key (sq_key req) then Some eb
        else lookup (rp_db st) Ksecrets k)"
    and rd: "db_read_fault (rp_db st') = db_read_fault (rp_db st)"
    by (rule stored_secret[OF assms(1,2,6)]) blast
  show ?thesis
    by (rule that[OF ids])
      (use fetch_secret_of_records[OF raft_writer.codecs[OF assms(1)] assms(4,5) prep] look rd assms(3) in simp)
qed

text \<open>C21. A stored secret comes back: after an accepted store request, a fetch by an identity on
  the request's list gives the value that was stored, and every other identity is denied.\<close>

theorem secret_roundtrip:
  assumes "raft_writer (ad_env A) td cw" "db_wf (rp_db st)" "\<not> db_read_fault (rp_db st) Ksecrets"
    and "secret_store_ok (ad_secrets A)" "randoms_ok rnd"
    and "store_secret A cw cl rnd req st = (st', Inr ())"
  shows "\<exists>ids. mapE (\<lambda>s. ok_or Invalid_argument (sp_parse (ad_env A) s)) (sq_authorized req) = Inr ids \<and>
    (\<forall>who. fetch_secret (ad_env A) (ad_secrets A) (rp_db st') (sq_key req) who =
       (if who \<in> set ids then Inr (sq_value req) else Inl (Secret_denied (Access_denied (sq_key req) who))))"
  by (rule stored_secret_opens[OF assms]) blast

definition ex_store :: store_secret_request where
  "ex_store = \<lparr>sq_tenant_id = ''t'', sq_key = ''db'', sq_value = ''v'', sq_authorized = [node_a]\<rparr>"

text \<open>An operator of tenant \<open>u\<close> is admitted, then the control identity stores a secret of tenant \<open>t\<close>.\<close>

definition ex_scope :: operator_scope where
  "ex_scope = \<lparr>os_cluster_admin = False, os_tenants = [''u''], os_read_only = False\<rparr>"

definition operator_state :: replica where
  "operator_state = fst (grant_operator_access ex_admin ex_writer (ex_caller ctrl_id) op_id (Some ex_scope) 0 fresh)"

definition secret_state :: replica where
  "secret_state = fst (store_secret ex_admin ex_writer (ex_caller ctrl_id) ex_randoms ex_store operator_state)"

lemma operator_state_frame: "db_wf (rp_db operator_state)" "\<not> db_read_fault (rp_db operator_state) Ksecrets"
proof -
  have "is_ok (snd (grant_operator_access ex_admin ex_writer (ex_caller ctrl_id) op_id (Some ex_scope) 0 fresh))"
    by code_simp
  then obtain x where
    g: "grant_operator_access ex_admin ex_writer (ex_caller ctrl_id) op_id (Some ex_scope) 0 fresh = (operator_state, Inr x)"
    unfolding operator_state_def by (auto simp: is_ok_iff prod_eq_iff)
  from raft_writer.propose_frame[OF ex_write g[unfolded grant_operator_access_def Let_def] fresh_wf]
  show "db_wf (rp_db operator_state)" "\<not> db_read_fault (rp_db operator_state) Ksecrets"
    by (simp_all add: start_replica_def empty_db_def)
qed

lemma ex_store_accepted:
  "store_secret ex_admin ex_writer (ex_caller ctrl_id) ex_randoms ex_store operator_state = (secret_state, Inr ())"
proof -
  have "snd (store_secret ex_admin ex_writer (ex_caller ctrl_id) ex_randoms ex_store operator_state) = Inr ()"
    by code_simp
  then show ?thesis unfolding secret_state_def by (metis prod.collapse)
qed

lemma ex_parse: "sp_parse PE node_a = Some node_a" "sp_parse PE op_id = Some op_id"
  by code_simp+

theorem secret_roundtrip_witness:
  "fetch_secret PE ex_secrets (rp_db secret_state) ''db'' node_a = Inr ''v'' \<and>
   fetch_secret PE ex_secrets (rp_db secret_state) ''db'' op_id =
     Inl (Secret_denied (Access_denied ''db'' op_id))"
  using secret_roundtrip[of ex_admin "''f''" ex_writer operator_state ex_randoms "ex_caller ctrl_id" ex_store secret_state]
    operator_state_frame ex_store_accepted ex_write ex_secrets_ok ex_randoms_ok
  by (auto simp: ex_store_def ex_parse)




end
