(* ===== verification/DelegationTheorems.thy ===== *)
theory DelegationTheorems
  imports AdminExamples
begin

text \<open>
  Properties of delegated signing keys and of attestation nonces. Nonces are local to a node and
  change outside the replicated log, so their life is a step relation of its own.
\<close>


section \<open>Delegated keys\<close>

text \<open>C23. A delegated key is issued only for an identity whose workload is placed on the requesting
  node (at the requested ordinal, when there is one), for at most the configured lifetime, and the
  delegation is on record under the node before the key leaves the service.\<close>

theorem delegated_key_sound:
  assumes "raft_writer (ad_env A) td cw" "db_wf (rp_db st)"
    and "request_delegated_key A cw cl req st = (st', Inr (bundle, expires))"
  shows "\<exists>node target p r. sp_parse (ad_env A) (kq_node_svid req) = Some node \<and>
      sp_parse (ad_env A) (kq_target req) = Some target \<and>
      (\<exists>pod. placement_at (ad_env A) (rp_db st) pod = Some p) \<and> pl_node_id p = node \<and>
      implied_svid (co_domain (ad_core A) target) p = target \<and>
      (\<forall>n. kq_ordinal req = Some n \<longrightarrow> pl_ordinal p = n) \<and>
      record_at (c_delegation (ad_env A)) (rp_db st') Kactive_delegations
        (composite_delegation_key node (dk_delegation_id bundle)) = Some r \<and>
      dl_node_id r = node \<and> dl_target_svid_id r = target \<and> dl_expires_at r = expires \<and>
      expires \<le> cl_now cl + int (ad_delegated_ttl A)"
proof -
  let ?E = "ad_env A" and ?ttl = "bounded_ttl (ad_delegated_ttl A) (kq_ttl_secs req)"
  obtain node target rr where ids: "sp_parse ?E (kq_node_svid req) = Some node" "sp_parse ?E (kq_target req) = Some target"
    and issue: "issue_delegated_key ?E (co_domain (ad_core A)) (co_sign (ad_core A)) (rp_db st) (cl_now cl)
        \<lparr>dr_node_id = node, dr_target = target, dr_ordinal = kq_ordinal req, dr_ttl_secs = ?ttl\<rparr> = Inr bundle"
    and e: "expires = cl_now cl + int ?ttl"
    and w: "cw st (audited (build_audit_context cl (dk_delegation_id bundle))
        (IssueDelegation
           \<lparr>dl_delegation_id = dk_delegation_id bundle, dl_node_id = node, dl_target_svid_id = target,
            dl_target_ordinal = kq_ordinal req, dl_issued_at = cl_now cl, dl_expires_at = expires,
            dl_refresh_at = cl_now cl + \<lfloor>of_nat ?ttl * ad_refresh_fraction A\<rfloor>\<rparr>)) = (st', Inr rr)"
    using assms(3)
    by (auto simp: request_delegated_key_def Let_def propose_ok result_simps read_or_internal_def split: if_splits)
  from issue obtain role where role: "verify_placement ?E (rp_db st) (co_domain (ad_core A) target) node target (kq_ordinal req) = Inr role"
    by (auto simp: issue_delegated_key_def result_simps)
  obtain key v p where p: "lookup (rp_db st) Kplacements key = Some v" "dec (c_placement ?E) v = Some p"
    "pl_node_id p = node" "implied_svid (co_domain (ad_core A) target) p = target"
    "\<forall>n. kq_ordinal req = Some n \<longrightarrow> pl_ordinal p = n"
    by (rule verify_placement_Inr[OF role assms(2)])
  let ?r = "\<lparr>dl_delegation_id = dk_delegation_id bundle, dl_node_id = node, dl_target_svid_id = target,
            dl_target_ordinal = kq_ordinal req, dl_issued_at = cl_now cl, dl_expires_at = expires,
            dl_refresh_at = cl_now cl + \<lfloor>of_nat ?ttl * ad_refresh_fraction A\<rfloor>\<rparr>"
  obtain bt kind where c: "apply_command ?E (rp_db st) (IssueDelegation ?r) = Inr (bt, kind)"
    and look: "\<And>k key. k \<notin> {Kversion, Kraft_state, Kaudit_log} \<Longrightarrow>
      lookup (rp_db st') k key = batch_get bt k key (lookup (rp_db st) k key)"
    by (rule raft_writer.written[OF assms(1) w assms(2)]) (rule that)
  from c obtain b where b: "enc (c_delegation ?E) ?r = Some b"
    "bt = [Put Kactive_delegations (composite_delegation_key node (dk_delegation_id bundle)) b]"
    by (auto simp: apply_command_def apply_issue_delegation_def sm_Inr)
  have "record_at (c_delegation ?E) (rp_db st') Kactive_delegations
      (composite_delegation_key node (dk_delegation_id bundle)) = Some ?r"
    using look[of Kactive_delegations] b codec_ok_dec[OF records_codecs(17)[OF raft_writer.codecs[OF assms(1)]] b(1)]
    by (simp add: record_at_def)
  moreover have "placement_at ?E (rp_db st) key = Some p" using p(1,2) by (simp add: record_at_def)
  moreover have "expires \<le> cl_now cl + int (ad_delegated_ttl A)" using e by (simp add: bounded_ttl_def)
  ultimately show ?thesis using ids p(3-5) by fastforce
qed

definition hosted :: replica where
  "hosted = start_replica (empty_db\<lparr>db_data :=
     run_batch [Put Kplacements ''p'' (the (enc (c_placement PE) (ex_placement 0 node_a)))] (db_data empty_db)\<rparr>)"

definition ex_key_request :: delegated_key_request where
  "ex_key_request =
     \<lparr>kq_node_svid = node_a, kq_target = ''spiffe://f/ns/t/sa/web'', kq_ordinal = Some 0, kq_ttl_secs = 99999\<rparr>"

theorem delegated_key_sound_witness:
  "\<exists>pod p. placement_at PE (rp_db hosted) pod = Some p \<and> pl_node_id p = node_a \<and> pl_ordinal p = 0"
proof -
  have ok: "is_ok (snd (request_delegated_key ex_admin ex_writer (ex_caller ctrl_id) ex_key_request hosted)) \<and>
      sp_parse PE node_a = Some node_a"
    by code_simp
  then obtain st' key expires where
    "request_delegated_key ex_admin ex_writer (ex_caller ctrl_id) ex_key_request hosted = (st', Inr (key, expires))"
    by (metis is_ok_iff prod.collapse)
  moreover have "db_wf (rp_db hosted)"
    by (simp add: hosted_def start_replica_def db_wf_def empty_db_def run_batch_def om_wf_def)
  ultimately show ?thesis
    using delegated_key_sound[of ex_admin "''f''" ex_writer hosted "ex_caller ctrl_id" ex_key_request st' key expires]
      ex_write ok by (fastforce simp: ex_key_request_def)
qed


section \<open>Nonces\<close>

text \<open>
  The operations on the nonce keyspace as steps, with the history (latest first) of the nonces that
  were handed out and of those that were accepted. The clock stays in the range of \<open>i64\<close>.
\<close>

datatype nonce_event = Handed_out bytes int | Accepted bytes int

inductive nonce_run :: "nonce_manager \<Rightarrow> database \<Rightarrow> nonce_event list \<Rightarrow> bool" for nm where
  idle: "db_wf db \<Longrightarrow> db_data db Knonces = [] \<Longrightarrow> nonce_run nm db []"
| handed_out: "nonce_run nm db h \<Longrightarrow> 0 \<le> now \<Longrightarrow> now + int (nm_ttl nm) < 2 ^ 63 \<Longrightarrow>
    generate_nonce nm now b db = (db', Inr n) \<Longrightarrow> nonce_run nm db' (Handed_out n now # h)"
| refused: "nonce_run nm db h \<Longrightarrow> generate_nonce nm now b db = (db', Inl e) \<Longrightarrow> nonce_run nm db' h"
| accepted: "nonce_run nm db h \<Longrightarrow> validate_and_consume now n db = (db', Inr True) \<Longrightarrow>
    nonce_run nm db' (Accepted n now # h)"
| rejected: "nonce_run nm db h \<Longrightarrow> validate_and_consume now n db = (db', r) \<Longrightarrow> r \<noteq> Inr True \<Longrightarrow> nonce_run nm db' h"
| swept: "nonce_run nm db h \<Longrightarrow> sweep_expired_nonces now db = (db', r) \<Longrightarrow> nonce_run nm db' h"

definition handed_out_count :: "nonce_event list \<Rightarrow> bytes \<Rightarrow> nat" where
  "handed_out_count h n = length (filter (\<lambda>e. \<exists>t. e = Handed_out n t) h)"

definition accepted_count :: "nonce_event list \<Rightarrow> bytes \<Rightarrow> nat" where
  "accepted_count h n = length (filter (\<lambda>e. \<exists>t. e = Accepted n t) h)"

definition nonce_inv :: "nonce_manager \<Rightarrow> database \<Rightarrow> nonce_event list \<Rightarrow> bool" where
  "nonce_inv nm db h \<longleftrightarrow> db_wf db \<and>
     (\<forall>n. accepted_count h n + (if lookup db Knonces n = None then 0 else 1) \<le> handed_out_count h n) \<and>
     (\<forall>n v. lookup db Knonces n = Some v \<longrightarrow>
        (\<exists>t. Handed_out n t \<in> set h \<and> nonce_expiry v = Some (t + int (nm_ttl nm)))) \<and>
     (\<forall>n t. Accepted n t \<in> set h \<longrightarrow> (\<exists>t0. Handed_out n t0 \<in> set h \<and> t \<le> t0 + int (nm_ttl nm))) \<and>
     (\<not> db_read_fault db Knonces \<longrightarrow> length (db_data db Knonces) \<le> nm_max_pending nm)"

lemma i64_roundtrip: "- (2 ^ 63) \<le> z \<Longrightarrow> z < 2 ^ 63 \<Longrightarrow> i64_of_be_bytes (i64_be_bytes z) = z"
proof -
  assume z: "- (2 ^ 63) \<le> z" "z < 2 ^ 63"
  define m where "m = z mod 2 ^ 64"
  have m: "0 \<le> m" "m < 2 ^ 64" by (simp_all add: m_def)
  have "be_value (be_bytes 8 (nat m)) = nat m"
    using m by (simp add: be_value_bytes nat_less_iff)
  then have "i64_of_be_bytes (i64_be_bytes z) = (if m < 2 ^ 63 then m else m - 2 ^ 64)"
    using m(1) by (simp add: i64_of_be_bytes_def i64_be_bytes_def m_def)
  moreover have "m = (if z < 0 then z + 2 ^ 64 else z)"
  proof (cases "z < 0")
    case True
    then have "(z + 2 ^ 64) mod 2 ^ 64 = z + 2 ^ 64" using z(1) by (intro mod_pos_pos_trivial) simp_all
    then show ?thesis using True by (simp add: m_def)
  next
    case False
    then show ?thesis using z(2) by (simp add: m_def mod_pos_pos_trivial)
  qed
  ultimately show ?thesis using z by auto
qed

lemma om_del_length: "length (om_del k m) \<le> length m"
  by (induction m) auto

lemma om_put_length: "length (om_put k v m) \<le> Suc (length m)"
  by (induction k v m rule: om_put.induct) auto

lemma kv_remove_data:
  assumes "kv_remove db k key = Inr db'" "db_wf db"
  shows "db_wf db'" "db_data db' k = om_del key (db_data db k)" "db_read_fault db' = db_read_fault db"
  using assms by (auto simp: kv_remove_def kv_commit_Inr run_batch_def db_wf_def)

lemma kv_insert_data:
  assumes "kv_insert db k key v = Inr db'" "db_wf db"
  shows "db_wf db'" "db_data db' k = om_put key v (db_data db k)" "db_read_fault db' = db_read_fault db"
  using assms by (auto simp: kv_insert_def kv_commit_Inr run_batch_def db_wf_def)

lemma remove_keys_subset:
  assumes "remove_keys k keys db = (db', r)" "db_wf db"
  shows "db_wf db' \<and> (\<forall>key v. lookup db' k key = Some v \<longrightarrow> lookup db k key = Some v) \<and>
    length (db_data db' k) \<le> length (db_data db k) \<and> db_read_fault db' = db_read_fault db"
  using assms
proof (induction k keys db rule: remove_keys.induct)
  case (2 k key keys db)
  show ?case
  proof (cases "kv_remove db k key")
    case (Inl e)
    then show ?thesis using 2(2,3) by auto
  next
    case (Inr db1)
    note kv_remove_data[OF Inr 2(3)]
    moreover from this 2(3) have "om_get (db_data db1 k) key' = Some v \<Longrightarrow> om_get (db_data db k) key' = Some v" for key' v
      by (auto simp: db_wf_def om_get_del split: if_splits)
    ultimately show ?thesis
      using 2(1)[OF Inr] 2(2) Inr om_del_length[of key "db_data db k"] by auto
  qed
qed auto

lemma sweep_subset:
  assumes "sweep_expired_nonces now db = (db', r)" "db_wf db"
  shows "db_wf db' \<and> (\<forall>key v. lookup db' Knonces key = Some v \<longrightarrow> lookup db Knonces key = Some v) \<and>
    length (db_data db' Knonces) \<le> length (db_data db Knonces) \<and> db_read_fault db' = db_read_fault db"
  using assms remove_keys_subset[OF _ assms(2)]
  by (fastforce simp: sweep_expired_nonces_def split: prod.splits sum.splits)

lemma nonce_invD:
  assumes "nonce_inv nm db h"
  shows "db_wf db"
    and "accepted_count h n + (if lookup db Knonces n = None then 0 else 1) \<le> handed_out_count h n"
    and "lookup db Knonces n = Some v \<Longrightarrow> \<exists>t. Handed_out n t \<in> set h \<and> nonce_expiry v = Some (t + int (nm_ttl nm))"
    and "Accepted n t \<in> set h \<Longrightarrow> \<exists>t0. Handed_out n t0 \<in> set h \<and> t \<le> t0 + int (nm_ttl nm)"
    and "\<not> db_read_fault db Knonces \<Longrightarrow> length (db_data db Knonces) \<le> nm_max_pending nm"
  using assms unfolding nonce_inv_def by blast+

lemma event_counts [simp]:
  "accepted_count (Handed_out n t # h) m = accepted_count h m"
  "accepted_count (Accepted n t # h) m = (if m = n then Suc (accepted_count h m) else accepted_count h m)"
  "handed_out_count (Handed_out n t # h) m = (if m = n then Suc (handed_out_count h m) else handed_out_count h m)"
  "handed_out_count (Accepted n t # h) m = handed_out_count h m"
  by (auto simp: accepted_count_def handed_out_count_def)

lemma nonce_inv_shrink:
  assumes "nonce_inv nm db h" "db_wf db'" "\<forall>key v. lookup db' Knonces key = Some v \<longrightarrow> lookup db Knonces key = Some v"
    "length (db_data db' Knonces) \<le> length (db_data db Knonces)" "db_read_fault db' = db_read_fault db"
  shows "nonce_inv nm db' h"
  unfolding nonce_inv_def
proof (intro conjI allI impI)
  note inv = nonce_invD[OF assms(1)]
  show "accepted_count h n + (if lookup db' Knonces n = None then 0 else 1) \<le> handed_out_count h n" for n
    using inv(2)[of n] assms(3) by (cases "lookup db' Knonces n") auto
  show "\<exists>t. Handed_out n t \<in> set h \<and> nonce_expiry v = Some (t + int (nm_ttl nm))" if "lookup db' Knonces n = Some v" for n v
    using inv(3) assms(3) that by blast
  show "length (db_data db' Knonces) \<le> nm_max_pending nm" if "\<not> db_read_fault db' Knonces"
    using inv(5) assms(4,5) that by simp
qed (use nonce_invD(4)[OF assms(1)] assms(2) in blast)+

lemma nonce_inv_put:
  assumes "nonce_inv nm db h" "0 \<le> now" "now + int (nm_ttl nm) < 2 ^ 63" "count_pending db < nm_max_pending nm"
    and "kv_insert db Knonces n (i64_be_bytes (now + int (nm_ttl nm))) = Inr db'"
  shows "nonce_inv nm db' (Handed_out n now # h)"
  unfolding nonce_inv_def
proof (intro conjI allI impI)
  note inv = nonce_invD[OF assms(1)]
  note d = kv_insert_data[OF assms(5) inv(1)]
  have x: "nonce_expiry (i64_be_bytes (now + int (nm_ttl nm))) = Some (now + int (nm_ttl nm))"
    using assms(2,3) i64_roundtrip[of "now + int (nm_ttl nm)"] by (simp add: nonce_expiry_def i64_be_bytes_def)
  show "db_wf db'" by (rule d)
  show "accepted_count (Handed_out n now # h) m + (if lookup db' Knonces m = None then 0 else 1)
      \<le> handed_out_count (Handed_out n now # h) m" for m
    using inv(2)[of m] d(2) by (auto split: if_splits)
  show "\<exists>t. Handed_out m t \<in> set (Handed_out n now # h) \<and> nonce_expiry v = Some (t + int (nm_ttl nm))"
    if "lookup db' Knonces m = Some v" for m v
    using inv(3)[of m v] that d(2) x by (auto split: if_splits)
  show "\<exists>t0. Handed_out m t0 \<in> set (Handed_out n now # h) \<and> t \<le> t0 + int (nm_ttl nm)"
    if "Accepted m t \<in> set (Handed_out n now # h)" for m t
    using inv(4)[of m t] that by auto
  show "length (db_data db' Knonces) \<le> nm_max_pending nm" if "\<not> db_read_fault db' Knonces"
    using that assms(4) d(2,3) om_put_length[of n "i64_be_bytes (now + int (nm_ttl nm))" "db_data db Knonces"]
    by (simp add: count_pending_def readable_items_def kv_prefix_def)
qed

lemma nonce_inv_take:
  assumes "nonce_inv nm db h" "lookup db Knonces n = Some v" "kv_remove db Knonces n = Inr db'"
    and "nonce_expiry v = Some t" "now \<le> t"
  shows "nonce_inv nm db' (Accepted n now # h)"
  unfolding nonce_inv_def
proof (intro conjI allI impI)
  note inv = nonce_invD[OF assms(1)]
  note d = kv_remove_data[OF assms(3) inv(1)]
  have look: "lookup db' Knonces m = (if m = n then None else lookup db Knonces m)" for m
    using inv(1) d(2) by (simp add: db_wf_def om_get_del)
  show "db_wf db'" by (rule d)
  show "accepted_count (Accepted n now # h) m + (if lookup db' Knonces m = None then 0 else 1)
      \<le> handed_out_count (Accepted n now # h) m" for m
    using inv(2)[of m] assms(2) by (auto simp: look split: if_splits)
  show "\<exists>t. Handed_out m t \<in> set (Accepted n now # h) \<and> nonce_expiry v = Some (t + int (nm_ttl nm))"
    if "lookup db' Knonces m = Some v" for m v
    using inv(3)[of m v] that by (auto simp: look split: if_splits)
  show "\<exists>t0. Handed_out m t0 \<in> set (Accepted n now # h) \<and> t' \<le> t0 + int (nm_ttl nm)"
    if "Accepted m t' \<in> set (Accepted n now # h)" for m t'
    using inv(4)[of m t'] inv(3)[OF assms(2)] assms(4,5) that by auto
  show "length (db_data db' Knonces) \<le> nm_max_pending nm" if "\<not> db_read_fault db' Knonces"
    using inv(5) d(2,3) om_del_length[of n "db_data db Knonces"] that by simp
qed

lemma nonce_inv_remove:
  assumes "nonce_inv nm db h" "kv_remove db Knonces n = Inr db'"
  shows "nonce_inv nm db' h"
proof -
  note inv = nonce_invD(1)[OF assms(1)]
  note d = kv_remove_data[OF assms(2) inv]
  show ?thesis
    by (rule nonce_inv_shrink[OF assms(1) d(1) _ _ d(3)])
      (use inv d(2) in \<open>auto simp: db_wf_def om_get_del om_del_length split: if_splits\<close>)
qed

lemma nonce_run_inv: "nonce_run nm db h \<Longrightarrow> nonce_inv nm db h"
proof (induction rule: nonce_run.induct)
  case (idle db)
  then show ?case by (simp add: nonce_inv_def accepted_count_def handed_out_count_def)
next
  case (handed_out db h now b db' n)
  obtain db1 r where sw: "sweep_expired_nonces now db = (db1, r)" by force
  have "nonce_inv nm db1 h"
    using sweep_subset[OF sw nonce_invD(1)[OF handed_out.IH]] nonce_inv_shrink[OF handed_out.IH] by blast
  then show ?case
    using handed_out.hyps sw
    by (auto simp: generate_nonce_def intro: nonce_inv_put split: if_splits sum.splits)
next
  case (refused db h now b db' e)
  obtain db1 r where sw: "sweep_expired_nonces now db = (db1, r)" by force
  have "nonce_inv nm db1 h"
    using sweep_subset[OF sw nonce_invD(1)[OF refused.IH]] nonce_inv_shrink[OF refused.IH] by blast
  then show ?case
    using refused.hyps sw by (auto simp: generate_nonce_def split: if_splits sum.splits)
next
  case (accepted db h now n db')
  then show ?case
    by (auto simp: validate_and_consume_def kv_get_def intro: nonce_inv_take split: if_splits sum.splits option.splits)
next
  case (rejected db h now n db' r)
  then show ?case
    by (auto simp: validate_and_consume_def kv_get_def intro: nonce_inv_remove split: if_splits sum.splits option.splits)
next
  case (swept db h now db' r)
  then show ?case
    using sweep_subset[OF swept.hyps(2) nonce_invD(1)[OF swept.IH]] nonce_inv_shrink[OF swept.IH] by blast
qed

text \<open>C24. Over any sequence of operations on the nonce store a nonce is accepted at most as often as
  it was handed out (once, when the random nonces are distinct), never after its lifetime, and the
  store holds at most the configured number of pending nonces.\<close>

theorem nonces_single_use:
  assumes "nonce_run nm db h"
  shows "accepted_count h n \<le> handed_out_count h n \<and>
    (Accepted n t \<in> set h \<longrightarrow> (\<exists>t0. Handed_out n t0 \<in> set h \<and> t \<le> t0 + int (nm_ttl nm))) \<and>
    (\<not> db_read_fault db Knonces \<longrightarrow> count_pending db \<le> nm_max_pending nm)"
proof -
  note inv = nonce_invD[OF nonce_run_inv[OF assms]]
  show ?thesis
    using inv(2)[of n] inv(4,5) by (auto simp: count_pending_def readable_items_def kv_prefix_def)
qed

definition nonce_db :: database where
  "nonce_db = fst (generate_nonce new_nonce_manager 5 ''x'' empty_db)"

theorem nonces_single_use_witness:
  "\<exists>db. nonce_run new_nonce_manager db [Accepted ''x'' 9, Handed_out ''x'' 5] \<and>
     accepted_count [Accepted ''x'' 9, Handed_out ''x'' 5] ''x'' \<le> 1 \<and> count_pending db \<le> 1000"
proof -
  have e: "i64_of_be_bytes (be_bytes 8 305) = 305" using i64_roundtrip[of 305] by (simp add: i64_be_bytes_def)
  have steps: "generate_nonce new_nonce_manager 5 ''x'' empty_db = (nonce_db, Inr ''x'')"
    "validate_and_consume 9 ''x'' nonce_db = (fst (validate_and_consume 9 ''x'' nonce_db), Inr True)"
    "\<not> db_read_fault (fst (validate_and_consume 9 ''x'' nonce_db)) Knonces"
    by (simp_all add: nonce_db_def generate_nonce_def sweep_expired_nonces_def readable_items_def kv_prefix_def
        empty_db_def expired_nonces_def count_pending_def new_nonce_manager_def kv_insert_def kv_commit_def
        run_batch_def validate_and_consume_def kv_get_def kv_remove_def nonce_expiry_def i64_be_bytes_def e)
  have "nonce_run new_nonce_manager empty_db []"
    by (rule nonce_run.idle) (simp_all add: empty_db_def db_wf_def)
  from nonce_run.handed_out[OF this _ _ steps(1)]
  have "nonce_run new_nonce_manager nonce_db [Handed_out ''x'' 5]" by (simp add: new_nonce_manager_def)
  from nonce_run.accepted[OF this steps(2)]
  have r: "nonce_run new_nonce_manager (fst (validate_and_consume 9 ''x'' nonce_db)) [Accepted ''x'' 9, Handed_out ''x'' 5]" .
  then show ?thesis
    using steps(3) nonces_single_use[OF r, of "''x''" 9]
    by (intro exI[of _ "fst (validate_and_consume 9 ''x'' nonce_db)"]) (simp add: new_nonce_manager_def handed_out_count_def)
qed

end
