(* ===== verification/Autoscaler.thy ===== *)
theory Autoscaler
  imports WorkloadFacts Disruption
begin

text \<open>
  The metrics store of the leader (\<open>watch/metrics_store.rs\<close>) and the horizontal autoscaler
  (\<open>controllers/hpa_controller.rs\<close>). Counters are \<open>u32\<close> and \<open>u64\<close>; sums wrap at 64 bits. The clock
  is read once per pass.
\<close>


section \<open>Metrics\<close>

record pod_metrics =
  pm_pod_id :: string
  pm_cpu_millicores :: nat
  pm_memory_bytes :: nat
  pm_net_tx :: nat
  pm_net_rx :: nat
  pm_window :: nat

record pod_metrics_record =
  mr_windows :: "pod_metrics list"
  mr_last_updated :: nat

type_synonym metrics_store = "(string \<times> pod_metrics_record) list"

definition MAX_PODS :: nat where
  "MAX_PODS = 16384"

definition MAX_WINDOWS_PER_POD :: nat where
  "MAX_WINDOWS_PER_POD = 10"

definition TTL_SECONDS :: nat where
  "TTL_SECONDS = 3600"

datatype metrics_error = Metrics_no_pod_id | Metrics_unknown_pod | Metrics_storage | Metrics_cap

definition metrics_report ::
  "database \<Rightarrow> nat \<Rightarrow> pod_metrics \<Rightarrow> metrics_store \<Rightarrow> metrics_store \<times> (metrics_error + bool)" where
  "metrics_report db now m pods =
     (if pm_pod_id m = [] then (pods, Inl Metrics_no_pod_id)
      else
        (case kv_get db Kplacements (pm_pod_id m) of
           Inl _ \<Rightarrow> (pods, Inl Metrics_storage)
         | Inr None \<Rightarrow> (pods, Inl Metrics_unknown_pod)
         | Inr (Some _) \<Rightarrow>
             (case om_get pods (pm_pod_id m) of
                None \<Rightarrow>
                  if length pods \<ge> MAX_PODS then (pods, Inl Metrics_cap)
                  else (om_put (pm_pod_id m) \<lparr>mr_windows = [m], mr_last_updated = now\<rparr> pods, Inr True)
              | Some r \<Rightarrow>
                  if mr_windows r \<noteq> [] \<and> pm_window m \<le> pm_window (last (mr_windows r)) then (pods, Inr False)
                  else
                    (let ws = mr_windows r @ [m];
                         ws' = (if length ws > MAX_WINDOWS_PER_POD then tl ws else ws) in
                     (om_put (pm_pod_id m) \<lparr>mr_windows = ws', mr_last_updated = now\<rparr> pods, Inr True)))))"

definition sweep_expired_metrics :: "nat \<Rightarrow> metrics_store \<Rightarrow> metrics_store" where
  "sweep_expired_metrics now pods = filter (\<lambda>(_, r). mr_last_updated r > now - TTL_SECONDS) pods"

definition get_windows :: "metrics_store \<Rightarrow> string \<Rightarrow> pod_metrics list option" where
  "get_windows pods pod_id = map_option mr_windows (om_get pods pod_id)"


section \<open>Decisions\<close>

definition MIN_WINDOWS :: nat where
  "MIN_WINDOWS = 3"

definition DEADBAND_PERCENT :: nat where
  "DEADBAND_PERCENT = 10"

definition sum_u64 :: "nat list \<Rightarrow> nat" where
  "sum_u64 xs = sum_list xs mod 2 ^ 64"

definition pod_average_of :: "(pod_metrics \<Rightarrow> nat) \<Rightarrow> pod_metrics list \<Rightarrow> nat" where
  "pod_average_of metric windows =
     (if windows = [] then 0 else sum_u64 (map metric windows) div length windows)"

definition pod_average_cpu :: "pod_metrics list \<Rightarrow> nat" where
  "pod_average_cpu = pod_average_of pm_cpu_millicores"

definition pod_average_memory :: "pod_metrics list \<Rightarrow> nat" where
  "pod_average_memory = pod_average_of pm_memory_bytes"

definition pod_average_net_rx :: "pod_metrics list \<Rightarrow> nat" where
  "pod_average_net_rx = pod_average_of pm_net_rx"

definition pod_average_net_tx :: "pod_metrics list \<Rightarrow> nat" where
  "pod_average_net_tx = pod_average_of pm_net_tx"

record metric_signal =
  ms_avg :: nat
  ms_target :: nat

definition compute_desired_for_metric :: "nat \<Rightarrow> nat \<Rightarrow> nat \<Rightarrow> nat \<Rightarrow> nat \<Rightarrow> nat option" where
  "compute_desired_for_metric current_total avg target lo hi =
     (if current_total = 0 \<or> target = 0 then None
      else (let raw = min ((current_total * avg + target - 1) div target) (2 ^ 32 - 1) in
            Some (max lo (min raw hi))))"

definition compute_desired_total :: "nat \<Rightarrow> metric_signal list \<Rightarrow> nat \<Rightarrow> nat \<Rightarrow> nat option" where
  "compute_desired_total current_total signals lo hi =
     foldl (\<lambda>best s. case compute_desired_for_metric current_total (ms_avg s) (ms_target s) lo hi of
              None \<Rightarrow> best
            | Some d \<Rightarrow> Some (case best of None \<Rightarrow> d | Some b \<Rightarrow> max b d)) None signals"

definition within_deadband :: "nat \<Rightarrow> nat \<Rightarrow> bool" where
  "within_deadband current_total desired_total \<longleftrightarrow>
     current_total \<noteq> 0 \<and>
     (let diff = (if desired_total > current_total then desired_total - current_total else current_total - desired_total) in
      diff * 100 \<le> current_total * DEADBAND_PERCENT)"

text \<open>Largest remainders first, ties by role name; \<open>parts\<close> are role, base share and remainder.\<close>

definition replica_parts :: "(string \<times> nat) list \<Rightarrow> nat \<Rightarrow> (string \<times> nat \<times> nat) list" where
  "replica_parts current desired =
     (let n = sum_list (map snd current) in
      map (\<lambda>(role, count). (role, desired * count div n, desired * count mod n)) current)"

definition remainder_order :: "nat \<Rightarrow> (string \<times> nat \<times> nat) list \<Rightarrow> (string \<times> nat \<times> nat) list" where
  "remainder_order n = sort_key (\<lambda>(role, _, rem). (n - rem, role))"

definition distribute_replicas :: "(string \<times> nat) list \<Rightarrow> nat \<Rightarrow> (string \<times> nat) list" where
  "distribute_replicas current desired_total =
     (let n = sum_list (map snd current) in
      if n = 0 \<or> desired_total = 0 then map (\<lambda>(role, _). (role, 0)) current
      else
        (let parts = replica_parts current desired_total;
             shortfall = desired_total - sum_list (map (fst \<circ> snd) parts);
             lucky = map fst (take shortfall (remainder_order n parts)) in
         map (\<lambda>(role, base, _). (role, (if role \<in> set lucky then base + 1 else base) mod 2 ^ 32)) parts))"


section \<open>The controller\<close>

text \<open>The replica it writes to and, per workload, since when it wants fewer replicas.\<close>

record hpa_controller =
  hc_replica :: replica
  hc_since :: "((string \<times> string) \<times> int) list"

type_synonym disruption_fun = "database \<Rightarrow> string \<Rightarrow> string \<Rightarrow> string \<Rightarrow> nat \<Rightarrow> disruption_target \<Rightarrow> disruption_denied + unit"

definition as_u64 :: "int \<Rightarrow> nat" where
  "as_u64 z = nat (z mod 2 ^ 64)"

definition propose_scale ::
  "env \<Rightarrow> writer \<Rightarrow> int \<Rightarrow> workload_spec_record \<Rightarrow> workload_spec \<Rightarrow> (string \<times> nat) list \<Rightarrow> hpa_controller \<Rightarrow>
     hpa_controller \<times> (controller_error + unit)" where
  "propose_scale E cw now r spec new_replicas st =
     (case cw (hc_replica st)
        \<lparr>cmd = ScaleWorkload
           \<lparr>wr_tenant_id = wr_tenant_id r, wr_workload_id = wr_workload_id r,
            wr_spec_bytes = or_empty (enc (c_spec E) (spec\<lparr>ws_replicas := new_replicas\<rparr>)), wr_last_applied = []\<rparr>,
         audit = Some
           \<lparr>ac_request_id = [], ac_actor = ''system:hpa-controller'',
            ac_target = workload_key (wr_tenant_id r) (wr_workload_id r), ac_timestamp = as_u64 now\<rparr>\<rparr> of
        (s, Inl m) \<Rightarrow> (st\<lparr>hc_replica := s\<rparr>, Inl (Ctrl_raft m))
      | (s, Inr _) \<Rightarrow> (st\<lparr>hc_replica := s\<rparr>, Inr ()))"

definition qualifying_windows :: "metrics_store \<Rightarrow> placement list \<Rightarrow> workload_spec \<Rightarrow> pod_metrics list list" where
  "qualifying_windows metrics placements spec =
     filter (\<lambda>ws. length ws \<ge> MIN_WINDOWS)
       (List.map_filter (\<lambda>p. get_windows metrics (pl_pod_id p))
          (filter (\<lambda>p. pl_tenant_id p = ws_tenant_id spec \<and> pl_service p = ws_workload_id spec) placements))"

definition average_over :: "(pod_metrics list \<Rightarrow> nat) \<Rightarrow> pod_metrics list list \<Rightarrow> nat" where
  "average_over average qualifying = sum_u64 (map average qualifying) div length qualifying"

definition policy_signals :: "autoscaling_policy \<Rightarrow> pod_metrics list list \<Rightarrow> metric_signal list" where
  "policy_signals policy qualifying =
     map (\<lambda>(target, average). \<lparr>ms_avg = average_over average qualifying, ms_target = target\<rparr>)
       (filter (\<lambda>(target, _). target \<noteq> 0)
          [(hp_target_cpu policy, pod_average_cpu), (hp_target_memory policy, pod_average_memory),
           (hp_target_net_rx policy, pod_average_net_rx), (hp_target_net_tx policy, pod_average_net_tx)])"

definition current_replicas :: "workload_spec \<Rightarrow> (string \<times> nat) list" where
  "current_replicas spec = foldl (\<lambda>m (role, n). om_put role n m) [] (ws_replicas spec)"

definition policy_valid :: "autoscaling_policy \<Rightarrow> bool" where
  "policy_valid p \<longleftrightarrow>
     \<not> (hp_target_cpu p = 0 \<and> hp_target_memory p = 0 \<and> hp_target_net_rx p = 0 \<and> hp_target_net_tx p = 0) \<and>
     hp_max_replicas p \<noteq> 0 \<and> max (hp_min_replicas p) 1 \<le> hp_max_replicas p"

text \<open>What the pass wants for a workload: current and desired total, or nothing to act on.\<close>

definition hpa_decision ::
  "metrics_store \<Rightarrow> placement list \<Rightarrow> workload_spec \<Rightarrow> (autoscaling_policy \<times> nat \<times> nat) option" where
  "hpa_decision metrics placements spec =
     (case ws_autoscaling spec of
        None \<Rightarrow> None
      | Some policy \<Rightarrow>
          if \<not> hp_enabled policy \<or> \<not> policy_valid policy then None
          else
            (let qualifying = qualifying_windows metrics placements spec;
                 current_total = sum_list (map snd (current_replicas spec)) mod 2 ^ 32 in
             if qualifying = [] \<or> current_total = 0 then None
             else map_option (\<lambda>d. (policy, current_total, d))
                    (compute_desired_total current_total (policy_signals policy qualifying)
                       (max (hp_min_replicas policy) 1) (hp_max_replicas policy))))"

definition shrink_allowed :: "env \<Rightarrow> disruption_fun \<Rightarrow> database \<Rightarrow> workload_spec \<Rightarrow> (string \<times> nat) list \<Rightarrow> bool" where
  "shrink_allowed E guard db spec new_replicas \<longleftrightarrow>
     list_all (\<lambda>(role, to).
       let from = (case om_get (current_replicas spec) role of Some n \<Rightarrow> n | None \<Rightarrow> 0) in
       to < from \<longrightarrow>
         tenant_ok E (ws_tenant_id spec) \<and> role_ok E role \<and>
         is_ok (guard db (ws_tenant_id spec) (ws_workload_id spec) role (from - to) TScaleDown)) new_replicas"

definition hpa_evaluate_workload ::
  "env \<Rightarrow> disruption_fun \<Rightarrow> metrics_store \<Rightarrow> writer \<Rightarrow> placement list \<Rightarrow> int \<Rightarrow> workload_spec_record \<Rightarrow>
     hpa_controller \<Rightarrow> hpa_controller \<times> (controller_error + bool)" where
  "hpa_evaluate_workload E guard metrics cw placements now r st =
     (case dec (c_spec E) (wr_spec_bytes r) of
        None \<Rightarrow> (st, Inr False)
      | Some spec \<Rightarrow>
          (case hpa_decision metrics placements spec of
             None \<Rightarrow> (st, Inr False)
           | Some (policy, current_total, desired_total) \<Rightarrow>
               (let key = (ws_tenant_id spec, ws_workload_id spec);
                    cleared = st\<lparr>hc_since := om_del key (hc_since st)\<rparr>;
                    new_replicas = distribute_replicas (current_replicas spec) desired_total in
                if within_deadband current_total desired_total then (cleared, Inr False)
                else if desired_total < current_total then
                  (let since = (case om_get (hc_since st) key of Some t \<Rightarrow> t | None \<Rightarrow> now);
                       marked = st\<lparr>hc_since := om_put key since (hc_since st)\<rparr> in
                   if now - since < int (hp_stabilization_window policy) then (marked, Inr False)
                   else if \<not> shrink_allowed E guard (rp_db (hc_replica st)) spec new_replicas then (marked, Inr False)
                   else
                     (case propose_scale E cw now r spec new_replicas marked of
                        (st', Inl e) \<Rightarrow> (st', Inl e)
                      | (st', Inr _) \<Rightarrow> (st'\<lparr>hc_since := om_del key (hc_since st')\<rparr>, Inr True)))
                else
                  (case propose_scale E cw now r spec new_replicas cleared of
                     (st', Inl e) \<Rightarrow> (st', Inl e)
                   | (st', Inr _) \<Rightarrow> (st', Inr True)))))"

text \<open>A failed workload is logged and the pass goes on.\<close>

definition hpa_evaluate_at ::
  "env \<Rightarrow> disruption_fun \<Rightarrow> metrics_store \<Rightarrow> writer \<Rightarrow> int \<Rightarrow> hpa_controller \<Rightarrow>
     hpa_controller \<times> (controller_error + unit)" where
  "hpa_evaluate_at E guard metrics cw now st =
     (case bindE (list_workloads E (rp_db (hc_replica st))) (\<lambda>ws.
           bindE (list_placements E (rp_db (hc_replica st))) (\<lambda>ps. Inr (ws, ps))) of
        Inl e \<Rightarrow> (st, Inl (Ctrl_storage e))
      | Inr (ws, ps) \<Rightarrow>
          (foldl (\<lambda>st r. fst (hpa_evaluate_workload E guard metrics cw ps now r st)) st ws, Inr ()))"

end
