(* ===== verification/VerticalAutoscaler.thy ===== *)
theory VerticalAutoscaler
  imports Autoscaler
begin

text \<open>
  The vertical autoscaler (\<open>controllers/vpa_controller.rs\<close>). Arithmetic is on \<open>u32\<close> and \<open>u64\<close> and
  wraps; \<open>clamp\<close> of the standard library panics when its bounds are reversed, and a panic is the
  error \<open>Vpa_panic\<close>, which unwinds the pass.
\<close>

datatype vpa_error = Vpa_error controller_error | Vpa_panic

definition DEFAULT_DEADBAND_PERCENT :: nat where
  "DEFAULT_DEADBAND_PERCENT = 10"

record vpa_controller =
  vc_ctrl :: controller
  vc_since :: "((string \<times> string) \<times> int) list"


section \<open>Recommendations\<close>

definition clamp :: "nat \<Rightarrow> nat \<Rightarrow> nat \<Rightarrow> nat option" where
  "clamp x lo hi = (if lo \<le> hi then Some (max lo (min x hi)) else None)"

definition as_u32 :: "nat \<Rightarrow> nat" where
  "as_u32 n = n mod 2 ^ 32"

definition to_mb :: "nat \<Rightarrow> nat" where
  "to_mb b = as_u32 ((b + 1048575) mod 2 ^ 64 div 1048576)"

definition vpa_within_deadband :: "nat \<Rightarrow> nat \<Rightarrow> nat \<Rightarrow> bool" where
  "vpa_within_deadband current recommended pct \<longleftrightarrow>
     current \<noteq> 0 \<and>
     (let diff = (if recommended > current then recommended - current else current - recommended) in
      diff * 100 \<le> current * pct)"

definition recommend_vcpus :: "vertical_policy \<Rightarrow> pod_metrics list list \<Rightarrow> nat option" where
  "recommend_vcpus policy qualifying =
     (let avg = average_over pod_average_cpu qualifying;
          millicores = (avg * 100) mod 2 ^ 64 div va_target_cpu_percent policy in
      clamp (as_u32 ((millicores + 999) mod 2 ^ 64 div 1000)) (max (va_min_vcpus policy) 1) (max (va_max_vcpus policy) 1))"

definition recommend_memory_mb :: "vertical_policy \<Rightarrow> pod_metrics list list \<Rightarrow> nat option" where
  "recommend_memory_mb policy qualifying =
     (let avg = average_over pod_average_memory qualifying;
          needed = (avg * 100) mod 2 ^ 64 div va_target_memory_percent policy in
      clamp (to_mb needed) (max (to_mb (va_min_memory policy)) 1) (max (to_mb (va_max_memory policy)) 1))"

text \<open>A dimension keeps its value when inactive or within the deadband.\<close>

definition resize_dimension :: "bool \<Rightarrow> nat \<Rightarrow> nat \<Rightarrow> nat option \<Rightarrow> nat option" where
  "resize_dimension active deadband current recommended =
     (if \<not> active then Some current
      else map_option (\<lambda>r. if vpa_within_deadband current r deadband then current else r) recommended)"

definition dimension_changed :: "bool \<Rightarrow> nat \<Rightarrow> nat \<Rightarrow> nat option \<Rightarrow> bool" where
  "dimension_changed active deadband current recommended \<longleftrightarrow>
     active \<and> (case recommended of Some r \<Rightarrow> \<not> vpa_within_deadband current r deadband | None \<Rightarrow> False)"


section \<open>Quota, guard and replacement\<close>

definition find_stale_pods :: "workload_spec \<Rightarrow> placement list \<Rightarrow> nat \<Rightarrow> nat \<Rightarrow> placement list" where
  "find_stale_pods spec placements new_vcpus new_memory_mb =
     filter (\<lambda>p. pl_tenant_id p = ws_tenant_id spec \<and> pl_service p = ws_workload_id spec \<and>
       (cpu_millicores (pl_resources p) \<noteq> new_vcpus * 1000 \<or>
        memory_bytes (pl_resources p) \<noteq> new_memory_mb * 1048576)) placements"

definition check_guard_for_pod :: "env \<Rightarrow> disruption_fun \<Rightarrow> database \<Rightarrow> workload_spec \<Rightarrow> placement \<Rightarrow> bool" where
  "check_guard_for_pod E guard db spec p \<longleftrightarrow>
     tenant_ok E (ws_tenant_id spec) \<and> role_ok E (pl_role p) \<and>
     is_ok (guard db (ws_tenant_id spec) (ws_workload_id spec) (pl_role p) 1 TVerticalResize)"

text \<open>\<open>current - old + new\<close> on 64 bits: the subtraction may wrap below zero and the sum comes back.\<close>

definition replaced_u64 :: "nat \<Rightarrow> nat \<Rightarrow> nat \<Rightarrow> nat" where
  "replaced_u64 current old new = nat ((int current - int old + int new) mod 2 ^ 64)"

definition check_quota_for_grow ::
  "env \<Rightarrow> database \<Rightarrow> workload_spec \<Rightarrow> nat \<Rightarrow> nat \<Rightarrow> controller_error + unit" where
  "check_quota_for_grow E db spec new_vcpus new_memory_mb =
     bindE (map_err Ctrl_storage (get_tenant_quota E db (ws_tenant_id spec))) (\<lambda>q.
       case q of
         None \<Rightarrow> Inr ()
       | Some quota \<Rightarrow>
           bindE (map_err Ctrl_storage (compute_tenant_usage E db (ws_tenant_id spec))) (\<lambda>(cpu, mem, _).
             let replicas = spec_total_replicas spec;
                 new_cpu = replaced_u64 cpu (spec_cpu_per_pod spec * replicas mod 2 ^ 64) (new_vcpus * 1000 * replicas mod 2 ^ 64);
                 new_mem = replaced_u64 mem (spec_mem_per_pod spec * replicas mod 2 ^ 64) (new_memory_mb * 1048576 * replicas mod 2 ^ 64) in
             if new_cpu > tq_max_cpu quota then Inl (Ctrl_raft ''CPU quota exceeded'')
             else if new_mem > tq_max_memory quota then Inl (Ctrl_raft ''memory quota exceeded'')
             else Inr ()))"

definition remove_stale_pod :: "writer \<Rightarrow> controller \<Rightarrow> placement \<Rightarrow> controller \<times> (controller_error + unit)" where
  "remove_stale_pod cw st p =
     thenM (client_write cw st (RecordOrdinalAssignment
       \<lparr>oa_tenant_id = pl_tenant_id p, oa_service = pl_service p, oa_role = pl_role p,
        oa_ordinal = pl_ordinal p, oa_pod_id = None, oa_node_id = None\<rparr>)) (\<lambda>st _.
     thenM (client_write cw st (RemovePlacement (pl_pod_id p))) (\<lambda>st _.
       (emit st \<lparr>pe_pod_id = pl_pod_id p, pe_node_id = pl_node_id p, pe_event_type = ''Resized'',
          pe_reason = ''VerticalResize'', pe_message = Text [], pe_timestamp = 0, pe_count = 1\<rparr>, Inr ())))"


section \<open>The controller\<close>

definition vpa_write :: "writer \<Rightarrow> controller \<Rightarrow> int \<Rightarrow> string \<Rightarrow> fleetos_command \<Rightarrow> controller \<times> (controller_error + unit)" where
  "vpa_write cw st now target c =
     (case cw (ct_replica st)
        \<lparr>cmd = c, audit = Some \<lparr>ac_request_id = [], ac_actor = ''system:vpa-controller'', ac_target = target,
                              ac_timestamp = as_u64 now\<rparr>\<rparr> of
        (s, Inl m) \<Rightarrow> (st\<lparr>ct_replica := s\<rparr>, Inl (Ctrl_raft m))
      | (s, Inr _) \<Rightarrow> (st\<lparr>ct_replica := s\<rparr>, Inr ()))"

definition resized_spec :: "workload_spec \<Rightarrow> nat \<Rightarrow> nat \<Rightarrow> workload_spec" where
  "resized_spec spec vcpus memory_mb =
     spec\<lparr>ws_pod_spec := map_option (\<lambda>ps. ps\<lparr>ps_resources :=
       map_option (\<lambda>r. r\<lparr>rs_vcpus := vcpus, rs_memory_mb := memory_mb\<rparr>) (ps_resources ps)\<rparr>) (ws_pod_spec spec)\<rparr>"

text \<open>The message separates old and new values by the three bytes of a right arrow.\<close>

definition arrow :: string where
  "arrow = [CHR 0xE2, CHR 0x86, CHR 0x92]"

definition resizing_event :: "placement \<Rightarrow> nat \<Rightarrow> nat \<Rightarrow> nat \<Rightarrow> nat \<Rightarrow> pod_event" where
  "resizing_event p cpu cpu' mem mem' =
     \<lparr>pe_pod_id = pl_pod_id p, pe_node_id = pl_node_id p, pe_event_type = ''Resizing'', pe_reason = ''VerticalResize'',
      pe_message = Text (''vcpus '' @ show_nat cpu @ arrow @ show_nat cpu' @ '', memory '' @ show_nat mem @ arrow @
        show_nat mem' @ '' MB''),
      pe_timestamp = 0, pe_count = 1\<rparr>"

text \<open>The footprint is changed and the first stale pod removed, once quota and guard agree.\<close>

definition recreate ::
  "env \<Rightarrow> disruption_fun \<Rightarrow> writer \<Rightarrow> placement list \<Rightarrow> int \<Rightarrow> workload_spec_record \<Rightarrow> workload_spec \<Rightarrow>
     nat \<times> nat \<Rightarrow> nat \<times> nat \<Rightarrow> controller \<Rightarrow> controller \<times> (controller_error + bool)" where
  "recreate E guard cw placements now r spec old new st =
     (let (vcpus, mem) = old; (vcpus', mem') = new in
      if (vcpus' > vcpus \<or> mem' > mem) \<and> \<not> is_ok (check_quota_for_grow E (ct_db st) spec vcpus' mem') then (st, Inr False)
      else
        (case find_stale_pods spec placements vcpus' mem' of
           [] \<Rightarrow> (st, Inr False)
         | p # _ \<Rightarrow>
             if \<not> check_guard_for_pod E guard (ct_db st) spec p then (st, Inr False)
             else
               thenM (vpa_write cw (emit st (resizing_event p vcpus vcpus' mem mem')) now
                        (workload_key (wr_tenant_id r) (wr_workload_id r))
                        (ResizeWorkload
                           \<lparr>wr_tenant_id = wr_tenant_id r, wr_workload_id = wr_workload_id r,
                            wr_spec_bytes = or_empty (enc (c_spec E) (resized_spec spec vcpus' mem')), wr_last_applied = []\<rparr>)) (\<lambda>st _.
               thenM (remove_stale_pod cw st p) (\<lambda>st _. (st, Inr True)))))"

definition mode_text :: "int \<Rightarrow> string" where
  "mode_text m = (if m = 0 then ''OFF'' else if m = 1 then ''RECREATE'' else ''OFF'')"

definition lift_vpa ::
  "((string \<times> string) \<times> int) list \<Rightarrow> controller \<times> (controller_error + 'a) \<Rightarrow> vpa_controller \<times> (vpa_error + 'a)" where
  "lift_vpa since m = (\<lparr>vc_ctrl = fst m, vc_since = since\<rparr>, map_err Vpa_error (snd m))"

text \<open>The stabilisation of shrinks and the replacement, with the footprint decided.\<close>

definition apply_resize ::
  "env \<Rightarrow> disruption_fun \<Rightarrow> writer \<Rightarrow> placement list \<Rightarrow> int \<Rightarrow> workload_spec_record \<Rightarrow> workload_spec \<Rightarrow> vertical_policy \<Rightarrow>
     nat \<times> nat \<Rightarrow> nat \<times> nat \<Rightarrow> bool \<Rightarrow> vpa_controller \<Rightarrow> vpa_controller \<times> (vpa_error + bool)" where
  "apply_resize E guard cw placements now r spec policy old new rec_changed st =
     (let key = (ws_tenant_id spec, ws_workload_id spec) in
      if va_mode policy = 0 then (st, Inr rec_changed)
      else if fst new < fst old \<or> snd new < snd old then
        (let since = (case om_get (vc_since st) key of Some t \<Rightarrow> t | None \<Rightarrow> now);
             marked = om_put key since (vc_since st) in
         if now - since < int (va_stabilization_window policy) then (st\<lparr>vc_since := marked\<rparr>, Inr False)
         else lift_vpa marked (recreate E guard cw placements now r spec old new (vc_ctrl st)))
      else lift_vpa (om_del key (vc_since st)) (recreate E guard cw placements now r spec old new (vc_ctrl st)))"

text \<open>The recommendation is stored when it differs from the one on record, then acted on.\<close>

definition propose_recommendation ::
  "env \<Rightarrow> disruption_fun \<Rightarrow> writer \<Rightarrow> placement list \<Rightarrow> int \<Rightarrow> workload_spec_record \<Rightarrow> workload_spec \<Rightarrow> vertical_policy \<Rightarrow>
     nat \<times> nat \<Rightarrow> nat \<times> nat \<Rightarrow> vpa_controller \<Rightarrow> vpa_controller \<times> (vpa_error + bool)" where
  "propose_recommendation E guard cw placements now r spec policy old new st =
     (case get_vpa_recommendation E (ct_db (vc_ctrl st)) (ws_tenant_id spec) (ws_workload_id spec) of
        Inl e \<Rightarrow> (st, Inl (Vpa_error (Ctrl_storage e)))
      | Inr existing \<Rightarrow>
          (let rec_changed = (case existing of
                 Some e \<Rightarrow> vp_recommended_vcpus e \<noteq> fst new \<or> vp_recommended_memory_mb e \<noteq> snd new | None \<Rightarrow> True) in
           if \<not> rec_changed then apply_resize E guard cw placements now r spec policy old new False st
           else
             (case vpa_write cw (vc_ctrl st) now (workload_key (ws_tenant_id spec) (ws_workload_id spec))
                (UpsertVpaRecommendation
                   \<lparr>vp_tenant_id = ws_tenant_id spec, vp_workload_id = ws_workload_id spec,
                    vp_recommended_vcpus = fst new, vp_recommended_memory_mb = snd new,
                    vp_current_vcpus = fst old, vp_current_memory_mb = snd old,
                    vp_computed_at = now, vp_mode = mode_text (va_mode policy)\<rparr>) of
                (c, Inl e) \<Rightarrow> (st\<lparr>vc_ctrl := c\<rparr>, Inl (Vpa_error e))
              | (c, Inr _) \<Rightarrow> apply_resize E guard cw placements now r spec policy old new True (st\<lparr>vc_ctrl := c\<rparr>))))"

definition policy_deadband :: "vertical_policy \<Rightarrow> nat" where
  "policy_deadband policy = (if va_deadband_percent policy = 0 then DEFAULT_DEADBAND_PERCENT else va_deadband_percent policy)"

definition evaluate_with_dimensions ::
  "env \<Rightarrow> disruption_fun \<Rightarrow> metrics_store \<Rightarrow> writer \<Rightarrow> placement list \<Rightarrow> int \<Rightarrow> workload_spec_record \<Rightarrow> workload_spec \<Rightarrow>
     vertical_policy \<Rightarrow> bool \<Rightarrow> bool \<Rightarrow> vpa_controller \<Rightarrow> vpa_controller \<times> (vpa_error + bool)" where
  "evaluate_with_dimensions E guard metrics cw placements now r spec policy cpu_active mem_active st =
     (case Option.bind (ws_pod_spec spec) ps_resources of
        None \<Rightarrow> (st, Inr False)
      | Some footprint \<Rightarrow>
          (let qualifying = qualifying_windows metrics placements spec;
               key = (ws_tenant_id spec, ws_workload_id spec);
               cpu = rs_vcpus footprint; mem = rs_memory_mb footprint;
               deadband = policy_deadband policy;
               rec_cpu = recommend_vcpus policy qualifying; rec_mem = recommend_memory_mb policy qualifying in
           if (\<not> cpu_active \<and> \<not> mem_active) \<or> qualifying = [] then (st, Inr False)
           else
             (case (resize_dimension cpu_active deadband cpu rec_cpu, resize_dimension mem_active deadband mem rec_mem) of
                (Some cpu', Some mem') \<Rightarrow>
                  if \<not> dimension_changed cpu_active deadband cpu rec_cpu \<and> \<not> dimension_changed mem_active deadband mem rec_mem
                  then (st\<lparr>vc_since := om_del key (vc_since st)\<rparr>, Inr False)
                  else propose_recommendation E guard cw placements now r spec policy (cpu, mem) (cpu', mem') st
              | _ \<Rightarrow> (st, Inl Vpa_panic))))"

text \<open>A conflict with the horizontal autoscaler disables the first conflicting dimension only.\<close>

definition vpa_evaluate_workload ::
  "env \<Rightarrow> disruption_fun \<Rightarrow> metrics_store \<Rightarrow> writer \<Rightarrow> placement list \<Rightarrow> int \<Rightarrow> workload_spec_record \<Rightarrow>
     vpa_controller \<Rightarrow> vpa_controller \<times> (vpa_error + bool)" where
  "vpa_evaluate_workload E guard metrics cw placements now r st =
     (case dec (c_spec E) (wr_spec_bytes r) of
        None \<Rightarrow> (st, Inr False)
      | Some spec \<Rightarrow>
          (case ws_vertical spec of
             None \<Rightarrow> (st, Inr False)
           | Some policy \<Rightarrow>
               (let cpu_active = va_target_cpu_percent policy > 0; mem_active = va_target_memory_percent policy > 0;
                    hpa = (case ws_autoscaling spec of Some h \<Rightarrow> if hp_enabled h then Some h else None | None \<Rightarrow> None);
                    cpu_conflict = (case hpa of Some h \<Rightarrow> cpu_active \<and> hp_target_cpu h > 0 | None \<Rightarrow> False);
                    mem_conflict = (case hpa of Some h \<Rightarrow> mem_active \<and> hp_target_memory h > 0 | None \<Rightarrow> False);
                    run = evaluate_with_dimensions E guard metrics cw placements now r spec policy in
                if \<not> va_enabled policy \<or> \<not> cpu_active \<and> \<not> mem_active then (st, Inr False)
                else if cpu_conflict then run False mem_active st
                else if mem_conflict then run cpu_active False st
                else run cpu_active mem_active st)))"

text \<open>An error of one workload is logged; a panic ends the pass.\<close>

fun vpa_pass ::
  "(workload_spec_record \<Rightarrow> vpa_controller \<Rightarrow> vpa_controller \<times> (vpa_error + bool)) \<Rightarrow> workload_spec_record list \<Rightarrow>
     vpa_controller \<Rightarrow> vpa_controller \<times> (vpa_error + unit)" where
  "vpa_pass eval [] st = (st, Inr ())"
| "vpa_pass eval (r # rs) st =
     (case eval r st of
        (st', Inl Vpa_panic) \<Rightarrow> (st', Inl Vpa_panic)
      | (st', _) \<Rightarrow> vpa_pass eval rs st')"

definition vpa_evaluate_at ::
  "env \<Rightarrow> disruption_fun \<Rightarrow> metrics_store \<Rightarrow> writer \<Rightarrow> int \<Rightarrow> vpa_controller \<Rightarrow> vpa_controller \<times> (vpa_error + unit)" where
  "vpa_evaluate_at E guard metrics cw now st =
     (case bindE (list_workloads E (ct_db (vc_ctrl st))) (\<lambda>ws.
           bindE (list_placements E (ct_db (vc_ctrl st))) (\<lambda>ps. Inr (ws, ps))) of
        Inl e \<Rightarrow> (st, Inl (Vpa_error (Ctrl_storage e)))
      | Inr (ws, ps) \<Rightarrow> vpa_pass (vpa_evaluate_workload E guard metrics cw ps now) ws st)"

end
