(* ===== verification/ScalerTheorems.thy ===== *)
theory ScalerTheorems
  imports VerticalAutoscaler AdminExamples
begin

text \<open>
  Properties of the autoscalers: the distribution of replicas over roles, the bounds and the consent
  a horizontal scaling needs, the bounds of vertical recommendations and when they panic.
\<close>


section \<open>Distribution over roles\<close>

lemma sum_list_map_add: "sum_list (map (\<lambda>x. f x + g x) xs) = sum_list (map f xs) + (sum_list (map g xs) :: nat)"
  by (induction xs) auto

lemma parts_share:
  assumes "n = sum_list (map snd current)"
  shows "sum_list (map (fst \<circ> snd) (replica_parts current d)) * n + sum_list (map (snd \<circ> snd) (replica_parts current d)) = d * n"
proof -
  have "sum_list (map (fst \<circ> snd) (replica_parts current d)) * n + sum_list (map (snd \<circ> snd) (replica_parts current d)) =
      sum_list (map (\<lambda>p. d * snd p div n * n + d * snd p mod n) current)"
    unfolding replica_parts_def assms[symmetric] Let_def sum_list_map_add
    by (simp add: case_prod_unfold comp_def sum_list_mult_const)
  also have "\<dots> = sum_list (map (\<lambda>p. d * snd p) current)" by simp
  also have "\<dots> = d * n" by (simp add: assms sum_list_const_mult)
  finally show ?thesis .
qed

lemma sum_below:
  assumes "\<forall>x\<in>set xs. f x < n" "0 < (n::nat)"
  shows "sum_list (map f xs) \<le> length (filter (\<lambda>x. f x > 0) xs) * n \<and>
    (filter (\<lambda>x. f x > 0) xs \<noteq> [] \<longrightarrow> sum_list (map f xs) < length (filter (\<lambda>x. f x > 0) xs) * n)"
  using assms by (induction xs) (auto split: if_splits intro: add_less_le_mono add_mono)

lemma parts_remainder:
  assumes "n = sum_list (map snd current)" "0 < n" "p \<in> set (replica_parts current d)"
  shows "snd (snd p) < n"
  using assms by (auto simp: replica_parts_def Let_def)

lemma shortfall_le:
  assumes "n = sum_list (map snd current)" "0 < n"
  shows "d - sum_list (map (fst \<circ> snd) (replica_parts current d)) \<le>
    length (filter (\<lambda>p. snd (snd p) > 0) (replica_parts current d))"
proof -
  let ?b = "sum_list (map (fst \<circ> snd) (replica_parts current d))"
    and ?m = "sum_list (map (snd \<circ> snd) (replica_parts current d))"
  have "(d - ?b) * n = ?m"
    using parts_share[OF assms(1), of d] by (simp add: diff_mult_distrib)
  moreover have "?m \<le> length (filter (\<lambda>p. snd (snd p) > 0) (replica_parts current d)) * n"
    using sum_below[of "replica_parts current d" "snd \<circ> snd" n] parts_remainder[OF assms] assms(2)
    by (simp add: comp_def)
  ultimately show ?thesis using assms(2) by (metis mult_le_cancel2)
qed

lemma take_of_prefix:
  assumes "sorted (map f xs)" "\<And>x y. x \<in> set xs \<Longrightarrow> y \<in> set xs \<Longrightarrow> f x \<le> f y \<Longrightarrow> P y \<Longrightarrow> P x"
    and "s \<le> length (filter P xs)" "z \<in> set (take s xs)"
  shows "P z"
  using assms
proof (induction xs arbitrary: s)
  case (Cons x xs)
  show ?case
  proof (cases "P x")
    case True
    show ?thesis
    proof (cases "z = x")
      case False
      with Cons.prems(4) obtain s' where s': "s = Suc s'" "z \<in> set (take s' xs)" by (cases s) auto
      have down: "P x" if "x \<in> set xs" "y \<in> set xs" "f x \<le> f y" "P y" for x y
        by (rule Cons.prems(2)[OF _ _ that(3,4)]) (simp_all add: that(1,2))
      show ?thesis
        by (rule Cons.IH[OF _ down _ s'(2)]) (use Cons.prems(1,3) True s'(1) in simp_all)
    qed (use True in simp)
  next
    case False
    have "\<not> P y" if "y \<in> set xs" for y
    proof
      assume "P y"
      have "P x" by (rule Cons.prems(2)[OF _ _ _ \<open>P y\<close>]) (use Cons.prems(1) that in simp_all)
      with False show False by simp
    qed
    with False have "filter P (x # xs) = []" by (simp add: filter_empty_conv)
    with Cons.prems(3,4) show ?thesis by simp
  qed
qed simp

lemma count_members:
  assumes "distinct (map fst ps)" "distinct L" "set L \<subseteq> fst ` set ps"
  shows "sum_list (map (\<lambda>p. if fst p \<in> set L then 1 else 0) ps) = length L"
proof -
  have "sum_list (map (\<lambda>p. if fst p \<in> set L then 1 else 0) ps) = length (filter (\<lambda>r. r \<in> set L) (map fst ps))"
    by (induction ps) auto
  also have "\<dots> = card (set (filter (\<lambda>r. r \<in> set L) (map fst ps)))"
    using assms(1) by (metis distinct_card distinct_filter)
  also have "set (filter (\<lambda>r. r \<in> set L) (map fst ps)) = set L" using assms(3) by auto
  finally show ?thesis using assms(2) by (simp add: distinct_card)
qed

lemma length_filter_sort_key: "length (filter P (sort_key f xs)) = length (filter P xs)"
  by (metis mset_filter mset_sort size_mset)

lemma lucky_remainder:
  assumes n: "n = sum_list (map snd current)" "0 < n"
    and z: "z \<in> set (take (d - sum_list (map (fst \<circ> snd) (replica_parts current d))) (remainder_order n (replica_parts current d)))"
  shows "0 < snd (snd z)"
proof (rule take_of_prefix[where P = "\<lambda>p. 0 < snd (snd p)", OF _ _ _ z[unfolded remainder_order_def]])
  show "d - sum_list (map (fst \<circ> snd) (replica_parts current d)) \<le>
      length (filter (\<lambda>p. 0 < snd (snd p)) (sort_key (\<lambda>(role, _, rem). (n - rem, role)) (replica_parts current d)))"
    using shortfall_le[OF n, of d] by (simp add: length_filter_sort_key)
  show "0 < snd (snd x)" if "x \<in> set (sort_key (\<lambda>(role, _, rem). (n - rem, role)) (replica_parts current d))"
    "y \<in> set (sort_key (\<lambda>(role, _, rem). (n - rem, role)) (replica_parts current d))"
    "(case x of (role, _, rem) \<Rightarrow> (n - rem, role)) \<le> (case y of (role, _, rem) \<Rightarrow> (n - rem, role))" "0 < snd (snd y)" for x y
    using that parts_remainder[OF n, of x d] parts_remainder[OF n, of y d] by (auto split: prod.splits)
qed simp

lemma ceil_div: "0 < n \<Longrightarrow> (q + n - 1) div n = q div n + (if 0 < q mod n then 1 else (0::nat))"
proof -
  assume n: "0 < n"
  have q: "q + n - 1 = n * (q div n) + (q mod n + n - 1)" using n by (simp add: algebra_simps)
  have "(q mod n + n - 1) div n = (if 0 < q mod n then 1 else 0)"
    using n mod_less_divisor[OF n, of q] by (auto simp: div_eq_dividend_iff intro: div_nat_eqI)
  moreover have "(q + n - 1) div n = q div n + (q mod n + n - 1) div n"
    using n by (subst q, subst div_mult_self4) simp_all
  ultimately show ?thesis by simp
qed

text \<open>The share of a role before the result is cut to 32 bits, which changes nothing.\<close>

definition lucky_roles :: "(string \<times> nat) list \<Rightarrow> nat \<Rightarrow> string list" where
  "lucky_roles current d =
     (let n = sum_list (map snd current); parts = replica_parts current d in
      map fst (take (d - sum_list (map (fst \<circ> snd) parts)) (remainder_order n parts)))"

definition role_share :: "(string \<times> nat) list \<Rightarrow> nat \<Rightarrow> string \<times> nat \<Rightarrow> nat" where
  "role_share current d p = d * snd p div sum_list (map snd current) + (if fst p \<in> set (lucky_roles current d) then 1 else 0)"

lemma part_roles: "map fst (replica_parts current d) = map fst current"
  by (simp add: replica_parts_def Let_def comp_def case_prod_unfold)

lemma lucky_roles_facts:
  assumes "distinct (map fst current)" "0 < sum_list (map snd current)"
  shows "distinct (lucky_roles current d)" "set (lucky_roles current d) \<subseteq> fst ` set current"
    "length (lucky_roles current d) = d - sum_list (map (fst \<circ> snd) (replica_parts current d))"
proof -
  let ?n = "sum_list (map snd current)" and ?parts = "replica_parts current d"
  have m: "mset (remainder_order ?n ?parts) = mset ?parts" by (simp add: remainder_order_def)
  then have m': "mset (map fst (remainder_order ?n ?parts)) = mset (map fst current)"
    by (metis mset_map part_roles)
  then have dist: "distinct (map fst (remainder_order ?n ?parts))"
    using assms(1) by (metis mset_eq_imp_distinct_iff)
  show "distinct (lucky_roles current d)"
    using dist by (simp add: lucky_roles_def Let_def take_map[symmetric])
  have "set (map fst (remainder_order ?n ?parts)) = fst ` set current" using m' by (metis mset_eq_setD set_map)
  then show "set (lucky_roles current d) \<subseteq> fst ` set current"
    using set_take_subset[of _ "map fst (remainder_order ?n ?parts)"]
    by (simp only: lucky_roles_def Let_def take_map[symmetric])
  have "length (remainder_order ?n ?parts) = length ?parts" using m by (metis size_mset)
  then show "length (lucky_roles current d) = d - sum_list (map (fst \<circ> snd) ?parts)"
    using le_trans[OF shortfall_le[OF refl assms(2), of d] length_filter_le[of "\<lambda>p. snd (snd p) > 0" ?parts]]
    by (simp add: lucky_roles_def Let_def min_absorb2)
qed

lemma lucky_share:
  assumes "distinct (map fst current)" "0 < sum_list (map snd current)" "p \<in> set current"
    and "fst p \<in> set (lucky_roles current d)"
  shows "0 < d * snd p mod sum_list (map snd current)"
proof -
  let ?n = "sum_list (map snd current)" and ?parts = "replica_parts current d"
  obtain z where z: "z \<in> set (take (d - sum_list (map (fst \<circ> snd) ?parts)) (remainder_order ?n ?parts))" "fst z = fst p"
    using assms(4) by (auto simp: lucky_roles_def Let_def)
  have "set (remainder_order ?n ?parts) = set ?parts" by (simp add: remainder_order_def)
  with z(1) have "z \<in> set ?parts" by (auto dest: in_set_takeD)
  moreover have "(fst p, d * snd p div ?n, d * snd p mod ?n) \<in> set ?parts"
    using assms(3) by (force simp: replica_parts_def Let_def)
  moreover have "distinct (map fst ?parts)" by (simp add: part_roles assms(1))
  ultimately have "z = (fst p, d * snd p div ?n, d * snd p mod ?n)"
    using z(2) by (metis eq_key_imp_eq_value fst_conv prod.collapse)
  with lucky_remainder[OF refl assms(2) z(1)] show ?thesis by simp
qed

lemma role_share_bounds:
  assumes "distinct (map fst current)" "0 < sum_list (map snd current)" "p \<in> set current"
  defines "n \<equiv> sum_list (map snd current)"
  shows "d * snd p div n \<le> role_share current d p" "role_share current d p \<le> (d * snd p + n - 1) div n"
    "n \<le> d \<Longrightarrow> snd p \<le> role_share current d p" "d \<le> n \<Longrightarrow> role_share current d p \<le> snd p" "role_share current d p \<le> d"
proof -
  have n: "0 < n" using assms(2) by (simp add: n_def)
  show lo: "d * snd p div n \<le> role_share current d p" by (simp add: role_share_def n_def)
  show hi: "role_share current d p \<le> (d * snd p + n - 1) div n"
    using lucky_share[OF assms(1-3), of d] ceil_div[OF n, of "d * snd p"] by (auto simp: role_share_def n_def)
  show "snd p \<le> role_share current d p" if "n \<le> d"
  proof -
    have "snd p = n * snd p div n" using n by simp
    also have "\<dots> \<le> d * snd p div n" using that by (intro div_le_mono mult_le_mono1)
    finally show ?thesis using lo by simp
  qed
  show "role_share current d p \<le> snd p" if "d \<le> n"
  proof -
    have "(d * snd p + n - 1) div n \<le> (n * snd p + n - 1) div n"
      using that by (intro div_le_mono) (simp add: diff_le_mono)
    also have "\<dots> = snd p" using ceil_div[OF n, of "n * snd p"] n by simp
    finally show ?thesis using hi by simp
  qed
  have "snd p \<le> n" using assms(3) by (auto simp: n_def intro: member_le_sum_list)
  then have "(d * snd p + n - 1) div n \<le> (n * d + n - 1) div n"
    by (intro div_le_mono) (simp add: diff_le_mono mult.commute)
  also have "\<dots> = d" using ceil_div[OF n, of "n * d"] n by simp
  finally show "role_share current d p \<le> d" using hi by simp
qed

lemma distribute_shares:
  assumes "distinct (map fst current)" "0 < sum_list (map snd current)" "d < 2 ^ 32"
  shows "distribute_replicas current d = map (\<lambda>p. (fst p, role_share current d p)) current"
proof (cases "d = 0")
  case True
  have "role_share current 0 p = 0" if "p \<in> set current" for p
    using role_share_bounds(5)[OF assms(1,2) that, of 0] by simp
  with True show ?thesis by (simp add: distribute_replicas_def case_prod_unfold)
next
  case False
  have "role_share current d p mod 2 ^ 32 = role_share current d p" if "p \<in> set current" for p
    using role_share_bounds(5)[OF assms(1,2) that, of d] assms(3) by (intro mod_less) linarith
  moreover have "distribute_replicas current d =
    map (\<lambda>(role, base, _). (role, (if role \<in> set (lucky_roles current d) then base + 1 else base) mod 2 ^ 32)) (replica_parts current d)"
    using False assms(2) by (simp add: distribute_replicas_def lucky_roles_def Let_def del: sum_list_eq_0_iff)
  moreover have "\<dots> = map (\<lambda>p. (fst p, role_share current d p mod 2 ^ 32)) current"
    by (simp add: replica_parts_def[of current d] Let_def comp_def case_prod_unfold role_share_def)
  ultimately show ?thesis by simp
qed

lemma distributed_total:
  assumes "distinct (map fst current)" "0 < sum_list (map snd current)"
  shows "sum_list (map (role_share current d) current) = d"
proof -
  note facts = lucky_roles_facts[OF assms, of d]
  let ?b = "sum_list (map (\<lambda>p. d * snd p div sum_list (map snd current)) current)"
  have b: "sum_list (map (fst \<circ> snd) (replica_parts current d)) = ?b"
    by (simp add: replica_parts_def Let_def comp_def case_prod_unfold)
  have "?b \<le> d"
    using parts_share[OF refl, of current d] assms(2) unfolding b by (metis le_add1 mult_le_cancel2)
  then show ?thesis
    using count_members[OF assms(1) facts(1,2)] facts(3) b
    unfolding role_share_def sum_list_map_add by simp
qed

text \<open>The autoscaler hands out exactly the desired total over the roles, and gives each role its
  proportional share rounded down or up; a scale-up takes from no role and a scale-down gives to none.\<close>

theorem distribute_exact:
  assumes "distinct (map fst current)" "0 < sum_list (map snd current)" "d < 2 ^ 32"
  shows "map fst (distribute_replicas current d) = map fst current \<and>
    sum_list (map snd (distribute_replicas current d)) = d \<and>
    (\<forall>i<length current. let n = sum_list (map snd current); c = snd (current ! i); x = snd (distribute_replicas current d ! i) in
       d * c div n \<le> x \<and> x \<le> (d * c + n - 1) div n \<and> (n \<le> d \<longrightarrow> c \<le> x) \<and> (d \<le> n \<longrightarrow> x \<le> c))"
  using role_share_bounds[OF assms(1,2)] distributed_total[OF assms(1,2)]
  by (simp add: distribute_shares[OF assms] comp_def Let_def)

theorem distribute_exact_witness:
  "distribute_replicas [(''primary'', 1), (''replica'', 2)] 4 = [(''primary'', 1), (''replica'', 3)] \<and>
   sum_list (map snd (distribute_replicas [(''primary'', 1), (''replica'', 2)] 4)) = 4"
proof -
  have "distribute_replicas [(''primary'', 1), (''replica'', 2)] 4 = [(''primary'', 1), (''replica'', 3)]"
    by code_simp
  then show ?thesis using distribute_exact[of "[(''primary'', 1), (''replica'', 2)]" 4] by simp
qed


section \<open>Horizontal scaling\<close>

lemma desired_total_fold:
  assumes "\<And>b. best = Some b \<Longrightarrow> lo \<le> b \<and> b \<le> hi" "lo \<le> hi"
    and "foldl (\<lambda>best s. case compute_desired_for_metric cur (ms_avg s) (ms_target s) lo hi of
              None \<Rightarrow> best
            | Some d \<Rightarrow> Some (case best of None \<Rightarrow> d | Some b \<Rightarrow> max b d)) best signals = Some d"
  shows "lo \<le> d \<and> d \<le> hi"
  using assms
proof (induction signals arbitrary: best)
  case (Cons s signals)
  let ?best = "case compute_desired_for_metric cur (ms_avg s) (ms_target s) lo hi of
              None \<Rightarrow> best | Some d \<Rightarrow> Some (case best of None \<Rightarrow> d | Some b \<Rightarrow> max b d)"
  have "lo \<le> b \<and> b \<le> hi" if "?best = Some b" for b
    using that Cons.prems(1,2)
    by (auto simp: compute_desired_for_metric_def Let_def max_def split: if_splits option.splits)
  then show ?case using Cons.IH[of ?best] Cons.prems(2,3) by simp
qed auto

lemma desired_total_range: "compute_desired_total cur signals lo hi = Some d \<Longrightarrow> lo \<le> hi \<Longrightarrow> lo \<le> d \<and> d \<le> hi"
  unfolding compute_desired_total_def by (rule desired_total_fold) auto

lemma hpa_decision_Some:
  assumes "hpa_decision metrics ps spec = Some (policy, cur, d)"
  shows "ws_autoscaling spec = Some policy" "hp_enabled policy"
    "max (hp_min_replicas policy) 1 \<le> d" "d \<le> hp_max_replicas policy"
    "cur = sum_list (map snd (current_replicas spec)) mod 2 ^ 32" "0 < cur"
  using assms desired_total_range[of _ _ "max (hp_min_replicas policy) 1" "hp_max_replicas policy" d]
  by (auto simp: hpa_decision_def Let_def policy_valid_def split: option.splits if_splits)

lemma current_replicas_distinct: "distinct (map fst (current_replicas spec))"
proof -
  have "om_wf m \<Longrightarrow> om_wf (foldl (\<lambda>m (role, n). om_put role n m) m xs)" for m and xs :: "(string \<times> nat) list"
    by (induction xs arbitrary: m) (auto split: prod.splits)
  then show ?thesis by (simp add: current_replicas_def om_wf_distinct)
qed

text \<open>The counters of the spec fit in the 32 bits they have on the wire.\<close>

definition hpa_in_range :: "workload_spec \<Rightarrow> bool" where
  "hpa_in_range spec \<longleftrightarrow> sum_list (map snd (current_replicas spec)) < 2 ^ 32 \<and>
     (\<forall>policy. ws_autoscaling spec = Some policy \<longrightarrow> hp_max_replicas policy < 2 ^ 32)"

lemma scale_proposed:
  assumes "raft_writer E td cw" "replica_inv E (rp_db (hc_replica st))"
    and "propose_scale E cw now r spec new st = (st', Inr ())"
  shows "\<exists>r'. record_at (c_workload E) (rp_db (hc_replica st')) Kworkloads (workload_key (wr_tenant_id r) (wr_workload_id r)) = Some r' \<and>
    dec (c_spec E) (wr_spec_bytes r') = Some (spec\<lparr>ws_replicas := new\<rparr>) \<and> hc_since st' = hc_since st"
proof -
  let ?rec = "\<lparr>wr_tenant_id = wr_tenant_id r, wr_workload_id = wr_workload_id r,
            wr_spec_bytes = or_empty (enc (c_spec E) (spec\<lparr>ws_replicas := new\<rparr>)), wr_last_applied = []\<rparr>"
  note ok = raft_writer.codecs[OF assms(1)]
  let ?a = "\<lparr>cmd = ScaleWorkload ?rec, audit = Some
           \<lparr>ac_request_id = [], ac_actor = ''system:hpa-controller'',
            ac_target = workload_key (wr_tenant_id r) (wr_workload_id r), ac_timestamp = as_u64 now\<rparr>\<rparr>"
  obtain rr where w: "cw (hc_replica st) ?a = (hc_replica st', Inr rr)" and s: "hc_since st' = hc_since st"
    using assms(3) by (auto simp: propose_scale_def split: prod.splits sum.splits)
  have c: "cmd ?a = ScaleWorkload ?rec" by simp
  obtain e where e: "en_payload e = Normal ?a" and run: "apply_entry E td (hc_replica st) e = (hc_replica st', Inr rr)"
    using raft_writer.applies[OF assms(1) w] by blast
  have "record_at (c_workload E) (rp_db (hc_replica st')) Kworkloads (workload_key (wr_tenant_id ?rec) (wr_workload_id ?rec)) = Some ?rec"
    by (rule scale_workload_effect(3)[OF ok assms(2) run e c refl refl refl])
  moreover obtain b where b: "enc (c_spec E) (spec\<lparr>ws_replicas := new\<rparr>) = Some b"
    using proto_codecs(1)[OF ok] by (auto simp: codec_ok_def)
  ultimately show ?thesis
    using s codec_ok_dec[OF proto_codecs(1)[OF ok] b] by (auto simp: or_empty_def)
qed

lemma hpa_scaled:
  assumes "dec (c_spec E) (wr_spec_bytes r) = Some spec" "hpa_decision metrics ps spec = Some (policy, cur, d)"
    and "hpa_evaluate_workload E guard metrics cw ps now r st = (st', Inr True)"
  defines "key \<equiv> (ws_tenant_id spec, ws_workload_id spec)" and "new \<equiv> distribute_replicas (current_replicas spec) d"
  shows "\<exists>st0 st1. hc_replica st0 = hc_replica st \<and> propose_scale E cw now r spec new st0 = (st1, Inr ()) \<and>
    hc_replica st1 = hc_replica st' \<and>
    (d < cur \<longrightarrow> shrink_allowed E guard (rp_db (hc_replica st)) spec new \<and>
       (case om_get (hc_since st) key of
          Some t \<Rightarrow> int (hp_stabilization_window policy) \<le> now - t
        | None \<Rightarrow> hp_stabilization_window policy = 0))"
proof (cases "d < cur")
  case True
  let ?since = "case om_get (hc_since st) key of Some t \<Rightarrow> t | None \<Rightarrow> now"
  let ?m = "st\<lparr>hc_since := om_put key ?since (hc_since st)\<rparr>"
  from True assms(3) have ok: "\<not> now - ?since < int (hp_stabilization_window policy)"
    "shrink_allowed E guard (rp_db (hc_replica st)) spec new"
    and p: "(case propose_scale E cw now r spec new ?m of
               (st', Inl e) \<Rightarrow> (st', Inl e)
             | (st', Inr _) \<Rightarrow> (st'\<lparr>hc_since := om_del key (hc_since st')\<rparr>, Inr True)) = (st', Inr True)"
    by (simp_all add: hpa_evaluate_workload_def assms(1,2) Let_def key_def[symmetric] new_def[symmetric] split: if_splits)
  obtain st1 where "propose_scale E cw now r spec new ?m = (st1, Inr ())" "hc_replica st1 = hc_replica st'"
    using p by (auto split: prod.splits sum.splits)
  then show ?thesis using ok by (intro exI[of _ ?m] exI[of _ st1]) (auto split: option.splits)
next
  case False
  let ?m = "st\<lparr>hc_since := om_del key (hc_since st)\<rparr>"
  from False assms(3) have p: "(case propose_scale E cw now r spec new ?m of
               (st', Inl e) \<Rightarrow> (st', Inl e) | (st', Inr _) \<Rightarrow> (st', Inr True)) = (st', Inr True)"
    by (simp add: hpa_evaluate_workload_def assms(1,2) Let_def key_def[symmetric] new_def[symmetric] split: if_splits)
  obtain st1 where "propose_scale E cw now r spec new ?m = (st1, Inr ())" "hc_replica st1 = hc_replica st'"
    using p by (auto split: prod.splits sum.splits)
  then show ?thesis using False by (intro exI[of _ ?m] exI[of _ st1]) simp
qed

text \<open>C25. When the horizontal autoscaler scales a workload, its policy is enabled, the stored spec
  afterwards has the same roles with a total within the policy's bounds, and a reduction happened
  only after the stabilisation window since the first reading that asked for it, with the consent of
  the disruption guard for every role that loses replicas.\<close>

theorem hpa_scales_within_policy:
  assumes "raft_writer E td cw" "replica_inv E (rp_db (hc_replica st))"
    and "dec (c_spec E) (wr_spec_bytes r) = Some spec" "hpa_in_range spec"
    and "hpa_evaluate_workload E guard metrics cw ps now r st = (st', Inr True)"
  shows "\<exists>policy r' new. ws_autoscaling spec = Some policy \<and> hp_enabled policy \<and>
    record_at (c_workload E) (rp_db (hc_replica st')) Kworkloads (workload_key (wr_tenant_id r) (wr_workload_id r)) = Some r' \<and>
    dec (c_spec E) (wr_spec_bytes r') = Some (spec\<lparr>ws_replicas := new\<rparr>) \<and> map fst new = map fst (current_replicas spec) \<and>
    max (hp_min_replicas policy) 1 \<le> sum_list (map snd new) \<and> sum_list (map snd new) \<le> hp_max_replicas policy \<and>
    (sum_list (map snd new) < sum_list (map snd (current_replicas spec)) \<longrightarrow>
       shrink_allowed E guard (rp_db (hc_replica st)) spec new \<and>
       (case om_get (hc_since st) (ws_tenant_id spec, ws_workload_id spec) of
          Some t \<Rightarrow> int (hp_stabilization_window policy) \<le> now - t
        | None \<Rightarrow> hp_stabilization_window policy = 0))"
proof -
  obtain policy cur d where dcs: "hpa_decision metrics ps spec = Some (policy, cur, d)"
    using assms(3,5) by (auto simp: hpa_evaluate_workload_def split: option.splits)
  note dec = hpa_decision_Some[OF dcs]
  let ?new = "distribute_replicas (current_replicas spec) d"
  have cur: "cur = sum_list (map snd (current_replicas spec))" using dec(5) assms(4) by (simp add: hpa_in_range_def)
  have "d < 2 ^ 32" using dec(1,4) assms(4) by (auto simp: hpa_in_range_def)
  then have new: "map fst ?new = map fst (current_replicas spec)" "sum_list (map snd ?new) = d"
    using distribute_shares[OF current_replicas_distinct, of spec d] distributed_total[OF current_replicas_distinct, of spec d]
      dec(6) cur by (simp_all add: comp_def)
  obtain st0 st1 where p: "hc_replica st0 = hc_replica st" "propose_scale E cw now r spec ?new st0 = (st1, Inr ())"
    "hc_replica st1 = hc_replica st'"
    and down: "d < cur \<longrightarrow> shrink_allowed E guard (rp_db (hc_replica st)) spec ?new \<and>
       (case om_get (hc_since st) (ws_tenant_id spec, ws_workload_id spec) of
          Some t \<Rightarrow> int (hp_stabilization_window policy) \<le> now - t
        | None \<Rightarrow> hp_stabilization_window policy = 0)"
    using hpa_scaled[OF assms(3) dcs assms(5)] by blast
  obtain r' where "record_at (c_workload E) (rp_db (hc_replica st')) Kworkloads (workload_key (wr_tenant_id r) (wr_workload_id r)) = Some r'"
    "dec (c_spec E) (wr_spec_bytes r') = Some (spec\<lparr>ws_replicas := ?new\<rparr>)"
    using scale_proposed[OF assms(1) _ p(2)] p(1,3) assms(2) by auto
  then show ?thesis
    using dec new cur down by (intro exI[of _ policy] exI[of _ r'] exI[of _ ?new]) simp
qed

text \<open>The reading that starts a reduction is not forgotten when readings stop: with no usable
  metrics in between (or the policy switched off and on again), a second low reading after the
  window scales down at once, although low utilisation was seen twice only.\<close>

theorem scale_down_after_gap:
  assumes "dec (c_spec E) (wr_spec_bytes r) = Some spec"
    and "hpa_decision low ps spec = Some (policy, cur, d)" "d < cur" "\<not> within_deadband cur d"
    and "hpa_decision silent ps' spec = None"
    and "om_get (hc_since st) (ws_tenant_id spec, ws_workload_id spec) = None"
    and "0 < hp_stabilization_window policy" "t0 + int (hp_stabilization_window policy) \<le> t2"
    and "shrink_allowed E guard (rp_db (hc_replica st)) spec (distribute_replicas (current_replicas spec) d)"
    and "is_ok (snd (propose_scale E cw t2 r spec (distribute_replicas (current_replicas spec) d) st))"
  shows "\<exists>st1. hpa_evaluate_workload E guard low cw ps t0 r st = (st1, Inr False) \<and>
    hpa_evaluate_workload E guard silent cw ps' t1 r st1 = (st1, Inr False) \<and>
    hc_replica st1 = hc_replica st \<and> snd (hpa_evaluate_workload E guard low cw ps t2 r st1) = Inr True"
proof -
  let ?key = "(ws_tenant_id spec, ws_workload_id spec)" and ?new = "distribute_replicas (current_replicas spec) d"
  let ?st1 = "st\<lparr>hc_since := om_put ?key t0 (hc_since st)\<rparr>"
  have "is_ok (snd (propose_scale E cw t2 r spec ?new st0))" if "hc_replica st0 = hc_replica st" for st0
    using assms(10) that by (simp add: propose_scale_def split: prod.splits sum.splits)
  then have p: "\<exists>x. propose_scale E cw t2 r spec ?new st0 = (x, Inr ())" if "hc_replica st0 = hc_replica st" for st0
    using that by (metis is_ok_iff old.unit.exhaust prod.collapse)
  have "hpa_evaluate_workload E guard low cw ps t0 r st = (?st1, Inr False)"
    using assms(1-4,6,7) by (simp add: hpa_evaluate_workload_def Let_def)
  moreover have "hpa_evaluate_workload E guard silent cw ps' t1 r ?st1 = (?st1, Inr False)"
    using assms(1,5) by (simp add: hpa_evaluate_workload_def)
  moreover have "snd (hpa_evaluate_workload E guard low cw ps t2 r ?st1) = Inr True"
    using assms(1-4,8,9) p[of "?st1\<lparr>hc_since := om_put ?key t0 (hc_since ?st1)\<rparr>"]
    by (auto simp: hpa_evaluate_workload_def Let_def)
  ultimately show ?thesis by (intro exI[of _ ?st1]) simp
qed

text \<open>A workload with one role on one pod, and a horizontal policy of 500 millicores per pod.\<close>

definition ex_metrics :: "nat \<Rightarrow> metrics_store" where
  "ex_metrics c = [(''p'', \<lparr>mr_windows = map (\<lambda>w. \<lparr>pm_pod_id = ''p'', pm_cpu_millicores = c, pm_memory_bytes = 4194304,
     pm_net_tx = 0, pm_net_rx = 0, pm_window = w\<rparr>) [1, 2, 3], mr_last_updated = 3\<rparr>)]"

definition ex_pods :: "placement list" where
  "ex_pods = [(ex_placement 0 node_a)\<lparr>pl_pod_id := ''p''\<rparr>]"

definition ex_hpa_spec :: "nat \<Rightarrow> workload_spec" where
  "ex_hpa_spec n =
     \<lparr>ws_tenant_id = ''t'', ws_workload_id = ''web'', ws_image = ''img'', ws_replicas = [(''r'', n)],
      ws_pod_spec = None, ws_budgets = [], ws_placement = 0,
      ws_autoscaling = Some \<lparr>hp_enabled = True, hp_min_replicas = 1, hp_max_replicas = 4, hp_target_cpu = 500,
        hp_target_memory = 0, hp_target_net_rx = 0, hp_target_net_tx = 0, hp_stabilization_window = 60\<rparr>,
      ws_vertical = None, ws_rest = []\<rparr>"

definition spec_record :: "workload_spec \<Rightarrow> workload_spec_record" where
  "spec_record spec =
     \<lparr>wr_tenant_id = ws_tenant_id spec, wr_workload_id = ws_workload_id spec,
      wr_spec_bytes = the (enc (c_spec PE) spec), wr_last_applied = []\<rparr>"

definition ex_hpa :: hpa_controller where
  "ex_hpa = \<lparr>hc_replica = fresh, hc_since = []\<rparr>"

lemma spec_record_dec: "dec (c_spec PE) (wr_spec_bytes (spec_record spec)) = Some spec"
  using codec_ok_enc[OF proto_codecs(1)[OF postcard_env_ok], of spec] codec_ok_dec[OF proto_codecs(1)[OF postcard_env_ok]]
  by (auto simp: spec_record_def)

lemma ex_hpa_decisions:
  "hpa_decision (ex_metrics 1000) ex_pods (ex_hpa_spec 2) = Some (the (ws_autoscaling (ex_hpa_spec 2)), 2, 4)"
  "hpa_decision (ex_metrics 0) ex_pods (ex_hpa_spec 4) = Some (the (ws_autoscaling (ex_hpa_spec 4)), 4, 1)"
  "hpa_decision [] ex_pods (ex_hpa_spec 4) = None"
  by code_simp+

lemma ex_scale_write: "\<exists>s rr. ex_writer fresh \<lparr>cmd = ScaleWorkload r, audit = a\<rparr> = (s, Inr rr)"
  using local_write_progress[OF postcard_env_ok start_inv, of "\<lparr>cmd = ScaleWorkload r, audit = a\<rparr>" "''f''"]
  by (auto simp: self_addressed_def raw_scheduler_write_def)

lemma ex_propose_ok:
  assumes "hc_replica st = fresh"
  shows "\<exists>st'. propose_scale PE ex_writer now r spec new st = (st', Inr ())"
proof -
  obtain s rr where "ex_writer fresh
        \<lparr>cmd = ScaleWorkload
           \<lparr>wr_tenant_id = wr_tenant_id r, wr_workload_id = wr_workload_id r,
            wr_spec_bytes = or_empty (enc (c_spec PE) (spec\<lparr>ws_replicas := new\<rparr>)), wr_last_applied = []\<rparr>,
         audit = Some
           \<lparr>ac_request_id = [], ac_actor = ''system:hpa-controller'',
            ac_target = workload_key (wr_tenant_id r) (wr_workload_id r), ac_timestamp = as_u64 now\<rparr>\<rparr> = (s, Inr rr)"
    using ex_scale_write by blast
  then show ?thesis using assms by (simp add: propose_scale_def)
qed

theorem hpa_scales_within_policy_witness:
  "\<exists>st' r'. record_at (c_workload PE) (rp_db (hc_replica st')) Kworkloads (workload_key ''t'' ''web'') = Some r' \<and>
     hpa_evaluate_workload PE (allow_disruption PE) (ex_metrics 1000) ex_writer ex_pods 9 (spec_record (ex_hpa_spec 2)) ex_hpa = (st', Inr True)"
proof -
  let ?spec = "ex_hpa_spec 2"
  obtain st' where run: "hpa_evaluate_workload PE (allow_disruption PE) (ex_metrics 1000) ex_writer ex_pods 9 (spec_record ?spec) ex_hpa = (st', Inr True)"
    using ex_propose_ok[of "ex_hpa\<lparr>hc_since := []\<rparr>" 9 "spec_record ?spec" ?spec "distribute_replicas (current_replicas ?spec) 4"]
    by (auto simp: hpa_evaluate_workload_def spec_record_dec ex_hpa_decisions within_deadband_def DEADBAND_PERCENT_def
        ex_hpa_def Let_def)
  have "hpa_in_range ?spec" by (simp add: hpa_in_range_def ex_hpa_spec_def current_replicas_def)
  moreover have "replica_inv PE (rp_db (hc_replica ex_hpa))" using start_inv by (simp add: ex_hpa_def)
  ultimately obtain r' where "record_at (c_workload PE) (rp_db (hc_replica st')) Kworkloads
      (workload_key (wr_tenant_id (spec_record ?spec)) (wr_workload_id (spec_record ?spec))) = Some r'"
    using hpa_scales_within_policy[OF ex_write _ spec_record_dec _ run] by blast
  then show ?thesis using run by (intro exI[of _ st'] exI[of _ r']) (simp add: spec_record_def ex_hpa_spec_def)
qed

theorem scale_down_after_gap_witness:
  "\<exists>st1. hpa_evaluate_workload PE (allow_disruption PE) [] ex_writer ex_pods 50 (spec_record (ex_hpa_spec 4)) st1 = (st1, Inr False) \<and>
     snd (hpa_evaluate_workload PE (allow_disruption PE) (ex_metrics 0) ex_writer ex_pods 70 (spec_record (ex_hpa_spec 4)) st1) = Inr True"
proof -
  let ?spec = "ex_hpa_spec 4" and ?new = "distribute_replicas (current_replicas (ex_hpa_spec 4)) 1"
  have "?new = [(''r'', 1)]" by code_simp
  moreover have "tenant_ok PE ''t''" "role_ok PE ''r''" by (simp_all add: postcard_env_def)
  ultimately have "shrink_allowed PE (allow_disruption PE) (rp_db (hc_replica ex_hpa)) ?spec ?new"
    by (simp add: shrink_allowed_def ex_hpa_def allow_disruption_def get_workload_spec_def kv_get_def
        start_replica_def empty_db_def ex_hpa_spec_def)
  moreover have "is_ok (snd (propose_scale PE ex_writer 70 (spec_record ?spec) ?spec ?new ex_hpa))"
    using ex_propose_ok[of ex_hpa 70 "spec_record ?spec" ?spec ?new] by (auto simp: ex_hpa_def)
  ultimately show ?thesis
    using scale_down_after_gap[OF spec_record_dec ex_hpa_decisions(2) _ _ ex_hpa_decisions(3), of ex_hpa 5 70 "allow_disruption PE" ex_writer 50]
    by (auto simp: ex_hpa_def ex_hpa_spec_def within_deadband_def DEADBAND_PERCENT_def)
qed

end
