(* ===== verification/VerticalTheorems.thy ===== *)
theory VerticalTheorems
  imports ScalerTheorems
begin

text \<open>
  Properties of the vertical autoscaler: which admitted policies it can evaluate without panicking,
  and what it leaves undone after a resize.
\<close>


section \<open>Panics\<close>

lemma to_mb_plain: "b \<le> 2 ^ 52 - 2 ^ 20 \<Longrightarrow> to_mb b = (b + 1048575) div 1048576"
proof -
  assume b: "b \<le> 2 ^ 52 - 2 ^ 20"
  then have "(b + 1048575) div 1048576 < 2 ^ 32" by (simp add: less_mult_imp_div_less)
  then show ?thesis using b by (simp add: to_mb_def as_u32_def)
qed


lemma to_mb_unlimited: "to_mb (2 ^ 64 - 1) = 0"
  by (simp add: to_mb_def as_u32_def)

lemma resize_dimension_None: "resize_dimension active deadband current r = None \<longleftrightarrow> active \<and> r = None"
  by (cases r) (auto simp: resize_dimension_def)

lemma clamp_None: "clamp x lo hi = None \<longleftrightarrow> hi < lo"
  by (auto simp: clamp_def)

lemma recreate_no_panic [simp]: "snd (lift_vpa since m) \<noteq> Inl Vpa_panic"
  by (cases "snd m") (auto simp: lift_vpa_def)

lemma apply_resize_no_panic [simp]:
  "snd (apply_resize E guard cw ps now r spec policy old new changed st) \<noteq> Inl Vpa_panic"
  by (simp add: apply_resize_def Let_def)

lemma propose_recommendation_no_panic [simp]:
  "snd (propose_recommendation E guard cw ps now r spec policy old new st) \<noteq> Inl Vpa_panic"
  by (simp add: propose_recommendation_def Let_def split: sum.split prod.split)


lemma admitted_no_conflict:
  assumes "validate_vertical spec = Inr ()" "ws_vertical spec = Some policy" "va_enabled policy"
    and "dec (c_spec E) (wr_spec_bytes r) = Some spec"
  shows "vpa_evaluate_workload E guard metrics cw ps now r st =
    evaluate_with_dimensions E guard metrics cw ps now r spec policy
      (va_target_cpu_percent policy > 0) (va_target_memory_percent policy > 0) st"
    "va_min_vcpus policy \<le> va_max_vcpus policy" "va_min_memory policy \<le> va_max_memory policy"
  using assms
  by (auto simp: validate_vertical_def vpa_evaluate_workload_def Let_def split: if_splits option.splits)


text \<open>C27. An admitted policy without a memory limit (all bits of the limit set) and with a minimum above
  one megabyte panics the vertical autoscaler as soon as metrics arrive: rounding the limit up to
  megabytes wraps to zero, and the bounds of the clamp are reversed. The panic ends the pass, so that
  the workloads after this one are not evaluated.\<close>

theorem vpa_unlimited_memory_panics:
  assumes "validate_vertical spec = Inr ()" "dec (c_spec E) (wr_spec_bytes r) = Some spec"
    and "ws_vertical spec = Some policy" "va_enabled policy" "va_target_memory_percent policy > 0"
    and "va_max_memory policy = 2 ^ 64 - 1" "2 ^ 20 < va_min_memory policy" "va_min_memory policy \<le> 2 ^ 52 - 2 ^ 20"
    and "Option.bind (ws_pod_spec spec) ps_resources = Some f" "qualifying_windows metrics ps spec \<noteq> []"
  shows "vpa_pass (vpa_evaluate_workload E guard metrics cw ps now) (r # rs) st = (st, Inl Vpa_panic)"
proof -
  let ?q = "qualifying_windows metrics ps spec"
  have "1 < to_mb (va_min_memory policy)"
    using assms(7) by (simp add: to_mb_plain[OF assms(8)] less_eq_div_iff_mult_less_eq Suc_le_eq[symmetric])
  moreover have "to_mb (va_max_memory policy) = 0" unfolding assms(6) by (rule to_mb_unlimited)
  ultimately have "recommend_memory_mb policy ?q = None"
    by (simp add: recommend_memory_mb_def Let_def clamp_None)
  then have "resize_dimension True (policy_deadband policy) (rs_memory_mb f) (recommend_memory_mb policy ?q) = None"
    by (simp add: resize_dimension_None)
  then have "evaluate_with_dimensions E guard metrics cw ps now r spec policy (va_target_cpu_percent policy > 0) True st = (st, Inl Vpa_panic)"
    using assms(9,10) by (simp add: evaluate_with_dimensions_def Let_def split: option.split)
  then show ?thesis
    using admitted_no_conflict(1)[OF assms(1,3,4,2)] assms(5) by simp
qed

text \<open>Once the template has the recommended footprint, the vertical autoscaler does nothing more
  under the same metrics, whatever the placed pods were given: of the pods that still have the old
  footprint only the one removed with the resize is ever replaced.\<close>

theorem vpa_idle_after_resize:
  assumes "Option.bind (ws_pod_spec spec) ps_resources = Some f"
    and "resize_dimension cpu (policy_deadband policy) (rs_vcpus f) (recommend_vcpus policy (qualifying_windows metrics ps spec)) = Some c"
    and "resize_dimension mem (policy_deadband policy) (rs_memory_mb f) (recommend_memory_mb policy (qualifying_windows metrics ps spec)) = Some m"
  shows "\<exists>st'. evaluate_with_dimensions E guard metrics cw ps now r (resized_spec spec c m) policy cpu mem st = (st', Inr False) \<and>
    vc_ctrl st' = vc_ctrl st"
proof -
  let ?q = "qualifying_windows metrics ps spec" and ?d = "policy_deadband policy"
  have q: "qualifying_windows metrics ps (resized_spec spec c m) = ?q"
    by (simp add: qualifying_windows_def resized_spec_def)
  have f: "Option.bind (ws_pod_spec (resized_spec spec c m)) ps_resources = Some (f\<lparr>rs_vcpus := c, rs_memory_mb := m\<rparr>)"
    using assms(1) by (auto simp: resized_spec_def bind_eq_Some_conv)
  have pos: "0 < x" if "clamp y (max lo 1) hi = Some x" for x y lo hi
    using that by (auto simp: clamp_def split: if_splits)
  have refl: "vpa_within_deadband x x d" if "0 < x" for x d
    using that by (simp add: vpa_within_deadband_def)
  have stays: "resize_dimension act ?d x rec = Some x \<and> \<not> dimension_changed act ?d x rec"
    if "resize_dimension act ?d old rec = Some x" "\<And>y. rec = Some y \<Longrightarrow> 0 < y" for act old x rec
    using that refl[of x ?d] by (auto simp: resize_dimension_def dimension_changed_def split: if_splits option.splits)
  have "resize_dimension cpu ?d c (recommend_vcpus policy ?q) = Some c \<and> \<not> dimension_changed cpu ?d c (recommend_vcpus policy ?q)"
    by (rule stays[OF assms(2)]) (simp only: recommend_vcpus_def Let_def, erule pos)
  moreover have "resize_dimension mem ?d m (recommend_memory_mb policy ?q) = Some m \<and> \<not> dimension_changed mem ?d m (recommend_memory_mb policy ?q)"
    by (rule stays[OF assms(3)]) (simp only: recommend_memory_mb_def Let_def, erule pos)
  ultimately show ?thesis using f q by (simp add: evaluate_with_dimensions_def Let_def)
qed

text \<open>A workload of one pod with a footprint of two cores and 64 megabytes.\<close>

definition ex_vpa_policy :: "nat \<Rightarrow> vertical_policy" where
  "ex_vpa_policy limit =
     \<lparr>va_enabled = True, va_mode = 1, va_target_cpu_percent = 0, va_target_memory_percent = 50,
      va_min_vcpus = 1, va_max_vcpus = 4, va_min_memory = 2097152, va_max_memory = limit,
      va_deadband_percent = 0, va_stabilization_window = 0\<rparr>"

definition ex_vpa_spec :: "nat \<Rightarrow> workload_spec" where
  "ex_vpa_spec limit = (ex_hpa_spec 2)\<lparr>ws_autoscaling := None, ws_vertical := Some (ex_vpa_policy limit),
     ws_pod_spec := Some (default_pod_spec\<lparr>ps_resources := Some \<lparr>rs_vcpus = 2, rs_memory_mb = 64\<rparr>\<rparr>)\<rparr>"

definition ex_vpa :: vpa_controller where
  "ex_vpa = \<lparr>vc_ctrl = \<lparr>ct_replica = fresh, ct_events = []\<rparr>, vc_since = []\<rparr>"

lemma ex_vpa_spec_facts:
  "ws_vertical (ex_vpa_spec limit) = Some (ex_vpa_policy limit)"
  "Option.bind (ws_pod_spec (ex_vpa_spec limit)) ps_resources = Some \<lparr>rs_vcpus = 2, rs_memory_mb = 64\<rparr>"
  "2097152 \<le> limit \<Longrightarrow> validate_vertical (ex_vpa_spec limit) = Inr ()"
  by (simp_all add: ex_vpa_spec_def ex_vpa_policy_def ex_hpa_spec_def validate_vertical_def)

lemma ex_qualifying: "qualifying_windows (ex_metrics 0) ex_pods (ex_vpa_spec limit) = [mr_windows (snd (hd (ex_metrics 0)))]"
  by (simp add: qualifying_windows_def ex_metrics_def ex_pods_def ex_vpa_spec_def ex_hpa_spec_def ex_placement_def
      get_windows_def MIN_WINDOWS_def map_filter_simps)


theorem vpa_unlimited_memory_panics_witness:
  "vpa_pass (vpa_evaluate_workload PE (allow_disruption PE) (ex_metrics 0) ex_writer ex_pods 9)
     [spec_record (ex_vpa_spec (2 ^ 64 - 1)), spec_record (ex_vpa_spec 4194304)] ex_vpa = (ex_vpa, Inl Vpa_panic)"
proof -
  have "validate_vertical (ex_vpa_spec (2 ^ 64 - 1)) = Inr ()" by (rule ex_vpa_spec_facts(3)) simp
  then show ?thesis
    by (rule vpa_unlimited_memory_panics[OF _ spec_record_dec ex_vpa_spec_facts(1) _ _ _ _ _ ex_vpa_spec_facts(2)])
      (simp_all add: ex_vpa_policy_def ex_qualifying)
qed

theorem vpa_idle_after_resize_witness:
  "\<exists>st'. evaluate_with_dimensions PE (allow_disruption PE) (ex_metrics 0) ex_writer ex_pods 9 (spec_record (ex_vpa_spec 4194304))
     (resized_spec (ex_vpa_spec 4194304) 2 4) (ex_vpa_policy 4194304) False True ex_vpa = (st', Inr False) \<and> vc_ctrl st' = vc_ctrl ex_vpa \<and>
     find_stale_pods (ex_vpa_spec 4194304) ex_pods 2 4 \<noteq> []"
proof -
  let ?p = "ex_vpa_policy 4194304" and ?q = "qualifying_windows (ex_metrics 0) ex_pods (ex_vpa_spec 4194304)"
  have "resize_dimension True (policy_deadband ?p) 64 (recommend_memory_mb ?p ?q) = Some 4"
    unfolding ex_qualifying
    by (simp add: resize_dimension_def recommend_memory_mb_def ex_metrics_def ex_vpa_policy_def Let_def clamp_def to_mb_def
        as_u32_def average_over_def pod_average_memory_def pod_average_of_def sum_u64_def policy_deadband_def
        vpa_within_deadband_def DEFAULT_DEADBAND_PERCENT_def)
  moreover have "resize_dimension False (policy_deadband ?p) 2 (recommend_vcpus ?p ?q) = Some 2" by (simp add: resize_dimension_def)
  moreover have "find_stale_pods (ex_vpa_spec 4194304) ex_pods 2 4 \<noteq> []"
    by (simp add: find_stale_pods_def ex_pods_def ex_placement_def ex_vpa_spec_def ex_hpa_spec_def)
  ultimately show ?thesis
    using vpa_idle_after_resize[OF ex_vpa_spec_facts(2)[of 4194304], of False ?p "ex_metrics 0" ex_pods 2 True 4] by auto
qed

end
