(* ===== verification/WatchServices.thy ===== *)
theory WatchServices
  imports AdminCluster Autoscaler
begin

text \<open>
  The services the agents talk to: the leader-local store of pod events
  (\<open>watch/pod_event_store.rs\<close>) and its service (\<open>watch/pod_event_service.rs\<close>), the reports of
  workload status, metrics and heartbeats (\<open>watch/status_service.rs\<close>), the delivery of secrets
  (\<open>watch/secret_service.rs\<close>) and of delegated keys (\<open>watch/delegation_service.rs\<close>). A call carries
  the peer identity, if any, and the time.
\<close>


section \<open>Pod events\<close>

definition MAX_EVENTS :: nat where
  "MAX_EVENTS = 10000"

definition MAX_EVENTS_PER_POD :: nat where
  "MAX_EVENTS_PER_POD = 100"

definition TTL_SECS :: int where
  "TTL_SECS = 3600"

definition EVENT_TYPES :: "string list" where
  "EVENT_TYPES = [''Pulled'', ''Created'', ''Started'', ''ProbeFailed'', ''BackOff'', ''OOMKilled'', ''Evicting'',
     ''GracePeriodExpired'', ''FailedScheduling'', ''Resizing'', ''Resized'']"

definition is_valid_event_type :: "string \<Rightarrow> bool" where
  "is_valid_event_type t \<longleftrightarrow> t \<in> set EVENT_TYPES"

text \<open>
  The events per pod, oldest first, and the counter of all of them. The code's map iterates in an
  unspecified order; here it is the order of the keys.
\<close>

record pod_event_store =
  ev_pods :: "(string \<times> pod_event list) list"
  ev_total :: nat

definition same_event :: "pod_event \<Rightarrow> pod_event \<Rightarrow> bool" where
  "same_event e e' \<longleftrightarrow> pe_event_type e = pe_event_type e' \<and> pe_reason e = pe_reason e'"

definition saturating_add_u32 :: "nat \<Rightarrow> nat \<Rightarrow> nat" where
  "saturating_add_u32 a b = min (a + b) (2 ^ 32 - 1)"

definition merge_event :: "pod_event \<Rightarrow> pod_event \<Rightarrow> pod_event" where
  "merge_event e old =
     old\<lparr>pe_count := saturating_add_u32 (pe_count old) (max (pe_count e) 1),
         pe_timestamp := max (pe_timestamp old) (pe_timestamp e),
         pe_message := (if pe_message e = Text [] then pe_message old else pe_message e)\<rparr>"

text \<open>The first stored event of the same type and reason takes the new one in.\<close>

fun coalesce :: "pod_event \<Rightarrow> pod_event list \<Rightarrow> pod_event list option" where
  "coalesce e [] = None"
| "coalesce e (x # xs) =
     (if same_event x e then Some (merge_event e x # xs) else map_option (Cons x) (coalesce e xs))"

fun pop_to_cap :: "pod_event list \<Rightarrow> pod_event list" where
  "pop_to_cap [] = []"
| "pop_to_cap (x # xs) = (if length (x # xs) > MAX_EVENTS_PER_POD then pop_to_cap xs else x # xs)"

definition resync_total :: "pod_event_store \<Rightarrow> pod_event_store" where
  "resync_total st = st\<lparr>ev_total := sum_list (map (length \<circ> snd) (ev_pods st))\<rparr>"

text \<open>The pod with the oldest front event; of several, the first one met.\<close>

definition oldest_front :: "(string \<times> pod_event list) list \<Rightarrow> (string \<times> int) option" where
  "oldest_front pods =
     foldl (\<lambda>best (pod_id, es).
       case es of
         [] \<Rightarrow> best
       | front # _ \<Rightarrow>
           (case best of
              None \<Rightarrow> Some (pod_id, pe_timestamp front)
            | Some (_, ts) \<Rightarrow> if pe_timestamp front < ts then Some (pod_id, pe_timestamp front) else best)) None pods"

definition pop_front :: "string \<Rightarrow> (string \<times> pod_event list) list \<Rightarrow> (string \<times> pod_event list) list" where
  "pop_front pod_id pods =
     (case om_get pods pod_id of
        None \<Rightarrow> pods
      | Some es \<Rightarrow> if tl es = [] then om_del pod_id pods else om_put pod_id (tl es) pods)"

function evict_to_cap :: "pod_event_store \<Rightarrow> pod_event_store" where
  "evict_to_cap st =
     (if ev_total st \<le> MAX_EVENTS then st
      else
        (case oldest_front (ev_pods st) of
           None \<Rightarrow> resync_total st
         | Some (pod_id, _) \<Rightarrow>
             evict_to_cap (st\<lparr>ev_pods := pop_front pod_id (ev_pods st), ev_total := ev_total st - 1\<rparr>)))"
  by pat_completeness auto
termination
  by (relation "measure ev_total") auto

declare evict_to_cap.simps [simp del]

definition insert_event :: "pod_event \<Rightarrow> pod_event_store \<Rightarrow> pod_event_store" where
  "insert_event e st =
     (let es = (case om_get (ev_pods st) (pe_pod_id e) of Some es \<Rightarrow> es | None \<Rightarrow> []) in
      case coalesce e es of
        Some es' \<Rightarrow> st\<lparr>ev_pods := om_put (pe_pod_id e) es' (ev_pods st)\<rparr>
      | None \<Rightarrow>
          (let es' = pop_to_cap (es @ [e]);
               st' = st\<lparr>ev_pods := om_put (pe_pod_id e) es' (ev_pods st),
                        ev_total := ev_total st + 1 - (length es + 1 - length es')\<rparr> in
           if ev_total st' > MAX_EVENTS then evict_to_cap st' else st'))"

definition sweep_expired_events :: "int \<Rightarrow> pod_event_store \<Rightarrow> pod_event_store" where
  "sweep_expired_events now st =
     (let cutoff = max (now - TTL_SECS) 0 in
      resync_total (st\<lparr>ev_pods :=
        filter (\<lambda>(_, es). es \<noteq> []) (map (\<lambda>(pod_id, es). (pod_id, filter (\<lambda>e. pe_timestamp e \<ge> cutoff) es)) (ev_pods st))\<rparr>))"

text \<open>The emitter: the store and the events published to the watchers.\<close>

record pod_event_emitter =
  em_store :: pod_event_store
  em_published :: "pod_event list"

definition normalize_event :: "int \<Rightarrow> pod_event \<Rightarrow> pod_event" where
  "normalize_event now e =
     e\<lparr>pe_count := (if pe_count e = 0 then 1 else pe_count e),
       pe_timestamp := (if pe_timestamp e = 0 then now else pe_timestamp e)\<rparr>"

definition publish :: "pod_event_emitter \<Rightarrow> pod_event \<Rightarrow> pod_event_emitter" where
  "publish em e = \<lparr>em_store = insert_event e (em_store em), em_published = em_published em @ [e]\<rparr>"

definition emit_event :: "int \<Rightarrow> pod_event \<Rightarrow> pod_event_emitter \<Rightarrow> pod_event_emitter" where
  "emit_event now e em = (if \<not> is_valid_event_type (pe_event_type e) then em else publish em (normalize_event now e))"

definition emit_batch :: "pod_event list \<Rightarrow> pod_event_emitter \<Rightarrow> pod_event_emitter" where
  "emit_batch es em = foldl publish em es"

definition peer_identity :: "caller \<Rightarrow> status + spiffe_id" where
  "peer_identity cl = ok_or Unauthenticated (Option.bind (cl_peer cl) (\<lambda>i. i))"

definition check_event :: "env \<Rightarrow> spiffe_id \<Rightarrow> pod_event \<Rightarrow> status + unit" where
  "check_event E peer e =
     bindE (guardE (pe_pod_id e \<noteq> []) Invalid_argument) (\<lambda>_.
     bindE (ok_or Invalid_argument (sp_parse E (pe_node_id e))) (\<lambda>node.
     bindE (guardE (node = peer) Permission_denied) (\<lambda>_.
       guardE (is_valid_event_type (pe_event_type e)) Invalid_argument)))"

definition report_pod_events ::
  "env \<Rightarrow> caller \<Rightarrow> pod_event list \<Rightarrow> pod_event_emitter \<Rightarrow> pod_event_emitter \<times> (status + unit)" where
  "report_pod_events E cl events em =
     (case bindE (peer_identity cl) (\<lambda>peer.
           bindE (guardE (sp_kind E peer = IkNode) Permission_denied) (\<lambda>_. mapE (check_event E peer) events)) of
        Inl s \<Rightarrow> (em, Inl s)
      | Inr _ \<Rightarrow> (emit_batch (map (normalize_event (cl_now cl)) events) em, Inr ()))"

definition resolve_pod_tenant :: "env \<Rightarrow> database \<Rightarrow> string \<Rightarrow> string option" where
  "resolve_pod_tenant E db pod_id =
     (case kv_get db Kplacements pod_id of
        Inr (Some v) \<Rightarrow> map_option pl_tenant_id (dec (c_placement E) v)
      | _ \<Rightarrow> None)"

text \<open>The stream of a watcher: the published events that pass both filters; an empty filter is none.\<close>

definition watch_pod_events ::
  "env \<Rightarrow> database \<Rightarrow> caller \<Rightarrow> string \<Rightarrow> string \<Rightarrow> status + (pod_event list \<Rightarrow> pod_event list)" where
  "watch_pod_events E db cl pod_filter tenant_filter =
     bindE (peer_identity cl) (\<lambda>peer.
     bindE (guardE (sp_kind E peer \<in> {IkOperator, IkCtrl}) Permission_denied) (\<lambda>_.
       Inr (filter (\<lambda>e. (pod_filter = [] \<or> pe_pod_id e = pod_filter) \<and>
         (tenant_filter = [] \<or> resolve_pod_tenant E db (pe_pod_id e) = Some tenant_filter)))))"


section \<open>Status reports\<close>

text \<open>A cast from unsigned to signed 64 bits.\<close>

definition as_i64 :: "nat \<Rightarrow> int" where
  "as_i64 n = (int n + 2 ^ 63) mod 2 ^ 64 - 2 ^ 63"

record workload_status_report =
  wq_pod_id :: string
  wq_workload_id :: string
  wq_tenant_id :: string
  wq_ready :: bool
  wq_live :: bool
  wq_started :: bool
  wq_policy_enforced :: bool
  wq_restart_count :: nat
  wq_observed_at :: nat
  wq_router_connected :: bool

text \<open>The peer is not asked for.\<close>

definition report_workload_status :: "writer \<Rightarrow> workload_status_report \<Rightarrow> replica \<Rightarrow> replica \<times> (status + unit)" where
  "report_workload_status cw q st =
     propose cw st (
       bindE (guardE (wq_pod_id q \<noteq> []) Invalid_argument) (\<lambda>_.
         Inr (system_command (UpsertWorkloadStatus
           \<lparr>st_pod_id = wq_pod_id q, st_workload_id = wq_workload_id q, st_tenant_id = wq_tenant_id q,
            st_ready = wq_ready q, st_live = wq_live q, st_started = wq_started q,
            st_policy_enforced = wq_policy_enforced q, st_restart_count = wq_restart_count q,
            st_observed_at = as_i64 (wq_observed_at q), st_router_connected = wq_router_connected q,
            st_gate_violation_since = 0\<rparr>), ())))"

definition report_pod_metrics ::
  "database \<Rightarrow> nat \<Rightarrow> pod_metrics \<Rightarrow> metrics_store \<Rightarrow> metrics_store \<times> (status + bool)" where
  "report_pod_metrics db now m ms =
     (case metrics_report db now m ms of
        (ms', Inr accepted) \<Rightarrow> (ms', Inr accepted)
      | (ms', Inl _) \<Rightarrow> (ms', Inl Invalid_argument))"

text \<open>The heartbeat is stamped with the leader's clock; the agent's own time is not used.\<close>

definition report_node_status :: "env \<Rightarrow> writer \<Rightarrow> caller \<Rightarrow> string \<Rightarrow> replica \<Rightarrow> replica \<times> (status + unit)" where
  "report_node_status E cw cl node_svid st =
     propose cw st (
       bindE (peer_identity cl) (\<lambda>peer.
       bindE (guardE (node_svid \<noteq> []) Invalid_argument) (\<lambda>_.
       bindE (ok_or Invalid_argument (sp_parse E node_svid)) (\<lambda>node.
       bindE (guardE (peer = node) Permission_denied) (\<lambda>_.
       bindE (read_or_internal (kv_get (rp_db st) Knodes node_svid)) (\<lambda>v.
       bindE (ok_or AdminAuth.Not_found v) (\<lambda>b.
       bindE (ok_or Internal (dec (c_node E) b)) (\<lambda>r.
       bindE (guardE (nr_status r \<noteq> Evicted) Permission_denied) (\<lambda>_.
         Inr (system_command (NodeHeartbeat node_svid (cl_now cl)), ()))))))))))"



section \<open>Secret delivery\<close>

type_synonym sequence_tracker = "((string \<times> nat) \<times> nat) list"

definition next_sequence :: "string \<Rightarrow> nat \<Rightarrow> sequence_tracker \<Rightarrow> sequence_tracker \<times> nat" where
  "next_sequence target version tracker =
     (let n = ((case om_get tracker (target, version) of Some n \<Rightarrow> n | None \<Rightarrow> 0) + 1) mod 2 ^ 64 in
      (om_put (target, version) n tracker, n))"

definition lookup_svid :: "env \<Rightarrow> database \<Rightarrow> spiffe_id \<Rightarrow> status + svid_record" where
  "lookup_svid E db i =
     bindE (read_or_internal (kv_get db Ksvids i)) (\<lambda>v.
     bindE (ok_or AdminAuth.Not_found v) (\<lambda>b. ok_or Internal (dec (c_svid E) b)))"

definition lookup_svid_version :: "env \<Rightarrow> database \<Rightarrow> spiffe_id \<Rightarrow> status + nat" where
  "lookup_svid_version E db i = bindE (lookup_svid E db i) (\<lambda>r. Inr (sv_version r))"

definition lookup_x25519_pubkey :: "env \<Rightarrow> database \<Rightarrow> spiffe_id \<Rightarrow> status + bytes" where
  "lookup_x25519_pubkey E db i =
     (case lookup_svid E db i of
        Inl _ \<Rightarrow> Inl Internal
      | Inr r \<Rightarrow> if length (sv_x25519_pubkey r) \<noteq> 32 then Inl Internal else Inr (sv_x25519_pubkey r))"

record sealed_secret =
  sl_target :: string
  sl_version :: nat
  sl_sequence :: nat
  sl_ephemeral :: bytes
  sl_ciphertext :: bytes

definition secret_status :: "secret_failure \<Rightarrow> status" where
  "secret_status e =
     (case e of Secret_denied _ \<Rightarrow> Permission_denied | Secret_not_found _ \<Rightarrow> AdminAuth.Not_found | _ \<Rightarrow> Internal)"

text \<open>
  \<open>seal\<close> is the sealing of the core library: from the recipient's key, the plaintext, the version and
  the sequence number it gives the ephemeral key and the ciphertext; version and number go with them.
\<close>

definition fetch_secret_rpc ::
  "env \<Rightarrow> secret_store \<Rightarrow> (bytes \<Rightarrow> bytes \<Rightarrow> nat \<Rightarrow> nat \<Rightarrow> (bytes \<times> bytes) option) \<Rightarrow> database \<Rightarrow> caller \<Rightarrow> string \<Rightarrow> nat \<Rightarrow>
     sequence_tracker \<Rightarrow> sequence_tracker \<times> (status + sealed_secret)" where
  "fetch_secret_rpc E S seal db cl target version tracker =
     (case bindE (peer_identity cl) (\<lambda>peer.
           bindE (ok_or Invalid_argument (sp_parse E target)) (\<lambda>_.
           bindE (lookup_svid_version E db peer) (\<lambda>current.
           bindE (guardE (current = version) Permission_denied) (\<lambda>_.
           bindE (map_err secret_status (fetch_secret E S db target peer)) (\<lambda>plaintext.
           bindE (lookup_x25519_pubkey E db peer) (\<lambda>pubkey.
             Inr (plaintext, pubkey))))))) of
        Inl s \<Rightarrow> (tracker, Inl s)
      | Inr (plaintext, pubkey) \<Rightarrow>
          (case next_sequence target version tracker of
             (tracker', n) \<Rightarrow>
               (tracker', bindE (ok_or Internal (seal pubkey plaintext version n)) (\<lambda>(eph, c).
                  Inr \<lparr>sl_target = target, sl_version = version, sl_sequence = n, sl_ephemeral = eph, sl_ciphertext = c\<rparr>))))"


section \<open>Delegated keys for nodes\<close>

text \<open>
  \<open>ds_leader_of\<close> reads the error of a refused write: the identifier of the leader to forward to, where
  the error says so. \<open>ds_metadata_ok\<close> tells which texts may be sent as metadata.
\<close>

record delegation_service =
  ds_env :: env
  ds_domain :: "spiffe_id \<Rightarrow> string"
  ds_sign :: "delegation_request \<Rightarrow> int \<Rightarrow> string option \<Rightarrow> bytes option"
  ds_has_ca :: bool
  ds_ttl :: nat
  ds_refresh_fraction :: rat
  ds_leader_of :: "string \<Rightarrow> nat option option"
  ds_metadata_ok :: "string \<Rightarrow> bool"

text \<open>A refusal, with the address of the leader where the caller is told to retry.\<close>

type_synonym refusal = "status \<times> string option"

definition leader_dc_address :: "env \<Rightarrow> database \<Rightarrow> nat \<Rightarrow> status + string option" where
  "leader_dc_address E db leader_id =
     bindE (read_or_internal (kv_get db Kcontrol_addresses (be_bytes 8 leader_id))) (\<lambda>v.
       case v of
         Some b \<Rightarrow> bindE (ok_or Internal (dec (c_control_address E) b)) (\<lambda>r. Inr (Some (ca_dc_addr r)))
       | None \<Rightarrow> Inr None)"

definition redirect_to_leader :: "(string \<Rightarrow> bool) \<Rightarrow> string \<Rightarrow> refusal" where
  "redirect_to_leader metadata_ok addr = (Unavailable, if metadata_ok addr then Some addr else None)"

definition refused_write :: "delegation_service \<Rightarrow> database \<Rightarrow> string \<Rightarrow> refusal" where
  "refused_write D db e =
     (case ds_leader_of D e of
        None \<Rightarrow> (Internal, None)
      | Some leader \<Rightarrow>
          (case bindE (ok_or Internal leader) (\<lambda>l. bindE (leader_dc_address (ds_env D) db l) (ok_or Internal)) of
             Inl s \<Rightarrow> (s, None)
           | Inr addr \<Rightarrow> redirect_to_leader (ds_metadata_ok D) addr))"

definition issue_error :: "ca_error \<Rightarrow> status" where
  "issue_error e = (case e of Placement_verification \<Rightarrow> Permission_denied | _ \<Rightarrow> Internal)"

definition delegation_plan ::
  "delegation_service \<Rightarrow> database \<Rightarrow> caller \<Rightarrow> delegated_key_request \<Rightarrow>
     status + audited_command \<times> delegated_key_bundle \<times> int" where
  "delegation_plan D db cl req =
     (let E = ds_env D; now = cl_now cl in
      bindE (peer_identity cl) (\<lambda>peer.
      bindE (guardE (sp_kind E peer = IkNode) Permission_denied) (\<lambda>_.
      bindE (ok_or Invalid_argument (sp_parse E (kq_node_svid req))) (\<lambda>node.
      bindE (guardE (peer = node) Permission_denied) (\<lambda>_.
      bindE (guardE (ds_has_ca D) Unavailable) (\<lambda>_.
      bindE (ok_or Invalid_argument (sp_parse E (kq_target req))) (\<lambda>target.
      let ttl = bounded_ttl (ds_ttl D) (kq_ttl_secs req) in
      bindE (map_err issue_error (issue_delegated_key E (ds_domain D) (ds_sign D) db now
               \<lparr>dr_node_id = peer, dr_target = target, dr_ordinal = kq_ordinal req, dr_ttl_secs = ttl\<rparr>)) (\<lambda>bundle.
        Inr (audited \<lparr>ac_request_id = cl_request_id cl, ac_actor = peer, ac_target = target, ac_timestamp = as_u64 now\<rparr>
               (IssueDelegation
                  \<lparr>dl_delegation_id = dk_delegation_id bundle, dl_node_id = peer, dl_target_svid_id = target,
                   dl_target_ordinal = kq_ordinal req, dl_issued_at = now, dl_expires_at = now + int ttl,
                   dl_refresh_at = now + \<lfloor>of_nat ttl * ds_refresh_fraction D\<rfloor>\<rparr>),
             (bundle, now + int ttl))))))))))"

definition node_delegated_key ::
  "delegation_service \<Rightarrow> writer \<Rightarrow> caller \<Rightarrow> delegated_key_request \<Rightarrow> replica \<Rightarrow>
     replica \<times> (refusal + delegated_key_bundle \<times> int)" where
  "node_delegated_key D cw cl req st =
     (case delegation_plan D (rp_db st) cl req of
        Inl s \<Rightarrow> (st, Inl (s, None))
      | Inr (c, r) \<Rightarrow>
          (case cw st c of
             (st', Inl e) \<Rightarrow> (st', Inl (refused_write D (rp_db st') e))
           | (st', Inr _) \<Rightarrow> (st', Inr r)))"

end
