(* ===== verification/Controllers.thy ===== *)
theory Controllers
  imports VerticalAutoscaler
begin

text \<open>
  The remaining controllers of the leader (\<open>controllers/pod_controller.rs\<close>,
  \<open>controllers/node_controller.rs\<close>, \<open>controllers/cron_controller.rs\<close>, \<open>controllers/leader.rs\<close>) and
  the periodic work the leader starts for all of them (\<open>FleetosControllerFactory\<close> in \<open>main.rs\<close>). A
  tick is one iteration of a controller's loop; it reads the clock once. Times are 64-bit signed and
  differences wrap.
\<close>

definition sub_i64 :: "int \<Rightarrow> int \<Rightarrow> int" where
  "sub_i64 a b = (a - b + 2 ^ 63) mod 2 ^ 64 - 2 ^ 63"


section \<open>Pods\<close>

definition READINESS_GATE_GRACE_SECS :: int where
  "READINESS_GATE_GRACE_SECS = 30"

definition readiness_gate_violation_sustained :: "workload_status_record \<Rightarrow> int \<Rightarrow> int \<Rightarrow> bool" where
  "readiness_gate_violation_sustained r grace now \<longleftrightarrow>
     st_gate_violation_since r > 0 \<and> sub_i64 now (st_gate_violation_since r) > grace"

definition reconcile_dead_pod ::
  "env \<Rightarrow> writer \<Rightarrow> string \<Rightarrow> string \<Rightarrow> string \<Rightarrow> nat \<Rightarrow> controller \<Rightarrow> controller \<times> (controller_error + unit)" where
  "reconcile_dead_pod E cw t w role n st =
     (case bindE (map_err Ctrl_scheduler (get_assignment E (ct_db st) t w role n)) (\<lambda>a.
           ok_or (Ctrl_storage (Not_found (''ordinal assignment for '' @ ordinal_key t w role n))) a) of
        Inl e \<Rightarrow> (st, Inl e)
      | Inr _ \<Rightarrow> client_write cw st (ReassignPodId t w role n (pod_name w role n)))"

definition free_ordinal ::
  "writer \<Rightarrow> string \<Rightarrow> string \<Rightarrow> string \<Rightarrow> controller \<Rightarrow> ordinal_assignment \<Rightarrow> controller \<times> (controller_error + unit)" where
  "free_ordinal cw t w role st a =
     thenM (client_write cw st (RecordOrdinalAssignment (freed_slot t w role (oa_ordinal a)))) (\<lambda>st _.
       case oa_pod_id a of
         Some pod_id \<Rightarrow> client_write cw st (RemovePlacement pod_id)
       | None \<Rightarrow> (st, Inr ()))"

definition handle_scale_down ::
  "env \<Rightarrow> writer \<Rightarrow> string \<Rightarrow> string \<Rightarrow> string \<Rightarrow> nat \<Rightarrow> controller \<Rightarrow> controller \<times> (controller_error + unit)" where
  "handle_scale_down E cw t w role new_count st =
     (case get_assignments_for_service_role E (ct_db st) t w role of
        Inl e \<Rightarrow> (st, Inl (Ctrl_scheduler e))
      | Inr as \<Rightarrow> for_each (free_ordinal cw t w role) (filter (\<lambda>a. oa_ordinal a \<ge> new_count) as) st)"

text \<open>A slot counts as dead without a placement, or with a report that says so, is stale, or shows a
  sustained violation of the readiness gate. A storage error while listing placements reads as none.\<close>

definition pod_dead :: "env \<Rightarrow> database \<Rightarrow> int \<Rightarrow> int \<Rightarrow> placement \<Rightarrow> bool" where
  "pod_dead E db staleness now p =
     (case get_workload_status E db (pl_pod_id p) of
        Inr (Some s) \<Rightarrow>
          \<not> st_live s \<or> sub_i64 now (st_observed_at s) > staleness \<or>
          readiness_gate_violation_sustained s READINESS_GATE_GRACE_SECS now
      | _ \<Rightarrow> False)"

definition slot_dead :: "env \<Rightarrow> database \<Rightarrow> int \<Rightarrow> int \<Rightarrow> workload_spec \<Rightarrow> string \<Rightarrow> nat \<Rightarrow> bool" where
  "slot_dead E db staleness now spec role n =
     (case list_placements E db of
        Inl _ \<Rightarrow> True
      | Inr ps \<Rightarrow>
          (case find (in_slot (ws_tenant_id spec) (ws_workload_id spec) role n) ps of
             None \<Rightarrow> True
           | Some p \<Rightarrow> pod_dead E db staleness now p))"

definition check_slot ::
  "env \<Rightarrow> writer \<Rightarrow> int \<Rightarrow> int \<Rightarrow> workload_spec \<Rightarrow> controller \<Rightarrow> string \<times> nat \<Rightarrow> controller" where
  "check_slot E cw staleness now spec st slot =
     (case slot of (role, n) \<Rightarrow>
        if slot_dead E (ct_db st) staleness now spec role n
        then fst (reconcile_dead_pod E cw (ws_tenant_id spec) (ws_workload_id spec) role n st)
        else st)"

definition decoded_specs :: "env \<Rightarrow> workload_spec_record list \<Rightarrow> workload_spec list" where
  "decoded_specs E rs = List.map_filter (\<lambda>r. dec (c_spec E) (wr_spec_bytes r)) rs"

definition replica_slots :: "workload_spec \<Rightarrow> (string \<times> nat) list" where
  "replica_slots spec = concat (map (\<lambda>(role, count). map (Pair role) [0..<count]) (ws_replicas spec))"

definition pod_tick :: "env \<Rightarrow> writer \<Rightarrow> int \<Rightarrow> int \<Rightarrow> controller \<Rightarrow> controller" where
  "pod_tick E cw staleness now st =
     (case list_workloads E (ct_db st) of
        Inl _ \<Rightarrow> st
      | Inr ws \<Rightarrow>
          foldl (\<lambda>st spec. foldl (check_slot E cw staleness now spec) st (replica_slots spec)) st (decoded_specs E ws))"

definition workload_tick :: "env \<Rightarrow> writer \<Rightarrow> default_scheduler \<Rightarrow> controller \<Rightarrow> controller" where
  "workload_tick E cw ds st =
     (case list_workloads E (ct_db st) of
        Inl _ \<Rightarrow> st
      | Inr ws \<Rightarrow> fst (reconcile_all E cw ds (decoded_specs E ws) st))"


section \<open>Nodes\<close>

definition evict_dead_node ::
  "writer \<Rightarrow> nat \<Rightarrow> int \<Rightarrow> spiffe_id \<Rightarrow> controller \<Rightarrow> controller \<times> (controller_error + unit)" where
  "evict_dead_node cw node_ttl now node st =
     thenM (client_write cw st (EvictNode node (now + int node_ttl))) (\<lambda>st _.
       client_write cw st (PruneExpiredRevokedSvids now))"

definition lookup_tolerations :: "env \<Rightarrow> database \<Rightarrow> placement \<Rightarrow> toleration list" where
  "lookup_tolerations E db p =
     (case kv_get db Kworkloads (workload_key (pl_tenant_id p) (pl_service p)) of
        Inr (Some b) \<Rightarrow>
          (case Option.bind (dec (c_workload E) b) (\<lambda>r.
                Option.bind (dec (c_spec E) (wr_spec_bytes r)) ws_pod_spec) of
             Some ps \<Rightarrow> ps_tolerations ps
           | None \<Rightarrow> [])
      | _ \<Rightarrow> [])"

definition evict_tainted ::
  "writer \<Rightarrow> string \<Rightarrow> placement list \<Rightarrow> controller \<Rightarrow> string \<Rightarrow> controller \<times> (controller_error + unit)" where
  "evict_tainted cw node ps st pod_id =
     (case find (\<lambda>p. pl_pod_id p = pod_id) ps of
        None \<Rightarrow> (st, Inr ())
      | Some p \<Rightarrow>
          thenM (client_write cw (emit st
              \<lparr>pe_pod_id = pod_id, pe_node_id = node, pe_event_type = ''Evicting'', pe_reason = ''NoExecuteTaint'',
               pe_message = Text [], pe_timestamp = 0, pe_count = 1\<rparr>) (RemovePlacement pod_id)) (\<lambda>st _.
            client_write cw st (RecordOrdinalAssignment
              (freed_slot (pl_tenant_id p) (pl_service p) (pl_role p) (pl_ordinal p)))))"

definition enforce_on_node ::
  "env \<Rightarrow> writer \<Rightarrow> int \<Rightarrow> controller \<Rightarrow> bytes \<times> bytes \<Rightarrow> controller \<times> (controller_error + unit)" where
  "enforce_on_node E cw now st kv =
     (case (dec (c_taints E) (snd kv), sp_parse E (fst kv)) of
        (Some taints, Some node) \<Rightarrow>
          if \<not> list_ex (\<lambda>t. ta_effect t = ''NoExecute'') taints then (st, Inr ())
          else
            (let ps = filter (\<lambda>p. pl_node_id p = node) (decode_all (c_placement E) (readable_items (ct_db st) Kplacements)) in
             for_each (evict_tainted cw (fst kv) ps)
               (plan_no_execute_evictions now taints ps (lookup_tolerations E (ct_db st))) st)
      | _ \<Rightarrow> (st, Inr ()))"

definition enforce_no_execute_taints ::
  "env \<Rightarrow> writer \<Rightarrow> int \<Rightarrow> controller \<Rightarrow> controller \<times> (controller_error + unit)" where
  "enforce_no_execute_taints E cw now st =
     (case kv_prefix (ct_db st) Knode_taints [] of
        Inl e \<Rightarrow> (st, Inl (Ctrl_storage (Storage_error e)))
      | Inr kvs \<Rightarrow> for_each (enforce_on_node E cw now) kvs st)"

definition lease_expired :: "int \<Rightarrow> int \<Rightarrow> node_record \<Rightarrow> bool" where
  "lease_expired timeout now r \<longleftrightarrow> nr_status r \<noteq> Evicted \<and> sub_i64 now (nr_last_heartbeat r) > timeout"

definition check_lease :: "env \<Rightarrow> writer \<Rightarrow> int \<Rightarrow> nat \<Rightarrow> int \<Rightarrow> controller \<Rightarrow> node_record \<Rightarrow> controller" where
  "check_lease E cw timeout node_ttl now st r =
     (case sp_parse E (nr_node_id r) of
        Some node \<Rightarrow> if lease_expired timeout now r then fst (evict_dead_node cw node_ttl now node st) else st
      | None \<Rightarrow> st)"

definition node_tick :: "env \<Rightarrow> writer \<Rightarrow> int \<Rightarrow> nat \<Rightarrow> int \<Rightarrow> controller \<Rightarrow> controller" where
  "node_tick E cw timeout node_ttl now st =
     (let st' = (case list_node_records E (ct_db st) of
                   Inl _ \<Rightarrow> st
                 | Inr rs \<Rightarrow> foldl (check_lease E cw timeout node_ttl now) st rs) in
      fst (enforce_no_execute_taints E cw now st'))"


section \<open>Cron workloads\<close>

definition load_checkpoint :: "env \<Rightarrow> database \<Rightarrow> string \<Rightarrow> string \<Rightarrow> controller_error + cron_checkpoint_record option" where
  "load_checkpoint E db t w =
     bindE (map_err (\<lambda>e. Ctrl_storage (Storage_error e)) (kv_get db Kcron_checkpoints (workload_key t w))) (\<lambda>v.
       case v of
         Some b \<Rightarrow> bindE (ok_or Ctrl_serialization (dec (c_checkpoint E) b)) (\<lambda>cp. Inr (Some cp))
       | None \<Rightarrow> Inr None)"

text \<open>
  The iterator of the schedule, taken while not in the future, and its last element. \<open>next t\<close> is the
  first scheduled time after \<open>t\<close>. A schedule that never passes \<open>now\<close> keeps the loop running: \<open>None\<close>.
\<close>

partial_function (option) latest_due :: "(int \<Rightarrow> int option) \<Rightarrow> int \<Rightarrow> int option \<Rightarrow> int \<Rightarrow> int option option" where
  "latest_due next now acc since =
     (case next since of
        None \<Rightarrow> Some acc
      | Some t \<Rightarrow> if t \<le> now then latest_due next now (Some t) t else Some acc)"

text \<open>
  The cron crate's parser is \<open>cron\<close>; \<open>datetime_ok\<close> are the seconds the time library can represent.
\<close>

definition run_cron ::
  "env \<Rightarrow> writer \<Rightarrow> default_scheduler \<Rightarrow> cron_workload \<Rightarrow> int \<Rightarrow> controller \<Rightarrow> controller \<times> (controller_error + bool)" where
  "run_cron E cw ds cron due st =
     (case cr_template cron of
        None \<Rightarrow> (st, Inl (Ctrl_raft ''cron workload missing workload_template''))
      | Some template \<Rightarrow>
          (let spec = template\<lparr>ws_workload_id := cr_cron_workload_id cron @ ''-'' @ show_int due,
                               ws_tenant_id := cr_tenant_id cron\<rparr> in
           thenM (client_write cw st (TriggerCronWorkload
               \<lparr>wr_tenant_id = ws_tenant_id spec, wr_workload_id = ws_workload_id spec,
                wr_spec_bytes = or_empty (enc (c_spec E) spec), wr_last_applied = []\<rparr>
               \<lparr>cp_tenant_id = cr_tenant_id cron, cp_cron_workload_id = cr_cron_workload_id cron,
                cp_last_triggered = due\<rparr>)) (\<lambda>st _.
           thenM (reconcile E cw ds spec st) (\<lambda>st _. (st, Inr True)))))"

definition evaluate_and_trigger ::
  "env \<Rightarrow> (string \<Rightarrow> (int \<Rightarrow> int option) option) \<Rightarrow> (int \<Rightarrow> bool) \<Rightarrow> writer \<Rightarrow> default_scheduler \<Rightarrow> int \<Rightarrow> cron_workload \<Rightarrow>
     controller \<Rightarrow> (controller \<times> (controller_error + bool)) option" where
  "evaluate_and_trigger E cron_lib datetime_ok cw ds now cron st =
     (case cr_schedule cron of
        None \<Rightarrow> Some (st, Inl (Ctrl_raft ''cron workload missing schedule''))
      | Some s \<Rightarrow>
          if cs_suspend s then Some (st, Inr False)
          else
            (case bindE (ok_or (Ctrl_raft ''invalid cron expression'') (cron_lib (cs_expression s))) (\<lambda>next.
                  bindE (load_checkpoint E (ct_db st) (cr_tenant_id cron) (cr_cron_workload_id cron)) (\<lambda>cp.
                  bindE (case cp of
                           Some c \<Rightarrow> if datetime_ok (cp_last_triggered c) then Inr (cp_last_triggered c)
                                    else Inl (Ctrl_raft ''invalid checkpoint timestamp'')
                         | None \<Rightarrow> Inr now) (\<lambda>since.
                    Inr (next, since)))) of
               Inl e \<Rightarrow> Some (st, Inl e)
             | Inr (next, since) \<Rightarrow>
                 map_option (\<lambda>due. case due of
                     None \<Rightarrow> (st, Inr False)
                   | Some t \<Rightarrow> run_cron E cw ds cron t st) (latest_due next now None since)))"

text \<open>The tick over all stored cron workloads; a failed one is logged.\<close>

fun trigger_each ::
  "(cron_workload \<Rightarrow> controller \<Rightarrow> (controller \<times> (controller_error + bool)) option) \<Rightarrow> cron_workload list \<Rightarrow>
     controller \<Rightarrow> controller option" where
  "trigger_each eval [] st = Some st"
| "trigger_each eval (c # cs) st = Option.bind (eval c st) (\<lambda>(st', _). trigger_each eval cs st')"

definition cron_tick ::
  "env \<Rightarrow> (string \<Rightarrow> (int \<Rightarrow> int option) option) \<Rightarrow> (int \<Rightarrow> bool) \<Rightarrow> writer \<Rightarrow> default_scheduler \<Rightarrow> int \<Rightarrow> controller \<Rightarrow>
     controller option" where
  "cron_tick E cron_lib datetime_ok cw ds now st =
     (case list_cron_workloads E (ct_db st) of
        Inl _ \<Rightarrow> Some st
      | Inr rs \<Rightarrow>
          trigger_each (evaluate_and_trigger E cron_lib datetime_ok cw ds now)
            (List.map_filter (\<lambda>r. dec (c_cron_spec E) (cw_spec_bytes r)) rs) st)"


section \<open>The leader gate\<close>

text \<open>
  The gate's loop: a change of the shutdown flag or of the Raft metrics. \<open>lgt_active\<close> counts the sets
  of controller tasks started and not stopped; \<open>None\<close> is the gate after it returned.
\<close>

record leader_gate =
  lgt_is_leader :: bool
  lgt_active :: nat

datatype gate_event = Shutdown_changed bool | Metrics_closed | Metrics_changed bool

definition gate_start :: leader_gate where
  "gate_start = \<lparr>lgt_is_leader = False, lgt_active = 0\<rparr>"

definition gate_step :: "leader_gate \<Rightarrow> gate_event \<Rightarrow> leader_gate option" where
  "gate_step g ev =
     (case ev of
        Shutdown_changed stop \<Rightarrow> if stop then None else Some g
      | Metrics_closed \<Rightarrow> None
      | Metrics_changed leader \<Rightarrow>
          if leader \<and> \<not> lgt_is_leader g then Some \<lparr>lgt_is_leader = True, lgt_active = lgt_active g + 1\<rparr>
          else if \<not> leader \<and> lgt_is_leader g then Some \<lparr>lgt_is_leader = False, lgt_active = 0\<rparr>
          else Some g)"



section \<open>The leader's tasks\<close>

text \<open>
  What the leader's controllers share and keep: the replica with the emitted events, and the markers
  of the two autoscalers. A step is one tick of any of the six loops, at any time, with the metrics
  reported until then; ticks are taken as atomic.
\<close>

record leader =
  ld_ctrl :: controller
  ld_hpa_since :: "((string \<times> string) \<times> int) list"
  ld_vpa_since :: "((string \<times> string) \<times> int) list"

record controller_config =
  cc_scheduler :: default_scheduler
  cc_guard :: disruption_fun
  cc_cron :: "string \<Rightarrow> (int \<Rightarrow> int option) option"
  cc_datetime_ok :: "int \<Rightarrow> bool"
  cc_lease_timeout :: int
  cc_node_ttl :: nat
  cc_staleness :: int

inductive leader_tick :: "env \<Rightarrow> controller_config \<Rightarrow> writer \<Rightarrow> leader \<Rightarrow> leader \<Rightarrow> bool" for E F cw where
  workloads: "leader_tick E F cw L (L\<lparr>ld_ctrl := workload_tick E cw (cc_scheduler F) (ld_ctrl L)\<rparr>)"
| pods: "leader_tick E F cw L (L\<lparr>ld_ctrl := pod_tick E cw (cc_staleness F) now (ld_ctrl L)\<rparr>)"
| nodes: "leader_tick E F cw L (L\<lparr>ld_ctrl := node_tick E cw (cc_lease_timeout F) (cc_node_ttl F) now (ld_ctrl L)\<rparr>)"
| crons: "cron_tick E (cc_cron F) (cc_datetime_ok F) cw (cc_scheduler F) now (ld_ctrl L) = Some c \<Longrightarrow>
    leader_tick E F cw L (L\<lparr>ld_ctrl := c\<rparr>)"
| horizontal: "hpa_evaluate_at E (cc_guard F) metrics cw now
      \<lparr>hc_replica = ct_replica (ld_ctrl L), hc_since = ld_hpa_since L\<rparr> = (h, x) \<Longrightarrow>
    leader_tick E F cw L (L\<lparr>ld_ctrl := (ld_ctrl L)\<lparr>ct_replica := hc_replica h\<rparr>, ld_hpa_since := hc_since h\<rparr>)"
| vertical: "vpa_evaluate_at E (cc_guard F) metrics cw now \<lparr>vc_ctrl = ld_ctrl L, vc_since = ld_vpa_since L\<rparr> = (v, x) \<Longrightarrow>
    leader_tick E F cw L (L\<lparr>ld_ctrl := vc_ctrl v, ld_vpa_since := vc_since v\<rparr>)"

end
