(* ===== verification/ControllerFacts.thy ===== *)
theory ControllerFacts
  imports Controllers Lifecycle
begin

text \<open>
  What the controllers may change. Every controller reaches the replicated state through proposals
  only; \<open>proposes C\<close> relates the replica before and after a run that proposed commands satisfying \<open>C\<close>,
  so that a property kept by those commands is kept by the whole run, also when it fails half way.
\<close>


section \<open>Runs of proposals\<close>

inductive proposes :: "(fleetos_command \<Rightarrow> bool) \<Rightarrow> writer \<Rightarrow> replica \<Rightarrow> replica \<Rightarrow> bool" for C cw where
  none: "proposes C cw s s"
| more: "proposes C cw s s' \<Longrightarrow> C (cmd a) \<Longrightarrow> proposes C cw s (fst (cw s' a))"

named_theorems proposals

declare proposes.none [proposals]

lemma proposes_trans: "proposes C cw s' s'' \<Longrightarrow> proposes C cw s s' \<Longrightarrow> proposes C cw s s''"
  by (induction rule: proposes.induct) (auto intro: proposes.intros)

lemma proposes_mono: "proposes C cw s s' \<Longrightarrow> (\<And>c. C c \<Longrightarrow> D c) \<Longrightarrow> proposes D cw s s'"
  by (induction rule: proposes.induct) (auto intro: proposes.intros)

lemma proposes_one: "C (cmd a) \<Longrightarrow> cw s a = (s', x) \<Longrightarrow> proposes C cw s s'"
  using proposes.more[OF proposes.none, of C a cw s] by simp

lemma proposes_client_write [proposals]:
  "C c \<Longrightarrow> proposes C cw (ct_replica st) (ct_replica (fst (client_write cw st c)))"
  using proposes_one[of C "system_command c" cw "ct_replica st"]
  by (auto simp: client_write_def system_command_def split: prod.splits sum.splits)

lemma emit_replica [simp]: "ct_replica (emit st e) = ct_replica st"
  by (simp add: emit_def)

lemma proposes_thenM [proposals]:
  assumes "proposes C cw s (ct_replica (fst m))"
    and "\<And>st x. m = (st, Inr x) \<Longrightarrow> proposes C cw (ct_replica st) (ct_replica (fst (f st x)))"
  shows "proposes C cw s (ct_replica (fst (thenM m f)))"
proof (cases m)
  case (Pair st x)
  then show ?thesis using assms by (cases x) (auto simp: thenM_def intro: proposes_trans)
qed

lemma proposes_for_each [proposals]:
  assumes "\<And>st x. x \<in> set xs \<Longrightarrow> proposes C cw (ct_replica st) (ct_replica (fst (f st x)))"
  shows "proposes C cw (ct_replica st) (ct_replica (fst (for_each f xs st)))"
  using assms
proof (induction xs arbitrary: st)
  case (Cons x xs)
  have "proposes C cw (ct_replica st) (ct_replica (fst (f st x)))" using Cons.prems by simp
  moreover have "proposes C cw (ct_replica u) (ct_replica (fst (for_each f xs u)))" for u
    using Cons by simp
  ultimately show ?case by (simp add: proposes_thenM)
qed (simp add: proposes.none)

lemma proposes_foldl [proposals]:
  assumes "\<And>st x. x \<in> set xs \<Longrightarrow> proposes C cw (ct_replica st) (ct_replica (f st x))"
  shows "proposes C cw (ct_replica st) (ct_replica (foldl f st xs))"
  using assms
proof (induction xs arbitrary: st)
  case (Cons x xs)
  have "proposes C cw (ct_replica st) (ct_replica (f st x))" using Cons.prems by simp
  moreover have "proposes C cw (ct_replica (f st x)) (ct_replica (foldl f (f st x) xs))"
    using Cons by simp
  ultimately show ?case by (auto intro: proposes_trans)
qed (simp add: proposes.none)

text \<open>
  A proposal that is not acknowledged was applied or was not: nothing else happens to the replica.
\<close>

locale settled_writer = raft_writer +
  assumes unacknowledged: "cw s a = (s', Inl m) \<Longrightarrow>
    rp_db s' = rp_db s \<or> (\<exists>e r. en_payload e = Normal a \<and> apply_entry E td s e = (s', Inr r))"
begin

lemma proposes_keeps:
  assumes "proposes C cw s s'" "db_wf (rp_db s)" "P (rp_db s)"
    and step: "\<And>s a e s' r. C (cmd a) \<Longrightarrow> en_payload e = Normal a \<Longrightarrow> apply_entry E td s e = (s', Inr r) \<Longrightarrow>
      db_wf (rp_db s) \<Longrightarrow> P (rp_db s) \<Longrightarrow> P (rp_db s')"
  shows "db_wf (rp_db s') \<and> P (rp_db s')"
  using assms(1-3)
proof (induction rule: proposes.induct)
  case (more s s' a)
  then have inv: "db_wf (rp_db s')" "P (rp_db s')" by auto
  obtain u x where run: "cw s' a = (u, x)" by fastforce
  have "rp_db u = rp_db s' \<or> (\<exists>e r. en_payload e = Normal a \<and> apply_entry E td s' e = (u, Inr r))"
    using unacknowledged applies run by (cases x) blast+
  then show ?case
  proof
    assume "\<exists>e r. en_payload e = Normal a \<and> apply_entry E td s' e = (u, Inr r)"
    then obtain e r where e: "en_payload e = Normal a" "apply_entry E td s' e = (u, Inr r)" by blast
    have "db_wf (rp_db u)" by (rule entry_effect(6)[OF e(2) inv(1)])
    moreover have "P (rp_db u)" by (rule step[OF more.hyps(2) e inv])
    ultimately show ?thesis using run by simp
  qed (use inv run in simp)
qed simp

end

interpretation settled: settled_writer postcard_env td "local_write postcard_env td" for td
proof
  fix s a s' m
  assume "local_write postcard_env td s a = (s', Inl m)"
  then show "rp_db s' = rp_db s \<or> (\<exists>e r. en_payload e = Normal a \<and> apply_entry postcard_env td s e = (s', Inr r))"
    using apply_entry_Inl by (auto simp: local_write_def split: prod.splits sum.splits)
qed


section \<open>Slots without a pod\<close>

definition lost_pod :: "env \<Rightarrow> database \<Rightarrow> string \<Rightarrow> string \<Rightarrow> string \<Rightarrow> nat \<Rightarrow> bool" where
  "lost_pod E db t s r n \<longleftrightarrow>
     lookup db Kordinals (ordinal_key t s r n) \<noteq> None \<and>
     (\<forall>key p. placement_at E db key = Some p \<longrightarrow> \<not> in_slot t s r n p)"

text \<open>The commands of the controllers, apart from a placement in the slot.\<close>

definition spares_slot :: "string \<Rightarrow> string \<Rightarrow> string \<Rightarrow> nat \<Rightarrow> fleetos_command \<Rightarrow> bool" where
  "spares_slot t s r n c =
     (case c of
        CommitPlacement p \<Rightarrow> \<not> in_slot t s r n p
      | RecordOrdinalAssignment _ \<Rightarrow> True
      | RemovePlacement _ \<Rightarrow> True
      | AllocateServiceAddress _ _ \<Rightarrow> True
      | ReassignPodId _ _ _ _ _ \<Rightarrow> True
      | EvictNode _ _ \<Rightarrow> True
      | PruneExpiredRevokedSvids _ \<Rightarrow> True
      | TriggerCronWorkload _ _ \<Rightarrow> True
      | ScaleWorkload _ \<Rightarrow> True
      | ResizeWorkload _ \<Rightarrow> True
      | UpsertVpaRecommendation _ \<Rightarrow> True
      | _ \<Rightarrow> False)"

text \<open>A batch that deletes no slot record and stores no placement in the slot.\<close>

fun op_spares :: "env \<Rightarrow> string \<Rightarrow> string \<Rightarrow> string \<Rightarrow> nat \<Rightarrow> batch_op \<Rightarrow> bool" where
  "op_spares E t s r n (Put k key v) \<longleftrightarrow>
     k = Kplacements \<longrightarrow> (case dec (c_placement E) v of Some p \<Rightarrow> \<not> in_slot t s r n p | None \<Rightarrow> True)"
| "op_spares E t s r n (Del k key) \<longleftrightarrow> k \<noteq> Kordinals"

lemma batch_keeps_slot_record:
  "\<forall>x\<in>set b. op_spares E t s r n x \<Longrightarrow> old \<noteq> None \<Longrightarrow> batch_get b Kordinals key old \<noteq> None"
proof (induction b arbitrary: old)
  case (Cons x b)
  then show ?case by (cases x) auto
qed simp

lemma batch_places_elsewhere:
  "\<forall>x\<in>set b. op_spares E t s r n x \<Longrightarrow> \<forall>p. Option.bind old (dec (c_placement E)) = Some p \<longrightarrow> \<not> in_slot t s r n p \<Longrightarrow>
     Option.bind (batch_get b Kplacements key old) (dec (c_placement E)) = Some p \<Longrightarrow> \<not> in_slot t s r n p"
proof (induction b arbitrary: old)
  case (Cons x b)
  show ?case
  proof (cases x)
    case (Put k y v)
    let ?old = "if k = Kplacements \<and> y = key then Some v else old"
    have "\<forall>p. Option.bind ?old (dec (c_placement E)) = Some p \<longrightarrow> \<not> in_slot t s r n p"
      using Cons.prems(1,2) Put by auto
    then show ?thesis using Cons.IH[of ?old] Cons.prems(1,3) Put by simp
  next
    case (Del k y)
    let ?old = "if k = Kplacements \<and> y = key then None else old"
    have "\<forall>p. Option.bind ?old (dec (c_placement E)) = Some p \<longrightarrow> \<not> in_slot t s r n p"
      using Cons.prems(2) by auto
    then show ?thesis using Cons.IH[of ?old] Cons.prems(1,3) Del by simp
  qed
qed simp


lemma slot_batch_keeps_lost:
  assumes "lost_pod E db t s r n" "\<forall>x\<in>set b. op_spares E t s r n x"
    and "\<And>k key. k \<notin> {Kversion, Kraft_state, Kaudit_log} \<Longrightarrow> lookup db' k key = batch_get b k key (lookup db k key)"
  shows "lost_pod E db' t s r n"
proof -
  have "\<not> in_slot t s r n p" if "placement_at E db' key = Some p" for key p
    using batch_places_elsewhere[OF assms(2), of "lookup db Kplacements key" key p] that assms(1)
    by (simp add: record_at_def assms(3) lost_pod_def)
  moreover have "lookup db' Kordinals (ordinal_key t s r n) \<noteq> None"
    using batch_keeps_slot_record[OF assms(2)] assms(1) by (simp add: assms(3) lost_pod_def)
  ultimately show ?thesis by (simp add: lost_pod_def)
qed

lemma spared_batch:
  assumes ok: "env_ok E" and c: "spares_slot t s r n c" and run: "apply_command E db c = Inr (b, kind)"
    and wf: "db_wf db" and lost: "lost_pod E db t s r n" and x: "x \<in> set b"
  shows "op_spares E t s r n x"
proof (cases c)
  case (CommitPlacement p)
  then show ?thesis
    using c run x codec_ok_dec[OF records_codecs(21)[OF ok]]
    by (auto simp: spares_slot_def apply_command_def arm_defs sm_Inr)
next
  case (ReassignPodId t' s' r' n' pod)
  have seen: "\<not> in_slot t s r n p" if "find (in_slot t' s' r' n') (decode_all (c_placement E) kvs) = Some p"
    "sm_prefix db Kplacements [] = Inr kvs" for kvs p
  proof -
    have "p \<in> set (decode_all (c_placement E) kvs)" using that(1) by (auto simp: find_Some_iff)
    then obtain key v where "(key, v) \<in> set kvs" "dec (c_placement E) v = Some p" by (auto simp: in_decode_all)
    then have "placement_at E db key = Some p"
      using kv_prefix_mem[OF _ wf, of Kplacements "[]" kvs] that(2) by (auto simp: record_at_def sm_Inr kv_prefix_def)
    then show ?thesis using lost by (auto simp: lost_pod_def)
  qed
  have "in_slot t s r n (p\<lparr>pl_pod_id := q\<rparr>) = in_slot t s r n p" for p q by (simp add: in_slot_def)
  then show ?thesis
    using run x ReassignPodId seen codec_ok_dec[OF records_codecs(21)[OF ok]]
    by (auto simp: apply_command_def arm_defs result_simps to_allocvec_def split: option.splits)
next
  case (EvictNode node exp)
  then show ?thesis
    using run x by (auto simp: apply_evict_Inr revoke_ops_def Let_def split: option.splits)
next
  case (ScaleWorkload w)
  have "op_spares E t s r n y" if "mapE (release_placement E t' w') ps = Inr ops" "ys \<in> set ops" "y \<in> set ys" for t' w' ps ops ys y
    using that(2,3) by (auto simp: mapE_mem[OF that(1)] sm_Inr)
  then show ?thesis
    using run x ScaleWorkload by (fastforce simp: apply_command_def arm_defs result_simps to_allocvec_def Let_def)
next
  case (PruneExpiredRevokedSvids cutoff)
  then show ?thesis using run x by (auto simp: apply_command_def arm_defs)
qed (use c run x in \<open>auto simp: spares_slot_def apply_command_def arm_defs result_simps to_allocvec_def insert_record_def\<close>)


lemma spares_slot_simps [simp]:
  "spares_slot t s r n (RecordOrdinalAssignment a)" "spares_slot t s r n (RemovePlacement pod)"
  "spares_slot t s r n (AllocateServiceAddress blk adr)" "spares_slot t s r n (ReassignPodId t' s' r' n' pod)"
  "spares_slot t s r n (EvictNode node u)" "spares_slot t s r n (PruneExpiredRevokedSvids u)"
  "spares_slot t s r n (TriggerCronWorkload w cp)" "spares_slot t s r n (ScaleWorkload w)"
  "spares_slot t s r n (ResizeWorkload w)" "spares_slot t s r n (UpsertVpaRecommendation v)"
  "spares_slot t s r n (CommitPlacement p) \<longleftrightarrow> \<not> in_slot t s r n p"
  by (simp_all add: spares_slot_def)


section \<open>What each controller proposes\<close>

definition outside :: "string \<Rightarrow> string \<Rightarrow> string \<Rightarrow> nat \<Rightarrow> pending_pod \<Rightarrow> bool" where
  "outside t s r n pod \<longleftrightarrow> \<not> (pp_tenant_id pod = t \<and> pp_service pod = s \<and> pp_role pod = r \<and> pp_ordinal pod = n)"

text \<open>A reconciliation may propose its four commands, placements only of the pods given.\<close>

definition reconciles :: "(fleetos_command \<Rightarrow> bool) \<Rightarrow> (pending_pod \<Rightarrow> bool) \<Rightarrow> bool" where
  "reconciles C out \<longleftrightarrow>
     (\<forall>a. C (RecordOrdinalAssignment a)) \<and> (\<forall>pod. C (RemovePlacement pod)) \<and>
     (\<forall>blk adr. C (AllocateServiceAddress blk adr)) \<and> (\<forall>pod node. out pod \<longrightarrow> C (CommitPlacement (place pod node)))"

lemma reconciles_outside: "reconciles (spares_slot t s r n) (outside t s r n)"
  by (auto simp: reconciles_def outside_def in_slot_def place_def)

lemma proposes_commit:
  "reconciles C out \<Longrightarrow> out pod \<Longrightarrow> proposes C cw (ct_replica st) (ct_replica (fst (commit_scheduling cw st pod node)))"
  by (auto simp: commit_scheduling_def reconciles_def place_def intro!: proposals)

lemma proposes_schedule_all:
  "reconciles C out \<Longrightarrow> \<forall>pod\<in>set pods. out pod \<Longrightarrow>
     proposes C cw (ct_replica st) (ct_replica (fst (schedule_all cw ds cs pods st)))"
proof (induction pods arbitrary: st)
  case (Cons p pods)
  show ?case
  proof (cases "schedule ds p cs")
    case (Inl e)
    then show ?thesis using Cons.prems Cons.IH[of "emit st _"] by (auto intro!: proposes_thenM proposes.none)
  next
    case (Inr d)
    then show ?thesis using Cons.prems Cons.IH by (auto intro!: proposes_thenM proposes_commit)
  qed
qed (simp add: proposes.none)

lemma schedule_all_subset:
  "schedule_all cw ds cs pods st = (st', Inr uns) \<Longrightarrow> set uns \<subseteq> set pods"
  by (induction pods arbitrary: st uns) (fastforce simp: thenM_Inr split: sum.splits)+

lemma proposes_preempt_all:
  assumes C: "reconciles C out" and "\<forall>pod\<in>set pods. out pod"
  shows "proposes C cw (ct_replica st) (ct_replica (fst (preempt_all cw cs specs pods st)))"
  unfolding preempt_all_def
proof (rule proposes_for_each)
  fix st pod
  assume "pod \<in> set (filter (\<lambda>p. 0 < pp_priority p) pods)"
  then have "out pod" using assms by simp
  moreover have "proposes C cw (ct_replica u) (ct_replica (fst (evict_victim cw pod u v)))" for u v
    unfolding evict_victim_def
    using proposes_client_write[of C "RemovePlacement (pl_pod_id v)" cw "emit u _"] C
    by (intro proposes_thenM proposes_client_write) (auto simp: reconciles_def)
  ultimately show "proposes C cw (ct_replica st) (ct_replica (fst (case find_preemption_plan pod cs
      (\<lambda>p. workload_priority_map specs (pl_tenant_id p, pl_service p)) of
      Some plan \<Rightarrow> apply_preemption cw st pod plan | None \<Rightarrow> (st, Inr ()))))"
    by (auto simp: apply_preemption_def intro!: proposes.none proposes_thenM proposes_for_each proposes_commit[OF C] split: option.split)
qed

lemma proposes_addresses:
  assumes "reconciles C out"
  shows "proposes C cw (ct_replica st) (ct_replica (fst (for_each (allocate_service_addresses E cw) specs st)))"
proof -
  have "proposes C cw (ct_replica u) (ct_replica (fst (allocate_role_address E cw spec u role)))" for u spec role
    using assms by (auto simp: reconciles_def allocate_role_address_def intro!: proposals split: sum.split option.split)
  then show ?thesis by (auto simp: allocate_service_addresses_def intro!: proposes_for_each)
qed

lemma proposes_reconcile_all:
  assumes C: "reconciles C out"
    and "\<And>cs pending pod. collect_pending E (ct_db st) cs specs = Inr pending \<Longrightarrow> pod \<in> set pending \<Longrightarrow> out pod"
  shows "proposes C cw (ct_replica st) (ct_replica (fst (reconcile_all E cw ds specs st)))"
proof (cases "build_cluster_state E (ct_db st)")
  case (Inr cs)
  show ?thesis
  proof (cases "collect_pending E (ct_db st) cs specs")
    case (Inr pending)
    have out: "\<forall>pod\<in>set (order_pending pending). out pod"
      using assms(2)[OF Inr] by (simp add: order_pending_def)
    have "proposes C cw (ct_replica u) (ct_replica (fst (preempt_all cw cs specs uns u)))"
      if "schedule_all cw ds cs (order_pending pending) st = (u, Inr uns)" for u uns
      using schedule_all_subset[OF that] out by (intro proposes_preempt_all[OF C]) auto
    then show ?thesis
      using \<open>build_cluster_state E (ct_db st) = Inr cs\<close> Inr proposes_schedule_all[OF C out]
      by (auto simp: reconcile_all_def intro!: proposes_thenM proposes.none proposes_addresses[OF C])
  qed (use Inr in \<open>simp add: reconcile_all_def proposes.none\<close>)
qed (simp add: reconcile_all_def proposes.none)

lemma pending_outside:
  assumes "collect_pending E db cs specs = Inr pending" "lost_pod E db t s r n" "pod \<in> set pending"
  shows "outside t s r n pod"
  using assms(2,3) collect_pending_iff[OF assms(1), of pod]
  by (auto simp: outside_def lost_pod_def new_pending_def Let_def)

lemma proposes_around_lost:
  assumes "lost_pod E (ct_db st) t s r n"
  shows "proposes (spares_slot t s r n) cw (ct_replica st) (ct_replica (fst (reconcile_all E cw ds specs st)))"
  by (rule proposes_reconcile_all[OF reconciles_outside]) (rule pending_outside[OF _ assms])

lemma proposes_pod_tick:
  assumes "\<And>t w role n. C (ReassignPodId t w role n (pod_name w role n))"
  shows "proposes C cw (ct_replica st) (ct_replica (pod_tick E cw staleness now st))"
proof -
  have "proposes C cw (ct_replica u) (ct_replica (check_slot E cw staleness now spec u slot))" for u spec slot
    using assms
    by (auto simp: check_slot_def reconcile_dead_pod_def intro!: proposals split: sum.split prod.split)
  then show ?thesis
    by (auto simp: pod_tick_def intro!: proposes.none proposes_foldl split: sum.split)
qed

lemma proposes_evict_tainted:
  assumes "\<And>pod. C (RemovePlacement pod)" "\<And>a. C (RecordOrdinalAssignment a)"
  shows "proposes C cw (ct_replica st) (ct_replica (fst (enforce_no_execute_taints E cw now st)))"
proof -
  have "proposes C cw (ct_replica u) (ct_replica (fst (evict_tainted cw node ps u pod)))" for u node ps pod
  proof (cases "find (\<lambda>p. pl_pod_id p = pod) ps")
    case (Some p)
    then show ?thesis
      using proposes_client_write[of C "RemovePlacement pod" cw "emit u _", simplified] assms
      by (auto simp: evict_tainted_def intro!: proposes_thenM proposes_client_write)
  qed (simp add: evict_tainted_def proposes.none)
  then have "proposes C cw (ct_replica u) (ct_replica (fst (enforce_on_node E cw now u kv)))" for u kv
    by (auto simp: enforce_on_node_def Let_def intro!: proposes.none proposes_for_each split: option.split)
  then show ?thesis
    by (auto simp: enforce_no_execute_taints_def intro!: proposes.none proposes_for_each split: sum.split)
qed

lemma proposes_leases:
  assumes "\<And>rec node. rec \<in> set rs \<Longrightarrow> lease_expired timeout now rec \<Longrightarrow> sp_parse E (nr_node_id rec) = Some node \<Longrightarrow>
      C (EvictNode node (now + int ttl))" "C (PruneExpiredRevokedSvids now)"
  shows "proposes C cw (ct_replica st) (ct_replica (foldl (check_lease E cw timeout ttl now) st rs))"
proof (rule proposes_foldl)
  fix u rec
  assume "rec \<in> set rs"
  then show "proposes C cw (ct_replica u) (ct_replica (check_lease E cw timeout ttl now u rec))"
    using assms
    by (auto simp: check_lease_def evict_dead_node_def intro!: proposes.none proposes_thenM proposes_client_write split: option.split)
qed

lemma proposes_node_tick:
  assumes "\<And>node u. C (EvictNode node u)" "\<And>u. C (PruneExpiredRevokedSvids u)"
    and "\<And>pod. C (RemovePlacement pod)" "\<And>a. C (RecordOrdinalAssignment a)"
  shows "proposes C cw (ct_replica st) (ct_replica (node_tick E cw timeout ttl now st))"
  using assms
  by (auto simp: node_tick_def Let_def intro: proposes_trans[OF proposes_evict_tainted proposes_leases] proposes_evict_tainted
      split: sum.split)

lemma proposes_hpa:
  assumes "\<And>w. C (ScaleWorkload w)"
  shows "proposes C cw (hc_replica st) (hc_replica (fst (hpa_evaluate_at E guard metrics cw now st)))"
proof -
  have p: "proposes C cw (hc_replica u) (hc_replica u')"
    if "propose_scale E cw now w spec new u = (u', x)" for u u' x w spec new
    using that assms by (auto simp: propose_scale_def intro!: proposes_one split: prod.splits sum.splits)
  have one: "proposes C cw (hc_replica u) (hc_replica (fst (hpa_evaluate_workload E guard metrics cw ps now w u)))" for u ps w
  proof -
    have q: "proposes C cw (hc_replica u) (hc_replica u')"
      if "propose_scale E cw now w spec new (u\<lparr>hc_since := m\<rparr>) = (u', x)" for u' x spec new m
      using p[OF that] by simp
    show ?thesis
      by (auto simp: hpa_evaluate_workload_def Let_def intro!: proposes.none dest!: q split: option.splits prod.splits sum.splits)
  qed
  have "proposes C cw (hc_replica u) (hc_replica (foldl (\<lambda>st r. fst (hpa_evaluate_workload E guard metrics cw ps now r st)) u ws))" for u ps ws
    by (induction ws arbitrary: u) (auto intro: proposes.none proposes_trans[OF _ one])
  then show ?thesis by (auto simp: hpa_evaluate_at_def intro: proposes.none split: sum.splits prod.splits)
qed


lemma proposes_vpa_write:
  assumes "C c"
  shows "proposes C cw (ct_replica st) (ct_replica (fst (vpa_write cw st now target c)))"
proof -
  let ?a = "\<lparr>cmd = c, audit = Some \<lparr>ac_request_id = [], ac_actor = ''system:vpa-controller'', ac_target = target,
                              ac_timestamp = as_u64 now\<rparr>\<rparr>"
  have "proposes C cw (ct_replica st) (fst (cw (ct_replica st) ?a))"
    using assms by (intro proposes.more proposes.none) simp
  then show ?thesis by (cases "cw (ct_replica st) ?a"; cases "snd (cw (ct_replica st) ?a)") (simp_all add: vpa_write_def)
qed

lemma proposes_recreate:
  assumes "\<And>w. C (ResizeWorkload w)" "\<And>pod. C (RemovePlacement pod)" "\<And>a. C (RecordOrdinalAssignment a)"
  shows "proposes C cw (ct_replica st) (ct_replica (fst (recreate E guard cw ps now w spec old new st)))"
proof -
  have wr: "proposes C cw (ct_replica u) (ct_replica (fst (vpa_write cw (emit u e) now target (ResizeWorkload w))))" for u e target w
    using proposes_vpa_write[of C "ResizeWorkload w" cw "emit u e"] assms(1) by simp
  have "proposes C cw (ct_replica u) (ct_replica (fst (remove_stale_pod cw u p)))" for u p
    unfolding remove_stale_pod_def
    using assms(2,3) by (intro proposes_thenM proposes_client_write) (auto intro: proposes.none)
  then show ?thesis
    using assms(1)
    by (auto simp: recreate_def Let_def intro!: proposes.none proposes_thenM wr split: prod.split list.split)
qed

lemma proposes_vpa:
  assumes "\<And>w. C (ResizeWorkload w)" "\<And>pod. C (RemovePlacement pod)" "\<And>a. C (RecordOrdinalAssignment a)"
    and "\<And>v. C (UpsertVpaRecommendation v)"
  shows "proposes C cw (ct_replica (vc_ctrl st)) (ct_replica (vc_ctrl (fst (vpa_evaluate_at E guard metrics cw now st))))"
proof -
  have resize: "proposes C cw (ct_replica (vc_ctrl u)) (ct_replica (vc_ctrl (fst (apply_resize E guard cw ps now w spec policy old new ch u))))"
    for u ps w spec policy old new ch
    using proposes_recreate[of C, OF assms(1-3)]
    by (simp add: apply_resize_def lift_vpa_def Let_def proposes.none)
  have rec: "proposes C cw (ct_replica (vc_ctrl u)) (ct_replica (vc_ctrl (fst (propose_recommendation E guard cw ps now w spec policy old new u))))"
    for u ps w spec policy old new
  proof -
    have "proposes C cw (ct_replica (vc_ctrl u)) (ct_replica c)"
      if "vpa_write cw (vc_ctrl u) now target (UpsertVpaRecommendation v) = (c, x)" for target v c x
      using proposes_vpa_write[of C "UpsertVpaRecommendation v" cw "vc_ctrl u" now target] that assms(4) by simp
    moreover have "proposes C cw (ct_replica (vc_ctrl u)) (ct_replica (vc_ctrl (fst (apply_resize E guard cw ps now w spec policy old new ch (u\<lparr>vc_ctrl := c\<rparr>)))))"
      if "proposes C cw (ct_replica (vc_ctrl u)) (ct_replica c)" for c ch
      using proposes_trans[OF resize[of "u\<lparr>vc_ctrl := c\<rparr>"]] that by simp
    ultimately have written: "proposes C cw (ct_replica (vc_ctrl u)) (ct_replica (vc_ctrl (fst (case vpa_write cw (vc_ctrl u) now target (UpsertVpaRecommendation v) of
        (c, Inl e) \<Rightarrow> (u\<lparr>vc_ctrl := c\<rparr>, Inl (Vpa_error e))
      | (c, Inr _) \<Rightarrow> apply_resize E guard cw ps now w spec policy old new True (u\<lparr>vc_ctrl := c\<rparr>)))))" for target v
      by (cases "vpa_write cw (vc_ctrl u) now target (UpsertVpaRecommendation v)";
          cases "snd (vpa_write cw (vc_ctrl u) now target (UpsertVpaRecommendation v))") simp_all
    show ?thesis
      by (cases "get_vpa_recommendation E (ct_db (vc_ctrl u)) (ws_tenant_id spec) (ws_workload_id spec)")
         (simp_all add: propose_recommendation_def Let_def proposes.none resize written)
  qed
  have one: "proposes C cw (ct_replica (vc_ctrl u)) (ct_replica (vc_ctrl (fst (vpa_evaluate_workload E guard metrics cw ps now w u))))"
    for u ps w
  proof -
    have "proposes C cw (ct_replica (vc_ctrl u)) (ct_replica (vc_ctrl (fst (evaluate_with_dimensions E guard metrics cw ps now w spec policy c m u))))" for spec policy c m
      by (simp add: evaluate_with_dimensions_def Let_def proposes.none rec split: option.split)
    then show ?thesis by (simp add: vpa_evaluate_workload_def Let_def proposes.none split: option.split)
  qed
  have "proposes C cw (ct_replica (vc_ctrl u)) (ct_replica (vc_ctrl (fst (vpa_pass (vpa_evaluate_workload E guard metrics cw ps now) ws u))))" for u ps ws
  proof (induction ws arbitrary: u)
    case (Cons w ws)
    obtain u' x where run: "vpa_evaluate_workload E guard metrics cw ps now w u = (u', x)" by fastforce
    then show ?case using one[of u ps w] Cons.IH[of u'] by (auto intro: proposes_trans split: sum.split vpa_error.split)
  qed (simp add: proposes.none)
  then show ?thesis by (auto simp: vpa_evaluate_at_def intro: proposes.none split: sum.splits prod.splits)
qed

text \<open>An evaluation that returns has left the state alone or run the workload.\<close>

lemma evaluate_and_trigger_cases:
  assumes "evaluate_and_trigger E cron_lib ok cw ds now cron st = Some (st', x)"
  shows "st' = st \<and> x \<noteq> Inr True \<or>
    (\<exists>s nxt cp due. cr_schedule cron = Some s \<and> \<not> cs_suspend s \<and> cron_lib (cs_expression s) = Some nxt \<and>
       load_checkpoint E (ct_db st) (cr_tenant_id cron) (cr_cron_workload_id cron) = Inr cp \<and>
       latest_due nxt now None (case cp of Some c \<Rightarrow> cp_last_triggered c | None \<Rightarrow> now) = Some (Some due) \<and>
       run_cron E cw ds cron due st = (st', x))"
proof (cases "cr_schedule cron")
  case (Some s)
  show ?thesis
  proof (cases "cron_lib (cs_expression s)")
    case lib: (Some nxt)
    show ?thesis
      using assms Some lib by (simp add: evaluate_and_trigger_def bindE_def split: if_splits sum.splits option.splits) (auto split: option.splits)
  qed (use assms Some in \<open>auto simp: evaluate_and_trigger_def bindE_def split: if_splits\<close>)
qed (use assms in \<open>auto simp: evaluate_and_trigger_def\<close>)

context settled_writer
begin

lemma lost_kept:
  assumes "proposes (spares_slot t s r n) cw u u'" "db_wf (rp_db u)" "lost_pod E (rp_db u) t s r n"
  shows "db_wf (rp_db u') \<and> lost_pod E (rp_db u') t s r n"
proof (rule proposes_keeps[OF assms(1,2), where P = "\<lambda>db. lost_pod E db t s r n"])
  fix v a e v' x
  assume *: "spares_slot t s r n (cmd a)" "en_payload e = Normal a" "apply_entry E td v e = (v', Inr x)"
    "db_wf (rp_db v)" "lost_pod E (rp_db v) t s r n"
  obtain b kind where b: "apply_command E (rp_db v) (cmd a) = Inr (b, kind)"
    and look: "\<And>k key. k \<notin> {Kversion, Kraft_state, Kaudit_log} \<Longrightarrow>
      lookup (rp_db v') k key = batch_get b k key (lookup (rp_db v) k key)"
    using command_effect[OF *(3,2,4)] by metis
  show "lost_pod E (rp_db v') t s r n"
    by (rule slot_batch_keeps_lost[OF *(5) _ look]) (use spared_batch[OF codecs *(1) b *(4,5)] in auto)
qed (rule assms(3))

lemma cron_keeps_lost:
  assumes "cron_tick E cron_lib ok cw ds now st = Some st'" "db_wf (ct_db st)" "lost_pod E (ct_db st) t s r n"
  shows "db_wf (ct_db st') \<and> lost_pod E (ct_db st') t s r n"
proof -
  have run: "db_wf (ct_db (fst (run_cron E cw ds cron due u))) \<and> lost_pod E (ct_db (fst (run_cron E cw ds cron due u))) t s r n"
    if "db_wf (ct_db u)" "lost_pod E (ct_db u) t s r n" for u cron due
  proof -
    have "proposes (spares_slot t s r n) cw (ct_replica v) (ct_replica (fst (reconcile E cw ds spec v)))"
      if "client_write cw u (TriggerCronWorkload w cp) = (v, Inr ())" for v spec w cp
    proof -
      have "proposes (spares_slot t s r n) cw (ct_replica u) (ct_replica v)"
        using proposes_client_write[of "spares_slot t s r n" "TriggerCronWorkload w cp" cw u] that by simp
      from lost_kept[OF this] have "lost_pod E (ct_db v) t s r n"
        using \<open>db_wf (ct_db u)\<close> \<open>lost_pod E (ct_db u) t s r n\<close> by blast
      then show ?thesis
        by (simp add: reconcile_def proposes_around_lost)
    qed
    then have "proposes (spares_slot t s r n) cw (ct_replica u) (ct_replica (fst (run_cron E cw ds cron due u)))"
      by (auto simp: run_cron_def Let_def intro!: proposes.none proposes_thenM proposes_client_write split: option.split)
    from lost_kept[OF this that] show ?thesis .
  qed
  have each: "db_wf (ct_db u') \<and> lost_pod E (ct_db u') t s r n"
    if "trigger_each (evaluate_and_trigger E cron_lib ok cw ds now) cs u = Some u'"
      "db_wf (ct_db u)" "lost_pod E (ct_db u) t s r n" for cs u u'
    using that
  proof (induction cs arbitrary: u)
    case (Cons c cs)
    obtain v x where v: "evaluate_and_trigger E cron_lib ok cw ds now c u = Some (v, x)"
      and rest: "trigger_each (evaluate_and_trigger E cron_lib ok cw ds now) cs v = Some u'"
      using Cons.prems(1) by (auto simp: bind_eq_Some_conv)
    have "v = u \<or> (\<exists>due. v = fst (run_cron E cw ds c due u))"
      using evaluate_and_trigger_cases[OF v] by (metis fst_conv)
    then show ?case using Cons.IH[OF rest] Cons.prems(2,3) run by blast
  qed simp
  show ?thesis using assms each by (auto simp: cron_tick_def split: sum.splits)
qed

text \<open>No tick of any controller gives a lost pod a placement again.\<close>

lemma tick_keeps_lost:
  assumes "leader_tick E F cw L L'" "db_wf (ct_db (ld_ctrl L))" "lost_pod E (ct_db (ld_ctrl L)) t s r n"
  shows "db_wf (ct_db (ld_ctrl L')) \<and> lost_pod E (ct_db (ld_ctrl L')) t s r n"
  using assms
proof (induction rule: leader_tick.induct)
  case (workloads L)
  have "proposes (spares_slot t s r n) cw (ct_replica (ld_ctrl L)) (ct_replica (workload_tick E cw (cc_scheduler F) (ld_ctrl L)))"
    using proposes_around_lost[OF workloads(2)] by (simp add: workload_tick_def proposes.none split: sum.split)
  from lost_kept[OF this workloads] show ?case by simp
next
  case (pods L now)
  then show ?case by (simp add: lost_kept[OF proposes_pod_tick])
next
  case (nodes L now)
  then show ?case by (simp add: lost_kept[OF proposes_node_tick])
next
  case (crons now L c)
  then show ?case using cron_keeps_lost by simp
next
  case (horizontal metrics now L h x)
  then show ?case
    using lost_kept[OF proposes_hpa[of "spares_slot t s r n" cw "\<lparr>hc_replica = ct_replica (ld_ctrl L), hc_since = ld_hpa_since L\<rparr>" E "cc_guard F" metrics now]]
    by simp
next
  case (vertical metrics now L v x)
  then show ?case
    using lost_kept[OF proposes_vpa[of "spares_slot t s r n" cw "\<lparr>vc_ctrl = ld_ctrl L, vc_since = ld_vpa_since L\<rparr>" E "cc_guard F" metrics now]]
    by simp
qed

end

end
