(* ===== verification/ControllerTheorems.thy ===== *)
theory ControllerTheorems
  imports ControllerFacts AdminExamples
begin

text \<open>
  Properties of the leader's controllers: cron evaluation ends and runs the latest due time once, the
  pod controller changes no placement, the node controller evicts expired leases only, and no
  controller places a lost pod again.
\<close>


section \<open>The schedule loop\<close>

text \<open>What the cron library documents: the next time is the first of the schedule after the given one.\<close>

definition schedule_of :: "(int \<Rightarrow> int option) \<Rightarrow> int set \<Rightarrow> bool" where
  "schedule_of nxt S \<longleftrightarrow>
     (\<forall>s. case nxt s of
        None \<Rightarrow> \<forall>t\<in>S. t \<le> s
      | Some t \<Rightarrow> t \<in> S \<and> s < t \<and> (\<forall>u\<in>S. s < u \<longrightarrow> t \<le> u))"

lemma schedule_of_later: "schedule_of nxt S \<Longrightarrow> nxt s = Some t \<Longrightarrow> s < t"
  by (metis (mono_tags, lifting) option.simps(5) schedule_of_def)

lemma latest_due_returns:
  assumes "\<And>s t. nxt s = Some t \<Longrightarrow> s < t"
  shows "\<exists>r. latest_due nxt now acc since = Some r"
proof (induction "nat (now - since)" arbitrary: since acc rule: less_induct)
  case less
  show ?case
  proof (cases "nxt since")
    case (Some t)
    then have "t \<le> now \<Longrightarrow> nat (now - t) < nat (now - since)" using assms[OF Some] by simp
    with less[of t "Some t"] Some show ?thesis by (subst latest_due.simps) simp
  qed (subst latest_due.simps, simp)
qed

lemma latest_due_latest:
  assumes "schedule_of nxt S"
  shows "latest_due nxt now acc since = Some r \<Longrightarrow>
    (if \<exists>u\<in>S. since < u \<and> u \<le> now then \<exists>d. r = Some d \<and> d \<in> S \<and> since < d \<and> d \<le> now \<and> (\<forall>u\<in>S. u \<le> now \<longrightarrow> u \<le> d)
     else r = acc)"
proof (induction "nat (now - since)" arbitrary: since acc rule: less_induct)
  case less
  have spec: "case nxt since of None \<Rightarrow> \<forall>t\<in>S. t \<le> since
    | Some t \<Rightarrow> t \<in> S \<and> since < t \<and> (\<forall>u\<in>S. since < u \<longrightarrow> t \<le> u)"
    using assms by (simp add: schedule_of_def)
  show ?case
  proof (cases "nxt since")
    case None
    with less.prems have "r = acc" by (subst (asm) latest_due.simps) simp
    moreover have "\<not> (\<exists>u\<in>S. since < u \<and> u \<le> now)" using spec None by force
    ultimately show ?thesis by auto
  next
    case (Some t)
    then have t: "t \<in> S" "since < t" "\<forall>u\<in>S. since < u \<longrightarrow> t \<le> u" using spec by auto
    show ?thesis
    proof (cases "t \<le> now")
      case True
      then have run: "latest_due nxt now (Some t) t = Some r"
        using less.prems Some by (subst (asm) latest_due.simps) simp
      have "nat (now - t) < nat (now - since)" using t(2) True by simp
      note ih = less.hyps[OF this run]
      have "\<exists>d. r = Some d \<and> d \<in> S \<and> since < d \<and> d \<le> now \<and> (\<forall>u\<in>S. u \<le> now \<longrightarrow> u \<le> d)"
      proof (cases "\<exists>u\<in>S. t < u \<and> u \<le> now")
        case True
        then obtain d where "r = Some d" "d \<in> S" "t < d" "d \<le> now" "\<forall>u\<in>S. u \<le> now \<longrightarrow> u \<le> d" using ih by auto
        then show ?thesis using t(2) by auto
      next
        case False
        then have "r = Some t" using ih by simp
        with False t \<open>t \<le> now\<close> show ?thesis by force
      qed
      then show ?thesis using t(1,2) True by auto
    next
      case False
      then have "r = acc" using less.prems Some by (subst (asm) latest_due.simps) simp
      moreover have "\<not> (\<exists>u\<in>S. since < u \<and> u \<le> now)" using t(3) False by force
      ultimately show ?thesis by auto
    qed
  qed
qed

lemma evaluate_returns:
  assumes "\<And>e nxt s t. cron_lib e = Some nxt \<Longrightarrow> nxt s = Some t \<Longrightarrow> s < t"
  shows "\<exists>r. evaluate_and_trigger E cron_lib ok cw ds now cron st = Some r"
proof -
  have ret: "latest_due nxt now None since \<noteq> None" if "cron_lib e = Some nxt" for e nxt since
    using latest_due_returns[of nxt now None since] assms[OF that] by auto
  have "evaluate_and_trigger E cron_lib ok cw ds now cron st \<noteq> None"
    by (simp add: evaluate_and_trigger_def bindE_def ok_or_def ret del: not_None_eq split: option.split sum.split)
  then show ?thesis by blast
qed

lemma trigger_each_returns:
  "(\<And>c st. \<exists>r. eval c st = Some r) \<Longrightarrow> \<exists>st'. trigger_each eval cs st = Some st'"
proof (induction cs arbitrary: st)
  case (Cons c cs)
  obtain v x where "eval c st = Some (v, x)" using Cons.prems[of c st] by auto
  then show ?case using Cons.IH[OF Cons.prems, of v] by simp
qed simp

text \<open>C28. The cron controller's tick always ends, on any state and with any stored cron workloads, as
  long as every schedule moves forward; it cannot be kept busy by a schedule that lies in the past.\<close>

theorem cron_tick_ends:
  assumes "\<And>e nxt s t. cron_lib e = Some nxt \<Longrightarrow> nxt s = Some t \<Longrightarrow> s < t"
  shows "\<exists>st'. cron_tick E cron_lib ok cw ds now st = Some st'"
  using trigger_each_returns[OF evaluate_returns[of cron_lib E ok cw ds now], OF assms]
  by (auto simp: cron_tick_def split: sum.split)


theorem cron_tick_ends_witness:
  "\<exists>st'. cron_tick PE (\<lambda>_. Some (\<lambda>s. Some (60 * (s div 60) + 60))) (\<lambda>_. True) (local_write PE ''f'') new_scheduler 1000
     \<lparr>ct_replica = fresh, ct_events = []\<rparr> = Some st'"
proof (rule cron_tick_ends)
  fix e :: string and nxt and s t :: int
  assume "Some (\<lambda>s. Some (60 * (s div 60) + 60)) = Some nxt" "nxt s = Some t"
  then have "t = 60 * (s div 60) + 60" by auto
  then show "s < t" by presburger
qed


section \<open>What a reconciliation leaves alone\<close>

definition reconcile_command :: "fleetos_command \<Rightarrow> bool" where
  "reconcile_command c =
     (case c of
        RecordOrdinalAssignment _ \<Rightarrow> True
      | RemovePlacement _ \<Rightarrow> True
      | AllocateServiceAddress _ _ \<Rightarrow> True
      | CommitPlacement _ \<Rightarrow> True
      | _ \<Rightarrow> False)"

lemma reconciles_all: "reconciles reconcile_command (\<lambda>_. True)"
  by (simp add: reconciles_def reconcile_command_def)

lemma reconcile_targets:
  assumes "reconcile_command c" "apply_command E db c = Inr (b, kind)" "x \<in> set b"
  shows "fst (op_target x) \<in> {Kordinals, Kplacements, Kdummy_ips}"
  using assms
  by (cases c) (auto simp: reconcile_command_def apply_command_def arm_defs result_simps to_allocvec_def insert_record_def)

text \<open>Giving a placement the identifier it has changes nothing.\<close>

lemma reassign_same_id:
  assumes ok: "env_ok E" and wf: "db_wf db"
    and named: "\<forall>key p. placement_at E db key = Some p \<longrightarrow>
      key = pl_pod_id p \<and> pl_pod_id p = pod_name (pl_service p) (pl_role p) (pl_ordinal p)"
    and run: "apply_command E db (ReassignPodId t w role n (pod_name w role n)) = Inr (b, kind)"
  shows "Option.bind (batch_get b Kplacements key (lookup db Kplacements key)) (dec (c_placement E)) = placement_at E db key"
proof -
  obtain kvs where kvs: "sm_prefix db Kplacements [] = Inr kvs"
    using run by (auto simp: apply_command_def arm_defs result_simps)
  show ?thesis
  proof (cases "find (in_slot t w role n) (decode_all (c_placement E) kvs)")
    case None
    then show ?thesis using run kvs by (auto simp: apply_command_def arm_defs result_simps record_at_def)
  next
    case (Some p)
    then have "p \<in> set (decode_all (c_placement E) kvs)" and slot: "in_slot t w role n p" by (auto simp: find_Some_iff)
    then obtain k v where "(k, v) \<in> set kvs" "dec (c_placement E) v = Some p" by (auto simp: in_decode_all)
    then have at: "placement_at E db k = Some p"
      using kv_prefix_mem[OF _ wf, of Kplacements "[]" kvs] kvs by (auto simp: record_at_def sm_Inr kv_prefix_def)
    then have id: "k = pl_pod_id p" "pl_pod_id p = pod_name w role n" using named slot by (auto simp: in_slot_def)
    obtain v1 v2 where v: "enc (c_placement E) (p\<lparr>pl_pod_id := pod_name w role n\<rparr>) = Some v1"
      "b = [Del Kplacements (pl_pod_id p), Put Kplacements (pod_name w role n) v1, Put Kordinals (ordinal_key t w role n) v2]"
      using run kvs Some by (auto simp: apply_command_def arm_defs result_simps to_allocvec_def)
    have "p\<lparr>pl_pod_id := pod_name w role n\<rparr> = p" using id(2) by (metis placement.surjective placement.update_convs(1))
    then have "dec (c_placement E) v1 = Some p" using codec_ok_dec[OF records_codecs(21)[OF ok] v(1)] by simp
    then show ?thesis using v(2) id at by (auto simp: record_at_def)
  qed
qed

context settled_writer
begin

lemma reconcile_frame:
  assumes "db_wf (ct_db st)"
  shows "db_wf (ct_db (fst (reconcile E cw ds spec st))) \<and>
    db_read_fault (ct_db (fst (reconcile E cw ds spec st))) = db_read_fault (ct_db st) \<and>
    (\<forall>k\<in>{Kworkloads, Kcron_checkpoints}. \<forall>key. lookup (ct_db (fst (reconcile E cw ds spec st))) k key = lookup (ct_db st) k key)"
proof -
  let ?P = "\<lambda>db. db_read_fault db = db_read_fault (ct_db st) \<and>
    (\<forall>k\<in>{Kworkloads, Kcron_checkpoints}. \<forall>key. lookup db k key = lookup (ct_db st) k key)"
  have "proposes reconcile_command cw (ct_replica st) (ct_replica (fst (reconcile E cw ds spec st)))"
    unfolding reconcile_def by (rule proposes_reconcile_all[OF reconciles_all]) simp
  from proposes_keeps[OF this assms, where P = ?P] show ?thesis
  proof (rule conjE)
    fix u a e u' x
    assume *: "reconcile_command (cmd a)" "en_payload e = Normal a" "apply_entry E td u e = (u', Inr x)"
      "db_wf (rp_db u)" "?P (rp_db u)"
    obtain b kind where b: "apply_command E (rp_db u) (cmd a) = Inr (b, kind)"
      and look: "\<And>k key. k \<notin> {Kversion, Kraft_state, Kaudit_log} \<Longrightarrow>
        lookup (rp_db u') k key = batch_get b k key (lookup (rp_db u) k key)"
      using command_effect[OF *(3,2,4)] by metis
    have "batch_get b k key old = old" if "k \<in> {Kworkloads, Kcron_checkpoints}" for k key old
    proof (rule batch_get_untouched)
      have "fst (op_target y) \<noteq> k" if "y \<in> set b" for y
        using reconcile_targets[OF *(1) b that] \<open>k \<in> _\<close> by auto
      then show "(k, key) \<notin> op_target ` set b" by (metis fst_conv imageE)
    qed
    then show "?P (rp_db u')" using look *(5) entry_effect(7)[OF *(3,4)] by auto
  qed auto
qed

lemma run_cron_effect:
  assumes "run_cron E cw ds cron due st = (st', Inr True)" "db_wf (ct_db st)"
  obtains template where "cr_template cron = Some template"
    and "db_read_fault (ct_db st') = db_read_fault (ct_db st)"
    and "record_at (c_checkpoint E) (ct_db st') Kcron_checkpoints (workload_key (cr_tenant_id cron) (cr_cron_workload_id cron)) =
      Some \<lparr>cp_tenant_id = cr_tenant_id cron, cp_cron_workload_id = cr_cron_workload_id cron, cp_last_triggered = due\<rparr>"
    and "Option.bind (record_at (c_workload E) (ct_db st') Kworkloads
        (workload_key (cr_tenant_id cron) (cr_cron_workload_id cron @ ''-'' @ show_int due))) (\<lambda>r. dec (c_spec E) (wr_spec_bytes r)) =
      Some (template\<lparr>ws_workload_id := cr_cron_workload_id cron @ ''-'' @ show_int due, ws_tenant_id := cr_tenant_id cron\<rparr>)"
proof -
  obtain template where t: "cr_template cron = Some template"
    using assms(1) by (cases "cr_template cron") (auto simp: run_cron_def)
  define spec where "spec = template\<lparr>ws_workload_id := cr_cron_workload_id cron @ ''-'' @ show_int due, ws_tenant_id := cr_tenant_id cron\<rparr>"
  define w where "w = \<lparr>wr_tenant_id = ws_tenant_id spec, wr_workload_id = ws_workload_id spec,
                wr_spec_bytes = or_empty (enc (c_spec E) spec), wr_last_applied = []\<rparr>"
  define cp where "cp = \<lparr>cp_tenant_id = cr_tenant_id cron, cp_cron_workload_id = cr_cron_workload_id cron, cp_last_triggered = due\<rparr>"
  have "thenM (client_write cw st (TriggerCronWorkload w cp)) (\<lambda>st _. thenM (reconcile E cw ds spec st) (\<lambda>st _. (st, Inr True))) = (st', Inr True)"
    using assms(1) t by (simp add: run_cron_def Let_def spec_def w_def cp_def)
  then obtain u where u: "client_write cw st (TriggerCronWorkload w cp) = (u, Inr ())" "reconcile E cw ds spec u = (st', Inr ())"
    by (auto simp: thenM_Inr)
  obtain e x where e: "en_payload e = Normal (system_command (TriggerCronWorkload w cp))"
    "apply_entry E td (ct_replica st) e = (ct_replica u, Inr x)" by (rule client_write_applies[OF u(1)])
  obtain b kind where b: "apply_command E (ct_db st) (TriggerCronWorkload w cp) = Inr (b, kind)"
    and look: "\<And>k key. k \<notin> {Kversion, Kraft_state, Kaudit_log} \<Longrightarrow>
        lookup (ct_db u) k key = batch_get b k key (lookup (ct_db st) k key)"
    using command_effect[OF e(2,1) assms(2)] by (auto simp: system_command_def)
  have f: "db_read_fault (ct_db u) = db_read_fault (ct_db st)" "db_wf (ct_db u)"
    using entry_effect(6,7)[OF e(2) assms(2)] by auto
  have fr: "db_read_fault (ct_db st') = db_read_fault (ct_db u)"
    "k \<in> {Kworkloads, Kcron_checkpoints} \<Longrightarrow> lookup (ct_db st') k key = lookup (ct_db u) k key" for k key
    using reconcile_frame[OF f(2), of ds spec] u(2) by auto
  obtain vw vc where v: "enc (c_workload E) w = Some vw" "enc (c_checkpoint E) cp = Some vc"
    "b = [Put Kworkloads (workload_key (wr_tenant_id w) (wr_workload_id w)) vw,
          Put Kcron_checkpoints (workload_key (cp_tenant_id cp) (cp_cron_workload_id cp)) vc]"
    using b by (auto simp: apply_command_def arm_defs result_simps to_allocvec_def)
  obtain sb where sb: "enc (c_spec E) spec = Some sb" "dec (c_spec E) sb = Some spec"
    using codec_ok_enc[OF proto_codecs(1)[OF codecs]] by blast
  show ?thesis
  proof (rule that[OF t])
    show "db_read_fault (ct_db st') = db_read_fault (ct_db st)" using fr(1) f(1) by simp
  next
    show "record_at (c_checkpoint E) (ct_db st') Kcron_checkpoints (workload_key (cr_tenant_id cron) (cr_cron_workload_id cron)) =
      Some \<lparr>cp_tenant_id = cr_tenant_id cron, cp_cron_workload_id = cr_cron_workload_id cron, cp_last_triggered = due\<rparr>"
      using fr(2)[of Kcron_checkpoints] look[of Kcron_checkpoints] v codec_ok_dec[OF records_codecs(6)[OF codecs] v(2)]
      by (simp add: record_at_def cp_def)
  next
    show "Option.bind (record_at (c_workload E) (ct_db st') Kworkloads
        (workload_key (cr_tenant_id cron) (cr_cron_workload_id cron @ ''-'' @ show_int due))) (\<lambda>r. dec (c_spec E) (wr_spec_bytes r)) =
      Some (template\<lparr>ws_workload_id := cr_cron_workload_id cron @ ''-'' @ show_int due, ws_tenant_id := cr_tenant_id cron\<rparr>)"
      using fr(2)[of Kworkloads] look[of Kworkloads] v codec_ok_dec[OF records_codecs(4)[OF codecs] v(1)] sb
      by (simp add: record_at_def w_def or_empty_def spec_def)
  qed
qed

end


lemma load_checkpoint_Inr:
  "load_checkpoint E db t w = Inr cp \<Longrightarrow> \<not> db_read_fault db Kcron_checkpoints \<and>
     cp = record_at (c_checkpoint E) db Kcron_checkpoints (workload_key t w)"
  by (auto simp: load_checkpoint_def record_at_def result_simps kv_get_Inr split: option.splits)

lemma load_checkpoint_Some:
  "\<not> db_read_fault db Kcron_checkpoints \<Longrightarrow> record_at (c_checkpoint E) db Kcron_checkpoints (workload_key t w) = Some c \<Longrightarrow>
     load_checkpoint E db t w = Inr (Some c)"
  by (auto simp: load_checkpoint_def record_at_def bindE_def kv_get_def bind_eq_Some_conv)

text \<open>C30. A cron workload that is triggered runs for the latest scheduled time that is not in the
  future: the run's spec is stored under that time, the checkpoint moves to it (and only forward), and
  until the next scheduled time every further evaluation finds nothing to do, so that missed times
  are run once, together.\<close>

theorem cron_runs_latest:
  assumes "settled_writer E td cw" "db_wf (ct_db st)"
    and "cr_schedule cron = Some s" "cron_lib (cs_expression s) = Some nxt" "schedule_of nxt S"
    and "evaluate_and_trigger E cron_lib ok cw ds now cron st = Some (st', Inr True)"
  shows "\<exists>due template. due \<in> S \<and> due \<le> now \<and> (\<forall>u\<in>S. u \<le> now \<longrightarrow> u \<le> due) \<and>
    (\<forall>cp. record_at (c_checkpoint E) (ct_db st) Kcron_checkpoints (workload_key (cr_tenant_id cron) (cr_cron_workload_id cron)) = Some cp \<longrightarrow>
      cp_last_triggered cp < due) \<and>
    record_at (c_checkpoint E) (ct_db st') Kcron_checkpoints (workload_key (cr_tenant_id cron) (cr_cron_workload_id cron)) =
      Some \<lparr>cp_tenant_id = cr_tenant_id cron, cp_cron_workload_id = cr_cron_workload_id cron, cp_last_triggered = due\<rparr> \<and>
    cr_template cron = Some template \<and>
    Option.bind (record_at (c_workload E) (ct_db st') Kworkloads
        (workload_key (cr_tenant_id cron) (cr_cron_workload_id cron @ ''-'' @ show_int due))) (\<lambda>r. dec (c_spec E) (wr_spec_bytes r)) =
      Some (template\<lparr>ws_workload_id := cr_cron_workload_id cron @ ''-'' @ show_int due, ws_tenant_id := cr_tenant_id cron\<rparr>) \<and>
    (\<forall>later. ok due \<longrightarrow> (\<forall>u\<in>S. due < u \<longrightarrow> later < u) \<longrightarrow>
      evaluate_and_trigger E cron_lib ok cw ds later cron st' = Some (st', Inr False))"
proof -
  let ?key = "workload_key (cr_tenant_id cron) (cr_cron_workload_id cron)"
  obtain cp due where open': "\<not> cs_suspend s"
    and cp: "load_checkpoint E (ct_db st) (cr_tenant_id cron) (cr_cron_workload_id cron) = Inr cp"
    and due: "latest_due nxt now None (case cp of Some c \<Rightarrow> cp_last_triggered c | None \<Rightarrow> now) = Some (Some due)"
    and run: "run_cron E cw ds cron due st = (st', Inr True)"
    using evaluate_and_trigger_cases[OF assms(6)] assms(3,4) by auto
  note cpr = load_checkpoint_Inr[OF cp]
  have d: "due \<in> S" "due \<le> now" "\<forall>u\<in>S. u \<le> now \<longrightarrow> u \<le> due"
    and fwd: "(case cp of Some c \<Rightarrow> cp_last_triggered c | None \<Rightarrow> now) < due"
    using latest_due_latest[OF assms(5) due] by (auto split: if_splits)
  obtain template where t: "cr_template cron = Some template"
    and rf: "db_read_fault (ct_db st') = db_read_fault (ct_db st)"
    and cp': "record_at (c_checkpoint E) (ct_db st') Kcron_checkpoints ?key =
      Some \<lparr>cp_tenant_id = cr_tenant_id cron, cp_cron_workload_id = cr_cron_workload_id cron, cp_last_triggered = due\<rparr>"
    and w: "Option.bind (record_at (c_workload E) (ct_db st') Kworkloads
        (workload_key (cr_tenant_id cron) (cr_cron_workload_id cron @ ''-'' @ show_int due))) (\<lambda>r. dec (c_spec E) (wr_spec_bytes r)) =
      Some (template\<lparr>ws_workload_id := cr_cron_workload_id cron @ ''-'' @ show_int due, ws_tenant_id := cr_tenant_id cron\<rparr>)"
    by (rule settled_writer.run_cron_effect[OF assms(1) run assms(2)]) (rule that)
  have "evaluate_and_trigger E cron_lib ok cw ds later cron st' = Some (st', Inr False)"
    if "ok due" "\<forall>u\<in>S. due < u \<longrightarrow> later < u" for later
  proof -
    obtain q where q: "latest_due nxt later None due = Some q"
      using latest_due_returns[of nxt later None due] schedule_of_later[OF assms(5)] by blast
    then have "q = None" using latest_due_latest[OF assms(5) q] that(2) by (auto split: if_splits)
    with q that(1) assms(3,4) open' load_checkpoint_Some[OF _ cp'] cpr rf show ?thesis
      by (simp add: evaluate_and_trigger_def bindE_def)
  qed
  then show ?thesis using d fwd t cp' w cpr by (intro exI[of _ due] exI[of _ template]) auto
qed


section \<open>Dead pods\<close>

text \<open>C31. The pod controller never changes a placement: it gives a dead pod's slot the identifier the
  pod already has, so that the placement of a dead pod stays what it was, and a missing placement
  stays missing.\<close>

theorem pod_tick_keeps_placements:
  assumes "settled_writer E td cw" "db_wf (ct_db st)"
    and "\<forall>key p. placement_at E (ct_db st) key = Some p \<longrightarrow>
      key = pl_pod_id p \<and> pl_pod_id p = pod_name (pl_service p) (pl_role p) (pl_ordinal p)"
  shows "placement_at E (ct_db (pod_tick E cw staleness now st)) = placement_at E (ct_db st)"
proof -
  let ?C = "\<lambda>c. \<exists>t w role n. c = ReassignPodId t w role n (pod_name w role n)"
  have "proposes ?C cw (ct_replica st) (ct_replica (pod_tick E cw staleness now st))"
    by (rule proposes_pod_tick) blast
  from settled_writer.proposes_keeps[OF assms(1) this assms(2), where P = "\<lambda>db. placement_at E db = placement_at E (ct_db st)"]
  show ?thesis
  proof (rule conjunct2)
    fix u a e u' x
    assume c: "?C (cmd a)" and e: "en_payload e = Normal a" "apply_entry E td u e = (u', Inr x)"
      and wf: "db_wf (rp_db u)" and same: "placement_at E (rp_db u) = placement_at E (ct_db st)"
    obtain t w role n where c: "cmd a = ReassignPodId t w role n (pod_name w role n)" using c by blast
    obtain b kind where b: "apply_command E (rp_db u) (cmd a) = Inr (b, kind)"
      and look: "\<And>k key. k \<notin> {Kversion, Kraft_state, Kaudit_log} \<Longrightarrow>
        lookup (rp_db u') k key = batch_get b k key (lookup (rp_db u) k key)"
      using command_effect[OF e(2,1) wf] by metis
    have named: "\<forall>key p. placement_at E (rp_db u) key = Some p \<longrightarrow>
      key = pl_pod_id p \<and> pl_pod_id p = pod_name (pl_service p) (pl_role p) (pl_ordinal p)"
      unfolding same by (rule assms(3))
    have "placement_at E (rp_db u') key = placement_at E (rp_db u) key" for key
      using look[of Kplacements key] reassign_same_id[OF raft_writer.codecs[OF settled_writer.axioms(1)[OF assms(1)]] wf named b[unfolded c], of key]
      by (simp add: record_at_def)
    then show "placement_at E (rp_db u') = placement_at E (ct_db st)" using same by auto
  qed simp
qed



section \<open>Leases\<close>

text \<open>A node that no stored record reports as expired keeps its record, whatever happens to the other
  nodes in the same tick and whichever writes fail.\<close>

lemma node_tick_spares_live:
  assumes "settled_writer E td cw" "db_wf (ct_db st)"
    and "\<And>rs rec. list_node_records E (ct_db st) = Inr rs \<Longrightarrow> rec \<in> set rs \<Longrightarrow> sp_parse E (nr_node_id rec) = Some node \<Longrightarrow> \<not> lease_expired timeout now rec"
  shows "node_at E (ct_db (node_tick E cw timeout ttl now st)) node = node_at E (ct_db st) node"
proof -
  let ?C = "\<lambda>c. case c of EvictNode m _ \<Rightarrow> m \<noteq> node | PruneExpiredRevokedSvids _ \<Rightarrow> True
    | RemovePlacement _ \<Rightarrow> True | RecordOrdinalAssignment _ \<Rightarrow> True | _ \<Rightarrow> False"
  have "proposes ?C cw (ct_replica st) (ct_replica (case list_node_records E (ct_db st) of
      Inl _ \<Rightarrow> st | Inr rs \<Rightarrow> foldl (check_lease E cw timeout ttl now) st rs))"
  proof (cases "list_node_records E (ct_db st)")
    case (Inr rs)
    have "proposes ?C cw (ct_replica st) (ct_replica (foldl (check_lease E cw timeout ttl now) st rs))"
      by (rule proposes_leases) (use assms(3)[OF Inr] in auto)
    then show ?thesis using Inr by simp
  qed (simp add: proposes.none)
  then have "proposes ?C cw (ct_replica st) (ct_replica (node_tick E cw timeout ttl now st))"
    by (auto simp: node_tick_def Let_def intro: proposes_trans[OF proposes_evict_tainted])
  from settled_writer.proposes_keeps[OF assms(1) this assms(2), where P = "\<lambda>db. node_at E db node = node_at E (ct_db st) node"]
  show ?thesis
  proof (rule conjunct2)
    fix u a e u' x
    assume c: "?C (cmd a)" and e: "en_payload e = Normal a" "apply_entry E td u e = (u', Inr x)"
      and wf: "db_wf (rp_db u)" and same: "node_at E (rp_db u) node = node_at E (ct_db st) node"
    obtain b kind where b: "apply_command E (rp_db u) (cmd a) = Inr (b, kind)"
      and look: "\<And>k key. k \<notin> {Kversion, Kraft_state, Kaudit_log} \<Longrightarrow>
        lookup (rp_db u') k key = batch_get b k key (lookup (rp_db u) k key)"
      using command_effect[OF e(2,1) wf] by metis
    have "batch_get b Knodes node old = old" for old
    proof (rule batch_get_untouched)
      show "(Knodes, node) \<notin> op_target ` set b"
        using c b
        by (auto simp: apply_command_def arm_defs result_simps to_allocvec_def insert_record_def revoke_ops_def Let_def
            split: fleetos_command.splits option.splits)
    qed
    then show "node_at E (rp_db u') node = node_at E (ct_db st) node" using look[of Knodes node] same by (simp add: record_at_def)
  qed simp
qed


section \<open>Lost pods\<close>

text \<open>C29. A pod that lost its placement is never placed again by the leader: once a slot has a record
  but no placement (after an eviction, a preemption, a drain or a resize), it stays so through every
  sequence of ticks of the workload, pod, node, cron and autoscaling controllers, in any order and
  whichever writes fail.\<close>

theorem lost_pod_never_returns:
  assumes "settled_writer E td cw" "(leader_tick E F cw)\<^sup>*\<^sup>* L L'"
    and "db_wf (ct_db (ld_ctrl L))" "lost_pod E (ct_db (ld_ctrl L)) t s r n"
  shows "lost_pod E (ct_db (ld_ctrl L')) t s r n"
proof -
  from assms(2) have "db_wf (ct_db (ld_ctrl L')) \<and> lost_pod E (ct_db (ld_ctrl L')) t s r n"
  proof (induction rule: rtranclp_induct)
    case (step M M')
    then show ?case using settled_writer.tick_keeps_lost[OF assms(1) step.hyps(2)] by blast
  qed (use assms(3,4) in simp)
  then show ?thesis ..
qed


section \<open>The leader gate\<close>

fun gate_run :: "leader_gate \<Rightarrow> gate_event list \<Rightarrow> leader_gate option" where
  "gate_run g [] = Some g"
| "gate_run g (ev # evs) = Option.bind (gate_step g ev) (\<lambda>g'. gate_run g' evs)"

text \<open>Whatever the gate observes, one set of controllers runs while it takes itself for the leader, and
  none otherwise.\<close>

lemma gate_active:
  "gate_run g evs = Some g' \<Longrightarrow> lgt_active g = (if lgt_is_leader g then 1 else 0) \<Longrightarrow>
     lgt_active g' = (if lgt_is_leader g' then 1 else 0)"
proof (induction evs arbitrary: g)
  case (Cons ev evs)
  then obtain h where h: "gate_step g ev = Some h" "gate_run h evs = Some g'" by (auto simp: bind_eq_Some_conv)
  have "lgt_active h = (if lgt_is_leader h then 1 else 0)"
    using h(1) Cons.prems(2) by (auto simp: gate_step_def split: gate_event.splits if_splits)
  then show ?case by (rule Cons.IH[OF h(2)])
qed simp

lemma gate_start_active: "gate_run gate_start evs = Some g \<Longrightarrow> lgt_active g \<le> 1 \<and> (lgt_active g = 1 \<longleftrightarrow> lgt_is_leader g)"
  using gate_active[of gate_start evs g] by (simp add: gate_start_def split: if_splits)



section \<open>Examples\<close>

definition ex_cron :: cron_workload where
  "ex_cron = \<lparr>cr_tenant_id = ''acme'', cr_cron_workload_id = ''job'',
     cr_schedule = Some \<lparr>cs_expression = ''0 * * * * *'', cs_suspend = False, cs_rest = []\<rparr>,
     cr_template = Some \<lparr>ws_tenant_id = [], ws_workload_id = [], ws_image = ''img'', ws_replicas = [],
      ws_pod_spec = None, ws_budgets = [], ws_placement = 0, ws_autoscaling = None, ws_vertical = None, ws_rest = []\<rparr>,
     cr_rest = []\<rparr>"

definition every_minute :: "int \<Rightarrow> int option" where
  "every_minute s = Some (60 * (s div 60) + 60)"

lemma every_minute_schedule: "schedule_of every_minute {t. 60 dvd t}"
proof -
  have "60 * (s div 60) + 60 \<le> u" if "60 dvd u" "s < u" for s u :: int using that by presburger
  moreover have "s < 60 * (s div 60) + 60" for s :: int by presburger
  ultimately show ?thesis by (simp add: schedule_of_def every_minute_def)
qed

lemma reconcile_idle:
  assumes "db_healthy (ct_db st)" "ws_replicas spec = []"
  shows "reconcile E cw ds spec st = (st, Inr ())"
proof -
  obtain cs where "build_cluster_state E (ct_db st) = Inr cs"
    using assms(1) by (auto simp: build_cluster_state_def list_node_records_def list_placements_def read_taints_def
        list_records_def kv_prefix_def db_healthy_def bindE_def)
  then show ?thesis
    using assms(2) by (simp add: reconcile_def reconcile_all_def collect_pending_def spec_slots_def ordered_replicas_def
        bindE_def order_pending_def thenM_def allocate_service_addresses_def)
qed

lemma ex_write_effect:
  assumes "self_addressed PE c" "\<not> raw_scheduler_write c" "replica_inv PE (rp_db s)" "db_healthy (rp_db s)"
  obtains s' e r where "local_write PE ''f'' s (system_command c) = (s', Inr r)" "replica_inv PE (rp_db s')" "db_healthy (rp_db s')"
    "en_payload e = Normal (system_command c)" "apply_entry PE ''f'' s e = (s', Inr r)"
  using local_write_progress[OF postcard_env_ok assms(3,4), of "system_command c" "''f''"] assms(1,2)
    single.applies[of "''f''" s "system_command c"]
  by (fastforce simp: system_command_def)

lemma submit_cron_checkpoint:
  assumes "env_ok E" "db_wf (rp_db s)" "apply_entry E td s e = (s', Inr r)"
    and "en_payload e = Normal a" "cmd a = SubmitCronWorkload w cp"
  shows "record_at (c_checkpoint E) (rp_db s') Kcron_checkpoints (workload_key (cp_tenant_id cp) (cp_cron_workload_id cp)) = Some cp"
proof -
  obtain b kind where b: "apply_command E (rp_db s) (cmd a) = Inr (b, kind)"
    and look: "\<And>k key. k \<notin> {Kversion, Kraft_state, Kaudit_log} \<Longrightarrow>
      lookup (rp_db s') k key = batch_get b k key (lookup (rp_db s) k key)"
    using command_effect[OF assms(3,4,2)] by metis
  obtain v v' where v: "enc (c_checkpoint E) cp = Some v"
    "b = [Put Kworkloads (cron_key (cw_tenant_id w) (cw_cron_workload_id w)) v',
      Put Kcron_checkpoints (workload_key (cp_tenant_id cp) (cp_cron_workload_id cp)) v]"
    using b assms(5) by (auto simp: apply_command_def arm_defs result_simps to_allocvec_def)
  show ?thesis using look[of Kcron_checkpoints] v codec_ok_dec[OF records_codecs(6)[OF assms(1)] v(1)] by (simp add: record_at_def)
qed

lemma ex_run_cron:
  assumes "replica_inv PE (ct_db st)" "db_healthy (ct_db st)"
  obtains st' where "run_cron PE (local_write PE ''f'') new_scheduler ex_cron due st = (st', Inr True)"
proof -
  define spec where "spec = (the (cr_template ex_cron))\<lparr>ws_workload_id := ''job-'' @ show_int due, ws_tenant_id := ''acme''\<rparr>"
  let ?c = "TriggerCronWorkload \<lparr>wr_tenant_id = ws_tenant_id spec, wr_workload_id = ws_workload_id spec,
                wr_spec_bytes = or_empty (enc (c_spec PE) spec), wr_last_applied = []\<rparr>
      \<lparr>cp_tenant_id = ''acme'', cp_cron_workload_id = ''job'', cp_last_triggered = due\<rparr>"
  obtain s' r where w: "local_write PE ''f'' (ct_replica st) (system_command ?c) = (s', Inr r)" "db_healthy (rp_db s')"
    by (rule ex_write_effect[of ?c "ct_replica st"]) (auto simp: self_addressed_def raw_scheduler_write_def assms)
  then have "client_write (local_write PE ''f'') st ?c = (st\<lparr>ct_replica := s'\<rparr>, Inr ())" by (simp add: client_write_def)
  moreover have "reconcile PE (local_write PE ''f'') new_scheduler spec (st\<lparr>ct_replica := s'\<rparr>) = (st\<lparr>ct_replica := s'\<rparr>, Inr ())"
    using w(2) by (intro reconcile_idle) (simp_all add: spec_def ex_cron_def)
  ultimately have "run_cron PE (local_write PE ''f'') new_scheduler ex_cron due st = (st\<lparr>ct_replica := s'\<rparr>, Inr True)"
    unfolding run_cron_def by (simp add: ex_cron_def spec_def thenM_def Let_def)
  then show ?thesis by (rule that)
qed

theorem cron_runs_latest_witness:
  "\<exists>st st'. evaluate_and_trigger PE (\<lambda>_. Some every_minute) (\<lambda>_. True) (local_write PE ''f'') new_scheduler 1000 ex_cron st = Some (st', Inr True) \<and>
     record_at (c_checkpoint PE) (ct_db st') Kcron_checkpoints ''acme:job'' =
       Some \<lparr>cp_tenant_id = ''acme'', cp_cron_workload_id = ''job'', cp_last_triggered = 960\<rparr> \<and>
     evaluate_and_trigger PE (\<lambda>_. Some every_minute) (\<lambda>_. True) (local_write PE ''f'') new_scheduler 1019 ex_cron st' = Some (st', Inr False)"
proof -
  let ?cp = "\<lparr>cp_tenant_id = ''acme'', cp_cron_workload_id = ''job'', cp_last_triggered = 0\<rparr>"
  let ?c = "SubmitCronWorkload \<lparr>cw_tenant_id = ''acme'', cw_cron_workload_id = ''job'', cw_schedule = [], cw_spec_bytes = []\<rparr> ?cp"
  obtain s1 e r where s1: "replica_inv PE (rp_db s1)" "db_healthy (rp_db s1)"
    and e: "en_payload e = Normal (system_command ?c)" "apply_entry PE ''f'' fresh e = (s1, Inr r)"
    by (rule ex_write_effect[of ?c fresh]) (auto simp: self_addressed_def raw_scheduler_write_def start_inv)
  define st where "st = \<lparr>ct_replica = s1, ct_events = []\<rparr>"
  have st: "db_wf (ct_db st)" "db_healthy (ct_db st)" "replica_inv PE (ct_db st)"
    using s1 by (simp_all add: replica_inv_def st_def)
  have cp: "record_at (c_checkpoint PE) (ct_db st) Kcron_checkpoints (workload_key ''acme'' ''job'') = Some ?cp"
    using submit_cron_checkpoint[OF postcard_env_ok _ e(2,1), of _ ?cp] start_inv(1)
    by (simp add: st_def system_command_def replica_inv_def)
  have load: "load_checkpoint PE (ct_db st) ''acme'' ''job'' = Inr (Some ?cp)"
    using st(2) by (intro load_checkpoint_Some cp) (simp add: db_healthy_def)
  obtain q where q: "latest_due every_minute 1000 None 0 = Some q"
    using latest_due_returns[OF schedule_of_later[OF every_minute_schedule]] by blast
  have "\<exists>u\<in>{t. 60 dvd t}. (0::int) < u \<and> u \<le> 1000" by (rule bexI[of _ 60]) auto
  then obtain due where due: "latest_due every_minute 1000 None 0 = Some (Some due)"
    using latest_due_latest[OF every_minute_schedule q] q by auto
  obtain st' where run: "run_cron PE (local_write PE ''f'') new_scheduler ex_cron due st = (st', Inr True)"
    by (rule ex_run_cron[OF st(3,2)])
  have eval: "evaluate_and_trigger PE (\<lambda>_. Some every_minute) (\<lambda>_. True) (local_write PE ''f'') new_scheduler 1000 ex_cron st = Some (st', Inr True)"
    using load due run by (simp add: evaluate_and_trigger_def bindE_def ex_cron_def)
  have s: "cr_schedule ex_cron = Some \<lparr>cs_expression = ''0 * * * * *'', cs_suspend = False, cs_rest = []\<rparr>" by (simp add: ex_cron_def)
  note res' = cron_runs_latest[OF settled.settled_writer_axioms st(1) s refl every_minute_schedule eval]
  obtain d where d: "60 dvd d" "d \<le> 1000" "\<forall>u\<in>{t. 60 dvd t}. u \<le> 1000 \<longrightarrow> u \<le> d"
    "record_at (c_checkpoint PE) (ct_db st') Kcron_checkpoints (workload_key (cr_tenant_id ex_cron) (cr_cron_workload_id ex_cron)) =
      Some \<lparr>cp_tenant_id = cr_tenant_id ex_cron, cp_cron_workload_id = cr_cron_workload_id ex_cron, cp_last_triggered = d\<rparr>"
    "\<And>later. \<forall>u\<in>{t. 60 dvd t}. d < u \<longrightarrow> later < u \<Longrightarrow>
      evaluate_and_trigger PE (\<lambda>_. Some every_minute) (\<lambda>_. True) (local_write PE ''f'') new_scheduler later ex_cron st' = Some (st', Inr False)"
    using res' by blast
  have "960 \<le> d" using d(3) by simp
  then have "d = 960" using d(1,2) by presburger
  moreover have "\<forall>u\<in>{t. 60 dvd t}. (960::int) < u \<longrightarrow> 1019 < u" by auto
  ultimately show ?thesis using eval d(4,5) by (intro exI[of _ st] exI[of _ st']) (simp add: ex_cron_def workload_key_def)
qed


text \<open>A pod on record in its slot, under the name the workload controller gives it.\<close>

definition ex_pod :: placement where
  "ex_pod = \<lparr>pl_pod_id = pod_name ''web'' ''r'' 0, pl_tenant_id = ''t'', pl_service = ''web'', pl_role = ''r'', pl_ordinal = 0,
     pl_node_id = node_a, pl_resources = res_zero\<rparr>"

lemma record_at_lookup: "record_at c db k key = Some x \<Longrightarrow> \<exists>v. lookup db k key = Some v"
  by (auto simp: record_at_def bind_eq_Some_conv)

lemma fresh_placements: "placement_at PE (rp_db fresh) key = None" "db_wf (rp_db fresh)"
  by (simp_all add: start_replica_def record_at_def empty_db_def db_wf_def om_wf_def)

theorem pod_tick_keeps_placements_witness:
  "\<exists>st. placement_at PE (ct_db st) (pl_pod_id ex_pod) = Some ex_pod \<and>
     placement_at PE (ct_db (pod_tick PE (local_write PE ''f'') 60 1000 st)) (pl_pod_id ex_pod) = Some ex_pod"
proof -
  obtain s1 e r where s1: "replica_inv PE (rp_db s1)"
    and e: "en_payload e = Normal (system_command (CommitPlacement ex_pod))" "apply_entry PE ''f'' fresh e = (s1, Inr r)"
    by (rule ex_write_effect[of "CommitPlacement ex_pod" fresh]) (auto simp: self_addressed_def raw_scheduler_write_def start_inv)
  define st where "st = \<lparr>ct_replica = s1, ct_events = []\<rparr>"
  have at: "placement_at PE (ct_db st) pid = (if pid = pl_pod_id ex_pod then Some ex_pod else None)" for pid
    using commit_placement_effect[OF postcard_env_ok fresh_placements(2) e(2,1), of ex_pod pid]
    by (simp add: st_def system_command_def fresh_placements(1))
  have "placement_at PE (ct_db (pod_tick PE (local_write PE ''f'') 60 1000 st)) = placement_at PE (ct_db st)"
  proof (rule pod_tick_keeps_placements[OF settled.settled_writer_axioms])
    show "db_wf (ct_db st)" using s1 by (simp add: st_def replica_inv_def)
  qed (auto simp: at ex_pod_def)
  then show ?thesis using at[of "pl_pod_id ex_pod"] by (intro exI[of _ st]) simp
qed

definition ex_config :: controller_config where
  "ex_config = \<lparr>cc_scheduler = new_scheduler, cc_guard = (\<lambda>_ _ _ _ _ _. Inr ()), cc_cron = (\<lambda>_. Some every_minute),
     cc_datetime_ok = (\<lambda>_. True), cc_lease_timeout = 60, cc_node_ttl = 3600, cc_staleness = 60\<rparr>"

theorem lost_pod_never_returns_witness:
  "\<exists>(L :: leader) L'. L' = L\<lparr>ld_ctrl := pod_tick PE (local_write PE ''f'') 60 1000 (workload_tick PE (local_write PE ''f'') new_scheduler (ld_ctrl L))\<rparr> \<and>
     lost_pod PE (ct_db (ld_ctrl L)) ''t'' ''web'' ''r'' 0 \<and> lost_pod PE (ct_db (ld_ctrl L')) ''t'' ''web'' ''r'' 0"
proof -
  let ?o = "freed_slot ''t'' ''web'' ''r'' 0" and ?w = "local_write PE ''f''"
  obtain s1 e r where s1: "replica_inv PE (rp_db s1)"
    and e: "en_payload e = Normal (system_command (RecordOrdinalAssignment ?o))" "apply_entry PE ''f'' fresh e = (s1, Inr r)"
    by (rule ex_write_effect[of "RecordOrdinalAssignment ?o" fresh]) (auto simp: self_addressed_def raw_scheduler_write_def start_inv)
  define L where "L = \<lparr>ld_ctrl = \<lparr>ct_replica = s1, ct_events = []\<rparr>, ld_hpa_since = [], ld_vpa_since = []\<rparr>"
  note slot = record_slot_effect[OF postcard_env_ok fresh_placements(2) e(2,1), of ?o]
  have lost: "lost_pod PE (ct_db (ld_ctrl L)) ''t'' ''web'' ''r'' 0"
    using slot(1) slot(2) by (auto simp: lost_pod_def L_def system_command_def fresh_placements(1) freed_slot_def dest: record_at_lookup)
  let ?M = "L\<lparr>ld_ctrl := workload_tick PE ?w (cc_scheduler ex_config) (ld_ctrl L)\<rparr>"
  have "leader_tick PE ex_config ?w L ?M" by (rule leader_tick.workloads)
  moreover have "leader_tick PE ex_config ?w ?M (?M\<lparr>ld_ctrl := pod_tick PE ?w (cc_staleness ex_config) 1000 (ld_ctrl ?M)\<rparr>)"
    by (rule leader_tick.pods)
  ultimately have "(leader_tick PE ex_config ?w)\<^sup>*\<^sup>* L (?M\<lparr>ld_ctrl := pod_tick PE ?w (cc_staleness ex_config) 1000 (ld_ctrl ?M)\<rparr>)" by auto
  from lost_pod_never_returns[OF settled.settled_writer_axioms this _ lost]
  have after: "lost_pod PE (ct_db (pod_tick PE ?w 60 1000 (workload_tick PE ?w new_scheduler (ld_ctrl L)))) ''t'' ''web'' ''r'' 0"
    using s1 by (simp add: L_def ex_config_def replica_inv_def)
  show ?thesis by (rule exI[of _ L]) (use lost after in simp)
qed

text \<open>A node that was heard of ten seconds ago, and one that was not for a long time.\<close>

definition ex_seen :: "string \<Rightarrow> int \<Rightarrow> node_record" where
  "ex_seen node t = (ex_node node ''z'')\<lparr>nr_last_heartbeat := t\<rparr>"

lemma register_effect:
  assumes "env_ok E" "db_wf (rp_db s)" "apply_entry E td s e = (s', Inr r)" "en_payload e = Normal a" "cmd a = RegisterNode x"
  shows "node_at E (rp_db s') n = (if n = nr_node_id x then Some x else node_at E (rp_db s) n)"
proof -
  obtain b kind where b: "apply_command E (rp_db s) (cmd a) = Inr (b, kind)"
    and look: "\<And>k key. k \<notin> {Kversion, Kraft_state, Kaudit_log} \<Longrightarrow>
      lookup (rp_db s') k key = batch_get b k key (lookup (rp_db s) k key)"
    using command_effect[OF assms(3,4,2)] by metis
  obtain v where v: "enc (c_node E) x = Some v" "b = [Put Knodes (nr_node_id x) v]"
    using b assms(5) by (auto simp: apply_command_def arm_defs sm_Inr)
  show ?thesis using look[of Knodes n] v(2) codec_ok_dec[OF records_codecs(16)[OF assms(1)] v(1)] by (simp add: record_at_def)
qed

end
