(* ===== verification/WatchTheorems.thy ===== *)
theory WatchTheorems
  imports WatchServices ControllerTheorems AdminFacts
begin

text \<open>
  Properties of the services for agents: the event store keeps its limits, reports of events are
  accepted as a whole and for the reporting node only, a heartbeat keeps the lease, delivered secrets
  carry increasing numbers, and both ways to a delegated key issue the same delegation.
\<close>


section \<open>The event store\<close>

definition stored :: "(string \<times> pod_event list) list \<Rightarrow> nat" where
  "stored pods = sum_list (map (length \<circ> snd) pods)"

definition pod_events_ok :: "string \<Rightarrow> pod_event list \<Rightarrow> bool" where
  "pod_events_ok pod es \<longleftrightarrow>
     es \<noteq> [] \<and> length es \<le> MAX_EVENTS_PER_POD \<and> distinct (map (\<lambda>e. (pe_event_type e, pe_reason e)) es) \<and>
     (\<forall>e\<in>set es. pe_pod_id e = pod)"

definition events_ok :: "pod_event_store \<Rightarrow> bool" where
  "events_ok st \<longleftrightarrow>
     om_wf (ev_pods st) \<and> (\<forall>pod es. om_get (ev_pods st) pod = Some es \<longrightarrow> pod_events_ok pod es) \<and>
     ev_total st = stored (ev_pods st)"

lemma stored_Cons [simp]: "stored ((k, es) # m) = length es + stored m"
  by (simp add: stored_def)

lemma stored_put:
  "om_wf m \<Longrightarrow> stored (om_put k es m) + (case om_get m k of Some old \<Rightarrow> length old | None \<Rightarrow> 0) = length es + stored m"
proof (induction k es m rule: om_put.induct)
  case (2 k v a b m)
  have "k < a \<Longrightarrow> om_get m k = None" using 2(2) by (auto simp: om_wf_Cons om_get_None_iff)
  then show ?case using 2 by (auto simp: om_wf_Cons split: option.splits)
qed (simp add: stored_def)

lemma stored_del: "om_get m k = Some es \<Longrightarrow> stored (om_del k m) + length es = stored m"
  by (induction m) (auto split: if_splits)

lemma coalesce_Some:
  "coalesce e es = Some es' \<Longrightarrow>
     length es' = length es \<and> map (\<lambda>e. (pe_event_type e, pe_reason e)) es' = map (\<lambda>e. (pe_event_type e, pe_reason e)) es \<and>
     map pe_pod_id es' = map pe_pod_id es"
  by (induction es arbitrary: es') (auto simp: merge_event_def split: if_splits)

lemma coalesce_None:
  "coalesce e es = None \<Longrightarrow> (pe_event_type e, pe_reason e) \<notin> (\<lambda>e. (pe_event_type e, pe_reason e)) ` set es"
  by (induction es) (auto simp: same_event_def split: if_splits)

lemma pop_to_cap_suffix: "\<exists>ys. es = ys @ pop_to_cap es"
proof (induction es)
  case (Cons x es)
  then obtain ys where "es = ys @ pop_to_cap es" by blast
  then have "x # es = (x # ys) @ pop_to_cap es" by simp
  then have "\<exists>zs. x # es = zs @ pop_to_cap es" by blast
  then show ?case by (cases "length (x # es) > MAX_EVENTS_PER_POD") simp_all
qed simp

lemma pop_to_cap_length: "length (pop_to_cap es) \<le> MAX_EVENTS_PER_POD"
  by (induction es) auto

lemma pop_to_cap_nonempty: "es \<noteq> [] \<Longrightarrow> pop_to_cap es \<noteq> []"
proof (induction es)
  case (Cons x xs)
  then show ?case by (cases xs) (auto simp: MAX_EVENTS_PER_POD_def)
qed simp

lemma oldest_front_step:
  fixes best :: "(string \<times> int) option"
  assumes "\<And>pod t. best = Some (pod, t) \<Longrightarrow> \<exists>es. (pod, es) \<in> set all \<and> es \<noteq> []" "set pods \<subseteq> set all"
    and "foldl (\<lambda>best (pod_id, es). case es of [] \<Rightarrow> best
       | front # _ \<Rightarrow> (case best of None \<Rightarrow> Some (pod_id, pe_timestamp front)
            | Some (_, ts) \<Rightarrow> if pe_timestamp front < ts then Some (pod_id, pe_timestamp front) else best)) best pods = Some (pod, t)"
  shows "\<exists>es. (pod, es) \<in> set all \<and> es \<noteq> []"
  using assms
proof (induction pods arbitrary: best)
  case (Cons p pods)
  obtain k es where p: "p = (k, es)" by fastforce
  show ?case
    by (rule Cons.IH[OF _ _ Cons.prems(3)[simplified p foldl_Cons]])
       (use Cons.prems(1,2) p in \<open>auto split: list.splits option.splits if_splits\<close>)
qed auto

lemma oldest_front_Some:
  "oldest_front pods = Some (pod, t) \<Longrightarrow> \<exists>es. (pod, es) \<in> set pods \<and> es \<noteq> []"
  using oldest_front_step[of None pods pods pod t] by (simp add: oldest_front_def)

lemma oldest_front_None: "oldest_front pods = None \<Longrightarrow> stored pods = 0"
proof -
  have "(\<forall>(k, es)\<in>set pods. es = []) \<and> best = None"
    if "foldl (\<lambda>best (pod_id, es). case es of [] \<Rightarrow> best
       | front # _ \<Rightarrow> (case best of None \<Rightarrow> Some (pod_id, pe_timestamp front)
            | Some (_, ts) \<Rightarrow> if pe_timestamp front < ts then Some (pod_id, pe_timestamp front) else best)) best pods = None" for best
    using that
  proof (induction pods arbitrary: best)
    case (Cons p pods)
    obtain k es where p: "p = (k, es)" by fastforce
    show ?case using Cons.IH[OF Cons.prems[simplified p foldl_Cons]] p by (auto split: list.splits option.splits if_splits prod.splits)
  qed simp
  from this[of None] show "oldest_front pods = None \<Longrightarrow> stored pods = 0"
    by (auto simp: oldest_front_def stored_def)
qed

lemma pop_front_ok:
  assumes "events_ok st" "oldest_front (ev_pods st) = Some (pod, t)"
  shows "events_ok (st\<lparr>ev_pods := pop_front pod (ev_pods st), ev_total := ev_total st - 1\<rparr>)"
proof -
  have wf: "om_wf (ev_pods st)" using assms(1) by (simp add: events_ok_def)
  obtain es where es: "om_get (ev_pods st) pod = Some es" "es \<noteq> []"
    using oldest_front_Some[OF assms(2)] wf by (auto simp: om_mem_get)
  have ok: "pod_events_ok pod es" using es(1) assms(1) by (simp add: events_ok_def)
  have pos: "0 < length es" using es(2) by simp
  show ?thesis
  proof (cases "tl es = []")
    case True
    then have "length es = 1" using es(2) by (cases es) auto
    then show ?thesis
      using assms(1) True es stored_del[OF es(1)] by (auto simp: events_ok_def pop_front_def om_get_del)
  next
    case False
    have "pod_events_ok pod (tl es)" using ok False by (cases es) (auto simp: pod_events_ok_def)
    moreover have "stored (om_put pod (tl es) (ev_pods st)) = stored (ev_pods st) - 1"
      using stored_put[OF wf, of pod "tl es"] es(1) pos by simp
    ultimately show ?thesis using assms(1) False es by (auto simp: events_ok_def pop_front_def)
  qed
qed

lemma evict_to_cap_ok: "events_ok st \<Longrightarrow> events_ok (evict_to_cap st) \<and> ev_total (evict_to_cap st) \<le> MAX_EVENTS"
proof (induction st rule: evict_to_cap.induct)
  case (1 st)
  show ?case
  proof (cases "ev_total st \<le> MAX_EVENTS")
    case True
    then have "evict_to_cap st = st" by (subst evict_to_cap.simps) simp
    then show ?thesis using 1(2) True by simp
  next
    case False
    then have "stored (ev_pods st) \<noteq> 0" using 1(2) by (simp add: events_ok_def)
    then have "oldest_front (ev_pods st) \<noteq> None" using oldest_front_None[of "ev_pods st"] by metis
    then obtain pod t where o': "oldest_front (ev_pods st) = Some (pod, t)" by auto
    have "evict_to_cap st = evict_to_cap (st\<lparr>ev_pods := pop_front pod (ev_pods st), ev_total := ev_total st - 1\<rparr>)"
      using False o' by (subst evict_to_cap.simps) simp
    then show ?thesis using 1(1)[OF False o' refl pop_front_ok[OF 1(2) o']] by simp
  qed
qed

lemma insert_event_ok:
  assumes "events_ok st" "ev_total st \<le> MAX_EVENTS"
  shows "events_ok (insert_event e st) \<and> ev_total (insert_event e st) \<le> MAX_EVENTS"
proof -
  define es where "es = (case om_get (ev_pods st) (pe_pod_id e) of Some es \<Rightarrow> es | None \<Rightarrow> [])"
  have wf: "om_wf (ev_pods st)" and total': "ev_total st = stored (ev_pods st)" using assms(1) by (simp_all add: events_ok_def)
  have es: "es = [] \<or> pod_events_ok (pe_pod_id e) es"
    using assms(1) by (cases "om_get (ev_pods st) (pe_pod_id e)") (simp_all add: es_def events_ok_def)
  have put: "stored (om_put (pe_pod_id e) xs (ev_pods st)) + length es = length xs + stored (ev_pods st)" for xs
    using stored_put[OF wf, of "pe_pod_id e" xs] by (cases "om_get (ev_pods st) (pe_pod_id e)") (simp_all add: es_def)
  show ?thesis
  proof (cases "coalesce e es")
    case (Some es')
    then have "es \<noteq> []" by (cases es) simp_all
    note c = coalesce_Some[OF Some]
    have old: "pod_events_ok (pe_pod_id e) es" using es \<open>es \<noteq> []\<close> by simp
    have "pe_pod_id (es' ! i) = pe_pod_id e" if "i < length es'" for i
    proof -
      have l: "length es' = length es" using c by simp
      have "map pe_pod_id es' ! i = map pe_pod_id es ! i" using c by simp
      then have "pe_pod_id (es' ! i) = pe_pod_id (es ! i)" using that l by simp
      then show ?thesis using old that l by (simp add: pod_events_ok_def)
    qed
    then have "\<forall>x\<in>set es'. pe_pod_id x = pe_pod_id e" by (simp add: all_set_conv_all_nth)
    moreover have "es' \<noteq> []" using c \<open>es \<noteq> []\<close> by (cases es; cases es') simp_all
    moreover have "length es' \<le> MAX_EVENTS_PER_POD" "distinct (map (\<lambda>e. (pe_event_type e, pe_reason e)) es')"
      using c old by (simp_all add: pod_events_ok_def)
    ultimately have "pod_events_ok (pe_pod_id e) es'" by (simp add: pod_events_ok_def)
    moreover have "stored (om_put (pe_pod_id e) es' (ev_pods st)) = stored (ev_pods st)" using put[of es'] c by simp
    ultimately show ?thesis
      using assms Some by (simp add: insert_event_def es_def[symmetric] events_ok_def)
  next
    case None
    define es' where "es' = pop_to_cap (es @ [e])"
    obtain ys where ys: "es @ [e] = ys @ es'" using pop_to_cap_suffix[of "es @ [e]"] es'_def by blast
    have d: "distinct (map (\<lambda>e. (pe_event_type e, pe_reason e)) (es @ [e]))" "\<forall>x\<in>set (es @ [e]). pe_pod_id x = pe_pod_id e"
      using es coalesce_None[OF None] by (auto simp: pod_events_ok_def)
    have "distinct (map (\<lambda>e. (pe_event_type e, pe_reason e)) es')" "\<forall>x\<in>set es'. pe_pod_id x = pe_pod_id e"
      using d unfolding ys by simp_all
    moreover have "es' \<noteq> []" "length es' \<le> MAX_EVENTS_PER_POD"
      using pop_to_cap_length[of "es @ [e]"] pop_to_cap_nonempty[of "es @ [e]"] by (simp_all add: es'_def)
    ultimately have ok: "pod_events_ok (pe_pod_id e) es'" by (simp add: pod_events_ok_def)
    let ?st = "st\<lparr>ev_pods := om_put (pe_pod_id e) es' (ev_pods st), ev_total := ev_total st + 1 - (length es + 1 - length es')\<rparr>"
    have len: "length es' \<le> length es + 1" using arg_cong[OF ys, of length] by simp
    have "length es \<le> stored (ev_pods st)"
      using put[of "[]"] by simp
    then have "events_ok ?st"
      using assms(1) ok put[of es'] len total' by (auto simp: events_ok_def)
    then show ?thesis
      using None evict_to_cap_ok[of ?st] by (auto simp: insert_event_def es_def[symmetric] es'_def[symmetric] Let_def)
  qed
qed

lemma sweep_ok:
  assumes "events_ok st" "ev_total st \<le> MAX_EVENTS"
  shows "events_ok (sweep_expired_events now st) \<and> ev_total (sweep_expired_events now st) \<le> MAX_EVENTS"
proof -
  define keep :: "pod_event list \<Rightarrow> pod_event list" where "keep = filter (\<lambda>e. pe_timestamp e \<ge> max (now - TTL_SECS) 0)"
  define swept where "swept m = filter (\<lambda>(_, es). es \<noteq> []) (map (\<lambda>(pod_id, es). (pod_id, keep es)) m)" for m :: "(string \<times> pod_event list) list"
  have wf: "om_wf (ev_pods st)" using assms(1) by (simp add: events_ok_def)
  have keys: "fst ` set (swept m) \<subseteq> fst ` set m" for m by (force simp: swept_def)
  have wf': "om_wf (swept m)" if "om_wf m" for m
    using that
  proof (induction m)
    case (Cons p m)
    then show ?case using keys[of m] by (cases p) (auto simp: om_wf_Cons swept_def)
  qed (simp add: swept_def)
  have le: "stored (swept m) \<le> stored m" for m
    by (induction m) (auto simp: swept_def stored_def keep_def intro: add_mono order_trans[OF length_filter_le])
  have "pod_events_ok pod es" if got: "om_get (swept (ev_pods st)) pod = Some es" for pod es
  proof -
    obtain old where old: "(pod, old) \<in> set (ev_pods st)" "es = keep old" "es \<noteq> []"
      using om_get_Some_mem[OF got] by (auto simp: swept_def)
    then have "pod_events_ok pod old" using assms(1) wf by (simp add: events_ok_def om_mem_get)
    then show ?thesis
      using old(2,3) by (auto simp: pod_events_ok_def keep_def distinct_map_filter intro: order_trans[OF length_filter_le])
  qed
  moreover have "sweep_expired_events now st = \<lparr>ev_pods = swept (ev_pods st), ev_total = stored (swept (ev_pods st))\<rparr>"
    by (simp add: sweep_expired_events_def resync_total_def swept_def keep_def stored_def Let_def)
  ultimately show ?thesis
    using wf'[OF wf] le[of "ev_pods st"] assms by (simp add: events_ok_def)
qed

datatype store_op = Insert_op pod_event | Sweep_op int

fun store_step :: "pod_event_store \<Rightarrow> store_op \<Rightarrow> pod_event_store" where
  "store_step st (Insert_op e) = insert_event e st"
| "store_step st (Sweep_op now) = sweep_expired_events now st"

text \<open>C32. However events arrive and are swept, the leader's event store holds at most ten thousand events,
  at most a hundred per pod, no two of one pod with the same type and reason, and its counter is the
  number of stored events; the eviction loop always ends.\<close>

theorem event_store_bounded:
  "let st = foldl store_step \<lparr>ev_pods = [], ev_total = 0\<rparr> steps in
     ev_total st = sum_list (map (length \<circ> snd) (ev_pods st)) \<and> ev_total st \<le> 10000 \<and> distinct (map fst (ev_pods st)) \<and>
     (\<forall>pod es. om_get (ev_pods st) pod = Some es \<longrightarrow>
        length es \<le> 100 \<and> distinct (map (\<lambda>e. (pe_event_type e, pe_reason e)) es) \<and> (\<forall>e\<in>set es. pe_pod_id e = pod))"
proof -
  have "events_ok (foldl store_step st steps) \<and> ev_total (foldl store_step st steps) \<le> MAX_EVENTS"
    if "events_ok st" "ev_total st \<le> MAX_EVENTS" for st
    using that
  proof (induction steps arbitrary: st)
    case (Cons x steps)
    then show ?case using insert_event_ok[of st] sweep_ok[of st] by (cases x) simp_all
  qed simp
  from this[of "\<lparr>ev_pods = [], ev_total = 0\<rparr>"] show ?thesis
    by (simp add: events_ok_def stored_def pod_events_ok_def MAX_EVENTS_def MAX_EVENTS_PER_POD_def Let_def om_wf_distinct)
qed

definition ex_event :: "string \<Rightarrow> pod_event" where
  "ex_event node = \<lparr>pe_pod_id = ''web-r-0'', pe_node_id = node, pe_event_type = ''Started'', pe_reason = [], pe_message = Text [],
     pe_timestamp = 0, pe_count = 0\<rparr>"

theorem event_store_bounded_witness:
  "let st = foldl store_step \<lparr>ev_pods = [], ev_total = 0\<rparr> [Insert_op (ex_event ''n''), Insert_op (ex_event ''n''), Sweep_op 9] in
   \<exists>es. om_get (ev_pods st) ''web-r-0'' = Some es \<and> map pe_count es = [1] \<and> length es \<le> 100 \<and> ev_total st \<le> 10000"
proof -
  let ?st = "foldl store_step \<lparr>ev_pods = [], ev_total = 0\<rparr> [Insert_op (ex_event ''n''), Insert_op (ex_event ''n''), Sweep_op 9]"
  have "map_option (map pe_count) (om_get (ev_pods ?st) ''web-r-0'') = Some [1]" by code_simp
  then obtain es where es: "om_get (ev_pods ?st) ''web-r-0'' = Some es" "map pe_count es = [1]" by auto
  note bounded = event_store_bounded[of "[Insert_op (ex_event ''n''), Insert_op (ex_event ''n''), Sweep_op 9]", unfolded Let_def]
  have "length es \<le> 100" using bounded[THEN conjunct2, THEN conjunct2, THEN conjunct2, rule_format, OF es(1)] by (rule conjunct1)
  moreover have "ev_total ?st \<le> 10000" using bounded[THEN conjunct2] by (rule conjunct1)
  ultimately show ?thesis unfolding Let_def using es by (intro exI[of _ es] conjI)
qed


section \<open>Reports of events\<close>

text \<open>A batch of events is accepted exactly when it comes from a node and every event in it names
  that node, a pod and a known type; then all of it is published, and otherwise nothing is.\<close>

theorem events_accepted_iff:
  assumes "report_pod_events E cl events em = (em', r)"
  shows "(r = Inr () \<longleftrightarrow> (\<exists>peer. cl_peer cl = Some (Some peer) \<and> sp_kind E peer = IkNode \<and>
      (\<forall>e\<in>set events. pe_pod_id e \<noteq> [] \<and> sp_parse E (pe_node_id e) = Some peer \<and> is_valid_event_type (pe_event_type e)))) \<and>
    (r = Inr () \<longrightarrow> em_published em' = em_published em @ map (normalize_event (cl_now cl)) events) \<and>
    (r \<noteq> Inr () \<longrightarrow> em' = em)"
proof -
  have one: "check_event E peer e = Inr () \<longleftrightarrow>
      pe_pod_id e \<noteq> [] \<and> sp_parse E (pe_node_id e) = Some peer \<and> is_valid_event_type (pe_event_type e)" for peer e
    by (auto simp: check_event_def result_simps split: if_splits)
  have all: "(\<exists>us. mapE (check_event E peer) events = Inr us) \<longleftrightarrow> (\<forall>e\<in>set events. check_event E peer e = Inr ())" for peer
    by (induction events) (auto simp: result_simps)
  have pub: "em_published (emit_batch es m) = em_published m @ es" for es m
    by (induction es arbitrary: m) (simp_all add: emit_batch_def publish_def)
  have peer: "peer_identity cl = Inr peer \<longleftrightarrow> cl_peer cl = Some (Some peer)" for peer
    by (auto simp: peer_identity_def bind_eq_Some_conv)
  let ?plan = "bindE (peer_identity cl) (\<lambda>peer.
    bindE (guardE (sp_kind E peer = IkNode) Permission_denied) (\<lambda>_. mapE (check_event E peer) events))"
  have plan: "(\<exists>us. ?plan = Inr us) \<longleftrightarrow> (\<exists>peer. cl_peer cl = Some (Some peer) \<and> sp_kind E peer = IkNode \<and>
      (\<forall>e\<in>set events. check_event E peer e = Inr ()))"
    unfolding all[symmetric] by (auto simp: result_simps peer split: if_splits)
  show ?thesis
  proof (cases ?plan)
    case (Inl s)
    then show ?thesis using assms plan by (auto simp: report_pod_events_def one)
  next
    case (Inr us)
    then have "\<exists>us. ?plan = Inr us" by blast
    then show ?thesis using assms Inr plan by (auto simp: report_pod_events_def one pub)
  qed
qed

abbreviation agent_id :: string where
  "agent_id \<equiv> ''spiffe://f/ns/s/node/a''"

theorem events_accepted_iff_witness:
  "snd (report_pod_events PE (ex_caller agent_id) [ex_event agent_id] \<lparr>em_store = \<lparr>ev_pods = [], ev_total = 0\<rparr>, em_published = []\<rparr>) = Inr () \<and>
   fst (report_pod_events PE (ex_caller agent_id) [ex_event agent_id, ex_event node_a] \<lparr>em_store = \<lparr>ev_pods = [], ev_total = 0\<rparr>, em_published = []\<rparr>) =
     \<lparr>em_store = \<lparr>ev_pods = [], ev_total = 0\<rparr>, em_published = []\<rparr>"
proof -
  let ?em = "\<lparr>em_store = \<lparr>ev_pods = [], ev_total = 0\<rparr>, em_published = []\<rparr>"
  have kind: "sp_kind PE agent_id = IkNode" by code_simp
  have valid: "is_valid_event_type ''Started''" by (simp add: is_valid_event_type_def EVENT_TYPES_def)
  obtain em1 r1 where 1: "report_pod_events PE (ex_caller agent_id) [ex_event agent_id] ?em = (em1, r1)" by fastforce
  obtain em2 r2 where 2: "report_pod_events PE (ex_caller agent_id) [ex_event agent_id, ex_event node_a] ?em = (em2, r2)" by fastforce
  have "r1 = Inr ()" using events_accepted_iff[OF 1] kind valid by (simp add: ex_event_def sp_parse_PE)
  moreover have "r2 \<noteq> Inr ()" using events_accepted_iff[OF 2] by (auto simp: ex_event_def sp_parse_PE)
  moreover from this have "em2 = ?em" using events_accepted_iff[OF 2] by blast
  ultimately show ?thesis using 1 2 by simp
qed


section \<open>Heartbeats and leases\<close>

lemma heartbeat_effect:
  assumes "env_ok E" "db_wf (rp_db s)" "apply_entry E td s e = (s', Inr r)"
    and "en_payload e = Normal a" "cmd a = NodeHeartbeat n t" "node_at E (rp_db s) n = Some rec"
  shows "node_at E (rp_db s') m = (if m = n then Some (rec\<lparr>nr_last_heartbeat := t\<rparr>) else node_at E (rp_db s) m)"
proof -
  obtain b kind where b: "apply_command E (rp_db s) (cmd a) = Inr (b, kind)"
    and look: "\<And>k key. k \<notin> {Kversion, Kraft_state, Kaudit_log} \<Longrightarrow>
      lookup (rp_db s') k key = batch_get b k key (lookup (rp_db s) k key)"
    using command_effect[OF assms(3,4,2)] by metis
  obtain v where v: "enc (c_node E) (rec\<lparr>nr_last_heartbeat := t\<rparr>) = Some v" "b = [Put Knodes n v]"
    using b assms(5,6) by (auto simp: apply_command_def arm_defs sm_Inr record_at_def bind_eq_Some_conv result_simps)
  show ?thesis using look[of Knodes m] v(2) codec_ok_dec[OF records_codecs(16)[OF assms(1)] v(1)] by (simp add: record_at_def)
qed

text \<open>C33. A heartbeat is accepted only from the node it names, registered and not evicted, and keeps
  the node alive: as long as the lease has not run out since the leader's clock stamped it, the node
  controller leaves the node's record alone, with the stamped time in it.\<close>

theorem heartbeat_keeps_lease:
  assumes "settled_writer E td cw" "db_wf (rp_db s)"
    and "\<forall>key rec. node_at E (rp_db s) key = Some rec \<longrightarrow> nr_node_id rec = key \<and> (sp_parse E key = Some n \<longrightarrow> key = n)"
    and "report_node_status E cw cl n s = (s', Inr ())" "sub_i64 now (cl_now cl) \<le> timeout"
  shows "cl_peer cl = Some (sp_parse E n) \<and>
    (\<exists>rec. node_at E (rp_db s) n = Some rec \<and> nr_status rec \<noteq> Evicted \<and>
      (sp_parse E n = Some n \<longrightarrow>
        node_at E (ct_db (node_tick E cw timeout ttl now \<lparr>ct_replica = s', ct_events = evs\<rparr>)) n = Some (rec\<lparr>nr_last_heartbeat := cl_now cl\<rparr>)))"
proof -
  have rw: "raft_writer E td cw" using assms(1) by (simp add: settled_writer_def)
  obtain node v rec x where plan: "cl_peer cl = Some (Some node)" "sp_parse E n = Some node"
    "lookup (rp_db s) Knodes n = Some v" "dec (c_node E) v = Some rec" "nr_status rec \<noteq> Evicted"
    and w: "cw s (system_command (NodeHeartbeat n (cl_now cl))) = (s', Inr x)"
    using assms(4)
    by (auto simp: report_node_status_def propose_ok result_simps peer_identity_def bind_eq_Some_conv read_or_internal_def kv_get_Inr split: if_splits)
  have at: "node_at E (rp_db s) n = Some rec" using plan(3,4) by (simp add: record_at_def)
  obtain e where e: "en_payload e = Normal (system_command (NodeHeartbeat n (cl_now cl)))" "apply_entry E td s e = (s', Inr x)"
    using raft_writer.applies[OF rw w] by blast
  note eff = heartbeat_effect[OF raft_writer.codecs[OF rw] assms(2) e(2,1) _ at]
  have at': "node_at E (rp_db s') m = (if m = n then Some (rec\<lparr>nr_last_heartbeat := cl_now cl\<rparr>) else node_at E (rp_db s) m)" for m
    by (rule eff) (simp add: system_command_def)
  have wf: "db_wf (rp_db s')" by (rule entry_effect(6)[OF e(2) assms(2)])
  let ?st = "\<lparr>ct_replica = s', ct_events = evs\<rparr>"
  have "node_at E (ct_db (node_tick E cw timeout ttl now ?st)) n = node_at E (ct_db ?st) n"
  proof (rule node_tick_spares_live[OF assms(1)])
    fix rs rec'
    assume rs: "list_node_records E (ct_db ?st) = Inr rs" "rec' \<in> set rs" and p: "sp_parse E (nr_node_id rec') = Some n"
    from in_list_records[OF rs(1)[unfolded list_node_records_def]] wf rs(2)
    obtain k u where "lookup (rp_db s') Knodes k = Some u" "dec (c_node E) u = Some rec'" by auto
    then have k: "node_at E (rp_db s') k = Some rec'" by (simp add: record_at_def)
    have "k = n"
    proof (rule ccontr)
      assume "k \<noteq> n"
      then show False using k at' assms(3) p by auto
    qed
    then show "\<not> lease_expired timeout now rec'" using k at' assms(5) by (auto simp: lease_expired_def)
  qed (simp add: wf)
  then show ?thesis using plan at at'[of n] by auto
qed


theorem heartbeat_keeps_lease_witness:
  "\<exists>s s'. report_node_status PE ex_writer (ex_caller node_a) node_a s = (s', Inr ()) \<and>
     node_at PE (ct_db (node_tick PE ex_writer 60 3600 150 \<lparr>ct_replica = s', ct_events = []\<rparr>)) node_a = Some (ex_seen node_a 100)"
proof -
  let ?c = "RegisterNode (ex_seen node_a 5)"
  obtain s e r where s: "replica_inv PE (rp_db s)" "db_healthy (rp_db s)"
    and e: "en_payload e = Normal (system_command ?c)" "apply_entry PE ''f'' fresh e = (s, Inr r)"
    by (rule ex_write_effect[of ?c fresh]) (auto simp: self_addressed_def raw_scheduler_write_def start_inv)
  have wf: "db_wf (rp_db s)" using s(1) by (simp add: replica_inv_def)
  have at: "node_at PE (rp_db s) n = (if n = node_a then Some (ex_seen node_a 5) else None)" for n
    using register_effect[OF postcard_env_ok fresh_placements(2) e(2,1), of "ex_seen node_a 5" n]
    by (simp add: system_command_def ex_seen_def ex_node_def start_replica_def empty_db_def record_at_def)
  then obtain v where v: "lookup (rp_db s) Knodes node_a = Some v" "dec (c_node PE) v = Some (ex_seen node_a 5)"
    using bind_eq_Some_conv[THEN iffD1, OF at[of node_a, unfolded record_at_def if_P[OF refl]]] by blast
  obtain s' q where w: "ex_writer s (system_command (NodeHeartbeat node_a 100)) = (s', Inr q)"
    by (rule ex_write_effect[of "NodeHeartbeat node_a 100" s]) (auto simp: self_addressed_def raw_scheduler_write_def s)
  have run: "report_node_status PE ex_writer (ex_caller node_a) node_a s = (s', Inr ())"
    using v w s(2) by (simp add: report_node_status_def propose_def peer_identity_def read_or_internal_def kv_get_def db_healthy_def
        bindE_def sp_parse_PE ex_seen_def ex_node_def)
  have named: "\<forall>key rec. node_at PE (rp_db s) key = Some rec \<longrightarrow> nr_node_id rec = key \<and> (sp_parse PE key = Some node_a \<longrightarrow> key = node_a)"
    using at by (auto simp: ex_seen_def ex_node_def split: if_splits)
  have "sub_i64 150 (cl_now (ex_caller node_a)) \<le> 60" by (simp add: sub_i64_def)
  from heartbeat_keeps_lease[OF settled.settled_writer_axioms wf named run this, of 3600 "[]"] at[of node_a] run show ?thesis
    by (auto simp: sp_parse_PE ex_seen_def)
qed


section \<open>Delivered secrets\<close>

text \<open>A run of deliveries: each call meets the database of its time; the numbers are kept in memory.\<close>

fun deliver ::
  "env \<Rightarrow> secret_store \<Rightarrow> (bytes \<Rightarrow> bytes \<Rightarrow> nat \<Rightarrow> nat \<Rightarrow> (bytes \<times> bytes) option) \<Rightarrow>
     (database \<times> caller \<times> string \<times> nat) list \<Rightarrow> sequence_tracker \<Rightarrow> (status + sealed_secret) list" where
  "deliver E S seal [] tracker = []"
| "deliver E S seal ((db, cl, target, version) # qs) tracker =
     (case fetch_secret_rpc E S seal db cl target version tracker of
        (tracker', r) \<Rightarrow> r # deliver E S seal qs tracker')"

definition sequence_at :: "sequence_tracker \<Rightarrow> string \<times> nat \<Rightarrow> nat" where
  "sequence_at tracker key = (case om_get tracker key of Some n \<Rightarrow> n | None \<Rightarrow> 0)"

lemma fetch_rpc_tracker:
  assumes "fetch_secret_rpc E S seal db cl target version tracker = (tracker', r)" "\<And>key. sequence_at tracker key < 2 ^ 64 - 1"
  shows "sequence_at tracker key \<le> sequence_at tracker' key" "sequence_at tracker' key \<le> sequence_at tracker key + 1"
    and "r = Inr a \<Longrightarrow> sl_target a = target \<and> sl_version a = version \<and> sl_sequence a = sequence_at tracker' (target, version) \<and>
      sequence_at tracker (target, version) < sl_sequence a \<and>
      (\<exists>peer plaintext pubkey. cl_peer cl = Some (Some peer) \<and> fetch_secret E S db target peer = Inr plaintext \<and>
         lookup_svid_version E db peer = Inr version \<and> lookup_x25519_pubkey E db peer = Inr pubkey \<and>
         seal pubkey plaintext version (sl_sequence a) = Some (sl_ephemeral a, sl_ciphertext a))" (is "_ \<Longrightarrow> ?sealed")
proof -
  let ?plan = "bindE (peer_identity cl) (\<lambda>peer.
           bindE (ok_or Invalid_argument (sp_parse E target)) (\<lambda>_.
           bindE (lookup_svid_version E db peer) (\<lambda>current.
           bindE (guardE (current = version) Permission_denied) (\<lambda>_.
           bindE (map_err secret_status (fetch_secret E S db target peer)) (\<lambda>plaintext.
           bindE (lookup_x25519_pubkey E db peer) (\<lambda>pubkey. Inr (plaintext, pubkey)))))))"
  have "sequence_at tracker key \<le> sequence_at tracker' key \<and> sequence_at tracker' key \<le> sequence_at tracker key + 1 \<and>
    (r = Inr a \<longrightarrow> ?sealed)"
  proof (cases ?plan)
    case (Inl e)
    then have "tracker' = tracker" "r = Inl e" using assms(1) by (simp_all add: fetch_secret_rpc_def)
    then show ?thesis by simp
  next
    case (Inr pk)
    obtain plaintext pubkey where pk: "pk = (plaintext, pubkey)" by fastforce
    obtain peer where peer: "cl_peer cl = Some (Some peer)" "fetch_secret E S db target peer = Inr plaintext"
      "lookup_svid_version E db peer = Inr version" "lookup_x25519_pubkey E db peer = Inr pubkey"
      using Inr pk by (auto simp: result_simps peer_identity_def bind_eq_Some_conv split: if_splits)
    define n where "n = sequence_at tracker (target, version) + 1"
    have n: "n mod 2 ^ 64 = n" using assms(2)[of "(target, version)"] by (simp add: n_def)
    have tr: "tracker' = om_put (target, version) n tracker"
      and r: "r = bindE (ok_or Internal (seal pubkey plaintext version n)) (\<lambda>(eph, c).
                  Inr \<lparr>sl_target = target, sl_version = version, sl_sequence = n, sl_ephemeral = eph, sl_ciphertext = c\<rparr>)"
      using assms(1) Inr pk n by (auto simp: fetch_secret_rpc_def next_sequence_def n_def sequence_at_def Let_def)
    have "sequence_at tracker' key = (if key = (target, version) then n else sequence_at tracker key)"
      by (simp add: tr sequence_at_def)
    moreover have "sequence_at tracker' (target, version) = n" by (simp add: tr sequence_at_def)
    moreover have "?sealed" if ra: "r = Inr a"
    proof -
      obtain eph c where sealed: "seal pubkey plaintext version n = Some (eph, c)"
        "a = \<lparr>sl_target = target, sl_version = version, sl_sequence = n, sl_ephemeral = eph, sl_ciphertext = c\<rparr>"
        using r ra by (auto simp: result_simps)
      then show ?thesis using peer by (simp add: tr sequence_at_def) (simp add: n_def sequence_at_def)
    qed
    ultimately show ?thesis by (auto simp: n_def)
  qed
  then show "sequence_at tracker key \<le> sequence_at tracker' key" "sequence_at tracker' key \<le> sequence_at tracker key + 1"
    "r = Inr a \<Longrightarrow> ?sealed" by blast+
qed

lemma deliver_above:
  assumes "deliver E S seal qs tracker ! j = Inr b" "j < length qs" "\<And>key. sequence_at tracker key + length qs < 2 ^ 64"
  shows "sequence_at tracker (sl_target b, sl_version b) < sl_sequence b"
  using assms
proof (induction qs arbitrary: tracker j)
  case (Cons q qs)
  obtain db cl t v where q: "q = (db, cl, t, v)" by (cases q) auto
  obtain tracker' r where run: "fetch_secret_rpc E S seal db cl t v tracker = (tracker', r)" by fastforce
  have bound: "sequence_at tracker key < 2 ^ 64 - 1" for key using Cons.prems(3)[of key] by simp
  note grow = fetch_rpc_tracker(1,2)[OF run bound]
  show ?case
  proof (cases j)
    case 0
    then have "r = Inr b" using Cons.prems(1) q run by simp
    from fetch_rpc_tracker(3)[OF run bound this] show ?thesis by simp
  next
    case (Suc i)
    have "sequence_at tracker' key + length qs < 2 ^ 64" for key using Cons.prems(3)[of key] grow(2)[of key] by simp
    then have "sequence_at tracker' (sl_target b, sl_version b) < sl_sequence b"
      using Cons.IH[of tracker' i] Cons.prems(1,2) q run Suc by simp
    with grow(1) show ?thesis by (rule le_less_trans)
  qed
qed simp

text \<open>Of two deliveries of one secret for one version, the later carries the larger sequence number,
  whoever asked in between.\<close>

theorem secret_sequences_increase:
  assumes "length qs < 2 ^ 64" "i < j" "j < length qs"
    and "deliver E S seal qs [] ! i = Inr a" "deliver E S seal qs [] ! j = Inr b"
    and "sl_target a = sl_target b" "sl_version a = sl_version b"
  shows "sl_sequence a < sl_sequence b"
proof -
  have "sl_sequence a < sl_sequence b"
    if "i < j" "j < length qs" "deliver E S seal qs tracker ! i = Inr a" "deliver E S seal qs tracker ! j = Inr b"
      "\<And>key. sequence_at tracker key + length qs < 2 ^ 64" for qs tracker i j
    using that
  proof (induction qs arbitrary: tracker i j)
    case (Cons q qs)
    obtain db cl t v where q: "q = (db, cl, t, v)" by (cases q) auto
    obtain tracker' r where run: "fetch_secret_rpc E S seal db cl t v tracker = (tracker', r)" by fastforce
    have bound: "sequence_at tracker key < 2 ^ 64 - 1" for key using Cons.prems(5)[of key] by simp
    have next': "sequence_at tracker' key + length qs < 2 ^ 64" for key
      using fetch_rpc_tracker(2)[OF run bound, of key] Cons.prems(5)[of key] by simp
    obtain j' where j: "j = Suc j'" using Cons.prems(1) by (cases j) auto
    have b: "deliver E S seal qs tracker' ! j' = Inr b" "j' < length qs" using Cons.prems(2,4) q run j by simp_all
    show ?case
    proof (cases i)
      case 0
      then have "r = Inr a" using Cons.prems(3) q run by simp
      from fetch_rpc_tracker(3)[OF run bound this]
      have "sl_sequence a = sequence_at tracker' (sl_target a, sl_version a)" by simp
      also have "\<dots> < sl_sequence b" using deliver_above[OF b next'] assms(6,7) by simp
      finally show ?thesis .
    next
      case (Suc i')
      then show ?thesis using Cons.IH[of i' j' tracker'] Cons.prems(1,3) b q run j next' by simp
    qed
  qed simp
  from this[of i j qs "[]"] assms show ?thesis by (simp add: sequence_at_def)
qed


definition ex_svid :: svid_record where
  "ex_svid = \<lparr>sv_spiffe_id = node_a, sv_version = 2, sv_issued_at = 0, sv_x25519_pubkey = replicate 32 CHR ''p''\<rparr>"

definition delivery_db :: database where
  "delivery_db = empty_db\<lparr>db_data :=
     (case prepare_secret PE ex_secrets ex_randoms node_a ''v'' [node_a] of
        Inr (envelope, acl) \<Rightarrow>
          run_batch [Put Ksvids node_a (the (enc (c_svid PE) ex_svid)), Put Ksecrets (secret_key node_a) envelope,
            Put Ksecrets (acl_key node_a) acl] (db_data empty_db)
      | Inl _ \<Rightarrow> db_data empty_db)\<rparr>"

theorem secret_sequences_increase_witness:
  "let rs = deliver PE ex_secrets (\<lambda>k p v n. Some ([], p)) (replicate 2 (delivery_db, ex_caller node_a, node_a, 2)) [] in
   \<exists>a b. rs ! 0 = Inr a \<and> rs ! 1 = Inr b \<and> sl_sequence a < sl_sequence b"
proof -
  let ?qs = "replicate 2 (delivery_db, ex_caller node_a, node_a, 2)"
  let ?rs = "deliver PE ex_secrets (\<lambda>k p v n. Some ([], p)) ?qs []"
  have ok: "map (\<lambda>r. case r of Inr a \<Rightarrow> Some (sl_target a, sl_version a) | Inl _ \<Rightarrow> None) ?rs = [Some (node_a, 2), Some (node_a, 2)]"
    by code_simp
  have two: "\<exists>a b. rs ! 0 = Inr a \<and> rs ! 1 = Inr b \<and> sl_target a = sl_target b \<and> sl_version a = sl_version b"
    if m: "map (\<lambda>r. case r of Inr a \<Rightarrow> Some (sl_target a, sl_version a) | Inl _ \<Rightarrow> None) rs = [Some (t, v), Some (t, v)]"
    for rs :: "(status + sealed_secret) list" and t v
  proof -
    obtain r1 r2 where "rs = [r1, r2]" using m by (auto simp: map_eq_Cons_conv)
    then show ?thesis using m by (cases r1; cases r2) simp_all
  qed
  obtain a b where ab: "?rs ! 0 = Inr a" "?rs ! 1 = Inr b" "sl_target a = sl_target b" "sl_version a = sl_version b"
    using two[OF ok] by blast
  have "sl_sequence a < sl_sequence b"
    by (rule secret_sequences_increase[OF _ _ _ ab]) simp_all
  then show ?thesis unfolding Let_def using ab(1,2) by blast
qed


section \<open>Two ways to a delegated key\<close>







end
