(* ===== verification/Certificates.thy ===== *)
theory Certificates
  imports AdminCluster
begin

text \<open>
  Certificates and connections: which peers the three listeners accept (\<open>tls/trust_domains.rs\<close> and
  the accept loops of \<open>main.rs\<close>), the name constraint of delegated keys (\<open>ca/name_constraints.rs\<close>),
  the certificate chains of endorsement keys (\<open>attestation/ek_cert.rs\<close>) and of Secure Enclave
  attestations (\<open>attestation/apple_se.rs\<close>), and the root certificates with their rotation and storage
  (\<open>ca/trust_bundle.rs\<close>, \<open>ca/mod.rs\<close>). Parsing of X.509 certificates, signature checks and hashes
  are the fields of \<open>x509_lib\<close>.
\<close>


section \<open>Trust domains\<close>

datatype tls_error = Trust_domain_mismatch string string | Identity_kind_mismatch string | Spiffe_parse

datatype trust_domain_role = Data_control | Admin_domain

record trust_domain_config =
  td_data_control :: string
  td_admin :: string

definition expected_domain :: "trust_domain_config \<Rightarrow> trust_domain_role \<Rightarrow> string" where
  "expected_domain C role = (case role of Data_control \<Rightarrow> td_data_control C | Admin_domain \<Rightarrow> td_admin C)"

definition strip_prefix :: "string \<Rightarrow> string \<Rightarrow> string option" where
  "strip_prefix p s = (if prefix p s then Some (drop (length p) s) else None)"

definition extract_trust_domain :: "string \<Rightarrow> string option" where
  "extract_trust_domain s = map_option (\<lambda>r. hd (split_on CHR ''/'' r)) (strip_prefix ''spiffe://'' s)"

definition extract_identity_kind :: "string \<Rightarrow> string option" where
  "extract_identity_kind s =
     Option.bind (strip_prefix ''spiffe://'' s) (\<lambda>r.
       if CHR ''/'' \<in> set r
       then (let segments = split_on CHR ''/'' (tl (dropWhile (\<lambda>c. c \<noteq> CHR ''/'') r)) in
             if length segments \<ge> 4 \<and> segments ! 0 = ''ns'' then Some (segments ! 2) else None)
       else None)"

definition permitted_kinds :: "trust_domain_role \<Rightarrow> string list" where
  "permitted_kinds role =
     (case role of
        Data_control \<Rightarrow> [''node'', ''sa'', ''router'', ''gateway'', ''control'']
      | Admin_domain \<Rightarrow> [''ctrl'', ''operator''])"

definition validate_peer_identity :: "string \<Rightarrow> trust_domain_role \<Rightarrow> trust_domain_config \<Rightarrow> tls_error + unit" where
  "validate_peer_identity s role C =
     bindE (ok_or Spiffe_parse (extract_trust_domain s)) (\<lambda>d.
       if d \<noteq> expected_domain C role then Inl (Trust_domain_mismatch (expected_domain C role) d)
       else (case extract_identity_kind s of
               None \<Rightarrow> Inl Spiffe_parse
             | Some k \<Rightarrow> if k \<in> set (permitted_kinds role) then Inr () else Inl (Identity_kind_mismatch k)))"

text \<open>
  What a listener makes of a finished handshake. The argument is the leaf certificate the TLS layer
  has verified, if the peer sent one, through \<open>extract\<close>, which reads its identity. An error closes
  the connection.
\<close>

datatype accept_error = No_peer_certificate | No_identity | Rejected tls_error | Wrong_kind | Revoked

definition check_peer ::
  "(bytes \<Rightarrow> spiffe_id option) \<Rightarrow> trust_domain_role \<Rightarrow> trust_domain_config \<Rightarrow> bytes \<Rightarrow> accept_error + spiffe_id" where
  "check_peer extract role C cert =
     bindE (ok_or No_identity (extract cert)) (\<lambda>i.
     bindE (map_err Rejected (validate_peer_identity i role C)) (\<lambda>_. Inr i))"

definition check_revoked :: "database \<Rightarrow> spiffe_id \<Rightarrow> accept_error + spiffe_id" where
  "check_revoked db i = (if is_svid_revoked db i then Inl Revoked else Inr i)"

definition accept_raft ::
  "env \<Rightarrow> (bytes \<Rightarrow> spiffe_id option) \<Rightarrow> trust_domain_config \<Rightarrow> database \<Rightarrow> bytes option \<Rightarrow> accept_error + spiffe_id" where
  "accept_raft E extract C db cert =
     bindE (ok_or No_peer_certificate cert) (\<lambda>c.
     bindE (check_peer extract Data_control C c) (\<lambda>uri.
     bindE (ok_or No_identity (sp_parse E uri)) (\<lambda>i.
       if sp_kind E i \<noteq> IkControl then Inl Wrong_kind else check_revoked db i)))"

definition accept_data_control ::
  "(bytes \<Rightarrow> spiffe_id option) \<Rightarrow> trust_domain_config \<Rightarrow> database \<Rightarrow> bytes option \<Rightarrow> accept_error + spiffe_id option" where
  "accept_data_control extract C db cert =
     (case cert of
        None \<Rightarrow> Inr None
      | Some c \<Rightarrow>
          bindE (check_peer extract Data_control C c) (\<lambda>i.
          bindE (check_revoked db i) (\<lambda>i. Inr (Some i))))"

definition accept_admin ::
  "(bytes \<Rightarrow> spiffe_id option) \<Rightarrow> trust_domain_config \<Rightarrow> database \<Rightarrow> bytes option \<Rightarrow> accept_error + spiffe_id" where
  "accept_admin extract C db cert =
     bindE (ok_or No_peer_certificate cert) (\<lambda>c.
     bindE (check_peer extract Admin_domain C c) (check_revoked db))"


section \<open>Name constraints\<close>

text \<open>One element as the code writes it: the tag, the length cut to a byte, the content.\<close>

definition der_element :: "nat \<Rightarrow> bytes \<Rightarrow> bytes" where
  "der_element tag body = char_of tag # char_of (length body) # body"

definition build_uri_name_constraints :: "string \<Rightarrow> bytes" where
  "build_uri_name_constraints td =
     (let general_name = der_element 0x86 (''spiffe://'' @ td @ ''/'');
          general_subtree = der_element 0x30 general_name;
          general_subtrees = der_element 0x30 general_subtree;
          permitted = der_element 0xA0 general_subtrees
      in der_element 0x30 permitted)"


section \<open>Chains of endorsement keys\<close>

record x509 =
  x_subject :: string
  x_issuer :: string
  x_not_before :: int
  x_not_after :: int
  x_spki :: bytes
  x_extensions :: "(string \<times> bytes) list"
  x_signed :: bytes

text \<open>
  \<open>xl_parse\<close> reads one certificate off the front of the bytes and gives the rest; \<open>xl_signed_by\<close>
  checks the signature of a certificate with a public key.
\<close>

record x509_lib =
  xl_parse :: "bytes \<Rightarrow> (bytes \<times> x509) option"
  xl_signed_by :: "x509 \<Rightarrow> bytes \<Rightarrow> bool"
  xl_sha256 :: "bytes \<Rightarrow> bytes"

definition MAX_CHAIN_DEPTH :: nat where
  "MAX_CHAIN_DEPTH = 8"

definition check_validity_period :: "int \<Rightarrow> x509 \<Rightarrow> attestation_error + unit" where
  "check_validity_period now c =
     (if now < x_not_before c \<or> now > x_not_after c then Inl Quote_verification else Inr ())"

definition find_by_subject :: "x509_lib \<Rightarrow> bytes list \<Rightarrow> string \<Rightarrow> bytes option" where
  "find_by_subject X roots name =
     find (\<lambda>der. case xl_parse X der of Some (_, c) \<Rightarrow> x_subject c = name | None \<Rightarrow> False) roots"

fun walk_ek_chain :: "x509_lib \<Rightarrow> int \<Rightarrow> bytes list \<Rightarrow> nat \<Rightarrow> bytes \<Rightarrow> attestation_error + unit" where
  "walk_ek_chain X now roots 0 der = Inl Quote_verification"
| "walk_ek_chain X now roots (Suc depth) der =
     bindE (ok_or Quote_verification (xl_parse X der)) (\<lambda>(_, current).
       if der \<in> set roots then Inr ()
       else
         bindE (ok_or Quote_verification (find_by_subject X roots (x_issuer current))) (\<lambda>anchor.
         bindE (ok_or Quote_verification (xl_parse X anchor)) (\<lambda>(_, issuer).
         bindE (guardE (xl_signed_by X current (x_spki issuer)) Quote_verification) (\<lambda>_.
         bindE (check_validity_period now issuer) (\<lambda>_.
           walk_ek_chain X now roots depth anchor)))))"

definition validate_ek_cert_chain_with :: "x509_lib \<Rightarrow> int \<Rightarrow> bytes list \<Rightarrow> bytes \<Rightarrow> attestation_error + unit" where
  "validate_ek_cert_chain_with X now roots der =
     (if roots = [] then Inl Quote_verification
      else if der = [] then Inl Quote_verification
      else
        bindE (ok_or Quote_verification (xl_parse X der)) (\<lambda>(_, leaf).
        bindE (check_validity_period now leaf) (\<lambda>_.
          walk_ek_chain X now roots MAX_CHAIN_DEPTH der)))"


section \<open>Secure Enclave attestations\<close>

definition APPLE_ATTESTATION_EXT_OID :: string where
  "APPLE_ATTESTATION_EXT_OID = ''1.2.840.113635.100.8.2''"

record apple_se_attestation =
  aa_data :: bytes
  aa_nonce :: bytes
  aa_device_key :: bytes

text \<open>The certificates of a chain with their bytes, in order.\<close>

function parse_chain ::
  "x509_lib \<Rightarrow> (bytes \<times> x509) list \<Rightarrow> bytes \<Rightarrow> attestation_error + (bytes \<times> x509) list" where
  "parse_chain X entries data =
     (if data = [] then (if entries = [] then Inl Quote_verification else Inr entries)
      else if length entries \<ge> MAX_CHAIN_DEPTH then Inl Quote_verification
      else
        (case xl_parse X data of
           None \<Rightarrow> Inl Quote_verification
         | Some (remaining, cert) \<Rightarrow>
             parse_chain X (entries @ [(take (length data - length remaining) data, cert)]) remaining))"
  by pat_completeness auto
termination
  by (relation "measure (\<lambda>(_, entries, _). MAX_CHAIN_DEPTH - length entries)") auto

declare parse_chain.simps [simp del]

fun verify_chain :: "x509_lib \<Rightarrow> int \<Rightarrow> bytes \<Rightarrow> x509 \<Rightarrow> (bytes \<times> x509) list \<Rightarrow> attestation_error + unit" where
  "verify_chain X now root_der anchor [] = Inl Quote_verification"
| "verify_chain X now root_der anchor ((der, cert) # rest) =
     bindE (check_validity_period now cert) (\<lambda>_.
       if der = root_der then Inr ()
       else
         (case rest of
            [] \<Rightarrow>
              if x_issuer cert = x_subject anchor then guardE (xl_signed_by X cert (x_spki anchor)) Quote_verification
              else Inl Quote_verification
          | (_, issuer) # _ \<Rightarrow>
              bindE (guardE (x_issuer cert = x_subject issuer) Quote_verification) (\<lambda>_.
              bindE (guardE (xl_signed_by X cert (x_spki issuer)) Quote_verification) (\<lambda>_.
                verify_chain X now root_der anchor rest))))"

text \<open>
  The content of an octet string. The outer \<open>None\<close> is the panic of an index out of range; the inner
  one is the refusal.
\<close>

definition parse_octet_string :: "bytes \<Rightarrow> bytes option option" where
  "parse_octet_string b =
     (if b = [] \<or> of_char (hd b) \<noteq> (0x04 :: nat) then Some None
      else if length b < 2 then None
      else
        (let c = of_char (b ! 1) in
         if c < (0x80 :: nat)
         then Some (if length b < 2 + c then None else Some (take c (drop 2 b)))
         else
           (let n = c mod 0x80 in
            if n = 0 \<or> n > 4 \<or> length b < 2 + n then Some None
            else
              (let len = be_value (take n (drop 2 b)) in
               Some (if length b < 2 + n + len then None else Some (take len (drop (2 + n) b)))))))"

definition verify_nonce_binding :: "x509_lib \<Rightarrow> x509 \<Rightarrow> bytes \<Rightarrow> (attestation_error + unit) option" where
  "verify_nonce_binding X leaf nonce =
     (case find (\<lambda>(oid, _). oid = APPLE_ATTESTATION_EXT_OID) (x_extensions leaf) of
        None \<Rightarrow> Some (Inl Quote_verification)
      | Some (_, v) \<Rightarrow>
          map_option (\<lambda>content. if content = Some (xl_sha256 X nonce) then Inr () else Inl Quote_verification)
            (parse_octet_string v))"

definition verify_apple_se_attestation_with_root ::
  "x509_lib \<Rightarrow> int \<Rightarrow> apple_se_attestation \<Rightarrow> bytes \<Rightarrow> bytes \<Rightarrow> (attestation_error + unit) option" where
  "verify_apple_se_attestation_with_root X now a nonce root_der =
     (if aa_nonce a \<noteq> nonce then Some (Inl Nonce_error)
      else if aa_data a = [] then Some (Inl Quote_verification)
      else if aa_device_key a = [] then Some (Inl Quote_verification)
      else
        (case bindE (ok_or Quote_verification (xl_parse X root_der)) (\<lambda>(_, anchor).
              bindE (parse_chain X [] (aa_data a)) (\<lambda>entries.
              bindE (verify_chain X now root_der anchor entries) (\<lambda>_.
              bindE (guardE (sublist (aa_device_key a) (fst (hd entries))) Quote_verification) (\<lambda>_.
                Inr (snd (hd entries)))))) of
           Inl e \<Rightarrow> Some (Inl e)
         | Inr leaf \<Rightarrow> verify_nonce_binding X leaf nonce))"


section \<open>Root certificates\<close>

text \<open>
  A key pair is its private key; \<open>kl_pem\<close> and \<open>kl_of_pem\<close> write and read it. Times of the
  superseded root are in nanoseconds; the stored record keeps whole seconds.
\<close>

record key_lib =
  kl_pem :: "bytes \<Rightarrow> string"
  kl_of_pem :: "string \<Rightarrow> bytes option"

record root_ca =
  rc_key :: bytes
  rc_cert_der :: bytes
  rc_cert_pem :: string

record trust_bundle =
  tb_trust_domain :: string
  tb_current :: root_ca
  tb_previous :: "(root_ca \<times> int) option"

record root_record =
  rr_key_pem :: string
  rr_cert_der :: bytes
  rr_cert_pem :: string

record trust_bundle_record =
  br_trust_domain :: string
  br_current :: root_record
  br_previous :: "(root_record \<times> int) option"

definition generate_root :: "string \<Rightarrow> root_ca \<Rightarrow> trust_bundle" where
  "generate_root td fresh_root = \<lparr>tb_trust_domain = td, tb_current = fresh_root, tb_previous = None\<rparr>"

definition rotate :: "int \<Rightarrow> root_ca \<Rightarrow> trust_bundle \<Rightarrow> trust_bundle" where
  "rotate now fresh_root b = b\<lparr>tb_current := fresh_root, tb_previous := Some (tb_current b, now)\<rparr>"

text \<open>The roots handed out to agents and used for validation: the current one, then the previous one.\<close>

definition bundle_roots :: "trust_bundle \<Rightarrow> bytes list" where
  "bundle_roots b =
     rc_cert_der (tb_current b) # (case tb_previous b of Some (r, _) \<Rightarrow> [rc_cert_der r] | None \<Rightarrow> [])"

definition root_to_record :: "key_lib \<Rightarrow> root_ca \<Rightarrow> root_record" where
  "root_to_record K r = \<lparr>rr_key_pem = kl_pem K (rc_key r), rr_cert_der = rc_cert_der r, rr_cert_pem = rc_cert_pem r\<rparr>"

definition root_from_record :: "key_lib \<Rightarrow> root_record \<Rightarrow> root_ca option" where
  "root_from_record K r =
     map_option (\<lambda>k. \<lparr>rc_key = k, rc_cert_der = rr_cert_der r, rc_cert_pem = rr_cert_pem r\<rparr>) (kl_of_pem K (rr_key_pem r))"

definition bundle_to_record :: "key_lib \<Rightarrow> trust_bundle \<Rightarrow> trust_bundle_record" where
  "bundle_to_record K b =
     \<lparr>br_trust_domain = tb_trust_domain b, br_current = root_to_record K (tb_current b),
      br_previous = map_option (\<lambda>(r, t). (root_to_record K r, t div 10 ^ 9)) (tb_previous b)\<rparr>"

datatype bundle_error = Bundle_storage fjall_error | Bundle_serialization | Bundle_rcgen | Bundle_missing | Bundle_crypto

definition bundle_from_record ::
  "key_lib \<Rightarrow> (int \<Rightarrow> bool) \<Rightarrow> trust_bundle_record \<Rightarrow> bundle_error + trust_bundle" where
  "bundle_from_record K timestamp_ok r =
     bindE (ok_or Bundle_rcgen (root_from_record K (br_current r))) (\<lambda>current.
     bindE (case br_previous r of
              None \<Rightarrow> Inr None
            | Some (p, t) \<Rightarrow>
                bindE (ok_or Bundle_rcgen (root_from_record K p)) (\<lambda>anchor.
                  if timestamp_ok t then Inr (Some (anchor, t * 10 ^ 9)) else Inl Bundle_missing)) (\<lambda>previous.
       Inr \<lparr>tb_trust_domain = br_trust_domain r, tb_current = current, tb_previous = previous\<rparr>))"

record ca_store =
  cs_keys :: key_lib
  cs_timestamp_ok :: "int \<Rightarrow> bool"
  cs_secrets :: secret_store
  cs_codec :: "trust_bundle_record codec"

definition bundle_key :: "string \<Rightarrow> bytes" where
  "bundle_key td = ''bundle:'' @ td"

definition persist_bundle ::
  "ca_store \<Rightarrow> seal_randoms \<Rightarrow> trust_bundle \<Rightarrow> database \<Rightarrow> bundle_error + database" where
  "persist_bundle S rnd b db =
     bindE (ok_or Bundle_serialization (enc (cs_codec S) (bundle_to_record (cs_keys S) b))) (\<lambda>plain.
     bindE (map_err (\<lambda>_. Bundle_crypto) (encrypt_at_rest (cs_secrets S) rnd plain)) (\<lambda>envelope.
     bindE (ok_or Bundle_serialization (enc (ss_codec (cs_secrets S)) envelope)) (\<lambda>v.
       map_err Bundle_storage (kv_insert db Ktrust_bundles (bundle_key (tb_trust_domain b)) v))))"

definition load_bundle :: "ca_store \<Rightarrow> database \<Rightarrow> string \<Rightarrow> bundle_error + trust_bundle" where
  "load_bundle S db td =
     bindE (map_err Bundle_storage (kv_get db Ktrust_bundles (bundle_key td))) (\<lambda>v.
     bindE (ok_or Bundle_missing v) (\<lambda>b.
     bindE (ok_or Bundle_serialization (dec (ss_codec (cs_secrets S)) b)) (\<lambda>envelope.
     bindE (map_err (\<lambda>_. Bundle_crypto) (decrypt_at_rest (cs_secrets S) envelope)) (\<lambda>plain.
     bindE (ok_or Bundle_serialization (dec (cs_codec S) plain)) (bundle_from_record (cs_keys S) (cs_timestamp_ok S))))))"

text \<open>
  The two certificate authorities of a node. \<open>fresh_dc\<close> and \<open>fresh_admin\<close> are the roots generated
  when there are none yet, with the random bytes of their encryption.
\<close>

definition ca_bootstrap ::
  "ca_store \<Rightarrow> trust_domain_config \<Rightarrow> root_ca \<times> seal_randoms \<Rightarrow> root_ca \<times> seal_randoms \<Rightarrow> database \<Rightarrow>
     database \<times> (bundle_error + trust_bundle \<times> trust_bundle)" where
  "ca_bootstrap S C fresh_dc fresh_admin db =
     (let dc = generate_root (td_data_control C) (fst fresh_dc);
          admin = generate_root (td_admin C) (fst fresh_admin) in
      case persist_bundle S (snd fresh_dc) dc db of
        Inl e \<Rightarrow> (db, Inl e)
      | Inr db1 \<Rightarrow>
          (case persist_bundle S (snd fresh_admin) admin db1 of
             Inl e \<Rightarrow> (db1, Inl e)
           | Inr db2 \<Rightarrow> (db2, Inr (dc, admin))))"

definition ca_load :: "ca_store \<Rightarrow> trust_domain_config \<Rightarrow> database \<Rightarrow> bundle_error + trust_bundle \<times> trust_bundle" where
  "ca_load S C db =
     bindE (load_bundle S db (td_data_control C)) (\<lambda>dc.
     bindE (load_bundle S db (td_admin C)) (\<lambda>admin. Inr (dc, admin)))"

definition ca_init ::
  "ca_store \<Rightarrow> trust_domain_config \<Rightarrow> root_ca \<times> seal_randoms \<Rightarrow> root_ca \<times> seal_randoms \<Rightarrow> database \<Rightarrow>
     database \<times> (bundle_error + trust_bundle \<times> trust_bundle)" where
  "ca_init S C fresh_dc fresh_admin db =
     (case kv_get db Ktrust_bundles (bundle_key (td_data_control C)) of
        Inl e \<Rightarrow> (db, Inl (Bundle_storage e))
      | Inr (Some _) \<Rightarrow> (db, ca_load S C db)
      | Inr None \<Rightarrow> ca_bootstrap S C fresh_dc fresh_admin db)"

end
