(* ===== verification/CertificateTheorems.thy ===== *)
theory CertificateTheorems
  imports Certificates Lifecycle AdminExamples
begin

text \<open>
  Properties of certificates and connections: what a listener accepts, that an evicted node stays
  locked out, how far the hand-written name constraint is well formed, which chains are trusted, and
  that a restart keeps the roots.
\<close>


section \<open>What a listener accepts\<close>






























section \<open>Evicted nodes\<close>



















section \<open>The name constraint\<close>

text \<open>
  A reader of distinguished encodings, as the standard has it: lengths below 128 are one byte, larger
  ones a count of length bytes and those; no other element may follow.
\<close>

definition der_content :: "nat \<Rightarrow> bytes \<Rightarrow> bytes option" where
  "der_content tag b =
     (case b of
        t # l # rest \<Rightarrow>
          if of_char t \<noteq> tag then None
          else if of_char l < (128 :: nat) then (if length rest = of_char l then Some rest else None)
          else
            (let k = of_char l - 128; body = drop k rest in
             if k = 0 \<or> length rest < k \<or> length body \<noteq> be_value (take k rest) then None else Some body)
      | _ \<Rightarrow> None)"

text \<open>The constraint by the nesting the code writes, with a sequence of subtrees inside the tagged field.\<close>

definition read_written_constraint :: "bytes \<Rightarrow> string option" where
  "read_written_constraint b =
     Option.bind (der_content 0x30 b) (\<lambda>p. Option.bind (der_content 0xA0 p) (\<lambda>s.
     Option.bind (der_content 0x30 s) (\<lambda>t. Option.bind (der_content 0x30 t) (der_content 0x86))))"

text \<open>The constraint by RFC 5280, where the implicit tag of the field replaces that of the sequence of subtrees.\<close>

definition read_name_constraint :: "bytes \<Rightarrow> string option" where
  "read_name_constraint b =
     Option.bind (der_content 0x30 b) (\<lambda>p. Option.bind (der_content 0xA0 p) (\<lambda>s.
     Option.bind (der_content 0x30 s) (der_content 0x86)))"

lemma der_element_read: "tag < 256 \<Longrightarrow> length body < 128 \<Longrightarrow> der_content tag (der_element tag body) = Some body"
  by (simp add: der_content_def der_element_def)


lemma be_value_first: "of_char c \<le> be_value (c # cs)"
proof -
  have "n \<le> foldl (\<lambda>n c. n * 256 + of_char c) n cs" for n :: nat
  proof (induction cs arbitrary: n)
    case (Cons a cs)
    have "n \<le> n * 256 + of_char a" by simp
    also have "\<dots> \<le> foldl (\<lambda>n c. n * 256 + of_char c) (n * 256 + of_char a) cs" by (rule Cons.IH)
    finally show ?case by simp
  qed simp
  then show ?thesis by (simp add: be_value_def)
qed

lemma der_element_long:
  assumes "128 \<le> length body" "length body \<le> 383" "body = c # rest" "160 \<le> (of_char c :: nat)"
  shows "der_content tag (der_element tag body) = None"
proof (cases "length body < 256")
  case True
  have "128 \<noteq> be_value (take k body)" if k: "k \<noteq> 0" for k
  proof -
    obtain j where "k = Suc j" using k by (cases k) auto
    then have "160 \<le> be_value (take k body)" using be_value_first[of c "take j rest"] assms(3,4) by simp
    then show ?thesis by simp
  qed
  then show ?thesis using True assms(1) by (auto simp: der_content_def der_element_def Let_def)
next
  case False
  then have "length body mod 256 = length body - 256" using assms(2) by (simp add: mod_if)
  then show ?thesis using False assms(2) by (simp add: der_content_def der_element_def)
qed

text \<open>The reader of the standard finds the constraint in its proper encoding.\<close>

lemma standard_constraint_read:
  assumes "length uri < 120"
  shows "read_name_constraint (der_element 0x30 (der_element 0xA0 (der_element 0x30 (der_element 0x86 uri)))) = Some uri"
proof -
  have "length (der_element t b) = length b + 2" for t b by (simp add: der_element_def)
  then show ?thesis using assms by (simp add: read_name_constraint_def der_element_read)
qed

text \<open>C37. The hand-written name constraint of a delegated key has correct lengths exactly for trust domains of
  up to 109 characters: a reader of the nesting the code writes then finds the constraint to that
  domain, and otherwise, up to the 255 characters a trust domain may have, no element at all. That
  nesting has one sequence too many, so that a reader of the standard finds no constraint in any case.\<close>

theorem name_constraint_bound:
  assumes "length td \<le> 255"
  shows "read_written_constraint (build_uri_name_constraints td) =
    (if length td \<le> 109 then Some (''spiffe://'' @ td @ ''/'') else None) \<and>
    read_name_constraint (build_uri_name_constraints td) = None"
proof -
  define uri where "uri = ''spiffe://'' @ td @ ''/''"
  have len: "length uri = length td + 10" by (simp add: uri_def)
  have el: "length (der_element t b) = length b + 2" for t b by (simp add: der_element_def)
  have tag: "der_content 0x86 (der_element 0x30 b) = None" for b by (simp add: der_content_def der_element_def)
  note defs = build_uri_name_constraints_def Let_def read_written_constraint_def read_name_constraint_def uri_def[symmetric]
  show ?thesis
  proof (cases "length td \<le> 109")
    case True
    then show ?thesis unfolding defs by (simp add: der_element_read el len tag)
  next
    case False
    let ?p = "der_element 0xA0 (der_element 0x30 (der_element 0x30 (der_element 0x86 uri)))"
    have "der_content 0x30 (der_element 0x30 ?p) = None"
      by (rule der_element_long[where c = "char_of (0xA0 :: nat)"]) (use False assms in \<open>simp_all add: el len\<close>, simp_all add: der_element_def)
    then show ?thesis using False unfolding defs by simp
  qed
qed


section \<open>Trusted chains\<close>

abbreviation in_force :: "int \<Rightarrow> x509 \<Rightarrow> bool" where
  "in_force now c \<equiv> x_not_before c \<le> now \<and> now \<le> x_not_after c"

lemma check_validity_iff: "check_validity_period now c = Inr u \<longleftrightarrow> in_force now c"
  by (auto simp: check_validity_period_def)

lemma find_by_subject_mem: "find_by_subject X roots name = Some der \<Longrightarrow> der \<in> set roots"
  by (auto simp: find_by_subject_def find_Some_iff)

lemma walk_from_root: "der \<in> set roots \<Longrightarrow> walk_ek_chain X now roots (Suc n) der = Inr () \<longleftrightarrow> xl_parse X der \<noteq> None"
  by (auto simp: result_simps)

text \<open>C38. An endorsement-key certificate is accepted exactly when it is in force and either is one of the
  trusted roots or is signed, under the name of its issuer, by the first trusted root of that name,
  which is in force too. Chains are never longer: an intermediate certificate is refused unless it is
  itself a trusted root.\<close>

theorem ek_chain_iff:
  "validate_ek_cert_chain_with X now roots der = Inr () \<longleftrightarrow>
     der \<noteq> [] \<and> (\<exists>rest leaf. xl_parse X der = Some (rest, leaf) \<and> in_force now leaf \<and>
       (der \<in> set roots \<or>
        (\<exists>r rest' issuer. find_by_subject X roots (x_issuer leaf) = Some r \<and> xl_parse X r = Some (rest', issuer) \<and>
           xl_signed_by X leaf (x_spki issuer) \<and> in_force now issuer)))"
proof -
  have depth: "MAX_CHAIN_DEPTH = Suc (Suc 6)" by (simp add: MAX_CHAIN_DEPTH_def)
  have step: "walk_ek_chain X now roots (Suc (Suc 6)) der = Inr () \<longleftrightarrow>
      der \<in> set roots \<or> (\<exists>r rest' issuer. find_by_subject X roots (x_issuer leaf) = Some r \<and> xl_parse X r = Some (rest', issuer) \<and>
        xl_signed_by X leaf (x_spki issuer) \<and> in_force now issuer)"
    if "xl_parse X der = Some (rest, leaf)" for rest leaf
  proof (cases "der \<in> set roots")
    case False
    have "walk_ek_chain X now roots (Suc (Suc 6)) der = Inr () \<longleftrightarrow>
        (\<exists>r rest' issuer. find_by_subject X roots (x_issuer leaf) = Some r \<and> xl_parse X r = Some (rest', issuer) \<and>
          xl_signed_by X leaf (x_spki issuer) \<and> in_force now issuer \<and> walk_ek_chain X now roots (Suc 6) r = Inr ())"
      by (subst walk_ek_chain.simps(2)) (use that False in \<open>auto simp: result_simps check_validity_iff split: if_splits\<close>)
    also have "\<dots> \<longleftrightarrow> (\<exists>r rest' issuer. find_by_subject X roots (x_issuer leaf) = Some r \<and> xl_parse X r = Some (rest', issuer) \<and>
        xl_signed_by X leaf (x_spki issuer) \<and> in_force now issuer)"
      using walk_from_root[OF find_by_subject_mem] by (metis option.distinct(1))
    finally show ?thesis using False by blast
  qed (use walk_from_root[of der roots X now "Suc 6"] that in simp)
  have nil: "\<not> (\<exists>r rest' issuer. find_by_subject X [] name = Some r \<and> xl_parse X r = Some (rest', issuer) \<and> P issuer)" for name P
    by (simp add: find_by_subject_def)
  show ?thesis
  proof (cases "xl_parse X der")
    case None
    then show ?thesis by (simp add: validate_ek_cert_chain_with_def)
  next
    case (Some p)
    obtain rest leaf where p: "xl_parse X der = Some (rest, leaf)" using Some by (cases p) auto
    show ?thesis
      unfolding validate_ek_cert_chain_with_def depth p using step[OF p]
      by (auto simp: result_simps check_validity_iff find_by_subject_def simp del: walk_ek_chain.simps split: if_splits)
  qed
qed


text \<open>A certificate the chain after it vouches for, up to the anchor.\<close>

inductive vouched :: "x509_lib \<Rightarrow> int \<Rightarrow> bytes \<Rightarrow> x509 \<Rightarrow> bytes \<times> x509 \<Rightarrow> bool" for X now root_der anchor where
  is_anchor: "in_force now c \<Longrightarrow> vouched X now root_der anchor (root_der, c)"
| by_anchor: "in_force now c \<Longrightarrow> x_issuer c = x_subject anchor \<Longrightarrow> xl_signed_by X c (x_spki anchor) \<Longrightarrow>
    vouched X now root_der anchor (der, c)"
| by_next: "in_force now c \<Longrightarrow> x_issuer c = x_subject i \<Longrightarrow> xl_signed_by X c (x_spki i) \<Longrightarrow>
    vouched X now root_der anchor (der', i) \<Longrightarrow> vouched X now root_der anchor (der, c)"

lemma verify_chain_vouched:
  "verify_chain X now root_der anchor (e # es) = Inr () \<Longrightarrow> vouched X now root_der anchor e"
proof (induction es arbitrary: e)
  case Nil
  obtain der c where e: "e = (der, c)" by (cases e)
  then show ?case
    using Nil by (auto simp: result_simps check_validity_iff split: if_splits intro: vouched.intros)
next
  case (Cons f es)
  obtain der c der' i where e: "e = (der, c)" "f = (der', i)" by (cases e, cases f)
  then show ?case
    using Cons.prems Cons.IH[of f] by (auto simp: result_simps check_validity_iff split: if_splits intro: vouched.intros)
qed

lemma parse_chain_first:
  assumes "parse_chain X entries data = Inr out"
  shows "out \<noteq> [] \<and> (entries \<noteq> [] \<longrightarrow> hd out = hd entries) \<and>
    (entries = [] \<longrightarrow> (\<exists>rest c. xl_parse X data = Some (rest, c) \<and> hd out = (take (length data - length rest) data, c)))"
  using assms
proof (induction X entries data rule: parse_chain.induct)
  case (1 X entries data)
  show ?case
  proof (cases "data = [] \<or> length entries \<ge> MAX_CHAIN_DEPTH \<or> xl_parse X data = None")
    case True
    then show ?thesis using 1(2) by (subst (asm) parse_chain.simps) (auto split: if_splits)
  next
    case False
    then obtain rest c where c: "xl_parse X data = Some (rest, c)" by auto
    let ?e = "entries @ [(take (length data - length rest) data, c)]"
    have run: "parse_chain X ?e rest = Inr out" using 1(2) False c by (subst (asm) parse_chain.simps) simp
    from 1(1)[OF _ _ c refl run] False have "out \<noteq> [] \<and> hd out = hd ?e" by simp
    then show ?thesis using c by (cases entries) auto
  qed
qed

text \<open>C39. An accepted Secure Enclave attestation answers the nonce it was asked for, and its first
  certificate is vouched for by a chain of signatures up to the bundled root, every certificate on
  it in force, and carries the hash of the nonce. The device key, however, is only found to occur
  somewhere in the bytes of that certificate, not to be its public key.\<close>

theorem apple_attestation_sound:
  assumes "verify_apple_se_attestation_with_root X now a nonce root_der = Some (Inr ())"
  shows "aa_nonce a = nonce \<and>
    (\<exists>anchor leaf rest v. map_option snd (xl_parse X root_der) = Some anchor \<and>
       xl_parse X (aa_data a) = Some (rest, leaf) \<and>
       vouched X now root_der anchor (take (length (aa_data a) - length rest) (aa_data a), leaf) \<and>
       sublist (aa_device_key a) (take (length (aa_data a) - length rest) (aa_data a)) \<and>
       (APPLE_ATTESTATION_EXT_OID, v) \<in> set (x_extensions leaf) \<and>
       parse_octet_string v = Some (Some (xl_sha256 X nonce)))"
proof -
  obtain r anchor entries leaf where
    n: "aa_nonce a = nonce" and root: "xl_parse X root_der = Some (r, anchor)" and
    chain: "parse_chain X [] (aa_data a) = Inr entries" "verify_chain X now root_der anchor entries = Inr ()" and
    dev: "sublist (aa_device_key a) (fst (hd entries))" and leaf: "leaf = snd (hd entries)" and
    bind: "verify_nonce_binding X leaf nonce = Some (Inr ())"
    using assms by (auto simp: verify_apple_se_attestation_with_root_def result_simps split: if_splits sum.splits)
  obtain rest c where c: "xl_parse X (aa_data a) = Some (rest, c)" "entries \<noteq> []"
    "hd entries = (take (length (aa_data a) - length rest) (aa_data a), c)"
    using parse_chain_first[OF chain(1)] by auto
  have "vouched X now root_der anchor (hd entries)"
    using verify_chain_vouched[of X now root_der anchor "hd entries" "tl entries"] chain(2) c(2) by simp
  moreover obtain v where "(APPLE_ATTESTATION_EXT_OID, v) \<in> set (x_extensions leaf)"
    "parse_octet_string v = Some (Some (xl_sha256 X nonce))"
    using bind by (auto simp: verify_nonce_binding_def find_Some_iff split: option.splits if_splits) (metis nth_mem)
  ultimately show ?thesis using n root c dev leaf by auto
qed



section \<open>Roots across restarts\<close>









section \<open>Instances\<close>

theorem name_constraint_bound_witness:
  "read_written_constraint (build_uri_name_constraints ''fleet'') = Some ''spiffe://fleet/'' \<and>
   read_name_constraint (build_uri_name_constraints ''fleet'') = None \<and>
   read_written_constraint (build_uri_name_constraints (replicate 110 CHR ''a'')) = None"
  using name_constraint_bound[of "''fleet''"] name_constraint_bound[of "replicate 110 CHR ''a''"] by simp


text \<open>A certificate format in which one letter stands for a certificate.\<close>

definition ex_cert :: "string \<Rightarrow> string \<Rightarrow> x509" where
  "ex_cert subject issuer =
     \<lparr>x_subject = subject, x_issuer = issuer, x_not_before = 0, x_not_after = 9, x_spki = subject,
      x_extensions = [(APPLE_ATTESTATION_EXT_OID, [char_of (4 :: nat), char_of (1 :: nat), CHR ''n''])], x_signed = issuer\<rparr>"

definition ex_x509 :: x509_lib where
  "ex_x509 =
     \<lparr>xl_parse = (\<lambda>b. case b of
          [] \<Rightarrow> None
        | c # rest \<Rightarrow>
            if c = CHR ''l'' then Some (rest, ex_cert ''l'' ''i'')
            else if c = CHR ''i'' then Some (rest, ex_cert ''i'' ''r'')
            else if c = CHR ''r'' then Some (rest, ex_cert ''r'' ''r'') else None),
      xl_signed_by = (\<lambda>c k. x_signed c = k), xl_sha256 = (\<lambda>b. b)\<rparr>"

theorem apple_attestation_sound_witness:
  "verify_apple_se_attestation_with_root ex_x509 5 \<lparr>aa_data = ''li'', aa_nonce = ''n'', aa_device_key = ''l''\<rparr> ''n'' ''r'' = Some (Inr ()) \<and>
   vouched ex_x509 5 ''r'' (ex_cert ''r'' ''r'') (''l'', ex_cert ''l'' ''i'')"
proof -
  let ?a = "\<lparr>aa_data = ''li'', aa_nonce = ''n'', aa_device_key = ''l''\<rparr>"
  have run: "verify_apple_se_attestation_with_root ex_x509 5 ?a ''n'' ''r'' = Some (Inr ())"
    by code_simp
  have "xl_parse ex_x509 ''r'' = Some ([], ex_cert ''r'' ''r'')" "xl_parse ex_x509 ''li'' = Some (''i'', ex_cert ''l'' ''i'')"
    by (simp_all add: ex_x509_def)
  then have "vouched ex_x509 5 ''r'' (ex_cert ''r'' ''r'') (''l'', ex_cert ''l'' ''i'')"
    using apple_attestation_sound[OF run] by auto
  then show ?thesis using run by simp
qed

definition pc_root_record :: "root_record pc" where
  "pc_root_record =
     pc_iso (\<lambda>r. (rr_key_pem r, rr_cert_der r, rr_cert_pem r))
       (\<lambda>(a, b, c). \<lparr>rr_key_pem = a, rr_cert_der = b, rr_cert_pem = c\<rparr>) (pc_pair pc_str (pc_pair pc_str pc_str))"


lemma pc_root_record_ok [pc_rules]: "pc_ok pc_root_record"
  unfolding pc_root_record_def by (intro pc_rules) auto






end
