(* ===== verification/Spec2Isabelle.thy ===== *)
theory Spec2Isabelle
  imports ReplicaTheorems LifecycleTheorems LogTheorems SchedulerTheorems DisruptionTheorems DummyIpTheorems
    WorkloadTheorems AdminTheorems SecretTheorems DelegationTheorems VerticalTheorems WatchTheorems CertificateTheorems
begin

text \<open>
  A verification library for the FleetOS control plane.
\<close>

end
